(* ===== verification/Prelude.thy ===== *)
theory Prelude
  imports Main "HOL-Library.Sublist"
begin

text \<open>
  Shared ground of the development: the collections of simplification rules, Go's 64-bit
  \<open>int\<close> arithmetic written out on \<open>int\<close>, \<open>strconv.Itoa\<close> and \<open>strconv.Atoi\<close>, and the list
  lemmas that the component theories share (cutting a string at a separator, folding with an
  early exit).  Go strings are byte strings, so they are \<open>string\<close> (a list of 8-bit \<open>char\<close>);
  a nilable pointer to immutable data is an \<open>option\<close>.
\<close>

named_theorems go_simps "evaluation rules for the model of the Go standard library"

section \<open>Results: a value, an error or a run-time panic\<close>

text \<open>
  A Go call returns a value, returns an error, or panics (a nil dereference).  The type of
  errors is a parameter here; \<open>GoErrors\<close> provides the one of the program.
\<close>

datatype ('e, 'a) res = Ok 'a | Err 'e | Panic

fun res_bind :: "('e, 'a) res \<Rightarrow> ('a \<Rightarrow> ('e, 'b) res) \<Rightarrow> ('e, 'b) res" where
  "res_bind (Ok x) f = f x"
| "res_bind (Err e) f = Err e"
| "res_bind Panic f = Panic"

lemma res_bind_Ok_iff [simp]:
  "res_bind r f = Ok y \<longleftrightarrow> (\<exists>x. r = Ok x \<and> f x = Ok y)"
  by (cases r) auto

text \<open>The same for a value or an error, in code that cannot panic.\<close>

fun sum_bind :: "'e + 'a \<Rightarrow> ('a \<Rightarrow> 'e + 'b) \<Rightarrow> 'e + 'b" where
  "sum_bind (Inl e) f = Inl e"
| "sum_bind (Inr x) f = f x"

text \<open>A loop that appends one converted element per step and returns on the first error.\<close>

fun try_map :: "('a \<Rightarrow> ('e, 'b) res) \<Rightarrow> 'a list \<Rightarrow> ('e, 'b list) res" where
  "try_map f [] = Ok []"
| "try_map f (x # xs) = res_bind (f x) (\<lambda>y. res_bind (try_map f xs) (\<lambda>ys. Ok (y # ys)))"

lemma try_map_Ok_iff: "try_map f xs = Ok ys \<longleftrightarrow> list_all2 (\<lambda>x y. f x = Ok y) xs ys"
  by (induction xs arbitrary: ys) (auto simp: list_all2_Cons1)

text \<open>\<open>pkg/pointer/ptr.go\<close>: \<open>ValueOrEmpty\<close> with the zero value of the pointed-to type.\<close>

definition ValueOrEmpty :: "'a \<Rightarrow> 'a option \<Rightarrow> 'a" where
  "ValueOrEmpty zero ptr = (case ptr of None \<Rightarrow> zero | Some v \<Rightarrow> v)"

lemma ValueOrEmpty_simps [simp]:
  "ValueOrEmpty z None = z" "ValueOrEmpty z (Some v) = v"
  by (simp_all add: ValueOrEmpty_def)

section \<open>64-bit integers\<close>

text \<open>Go's \<open>int\<close> and \<open>int64\<close> are two's complement and wrap around silently.\<close>

definition wrap64 :: "int \<Rightarrow> int" where
  "wrap64 x = (x + 2 ^ 63) mod 2 ^ 64 - 2 ^ 63"

definition in_int64 :: "int \<Rightarrow> bool" where
  "in_int64 x \<longleftrightarrow> - (2 ^ 63) \<le> x \<and> x < 2 ^ 63"

definition go_add :: "int \<Rightarrow> int \<Rightarrow> int" where "go_add a b = wrap64 (a + b)"
definition go_sub :: "int \<Rightarrow> int \<Rightarrow> int" where "go_sub a b = wrap64 (a - b)"
definition go_mul :: "int \<Rightarrow> int \<Rightarrow> int" where "go_mul a b = wrap64 (a * b)"

lemma wrap64_id: "in_int64 x \<Longrightarrow> wrap64 x = x"
  by (simp add: wrap64_def in_int64_def)

lemma wrap64_in: "in_int64 (wrap64 x)"
  by (simp add: wrap64_def in_int64_def)

lemma go_arith_id:
  "in_int64 (a + b) \<Longrightarrow> go_add a b = a + b"
  "in_int64 (a - b) \<Longrightarrow> go_sub a b = a - b"
  "in_int64 (a * b) \<Longrightarrow> go_mul a b = a * b"
  by (simp_all add: go_add_def go_sub_def go_mul_def wrap64_id)

section \<open>Decimal numerals: strconv.Itoa and strconv.Atoi\<close>

definition digit :: "nat \<Rightarrow> char" where
  "digit d = char_of (48 + d)"

definition is_digit :: "char \<Rightarrow> bool" where
  "is_digit c \<longleftrightarrow> (48::nat) \<le> of_char c \<and> of_char c \<le> (57::nat)"

definition digit_val :: "char \<Rightarrow> nat" where
  "digit_val c = of_char c - 48"

fun dec :: "nat \<Rightarrow> string" where
  "dec n = (if n < 10 then [digit n] else dec (n div 10) @ [digit (n mod 10)])"

declare dec.simps [simp del]

definition undec :: "string \<Rightarrow> nat" where
  "undec s = foldl (\<lambda>n c. n * 10 + digit_val c) 0 s"

definition strconv_Itoa :: "int \<Rightarrow> string" where
  "strconv_Itoa n = (if n < 0 then CHR ''-'' # dec (nat (- n)) else dec (nat n))"

text \<open>
  \<open>strconv.Atoi\<close>: an optional sign, at least one digit, nothing else, and a value that fits;
  \<open>None\<close> stands for the \<open>*NumError\<close> (the callers only test it against nil).
\<close>

definition strconv_Atoi :: "string \<Rightarrow> int option" where
  "strconv_Atoi s =
     (let neg = (s \<noteq> [] \<and> hd s = CHR ''-'');
          ds = (if s \<noteq> [] \<and> (hd s = CHR ''-'' \<or> hd s = CHR ''+'') then tl s else s);
          n = (if neg then - int (undec ds) else int (undec ds))
      in if ds \<noteq> [] \<and> list_all is_digit ds \<and> in_int64 n then Some n else None)"

lemma of_char_digit [simp]: "d < 10 \<Longrightarrow> of_char (digit d) = 48 + d"
  by (simp add: digit_def)

lemma is_digit_digit [simp]: "d < 10 \<Longrightarrow> is_digit (digit d)"
  by (simp add: is_digit_def)

lemma digit_val_digit [simp]: "d < 10 \<Longrightarrow> digit_val (digit d) = d"
  by (simp add: digit_val_def)

lemma dec_not_Nil [simp]: "dec n \<noteq> []"
  by (subst dec.simps) simp

lemma dec_digits: "c \<in> set (dec n) \<Longrightarrow> is_digit c"
proof (induction n rule: dec.induct)
  case (1 n)
  then show ?case by (subst (asm) dec.simps) (auto split: if_splits)
qed

lemma undec_append: "undec (s @ [c]) = undec s * 10 + digit_val c"
  by (simp add: undec_def)

lemma undec_dec [simp]: "undec (dec n) = n"
proof (induction n rule: dec.induct)
  case (1 n)
  show ?case
  proof (cases "n < 10")
    case True
    then show ?thesis by (subst dec.simps) (simp add: undec_def)
  next
    case False
    with 1 show ?thesis by (subst dec.simps) (simp add: undec_append)
  qed
qed

lemma dec_inj: "dec m = dec n \<longleftrightarrow> m = n"
  by (metis undec_dec)

lemma digit_not_sign: "is_digit c \<Longrightarrow> c \<noteq> CHR ''-'' \<and> c \<noteq> CHR ''+'' \<and> c \<noteq> CHR ''|''"
  by (auto simp: is_digit_def)

lemma hd_dec: "hd (dec n) \<noteq> CHR ''-''" "hd (dec n) \<noteq> CHR ''+''"
  using digit_not_sign [OF dec_digits [OF hd_in_set [OF dec_not_Nil]]] by blast+

lemma Itoa_no_bar: "CHR ''|'' \<notin> set (strconv_Itoa n)"
  using digit_not_sign dec_digits by (auto simp: strconv_Itoa_def)

lemma Itoa_inj: "strconv_Itoa m = strconv_Itoa n \<longleftrightarrow> m = n"
proof
  assume eq: "strconv_Itoa m = strconv_Itoa n"
  show "m = n"
  proof (cases "m < 0"; cases "n < 0")
    assume "m < 0" "\<not> n < 0"
    with eq hd_dec show ?thesis by (metis list.sel(1) strconv_Itoa_def)
  next
    assume "\<not> m < 0" "n < 0"
    with eq hd_dec show ?thesis by (metis list.sel(1) strconv_Itoa_def)
  qed (use eq in \<open>auto simp: strconv_Itoa_def dec_inj\<close>)
qed simp

lemma Atoi_Itoa:
  assumes "in_int64 n"
  shows "strconv_Atoi (strconv_Itoa n) = Some n"
proof -
  have ds: "list_all is_digit (dec k)" for k
    using dec_digits by (auto simp: list_all_iff)
  show ?thesis
    using assms hd_dec by (auto simp: strconv_Atoi_def strconv_Itoa_def Let_def ds)
qed

text \<open>Parsing and range checks on concrete inputs.\<close>

lemmas [go_simps] = strconv_Atoi_def is_digit_def digit_val_def undec_def in_int64_def

section \<open>Cutting a list at a separator\<close>

lemma append_sep_eq:
  assumes "c \<notin> set a" "c \<notin> set b"
  shows "a @ c # xs = b @ c # ys \<longleftrightarrow> a = b \<and> xs = ys"
  using assms
proof (induction a arbitrary: b)
  case Nil
  then show ?case by (cases b) auto
next
  case (Cons x a)
  then show ?case by (cases b) auto
qed

lemma append_sep_eq_last:
  assumes "c \<notin> set xs" "c \<notin> set ys"
  shows "a @ c # xs = b @ c # ys \<longleftrightarrow> a = b \<and> xs = ys"
proof -
  have "a @ c # xs = b @ c # ys \<longleftrightarrow> rev (a @ c # xs) = rev (b @ c # ys)"
    by (simp only: rev_is_rev_conv)
  also have "\<dots> \<longleftrightarrow> rev xs @ c # rev a = rev ys @ c # rev b"
    by simp
  also have "\<dots> \<longleftrightarrow> rev xs = rev ys \<and> rev a = rev b"
    using assms by (intro append_sep_eq) simp_all
  finally show ?thesis by auto
qed

end
