(* ===== verification/GoErrors.thy ===== *)
theory GoErrors
  imports Prelude
begin

text \<open>
  Errors as Go values (\<open>internal/errors/errors.go\<close> and the way the services wrap errors).
  An error made by \<open>fmt.Errorf\<close> keeps its format and its arguments, so that the text
  (\<open>Error()\<close>), the unwrap chain (\<open>%w\<close>) and \<open>errors.Is\<close> / \<open>errors.As\<close> are all computed from the
  same value.  The error types of the client libraries carry the fields the code looks at.
\<close>

section \<open>The structured error type\<close>

record Error =
  Code :: string
  Message :: string

section \<open>Error values\<close>

datatype go_error =
    ErrNotFound
  | ErrUnauthorized
  | ErrGitServerNotFound
  | ErrSecretNotFound
  | ErrBadRequest
  | ErrorString string                  \<comment> \<open>\<open>errors.New\<close>, or a library error that wraps nothing\<close>
  | GitHubErrorResponse int string      \<comment> \<open>\<open>*github.ErrorResponse\<close>: status code, text\<close>
  | GitLabErrNotFound                   \<comment> \<open>\<open>gitlab.ErrNotFound\<close>\<close>
  | GitLabErrorResponse "int option" string
      \<comment> \<open>\<open>*gitlab.ErrorResponse\<close>: status code of its response (which may be nil), text\<close>
  | BitbucketStatusError string string  \<comment> \<open>\<open>*UnexpectedResponseStatusError\<close>: \<open>Status\<close>, text\<close>
  | Errorf string "farg list"           \<comment> \<open>\<open>fmt.Errorf\<close>: format, arguments\<close>
and farg = FStr string | FInt int | FErr go_error

type_synonym 'a result = "(go_error, 'a) res"

definition ErrGitServerNotFound_value :: Error where
  "ErrGitServerNotFound_value =
     \<lparr>Code = ''git_server_not_found'', Message = ''The Git server was not found.''\<rparr>"

definition ErrSecretNotFound_value :: Error where
  "ErrSecretNotFound_value =
     \<lparr>Code = ''secret_not_found'', Message = ''The secret was not found.''\<rparr>"

definition ErrBadRequest_value :: Error where
  "ErrBadRequest_value =
     \<lparr>Code = ''bad_request'', Message = ''The request could not be processed.''\<rparr>"

section \<open>Formatting\<close>

text \<open>
  The verbs the program uses are \<open>%s\<close>, \<open>%d\<close>, \<open>%v\<close>, \<open>%w\<close> (the argument as it is) and \<open>%q\<close>
  (quoted).  The text of an argument is computed first; \<open>format\<close> then splices the texts in.
  \<open>strconv_Quote\<close> escapes quotes, backslashes and control characters; a byte from \<open>0x80\<close> on is
  copied, which is what Go prints for the printable runes of a valid UTF-8 string.
\<close>

definition hex_digit :: "nat \<Rightarrow> char" where
  "hex_digit d = (if d < 10 then char_of (48 + d) else char_of (87 + d))"

definition quote_char :: "char \<Rightarrow> string" where
  "quote_char c =
     (let n = (of_char c :: nat) in
      if c = CHR 0x22 \<or> c = CHR 0x5C then [CHR 0x5C, c]
      else if n = 7 then [CHR 0x5C, CHR ''a'']
      else if n = 8 then [CHR 0x5C, CHR ''b'']
      else if n = 12 then [CHR 0x5C, CHR ''f'']
      else if n = 10 then [CHR 0x5C, CHR ''n'']
      else if n = 13 then [CHR 0x5C, CHR ''r'']
      else if n = 9 then [CHR 0x5C, CHR ''t'']
      else if n = 11 then [CHR 0x5C, CHR ''v'']
      else if n < 32 \<or> n = 127
        then [CHR 0x5C, CHR ''x'', hex_digit (n div 16), hex_digit (n mod 16)]
      else [c])"

definition strconv_Quote :: "string \<Rightarrow> string" where
  "strconv_Quote s = CHR 0x22 # concat (map quote_char s) @ [CHR 0x22]"

fun format :: "string \<Rightarrow> (char \<Rightarrow> string) list \<Rightarrow> string" where
  "format [] as = []"
| "format [c] as = [c]"
| "format (c # v # f) as =
     (if c = CHR ''%'' then
        (case as of [] \<Rightarrow> c # v # format f [] | a # as' \<Rightarrow> a v @ format f as')
      else c # format (v # f) as)"

fun pick_w :: "string \<Rightarrow> 'a list \<Rightarrow> 'a option" where
  "pick_w [] as = None"
| "pick_w [c] as = None"
| "pick_w (c # v # f) as =
     (if c = CHR ''%'' then
        (case as of [] \<Rightarrow> None
         | a # as' \<Rightarrow> if v = CHR ''w'' then Some a else pick_w f as')
      else pick_w (v # f) as)"

text \<open>\<open>(*Error).Error\<close> of the structured type.\<close>

definition Error_Error :: "Error \<Rightarrow> string" where
  "Error_Error e = format ''%s: %s'' [\<lambda>_. Code e, \<lambda>_. Message e]"

fun error_text :: "go_error \<Rightarrow> string"
  and arg_text :: "farg \<Rightarrow> char \<Rightarrow> string" where
  "error_text ErrNotFound = ''not found''"
| "error_text ErrUnauthorized = ''unauthorized''"
| "error_text ErrGitServerNotFound = Error_Error ErrGitServerNotFound_value"
| "error_text ErrSecretNotFound = Error_Error ErrSecretNotFound_value"
| "error_text ErrBadRequest = Error_Error ErrBadRequest_value"
| "error_text (ErrorString s) = s"
| "error_text (GitHubErrorResponse n s) = s"
| "error_text GitLabErrNotFound = ''404 Not Found''"
| "error_text (GitLabErrorResponse n s) = s"
| "error_text (BitbucketStatusError st s) = s"
| "error_text (Errorf f as) = format f (map arg_text as)"
| "arg_text (FStr s) v = (if v = CHR ''q'' then strconv_Quote s else s)"
| "arg_text (FInt n) v = strconv_Itoa n"
| "arg_text (FErr e) v = error_text e"

text \<open>\<open>fmt.Sprintf\<close>.\<close>

definition Sprintf :: "string \<Rightarrow> farg list \<Rightarrow> string" where
  "Sprintf f as = format f (map arg_text as)"

section \<open>Unwrapping: errors.Is and errors.As\<close>

fun error_chain :: "go_error \<Rightarrow> go_error list"
  and arg_chain :: "farg \<Rightarrow> go_error list" where
  "error_chain (Errorf f as) =
     Errorf f as # (case pick_w f (map arg_chain as) of None \<Rightarrow> [] | Some es \<Rightarrow> es)"
| "error_chain e = [e]"
| "arg_chain (FErr e) = error_chain e"
| "arg_chain a = []"

definition errors_Is :: "go_error \<Rightarrow> go_error \<Rightarrow> bool" where
  "errors_Is err target \<longleftrightarrow> target \<in> set (error_chain err)"

text \<open>\<open>errors.As\<close> at the three library types: the fields of the first match in the chain.\<close>

fun as_GitHubErrorResponse :: "go_error list \<Rightarrow> int option" where
  "as_GitHubErrorResponse [] = None"
| "as_GitHubErrorResponse (GitHubErrorResponse n s # es) = Some n"
| "as_GitHubErrorResponse (e # es) = as_GitHubErrorResponse es"

fun as_GitLabErrorResponse :: "go_error list \<Rightarrow> int option option" where
  "as_GitLabErrorResponse [] = None"
| "as_GitLabErrorResponse (GitLabErrorResponse n s # es) = Some n"
| "as_GitLabErrorResponse (e # es) = as_GitLabErrorResponse es"

fun as_BitbucketStatusError :: "go_error list \<Rightarrow> string option" where
  "as_BitbucketStatusError [] = None"
| "as_BitbucketStatusError (BitbucketStatusError st s # es) = Some st"
| "as_BitbucketStatusError (e # es) = as_BitbucketStatusError es"

declare errors_Is_def [go_simps]

end
