(* ===== verification/GoStrings.thy ===== *)
theory GoStrings
  imports Prelude
begin

text \<open>
  The parts of Go's \<open>strings\<close>, \<open>encoding/base64\<close> and \<open>net/url\<close> that the program uses, on byte
  strings.  \<open>strings.Split\<close>, \<open>SplitN\<close>, \<open>Trim\<close> and \<open>ReplaceAll\<close> are given at the one-byte separators,
  cutsets and patterns of their call sites.
\<close>

section \<open>strings\<close>

fun strings_Split :: "string \<Rightarrow> char \<Rightarrow> string list" where
  "strings_Split [] c = [[]]"
| "strings_Split (x # xs) c =
     (if x = c then [] # strings_Split xs c
      else (case strings_Split xs c of [] \<Rightarrow> [[x]] | p # ps \<Rightarrow> (x # p) # ps))"

fun strings_SplitN :: "string \<Rightarrow> char \<Rightarrow> nat \<Rightarrow> string list" where
  "strings_SplitN s c 0 = []"
| "strings_SplitN s c (Suc 0) = [s]"
| "strings_SplitN s c (Suc (Suc n)) =
     (case dropWhile (\<lambda>x. x \<noteq> c) s of
        [] \<Rightarrow> [s]
      | _ # rest \<Rightarrow> takeWhile (\<lambda>x. x \<noteq> c) s # strings_SplitN rest c (Suc n))"

definition strings_HasPrefix :: "string \<Rightarrow> string \<Rightarrow> bool" where
  "strings_HasPrefix s p = (take (length p) s = p)"

fun strings_Contains :: "string \<Rightarrow> string \<Rightarrow> bool" where
  "strings_Contains [] sub = (sub = [])"
| "strings_Contains (x # xs) sub =
     (strings_HasPrefix (x # xs) sub \<or> strings_Contains xs sub)"

definition strings_TrimRight :: "string \<Rightarrow> char set \<Rightarrow> string" where
  "strings_TrimRight s cutset = rev (dropWhile (\<lambda>c. c \<in> cutset) (rev s))"

definition strings_Trim :: "string \<Rightarrow> char set \<Rightarrow> string" where
  "strings_Trim s cutset = strings_TrimRight (dropWhile (\<lambda>c. c \<in> cutset) s) cutset"

definition strings_ReplaceAll :: "string \<Rightarrow> char \<Rightarrow> string \<Rightarrow> string" where
  "strings_ReplaceAll s old new = concat (map (\<lambda>c. if c = old then new else [c]) s)"

fun strings_Join :: "string list \<Rightarrow> string \<Rightarrow> string" where
  "strings_Join [] sep = []"
| "strings_Join [x] sep = x"
| "strings_Join (x # xs) sep = x @ sep @ strings_Join xs sep"

text \<open>
  \<open>strings.ToLower\<close> has a fast path for ASCII strings; any other string goes through
  \<open>strings.Map(unicode.ToLower, s)\<close>, which reads the Unicode case tables.  The tables are the
  parameter \<open>uni\<close>.
\<close>

definition ascii_lower :: "char \<Rightarrow> char" where
  "ascii_lower c = (let n = (of_char c :: nat) in if 65 \<le> n \<and> n \<le> 90 then char_of (n + 32) else c)"

definition strings_ToLower :: "(string \<Rightarrow> string) \<Rightarrow> string \<Rightarrow> string" where
  "strings_ToLower uni s =
     (if list_all (\<lambda>c. of_char c < (128::nat)) s then map ascii_lower s else uni s)"

lemma strings_HasPrefix_prefix: "strings_HasPrefix s p \<longleftrightarrow> prefix p s"
  unfolding strings_HasPrefix_def
  by (metis append_eq_conv_conj append_take_drop_id prefix_def)

lemma strings_Contains_sublist: "strings_Contains s sub \<longleftrightarrow> sublist sub s"
  by (induction s) (auto simp: strings_HasPrefix_prefix sublist_Cons_right)

lemma strings_Split_no_sep: "c \<notin> set s \<Longrightarrow> strings_Split s c = [s]"
  by (induction s) auto

lemma strings_Split_not_Nil [simp]: "strings_Split s c \<noteq> []"
  by (induction s) (auto split: list.splits)

lemma strings_Split_sep:
  "c \<notin> set a \<Longrightarrow> strings_Split (a @ c # b) c = a # strings_Split b c"
  by (induction a) auto

text \<open>A string has exactly two parts when it holds the separator exactly once.\<close>

lemma strings_Split_single_iff: "strings_Split s c = [p] \<longleftrightarrow> p = s \<and> c \<notin> set s"
proof (induction s arbitrary: p)
  case (Cons x s)
  then show ?case by (cases "strings_Split s c") (auto split: list.splits)
qed auto

lemma strings_Split_two_iff:
  "strings_Split s c = [p, q] \<longleftrightarrow> s = p @ c # q \<and> c \<notin> set p \<and> c \<notin> set q"
proof (induction s arbitrary: p)
  case (Cons x s)
  show ?case
  proof (cases "x = c")
    case True
    then show ?thesis
      by (cases p) (auto simp: strings_Split_single_iff)
  next
    case False
    obtain r rs where rs: "strings_Split s c = r # rs"
      by (cases "strings_Split s c") auto
    show ?thesis
      using False Cons.IH [of "tl p"] rs by (cases p) auto
  qed
qed simp

lemma dropWhile_sep: "c \<in> set s \<Longrightarrow> \<exists>rest. dropWhile (\<lambda>x. x \<noteq> c) s = c # rest"
  by (induction s) auto

lemma strings_SplitN_two:
  "strings_SplitN s c 2 =
     (if c \<in> set s then [takeWhile (\<lambda>x. x \<noteq> c) s, tl (dropWhile (\<lambda>x. x \<noteq> c) s)] else [s])"
proof (cases "c \<in> set s")
  case True
  then obtain rest where "dropWhile (\<lambda>x. x \<noteq> c) s = c # rest"
    using dropWhile_sep by fastforce
  with True show ?thesis by (simp add: numeral_2_eq_2)
next
  case False
  then have "dropWhile (\<lambda>x. x \<noteq> c) s = []"
    by (induction s) auto
  then show ?thesis
    unfolding numeral_2_eq_2 strings_SplitN.simps using False by (simp only: list.case if_False)
qed

section \<open>encoding/base64: the standard alphabet with padding\<close>

definition b64_val :: "char \<Rightarrow> nat option" where
  "b64_val c =
     (let n = (of_char c :: nat) in
      if 65 \<le> n \<and> n \<le> 90 then Some (n - 65)
      else if 97 \<le> n \<and> n \<le> 122 then Some (n - 71)
      else if 48 \<le> n \<and> n \<le> 57 then Some (n + 4)
      else if n = 43 then Some 62
      else if n = 47 then Some 63
      else None)"

text \<open>
  One quantum of four characters gives three bytes; the last one may end in one or two padding
  characters.  Anything else is a \<open>CorruptInputError\<close> (\<open>None\<close>).  Go's decoder skips line breaks
  wherever they are and, not being strict, ignores the unused low bits of the last quantum.
\<close>

fun b64_quanta :: "string \<Rightarrow> string option" where
  "b64_quanta [] = Some []"
| "b64_quanta (a # b # c # d # rest) =
     (case (b64_val a, b64_val b, b64_val c, b64_val d) of
        (Some va, Some vb, Some vc, Some vd) \<Rightarrow>
          (let v = va * 262144 + vb * 4096 + vc * 64 + vd in
           map_option (\<lambda>out. char_of (v div 65536) # char_of (v div 256 mod 256)
                              # char_of (v mod 256) # out) (b64_quanta rest))
      | (Some va, Some vb, Some vc, None) \<Rightarrow>
          (let v = va * 262144 + vb * 4096 + vc * 64 in
           if d = CHR ''='' \<and> rest = []
           then Some [char_of (v div 65536), char_of (v div 256 mod 256)] else None)
      | (Some va, Some vb, None, _) \<Rightarrow>
          (let v = va * 262144 + vb * 4096 in
           if c = CHR ''='' \<and> d = CHR ''='' \<and> rest = []
           then Some [char_of (v div 65536)] else None)
      | _ \<Rightarrow> None)"
| "b64_quanta _ = None"

definition base64_DecodeString :: "string \<Rightarrow> string option" where
  "base64_DecodeString s = b64_quanta (filter (\<lambda>c. c \<noteq> CHR 0x0A \<and> c \<noteq> CHR 0x0D) s)"

text \<open>The reference encoder (RFC 4648), against which the decoder is checked.\<close>

definition b64_char :: "nat \<Rightarrow> char" where
  "b64_char v =
     (if v < 26 then char_of (v + 65) else if v < 52 then char_of (v + 71)
      else if v < 62 then char_of (v - 4) else if v = 62 then CHR ''+'' else CHR ''/'')"

fun base64_encode :: "string \<Rightarrow> string" where
  "base64_encode [] = []"
| "base64_encode [x] =
     (let v = of_char x * 65536 in
      [b64_char (v div 262144), b64_char (v div 4096 mod 64), CHR ''='', CHR ''=''])"
| "base64_encode [x, y] =
     (let v = of_char x * 65536 + of_char y * 256 in
      [b64_char (v div 262144), b64_char (v div 4096 mod 64), b64_char (v div 64 mod 64),
       CHR ''=''])"
| "base64_encode (x # y # z # rest) =
     (let v = of_char x * 65536 + of_char y * 256 + of_char z in
      b64_char (v div 262144) # b64_char (v div 4096 mod 64) # b64_char (v div 64 mod 64)
        # b64_char (v mod 64) # base64_encode rest)"

lemma b64_val_char [simp]: "v < 64 \<Longrightarrow> b64_val (b64_char v) = Some v"
  by (auto simp: b64_val_def b64_char_def Let_def)

lemma b64_val_pad [simp]: "b64_val (CHR ''='') = None"
  by (simp add: b64_val_def)

lemma b64_char_no_break:
  assumes "v < 64"
  shows "b64_char v \<noteq> CHR 0x0A" "b64_char v \<noteq> CHR 0x0D"
  using b64_val_char [OF assms] by (auto simp: b64_val_def)

lemma char_less_256 [simp]: "of_char (x :: char) < (256 :: nat)"
  using of_char_mod_256 [of x] by (metis mod_less_divisor zero_less_numeral)

lemma b64_split3:
  fixes a b c :: nat
  assumes "a < 256" "b < 256" "c < 256" and v: "v = a * 65536 + b * 256 + c"
  shows "v div 262144 < 64"
    and "v div 262144 * 262144 + v div 4096 mod 64 * 4096 + v div 64 mod 64 * 64 + v mod 64 = v"
    and "v div 65536 = a" "v div 256 mod 256 = b" "v mod 256 = c"
proof -
  have "v = c + (a * 256 + b) * 256" by (simp add: v)
  then show "v mod 256 = c" using assms(3) by (metis mod_mult_self1 mod_less)
  have "v div 256 = a * 256 + b"
    using assms by simp
  then show "v div 262144 < 64" "v div 65536 = a" "v div 256 mod 256 = b"
    using assms by simp_all
  have "v div 64 div 64 = v div 4096" "v div 4096 div 64 = v div 262144"
    by (simp_all add: div_mult2_eq [symmetric])
  then show "v div 262144 * 262144 + v div 4096 mod 64 * 4096 + v div 64 mod 64 * 64 + v mod 64 = v"
    using div_mult_mod_eq [of v 64] div_mult_mod_eq [of "v div 64" 64]
      div_mult_mod_eq [of "v div 4096" 64] by linarith
qed

lemma b64_quantum3:
  assumes "a < 256" "b < 256" "c < 256" and v: "v = a * 65536 + b * 256 + c"
  shows "b64_quanta (b64_char (v div 262144) # b64_char (v div 4096 mod 64)
           # b64_char (v div 64 mod 64) # b64_char (v mod 64) # rest) =
         map_option (\<lambda>out. char_of a # char_of b # char_of c # out) (b64_quanta rest)"
proof -
  note split = b64_split3 [OF assms]
  have chars: "char_of (v div 256) = (char_of b :: char)" "char_of v = (char_of c :: char)"
    by (subst split(4) [symmetric], simp) (subst split(5) [symmetric], simp)
  show ?thesis by (simp add: Let_def split chars)
qed

lemma b64_quantum2:
  assumes "a < 256" "b < 256" and v: "v = a * 65536 + b * 256"
  shows "b64_quanta [b64_char (v div 262144), b64_char (v div 4096 mod 64),
           b64_char (v div 64 mod 64), CHR ''=''] = Some [char_of a, char_of b]"
proof -
  have "v = a * 65536 + b * 256 + 0" by (simp add: v)
  note split = b64_split3 [OF assms(1,2) _ this]
  have "v mod 64 = 0" by (simp add: v mod_eq_0_iff_dvd)
  moreover have "char_of (v div 256) = (char_of b :: char)"
    by (subst split(4) [symmetric]) simp_all
  ultimately show ?thesis using split(1,2,3) by (simp add: Let_def)
qed

lemma b64_quantum1:
  assumes "a < 256" and v: "v = a * 65536"
  shows "b64_quanta [b64_char (v div 262144), b64_char (v div 4096 mod 64), CHR ''='', CHR ''='']
         = Some [char_of a]"
proof -
  have "v = a * 65536 + 0 * 256 + 0" by (simp add: v)
  note split = b64_split3 [OF assms(1) _ _ this]
  have "v mod 64 = 0" "v div 64 mod 64 = 0" by (simp_all add: v mod_eq_0_iff_dvd)
  then show ?thesis using split by (simp add: Let_def)
qed

lemma b64_quanta_encode [simp]: "b64_quanta (base64_encode s) = Some s"
proof (induction s rule: base64_encode.induct)
  case (2 x)
  show ?case
    unfolding base64_encode.simps Let_def
    using b64_quantum1 [OF char_less_256 refl, of x] by (simp only: char_of_char)
next
  case (3 x y)
  show ?case
    unfolding base64_encode.simps Let_def
    using b64_quantum2 [OF char_less_256 char_less_256 refl, of x y] by (simp only: char_of_char)
next
  case (4 x y z rest)
  then show ?case
    unfolding base64_encode.simps Let_def
    using b64_quantum3 [OF char_less_256 char_less_256 char_less_256 refl, of x y z]
    by (simp only: char_of_char option.map)
qed simp

lemma b64_top_less: "of_char x * 65536 + of_char y * 256 + of_char (z::char) < (16777216 :: nat)"
  using char_less_256 [of x] char_less_256 [of y] char_less_256 [of z] by linarith

lemma base64_encode_no_break: "c \<in> set (base64_encode s) \<Longrightarrow> c \<noteq> CHR 0x0A \<and> c \<noteq> CHR 0x0D"
proof (induction s rule: base64_encode.induct)
  case (2 x)
  then show ?case
    using b64_char_no_break char_less_256 [of x]
    by (auto simp: Let_def div_less_iff_less_mult simp del: char_less_256)
next
  case (3 x y)
  have "(of_char x * 65536 + of_char y * 256) div 262144 < (64 :: nat)"
    using b64_split3(1) [OF char_less_256 char_less_256 _ refl, of 0 x y] by simp
  with 3 show ?case using b64_char_no_break by (auto simp: Let_def)
next
  case (4 x y z rest)
  have "(of_char x * 65536 + of_char y * 256 + of_char z) div 262144 < (64 :: nat)"
    using b64_split3(1) [OF char_less_256 char_less_256 char_less_256 refl, of x y z] .
  with 4 show ?case using b64_char_no_break by (auto simp: Let_def)
qed simp

lemma base64_roundtrip: "base64_DecodeString (base64_encode s) = Some s"
proof -
  have "filter (\<lambda>c. c \<noteq> CHR 0x0A \<and> c \<noteq> CHR 0x0D) (base64_encode s) = base64_encode s"
    using base64_encode_no_break by (intro filter_True) blast
  then show ?thesis by (simp add: base64_DecodeString_def)
qed

section \<open>net/url: PathEscape\<close>

definition url_segment_safe :: "char \<Rightarrow> bool" where
  "url_segment_safe c =
     (let n = (of_char c :: nat) in
      (65 \<le> n \<and> n \<le> 90) \<or> (97 \<le> n \<and> n \<le> 122) \<or> (48 \<le> n \<and> n \<le> 57)
      \<or> c \<in> set ''-_.~$&+:=@'')"

definition upper_hex :: "nat \<Rightarrow> char" where
  "upper_hex d = (if d < 10 then char_of (48 + d) else char_of (55 + d))"

definition url_PathEscape :: "string \<Rightarrow> string" where
  "url_PathEscape s =
     concat (map (\<lambda>c. if url_segment_safe c then [c]
                      else [CHR ''%'', upper_hex (of_char c div 16), upper_hex (of_char c mod 16)]) s)"

text \<open>An escaped segment never holds a path separator or a query delimiter.\<close>

lemma upper_hex_alnum: "d < 16 \<Longrightarrow> upper_hex d \<notin> {CHR ''/'', CHR ''?'', CHR ''#''}"
  by (auto simp: upper_hex_def dest: arg_cong [where f = "of_char :: char \<Rightarrow> nat"])

lemma url_PathEscape_one_segment:
  "set (url_PathEscape s) \<inter> {CHR ''/'', CHR ''?'', CHR ''#''} = {}"
proof -
  have "of_char c div 16 < (16 :: nat)" "of_char c mod 16 < (16 :: nat)" for c :: char
    using char_less_256 [of c] by (simp_all add: div_less_iff_less_mult del: char_less_256)
  note hex = upper_hex_alnum [OF this(1)] upper_hex_alnum [OF this(2)]
  show ?thesis
  proof (induction s)
    case (Cons c s)
    then show ?case
      using hex [of c] by (auto simp: url_PathEscape_def url_segment_safe_def Let_def)
  qed (simp add: url_PathEscape_def)
qed

end
