(* ===== verification/Common.thy ===== *)
theory Common
  imports GoErrors GoStrings
begin

text \<open>
  \<open>internal/services/common/project.go\<close>: the one helper the providers share, which cuts a
  project path into its owner (or workspace) and its repository.
\<close>

definition SplitProject :: "string \<Rightarrow> (string \<times> string) result" where
  "SplitProject project =
     (let parts = strings_SplitN project (CHR ''/'') 2 in
      if length parts \<noteq> 2 \<or> parts ! 0 = [] \<or> parts ! 1 = []
      then Err (Errorf (''invalid project format %q: expected '' @ [CHR 0x22] @ ''owner/repo'' @ [CHR 0x22]
                     @ '': %w'') [FStr project, FErr ErrBadRequest])
      else Ok (parts ! 0, parts ! 1))"

lemma split_at_first:
  "c \<in> set s \<Longrightarrow> s = takeWhile (\<lambda>x. x \<noteq> c) s @ c # tl (dropWhile (\<lambda>x. x \<noteq> c) s)"
  by (induction s) auto

lemma takeWhile_sep:
  "c \<notin> set a \<Longrightarrow> takeWhile (\<lambda>x. x \<noteq> c) (a @ c # b) = a"
  "c \<notin> set a \<Longrightarrow> dropWhile (\<lambda>x. x \<noteq> c) (a @ c # b) = c # b"
  by (induction a) auto

lemma SplitProject_Ok_iff:
  "SplitProject project = Ok (owner, repo) \<longleftrightarrow>
     project = owner @ CHR ''/'' # repo \<and> owner \<noteq> [] \<and> repo \<noteq> [] \<and> CHR ''/'' \<notin> set owner"
proof
  assume "SplitProject project = Ok (owner, repo)"
  then show "project = owner @ CHR ''/'' # repo \<and> owner \<noteq> [] \<and> repo \<noteq> [] \<and> CHR ''/'' \<notin> set owner"
    using split_at_first [of "CHR ''/''" project]
    by (auto simp: SplitProject_def strings_SplitN_two Let_def split: if_splits dest: set_takeWhileD)
next
  assume "project = owner @ CHR ''/'' # repo \<and> owner \<noteq> [] \<and> repo \<noteq> [] \<and> CHR ''/'' \<notin> set owner"
  then show "SplitProject project = Ok (owner, repo)"
    by (auto simp: SplitProject_def strings_SplitN_two Let_def takeWhile_sep)
qed

lemma SplitProject_total:
  "(\<exists>owner repo. SplitProject project = Ok (owner, repo)) \<or>
   (\<exists>err. SplitProject project = Err err \<and> errors_Is err ErrBadRequest)"
  by (auto simp: SplitProject_def Let_def go_simps)

text \<open>Splitting a project path.  A path is accepted exactly when it is a non-empty owner without a
  slash, a slash and a non-empty rest (which may hold further slashes), and is cut there; anything
  else is refused with an error that is a bad request.\<close>

theorem SplitProject_spec:
  "case SplitProject project of
     Ok (owner, repo) \<Rightarrow> project = owner @ CHR ''/'' # repo \<and> owner \<noteq> [] \<and> repo \<noteq> [] \<and>
       CHR ''/'' \<notin> set owner
   | Err err \<Rightarrow> errors_Is err ErrBadRequest \<and>
       (\<nexists>owner repo. project = owner @ CHR ''/'' # repo \<and> owner \<noteq> [] \<and> repo \<noteq> [] \<and>
          CHR ''/'' \<notin> set owner)
   | Panic \<Rightarrow> False"
proof (cases "SplitProject project")
  case (Ok r)
  moreover obtain owner repo where r: "r = (owner, repo)" by (cases r)
  ultimately have "project = owner @ CHR ''/'' # repo \<and> owner \<noteq> [] \<and> repo \<noteq> [] \<and>
      CHR ''/'' \<notin> set owner"
    by (simp add: SplitProject_Ok_iff)
  then show ?thesis unfolding Ok r res.case prod.case .
next
  case (Err err)
  with SplitProject_Ok_iff [of project] SplitProject_total [of project] show ?thesis by auto
next
  case Panic
  with SplitProject_total [of project] show ?thesis by simp
qed

end
