(* ===== verification/Models.thy ===== *)
theory Models
  imports Prelude
begin

text \<open>
  The data model the services and the API exchange: \<open>internal/models\<close> and the git server settings
  of \<open>internal/services/krci\<close>.  A Go struct is a record whose fields carry the type's name as a
  prefix (Isabelle field names are global), a string type with declared constants is a datatype
  together with the function that gives its wire text, and a field tagged \<open>omitempty\<close> that is a
  pointer in Go is an \<open>option\<close>.
\<close>

section \<open>Time and floating point\<close>

text \<open>
  \<open>time.Time\<close>: seconds since the zero time (0001-01-01T00:00:00Z), nanoseconds, and the offset of
  the zone in seconds.  A \<open>float64\<close> and a \<open>float32\<close> are their IEEE 754 bit patterns.
\<close>

record time =
  time_sec :: int
  time_nsec :: int
  time_zone :: int

definition zero_time :: time where
  "zero_time = \<lparr>time_sec = 0, time_nsec = 0, time_zone = 0\<rparr>"

type_synonym float64 = nat
type_synonym float32 = nat

text \<open>The conversion \<open>float32(x)\<close>: round to nearest, ties to even.\<close>

definition round_shift :: "nat \<Rightarrow> nat \<Rightarrow> nat" where
  "round_shift m k =
     (let q = m div 2 ^ k; r = m mod 2 ^ k; h = 2 ^ k div 2 in
      if r > h \<or> (r = h \<and> odd q) then q + 1 else q)"

definition to_float32 :: "float64 \<Rightarrow> float32" where
  "to_float32 b =
     (let sign = b div 2 ^ 63 mod 2; e = b div 2 ^ 52 mod 2 ^ 11; m = b mod 2 ^ 52;
          s = sign * 2 ^ 31 in
      if e = 2047 then
        (if m = 0 then s + 255 * 2 ^ 23 else s + 255 * 2 ^ 23 + 2 ^ 22 + m div 2 ^ 29 mod 2 ^ 22)
      else if e > 1150 then s + 255 * 2 ^ 23
      else if e \<ge> 897 then s + ((e - 897) * 2 ^ 23 + round_shift (2 ^ 52 + m) 29)
      else if e = 0 then s
      else s + round_shift (2 ^ 52 + m) (29 + (897 - e)))"

definition float64_is_zero :: "float64 \<Rightarrow> bool" where
  "float64_is_zero b = (b mod 2 ^ 63 = 0)"

section \<open>Enumerations\<close>

datatype PipelineSource =
    PipelineSourceManual | PipelineSourceMergeRequest | PipelineSourceOther
  | PipelineSourcePush | PipelineSourceSchedule | PipelineSourceTrigger

datatype PipelineStatus =
    PipelineStatusCancelled | PipelineStatusFailed | PipelineStatusManual
  | PipelineStatusPending | PipelineStatusRunning | PipelineStatusSkipped
  | PipelineStatusSuccess

fun PipelineStatus_text :: "PipelineStatus \<Rightarrow> string" where
  "PipelineStatus_text PipelineStatusCancelled = ''cancelled''"
| "PipelineStatus_text PipelineStatusFailed = ''failed''"
| "PipelineStatus_text PipelineStatusManual = ''manual''"
| "PipelineStatus_text PipelineStatusPending = ''pending''"
| "PipelineStatus_text PipelineStatusRunning = ''running''"
| "PipelineStatus_text PipelineStatusSkipped = ''skipped''"
| "PipelineStatus_text PipelineStatusSuccess = ''success''"

datatype PullRequestState =
    PullRequestStateClosed | PullRequestStateMerged | PullRequestStateOpen

datatype RepositoryVisibility = RepositoryVisibilityPrivate | RepositoryVisibilityPublic

fun PipelineSource_text :: "PipelineSource \<Rightarrow> string" where
  "PipelineSource_text PipelineSourceManual = ''manual''"
| "PipelineSource_text PipelineSourceMergeRequest = ''merge_request''"
| "PipelineSource_text PipelineSourceOther = ''other''"
| "PipelineSource_text PipelineSourcePush = ''push''"
| "PipelineSource_text PipelineSourceSchedule = ''schedule''"
| "PipelineSource_text PipelineSourceTrigger = ''trigger''"

fun PullRequestState_text :: "PullRequestState \<Rightarrow> string" where
  "PullRequestState_text PullRequestStateClosed = ''closed''"
| "PullRequestState_text PullRequestStateMerged = ''merged''"
| "PullRequestState_text PullRequestStateOpen = ''open''"

fun RepositoryVisibility_text :: "RepositoryVisibility \<Rightarrow> string" where
  "RepositoryVisibility_text RepositoryVisibilityPrivate = ''private''"
| "RepositoryVisibility_text RepositoryVisibilityPublic = ''public''"

text \<open>
  The string types of request parameters are not checked when they are read: a value of them is any
  string, and the constants the API declares for them are these.
\<close>

definition InvalidateCacheParamsEndpoints :: "string list" where
  "InvalidateCacheParamsEndpoints =
     [''branches'', ''organizations'', ''pipelines'', ''pullrequests'', ''repositories'']"

definition ListPipelinesParamsStatuses :: "string list" where
  "ListPipelinesParamsStatuses =
     [''cancelled'', ''failed'', ''manual'', ''pending'', ''running'', ''skipped'', ''success'']"

definition ListPullRequestsParamsStates :: "string list" where
  "ListPullRequestsParamsStates = [''all'', ''closed'', ''merged'', ''open'']"

section \<open>Responses\<close>

record Branch =
  Branch_Name :: string

record BranchesResponse =
  BranchesResponse_Data :: "Branch list"

record CacheInvalidationResponse =
  Invalidation_Endpoint :: string
  Invalidation_Message :: string

record Organization =
  Organization_AvatarUrl :: "string option"
  Organization_Id :: string
  Organization_Name :: string

record OrganizationsResponse =
  OrganizationsResponse_Data :: "Organization list"

record Owner =
  Owner_AvatarUrl :: "string option"
  Owner_Id :: string
  Owner_Name :: string

record Pagination =
  Pagination_Page :: "int option"
  Pagination_PerPage :: "int option"
  Pagination_Total :: int

record Pipeline =
  Pipeline_CreatedAt :: time
  Pipeline_Id :: string
  Pipeline_ProjectId :: "string option"
  Pipeline_Ref :: string
  Pipeline_Sha :: string
  Pipeline_Source :: "PipelineSource option"
  Pipeline_Status :: PipelineStatus
  Pipeline_UpdatedAt :: "time option"
  Pipeline_WebUrl :: string

record PipelineJob =
  PipelineJob_AllowFailure :: "bool option"
  PipelineJob_CreatedAt :: "time option"
  PipelineJob_Duration :: "float32 option"
  PipelineJob_FailureReason :: "string option"
  PipelineJob_FinishedAt :: "time option"
  PipelineJob_Id :: string
  PipelineJob_Name :: string
  PipelineJob_Ref :: "string option"
  PipelineJob_Stage :: string
  PipelineJob_StartedAt :: "time option"
  PipelineJob_Status :: string
  PipelineJob_WebUrl :: "string option"

record PipelineJobTraceResponse =
  TraceResponse_Content :: string
  TraceResponse_JobId :: string
  TraceResponse_Truncated :: "bool option"

record PipelineJobsResponse =
  PipelineJobsResponse_Data :: "PipelineJob list"

record PipelineResponse =
  PipelineResponse_Id :: int
  PipelineResponse_Ref :: string
  PipelineResponse_Sha :: "string option"
  PipelineResponse_Status :: string
  PipelineResponse_WebUrl :: string

record PipelineVariable =
  PipelineVariable_Key :: string
  PipelineVariable_Value :: string
  PipelineVariable_VariableType :: "string option"

record PipelinesResponse =
  PipelinesResponse_Data :: "Pipeline list"
  PipelinesResponse_Pagination :: Pagination

record PullRequest =
  PullRequest_Author :: "Owner option"
  PullRequest_CommitSha :: "string option"
  PullRequest_CreatedAt :: time
  PullRequest_Description :: "string option"
  PullRequest_Draft :: "bool option"
  PullRequest_Id :: string
  PullRequest_Number :: int
  PullRequest_SourceBranch :: string
  PullRequest_State :: PullRequestState
  PullRequest_TargetBranch :: string
  PullRequest_Title :: string
  PullRequest_UpdatedAt :: time
  PullRequest_Url :: string

record PullRequestsResponse =
  PullRequestsResponse_Data :: "PullRequest list"
  PullRequestsResponse_Pagination :: Pagination

record Repository =
  Repository_DefaultBranch :: "string option"
  Repository_Description :: "string option"
  Repository_Id :: string
  Repository_Name :: string
  Repository_Owner :: "string option"
  Repository_Url :: "string option"
  Repository_Visibility :: "RepositoryVisibility option"

record RepositoriesResponse =
  RepositoriesResponse_Data :: "Repository list"

section \<open>List options and settings\<close>

record ListOptions =
  ListOptions_Name :: "string option"

record PullRequestListOptions =
  PRList_State :: string
  PRList_Page :: int
  PRList_PerPage :: int

record PipelineListOptions =
  PLList_Ref :: "string option"
  PLList_Status :: "string option"
  PLList_Page :: int
  PLList_PerPage :: int

record GitServerSettings =
  Settings_Url :: string
  Settings_Token :: string
  Settings_GitProvider :: string
  Settings_GitServerName :: string

end
