(* ===== verification/GoTime.thy ===== *)
theory GoTime
  imports Models
begin

text \<open>
  \<open>time.Parse\<close> at the layout \<open>time.RFC3339Nano\<close> (\<open>2006-01-02T15:04:05.999999999Z07:00\<close>), as the
  standard library parses it: two-digit fields except for the hour, an optional fraction after a
  period or a comma, and a zone that is \<open>Z\<close> or a signed offset of up to 24 hours and 60 minutes.
  The library's fast path for this layout accepts a subset with the same results.  \<open>None\<close> is the
  parse error, whose text is a parameter of the callers.
\<close>

section \<open>The calendar\<close>

definition is_leap :: "int \<Rightarrow> bool" where
  "is_leap y \<longleftrightarrow> y mod 4 = 0 \<and> (y mod 100 \<noteq> 0 \<or> y mod 400 = 0)"

definition month_days :: "bool \<Rightarrow> int list" where
  "month_days leap = [31, if leap then 29 else 28, 31, 30, 31, 30, 31, 31, 30, 31, 30, 31]"

definition daysIn :: "int \<Rightarrow> int \<Rightarrow> int" where
  "daysIn month year = month_days (is_leap year) ! nat (month - 1)"

text \<open>Days from 0001-01-01 to the given date.\<close>

definition days_of_date :: "int \<Rightarrow> int \<Rightarrow> int \<Rightarrow> int" where
  "days_of_date year month day =
     (let y = year - 1 in
      365 * y + y div 4 - y div 100 + y div 400
        + sum_list (take (nat (month - 1)) (month_days (is_leap year))) + (day - 1))"

definition time_Date :: "int \<Rightarrow> int \<Rightarrow> int \<Rightarrow> int \<Rightarrow> int \<Rightarrow> int \<Rightarrow> int \<Rightarrow> int \<Rightarrow> time" where
  "time_Date year month day hour mins sec nsec offset =
     \<lparr>time_sec = days_of_date year month day * 86400 + hour * 3600 + mins * 60 + sec - offset,
      time_nsec = nsec, time_zone = offset\<rparr>"

section \<open>Scanning\<close>

definition digit_int :: "char \<Rightarrow> int" where
  "digit_int c = int (digit_val c)"

fun getnum :: "string \<Rightarrow> bool \<Rightarrow> (int \<times> string) option" where
  "getnum [] fixed = None"
| "getnum [a] fixed = (if is_digit a \<and> \<not> fixed then Some (digit_int a, []) else None)"
| "getnum (a # b # s) fixed =
     (if \<not> is_digit a then None
      else if is_digit b then Some (digit_int a * 10 + digit_int b, s)
      else if fixed then None
      else Some (digit_int a, b # s))"

fun skip_char :: "char \<Rightarrow> string \<Rightarrow> string option" where
  "skip_char c [] = None"
| "skip_char c (x # s) = (if x = c then Some s else None)"

definition in_range :: "int \<Rightarrow> int \<Rightarrow> int \<times> string \<Rightarrow> (int \<times> string) option" where
  "in_range lo hi r = (if lo \<le> fst r \<and> fst r \<le> hi then Some r else None)"

definition parse_year :: "string \<Rightarrow> (int \<times> string) option" where
  "parse_year s =
     (if length s \<ge> 4 \<and> list_all is_digit (take 4 s)
      then Some (int (undec (take 4 s)), drop 4 s) else None)"

text \<open>Nine digits count; further ones are consumed and dropped.\<close>

definition parse_fraction :: "string \<Rightarrow> int \<times> string" where
  "parse_fraction s =
     (case s of
        sep # d # rest \<Rightarrow>
          if (sep = CHR ''.'' \<or> sep = CHR '','') \<and> is_digit d then
            (let ds = takeWhile is_digit (d # rest); used = take 9 ds in
             (int (undec used) * 10 ^ (9 - length used), dropWhile is_digit (d # rest)))
          else (0, s)
      | _ \<Rightarrow> (0, s))"

definition parse_zone :: "string \<Rightarrow> (int \<times> string) option" where
  "parse_zone s =
     (case s of
        CHR ''Z'' # rest \<Rightarrow> Some (0, rest)
      | [] \<Rightarrow> None
      | sign # rest \<Rightarrow>
          if sign \<noteq> CHR ''+'' \<and> sign \<noteq> CHR ''-'' then None
          else
            Option.bind (getnum rest True) (\<lambda>(hr, rest).
            Option.bind (skip_char (CHR '':'') rest) (\<lambda>rest.
            Option.bind (getnum rest True) (\<lambda>(mm, rest).
              if hr > 24 \<or> mm > 60 then None
              else (let offset = (hr * 60 + mm) * 60 in
                    Some (if sign = CHR ''-'' then - offset else offset, rest))))))"

definition time_Parse_RFC3339Nano :: "string \<Rightarrow> time option" where
  "time_Parse_RFC3339Nano value =
     Option.bind (parse_year value) (\<lambda>(year, s).
     Option.bind (skip_char (CHR ''-'') s) (\<lambda>s.
     Option.bind (Option.bind (getnum s True) (in_range 1 12)) (\<lambda>(month, s).
     Option.bind (skip_char (CHR ''-'') s) (\<lambda>s.
     Option.bind (getnum s True) (\<lambda>(day, s).
     Option.bind (skip_char (CHR ''T'') s) (\<lambda>s.
     Option.bind (Option.bind (getnum s False) (in_range 0 23)) (\<lambda>(hour, s).
     Option.bind (skip_char (CHR '':'') s) (\<lambda>s.
     Option.bind (Option.bind (getnum s True) (in_range 0 59)) (\<lambda>(mins, s).
     Option.bind (skip_char (CHR '':'') s) (\<lambda>s.
     Option.bind (Option.bind (getnum s True) (in_range 0 59)) (\<lambda>(sec, s).
       (let (nsec, s) = parse_fraction s in
        Option.bind (parse_zone s) (\<lambda>(offset, s).
          if s = [] \<and> 1 \<le> day \<and> day \<le> daysIn month year
          then Some (time_Date year month day hour mins sec nsec offset) else None)))))))))))))"

section \<open>Printing: Time.MarshalJSON\<close>

text \<open>The date of a day counted from 0001-01-01, by cycles of 400, 100, 4 and 1 years.\<close>

fun month_day :: "int list \<Rightarrow> int \<Rightarrow> int \<Rightarrow> int \<times> int" where
  "month_day [] m d = (m, d + 1)"
| "month_day (x # xs) m d = (if d < x then (m, d + 1) else month_day xs (m + 1) (d - x))"

definition date_of_days :: "int \<Rightarrow> int \<times> int \<times> int" where
  "date_of_days d =
     (let n400 = d div 146097; d = d mod 146097;
          n100 = min 3 (d div 36524); d = d - 36524 * n100;
          n4 = d div 1461; d = d mod 1461;
          n1 = min 3 (d div 365); d = d - 365 * n1;
          year = 400 * n400 + 100 * n100 + 4 * n4 + n1 + 1
      in (year, month_day (month_days (is_leap year)) 1 d))"

text \<open>\<open>appendInt\<close>: a decimal numeral padded with zeros.\<close>

definition append_int :: "int \<Rightarrow> nat \<Rightarrow> string" where
  "append_int x width =
     (let ds = dec (nat \<bar>x\<bar>) in
      (if x < 0 then ''-'' else []) @ replicate (width - length ds) (CHR ''0'') @ ds)"

text \<open>The nanoseconds, without trailing zeros, and nothing at all when there are none.\<close>

definition append_nano :: "int \<Rightarrow> string" where
  "append_nano nsec =
     (if nsec = 0 then []
      else CHR ''.'' # rev (dropWhile (\<lambda>c. c = CHR ''0'') (rev (append_int nsec 9))))"

definition append_zone :: "int \<Rightarrow> string" where
  "append_zone offset =
     (if offset = 0 then ''Z''
      else (let zone = \<bar>offset\<bar> div 60 in
            (if offset < 0 \<and> zone \<noteq> 0 then ''-'' else ''+'')
              @ append_int (zone div 60) 2 @ '':'' @ append_int (zone mod 60) 2))"

definition appendFormatRFC3339 :: "time \<Rightarrow> string" where
  "appendFormatRFC3339 t =
     (let abs = time_sec t + time_zone t;
          (year, month, day) = date_of_days (abs div 86400);
          sec = abs mod 86400
      in append_int year 4 @ ''-'' @ append_int month 2 @ ''-'' @ append_int day 2 @ ''T''
           @ append_int (sec div 3600) 2 @ '':'' @ append_int (sec mod 3600 div 60) 2 @ '':''
           @ append_int (sec mod 60) 2 @ append_nano (time_nsec t) @ append_zone (time_zone t))"

text \<open>
  \<open>MarshalJSON\<close> refuses what RFC 3339 cannot express: a year that does not have exactly four digits
  and a zone of 24 hours or more.  The error is the text of the reason.
\<close>

definition time_MarshalJSON :: "time \<Rightarrow> string + string" where
  "time_MarshalJSON t =
     (let year = fst (date_of_days ((time_sec t + time_zone t) div 86400)) in
      if year < 0 \<or> 9999 < year then
        Inl ''Time.MarshalJSON: year outside of range [0,9999]''
      else if 24 \<le> \<bar>time_zone t\<bar> div 3600 then
        Inl ''Time.MarshalJSON: timezone hour outside of range [0,23]''
      else Inr (appendFormatRFC3339 t))"

section \<open>Printed times parse back\<close>

definition two_digits :: "nat \<Rightarrow> string" where
  "two_digits n = [digit (n div 10), digit (n mod 10)]"

definition four_digits :: "nat \<Rightarrow> string" where
  "four_digits n = two_digits (n div 100) @ two_digits (n mod 100)"

text \<open>The time as a server prints it in UTC, without a fraction.\<close>

definition print_utc :: "nat \<Rightarrow> nat \<Rightarrow> nat \<Rightarrow> nat \<Rightarrow> nat \<Rightarrow> nat \<Rightarrow> string" where
  "print_utc year month day hour mins sec =
     four_digits year @ ''-'' @ two_digits month @ ''-'' @ two_digits day @ ''T''
       @ two_digits hour @ '':'' @ two_digits mins @ '':'' @ two_digits sec @ ''Z''"

lemma int_div_mod_10: "int (n div 10) * 10 + int (n mod 10) = int n"
  by presburger

lemma getnum_two_digits [simp]:
  "n < 100 \<Longrightarrow> getnum (two_digits n @ s) fixed = Some (int n, s)"
  by (simp add: two_digits_def digit_int_def int_div_mod_10 del: of_nat_div of_nat_mod)

lemma parse_year_four_digits:
  assumes "n < 10000"
  shows "parse_year (four_digits n @ s) = Some (int n, s)"
proof -
  have "n div 100 div 10 * 10 + n div 100 mod 10 = n div 100"
    "n mod 100 div 10 * 10 + n mod 100 mod 10 = n mod 100"
    "n div 100 * 100 + n mod 100 = n" by simp_all
  then show ?thesis
    using assms
    by (simp add: parse_year_def four_digits_def two_digits_def undec_def)
qed

lemma parse_print_utc:
  assumes "year < 10000" "1 \<le> month" "month \<le> 12" "1 \<le> day" "int day \<le> daysIn (int month) (int year)"
    and "day < 100" "hour < 24" "mins < 60" "sec < 60"
  shows "time_Parse_RFC3339Nano (print_utc year month day hour mins sec) =
    Some (time_Date (int year) (int month) (int day) (int hour) (int mins) (int sec) 0 0)"
  using assms
  by (simp add: time_Parse_RFC3339Nano_def print_utc_def parse_year_four_digits in_range_def
      parse_fraction_def parse_zone_def)

section \<open>A printed time is read back\<close>

lemma sum_month_days: "sum_list (month_days leap) = (if leap then 366 else 365)"
  by (simp add: month_days_def)

lemma month_day_spec:
  assumes "0 \<le> d" "d < sum_list xs" "\<forall>x \<in> set xs. 0 \<le> x"
  shows "case month_day xs m d of (m', day) \<Rightarrow>
    m \<le> m' \<and> m' < m + int (length xs) \<and> 1 \<le> day \<and> day \<le> xs ! nat (m' - m) \<and>
    sum_list (take (nat (m' - m)) xs) + (day - 1) = d"
  using assms
proof (induction xs arbitrary: m d)
  case (Cons x xs)
  show ?case
  proof (cases "d < x")
    case False
    with Cons.prems have "0 \<le> d - x" "d - x < sum_list xs" by simp_all
    from Cons.IH [OF this, of "m + 1"] Cons.prems(3)
    have ih: "case month_day xs (m + 1) (d - x) of (m', day) \<Rightarrow>
        m + 1 \<le> m' \<and> m' < m + 1 + int (length xs) \<and> 1 \<le> day \<and> day \<le> xs ! nat (m' - (m + 1)) \<and>
        sum_list (take (nat (m' - (m + 1))) xs) + (day - 1) = d - x" by simp
    obtain m' day where md: "month_day xs (m + 1) (d - x) = (m', day)" by fastforce
    with ih have "m + 1 \<le> m'" by simp
    then have "nat (m' - m) = Suc (nat (m' - (m + 1)))" by linarith
    with ih md False show ?thesis by auto
  qed (use Cons.prems in auto)
qed simp

lemma month_days_nonneg: "\<forall>x \<in> set (month_days leap). 0 \<le> x \<and> x \<le> 31"
  by (auto simp: month_days_def)

text \<open>The cycle lengths: a year of a cycle starts where \<open>days_of_date\<close> says.\<close>

lemma year_of_cycles:
  fixes n400 n100 n4 n1 :: int
  assumes "0 \<le> n100" "n100 \<le> 3" "0 \<le> n4" "n4 \<le> 24" "0 \<le> n1" "n1 \<le> 3"
  defines "y \<equiv> 400 * n400 + 100 * n100 + 4 * n4 + n1"
  shows "365 * y + y div 4 - y div 100 + y div 400
           = 146097 * n400 + 36524 * n100 + 1461 * n4 + 365 * n1"
    and "is_leap (y + 1) \<longleftrightarrow> n1 = 3 \<and> (n4 \<noteq> 24 \<or> n100 = 3)"
proof -
  have d4: "y div 4 = 100 * n400 + 25 * n100 + n4" using assms by (simp add: y_def)
  have "0 \<le> 4 * n4 + n1" "4 * n4 + n1 < 100" using assms by linarith+
  then have d100: "y div 100 = 4 * n400 + n100" by (simp add: y_def)
  have "0 \<le> 100 * n100 + 4 * n4 + n1" "100 * n100 + 4 * n4 + n1 < 400" using assms by linarith+
  then have d400: "y div 400 = n400" by (simp add: y_def)
  show "365 * y + y div 4 - y div 100 + y div 400
           = 146097 * n400 + 36524 * n100 + 1461 * n4 + 365 * n1"
    by (simp add: d4 d100 d400) (simp add: y_def)
  have cycle: "(b * k + z) mod b = 0 \<longleftrightarrow> z = b" if "0 < z" "z \<le> b" for b k z :: int
    using that zdvd_imp_le [of b z] by (auto simp: mod_eq_0_iff_dvd dvd_add_right_iff)
  have e4: "y + 1 = 4 * (100 * n400 + 25 * n100 + n4) + (n1 + 1)"
    and e100: "y + 1 = 100 * (4 * n400 + n100) + (4 * n4 + n1 + 1)"
    and e400: "y + 1 = 400 * n400 + (100 * n100 + 4 * n4 + n1 + 1)" by (simp_all add: y_def)
  have "(y + 1) mod 4 = 0 \<longleftrightarrow> n1 + 1 = 4"
    unfolding e4 by (rule cycle) (use assms(1-6) in linarith)+
  moreover have "(y + 1) mod 100 = 0 \<longleftrightarrow> 4 * n4 + n1 + 1 = 100"
    unfolding e100 by (rule cycle) (use assms(1-6) in linarith)+
  moreover have "(y + 1) mod 400 = 0 \<longleftrightarrow> 100 * n100 + 4 * n4 + n1 + 1 = 400"
    unfolding e400 by (rule cycle) (use assms(1-6) in linarith)+
  ultimately have m4: "(y + 1) mod 4 = 0 \<longleftrightarrow> n1 = 3"
    and m100: "(y + 1) mod 100 = 0 \<longleftrightarrow> n4 = 24 \<and> n1 = 3"
    and m400: "(y + 1) mod 400 = 0 \<longleftrightarrow> n100 = 3 \<and> n4 = 24 \<and> n1 = 3"
    using assms(1-6) by auto
  show "is_leap (y + 1) \<longleftrightarrow> n1 = 3 \<and> (n4 \<noteq> 24 \<or> n100 = 3)"
    unfolding is_leap_def m4 m100 m400 by auto
qed

lemma date_of_days_spec:
  "case date_of_days d of (year, month, day) \<Rightarrow>
     days_of_date year month day = d \<and> 1 \<le> month \<and> month \<le> 12 \<and>
     1 \<le> day \<and> day \<le> daysIn month year \<and> day \<le> 31"
proof -
  define n400 where "n400 = d div 146097"
  define r400 where "r400 = d mod 146097"
  define n100 where "n100 = min 3 (r400 div 36524)"
  define r100 where "r100 = r400 - 36524 * n100"
  define n4 where "n4 = r100 div 1461"
  define r4 where "r4 = r100 mod 1461"
  define n1 where "n1 = min 3 (r4 div 365)"
  define r1 where "r1 = r4 - 365 * n1"
  define y where "y = 400 * n400 + 100 * n100 + 4 * n4 + n1"
  obtain month day where md: "month_day (month_days (is_leap (y + 1))) 1 r1 = (month, day)" by fastforce
  have b400: "0 \<le> r400" "r400 < 146097" by (simp_all add: r400_def)
  have b100: "0 \<le> n100" "n100 \<le> 3" "0 \<le> r100" "r100 < (if n100 = 3 then 36525 else 36524)"
    using b400 minus_mult_div_eq_mod [of r400 36524] unfolding n100_def r100_def
    by (auto simp: min_def intro: pos_imp_zdiv_nonneg_iff [THEN iffD2])
  have b4: "0 \<le> n4" "n4 \<le> 24" "0 \<le> r4" "r4 < 1461" "n4 = 24 \<Longrightarrow> n100 \<noteq> 3 \<Longrightarrow> r4 < 1460"
    using b100 minus_mult_div_eq_mod [of r100 1461] unfolding n4_def r4_def
    by (auto split: if_splits)
  have b1: "0 \<le> n1" "n1 \<le> 3" "0 \<le> r1" "r1 < (if n1 = 3 then 366 else 365)"
    using b4 minus_mult_div_eq_mod [of r4 365] unfolding n1_def r1_def
    by (auto simp: min_def intro: pos_imp_zdiv_nonneg_iff [THEN iffD2])
  note year = year_of_cycles [OF b100(1,2) b4(1,2) b1(1,2), of n400, folded y_def]
  have "r1 < 365" if "n1 = 3" "n4 = 24" "n100 \<noteq> 3" using b4(5) that by (simp add: r1_def)
  with b1 year(2) have leap: "r1 < sum_list (month_days (is_leap (y + 1)))"
    by (auto simp: sum_month_days split: if_splits)
  have "d = 146097 * n400 + 36524 * n100 + 1461 * n4 + 365 * n1 + r1"
    by (simp add: r1_def r4_def n4_def r100_def r400_def n400_def)
  with year(1) have d: "d = 365 * y + y div 4 - y div 100 + y div 400 + r1" by simp
  have "date_of_days d = (y + 1, month, day)"
    by (simp add: date_of_days_def Let_def n400_def [symmetric] r400_def [symmetric]
        n100_def [symmetric] r100_def [symmetric] n4_def [symmetric] r4_def [symmetric]
        n1_def [symmetric] r1_def [symmetric] y_def [symmetric] md)
  moreover have len: "length (month_days l) = 12" for l by (simp add: month_days_def)
  moreover have month: "1 \<le> month" "month \<le> 12" "1 \<le> day"
    "day \<le> month_days (is_leap (y + 1)) ! nat (month - 1)"
    "sum_list (take (nat (month - 1)) (month_days (is_leap (y + 1)))) + (day - 1) = r1"
    using month_day_spec [OF b1(3) leap, of 1] month_days_nonneg [of "is_leap (y + 1)"]
    by (simp_all add: md len)
  moreover have "month_days (is_leap (y + 1)) ! nat (month - 1) \<le> 31"
    using month_days_nonneg [of "is_leap (y + 1)"] nth_mem [of "nat (month - 1)" "month_days (is_leap (y + 1))"]
      month(1,2) by (simp add: len)
  ultimately show ?thesis
    using d by (simp add: days_of_date_def daysIn_def Let_def)
qed

lemma length_dec: "n < 10 ^ w \<Longrightarrow> 0 < w \<Longrightarrow> length (dec n) \<le> w"
proof (induction w arbitrary: n)
  case (Suc w)
  show ?case
  proof (cases "n < 10")
    case False
    then have "0 < w" using Suc.prems by (cases w) auto
    moreover have "n div 10 < 10 ^ w" using Suc.prems by (simp add: less_mult_imp_div_less)
    ultimately show ?thesis using False Suc.IH by (subst dec.simps) simp
  qed (subst dec.simps, simp)
qed simp

lemma undec_zeros: "undec (replicate k (CHR ''0'') @ s) = undec s"
  by (induction k) (simp_all add: undec_def digit_val_def)

lemma undec_shift: "undec (s @ replicate k (CHR ''0'')) = undec s * 10 ^ k"
proof (induction k)
  case (Suc k)
  have "undec (s @ replicate (Suc k) (CHR ''0'')) = undec ((s @ replicate k (CHR ''0'')) @ ''0'')"
    by (simp add: replicate_append_same)
  then show ?case using Suc by (simp only: undec_append) (simp add: digit_val_def)
qed simp

text \<open>A padded numeral has the wanted width and reads back.\<close>

lemma append_int_spec:
  assumes "0 \<le> x" "x < 10 ^ w" "0 < w"
  shows "length (append_int x w) = w" "list_all is_digit (append_int x w)"
    "undec (append_int x w) = nat x"
proof -
  have "nat x < 10 ^ w" using assms by (simp add: nat_less_iff)
  then have "length (dec (nat x)) \<le> w" using assms(3) by (rule length_dec)
  with assms(1) show "length (append_int x w) = w" by (simp add: append_int_def Let_def)
  show "list_all is_digit (append_int x w)"
    using assms(1) dec_digits
    by (auto simp: append_int_def Let_def list_all_iff is_digit_def in_set_replicate)
  show "undec (append_int x w) = nat x"
    using assms(1) by (simp add: append_int_def Let_def undec_zeros)
qed

lemma getnum_append_int [simp]:
  assumes "0 \<le> x" "x < 100"
  shows "getnum (append_int x 2 @ s) fixed = Some (x, s)"
proof -
  note spec = append_int_spec [of x 2, simplified, OF assms]
  then obtain a b where ab: "append_int x 2 = [a, b]"
    by (auto simp: numeral_2_eq_2 length_Suc_conv)
  with spec have "is_digit a" "is_digit b" "int (digit_val a * 10 + digit_val b) = x"
    using assms(1) by (simp_all add: undec_def)
  then show ?thesis by (simp add: ab digit_int_def)
qed

lemmas getnum_append_int_end [simp] = getnum_append_int [where s = "[]", simplified]

lemma parse_year_append_int [simp]:
  "0 \<le> y \<Longrightarrow> y < 10000 \<Longrightarrow> parse_year (append_int y 4 @ s) = Some (y, s)"
  using append_int_spec [of y 4] by (simp add: parse_year_def)

lemma parse_fraction_append_nano:
  assumes "0 \<le> nsec" "nsec < 10 ^ 9" and "rest = [] \<or> \<not> is_digit (hd rest)"
    and "nsec = 0 \<Longrightarrow> rest = [] \<or> hd rest \<noteq> CHR ''.'' \<and> hd rest \<noteq> CHR '',''"
  shows "parse_fraction (append_nano nsec @ rest) = (nsec, rest)"
proof (cases "nsec = 0")
  case True
  with assms(4) show ?thesis
    by (auto simp: append_nano_def parse_fraction_def split: list.splits)
next
  case False
  define p where "p = append_int nsec 9"
  note spec = append_int_spec [of nsec 9, folded p_def, OF assms(1,2) zero_less_numeral]
  define t where "t = rev (dropWhile (\<lambda>c. c = CHR ''0'') (rev p))"
  have "p = t @ rev (takeWhile (\<lambda>c. c = CHR ''0'') (rev p))"
    unfolding t_def by (simp flip: rev_append)
  moreover have "takeWhile (\<lambda>c. c = CHR ''0'') xs = replicate (length (takeWhile (\<lambda>c. c = CHR ''0'') xs)) (CHR ''0'')" for xs
    by (induction xs) auto
  ultimately obtain k where p: "p = t @ replicate k (CHR ''0'')"
    by (metis rev_replicate)
  with spec have t: "list_all is_digit t" "length t + k = 9" "undec t * 10 ^ k = nat nsec"
    by (simp_all add: undec_shift)
  with False assms(1) have "t \<noteq> []" by (auto simp: undec_def)
  then obtain d ds where ds: "t = d # ds" by (cases t) auto
  have "takeWhile is_digit (t @ rest) = t" "dropWhile is_digit (t @ rest) = rest"
    using t(1) assms(3) by (simp_all add: list_all_iff takeWhile_append dropWhile_append)
      (cases rest, simp_all)+
  moreover have "k = 9 - length t" using t(2) by simp
  then have "int (undec t) * 10 ^ (9 - length t) = nsec"
    using t(3) assms(1) by (metis int_nat_eq of_nat_mult of_nat_numeral of_nat_power)
  moreover have "append_nano nsec @ rest = CHR ''.'' # d # ds @ rest"
    using False by (simp add: append_nano_def p_def [symmetric] t_def [symmetric] ds)
  ultimately show ?thesis
    using t by (simp add: parse_fraction_def ds Let_def)
qed

text \<open>Seconds of a zone are cut off when it is printed.\<close>

definition whole_minutes :: "int \<Rightarrow> int" where
  "whole_minutes offset = (if offset < 0 then - (\<bar>offset\<bar> div 60 * 60) else \<bar>offset\<bar> div 60 * 60)"

lemma whole_minutes_id: "offset mod 60 = 0 \<Longrightarrow> whole_minutes offset = offset"
  by (auto simp: whole_minutes_def mod_eq_0_iff_dvd)

lemma parse_append_zone:
  assumes "\<bar>offset\<bar> div 3600 < 24"
  shows "parse_zone (append_zone offset) = Some (whole_minutes offset, [])"
proof -
  define zone where "zone = \<bar>offset\<bar> div 60"
  have range: "0 \<le> zone div 60" "zone div 60 < 24" "0 \<le> zone mod 60" "zone mod 60 < 60"
    using assms by (simp_all add: zone_def zdiv_zmult2_eq [symmetric])
  have "whole_minutes offset = (if offset < 0 then - (zone * 60) else zone * 60)"
    by (simp add: whole_minutes_def zone_def)
  moreover have "offset = 0 \<Longrightarrow> zone = 0" by (simp add: zone_def)
  moreover have "append_zone offset = (if offset = 0 then ''Z'' else
      (if offset < 0 \<and> zone \<noteq> 0 then ''-'' else ''+'') @ append_int (zone div 60) 2 @ '':'' @ append_int (zone mod 60) 2)"
    unfolding append_zone_def zone_def Let_def ..
  ultimately show ?thesis
    using range by (auto simp: parse_zone_def Let_def)
qed

lemma parse_fields:
  assumes "0 \<le> year" "year < 10000" "1 \<le> month" "month \<le> 12" "1 \<le> day" "day \<le> 31"
    and "day \<le> daysIn month year" "0 \<le> hour" "hour < 24" "0 \<le> mins" "mins < 60" "0 \<le> sec" "sec < 60"
    and "parse_fraction (nano @ zone) = (nsec, zone)" "parse_zone zone = Some (offset, [])"
  shows "time_Parse_RFC3339Nano
      (append_int year 4 @ ''-'' @ append_int month 2 @ ''-'' @ append_int day 2 @ ''T''
         @ append_int hour 2 @ '':'' @ append_int mins 2 @ '':'' @ append_int sec 2 @ nano @ zone) =
    Some (time_Date year month day hour mins sec nsec offset)"
  using assms by (simp add: time_Parse_RFC3339Nano_def in_range_def)

text \<open>
  What \<open>MarshalJSON\<close> prints, \<open>time.Parse\<close> reads back: the same local time, in a zone of whole
  minutes; so the same time if the zone was one of whole minutes.
\<close>

lemma time_MarshalJSON_Parse_minutes:
  assumes "time_MarshalJSON t = Inr s" "0 \<le> time_nsec t" "time_nsec t < 10 ^ 9"
  shows "time_Parse_RFC3339Nano s =
    Some \<lparr>time_sec = time_sec t + time_zone t - whole_minutes (time_zone t), time_nsec = time_nsec t,
          time_zone = whole_minutes (time_zone t)\<rparr>"
proof -
  define abs where "abs = time_sec t + time_zone t"
  obtain year month day where ymd: "date_of_days (abs div 86400) = (year, month, day)"
    by (metis prod_cases3)
  with assms(1) have year: "0 \<le> year" "year < 10000"
    and zone: "\<bar>time_zone t\<bar> div 3600 < 24" and s: "s = appendFormatRFC3339 t"
    by (auto simp: time_MarshalJSON_def Let_def abs_def split: if_splits)
  note date = date_of_days_spec [of "abs div 86400", unfolded ymd prod.case]
  have tail: "append_zone (time_zone t) \<noteq> []" "\<not> is_digit (hd (append_zone (time_zone t)))"
    "hd (append_zone (time_zone t)) \<noteq> CHR ''.''" "hd (append_zone (time_zone t)) \<noteq> CHR '',''"
    by (auto simp: append_zone_def Let_def is_digit_def)
  have clock: "0 \<le> abs mod 86400 div 3600" "abs mod 86400 div 3600 < 24"
    "0 \<le> abs mod 86400 mod 3600 div 60" "abs mod 86400 mod 3600 div 60 < 60"
    "0 \<le> abs mod 86400 mod 60" "abs mod 86400 mod 60 < 60"
    by (simp_all add: zdiv_zmult2_eq [symmetric] div_int_pos_iff pos_imp_zdiv_neg_iff)
      (use pos_mod_bound [of 86400 abs] in \<open>linarith\<close>)?
  have "abs mod 86400 mod 3600 mod 60 = abs mod 86400 mod 60" by (simp add: mod_mod_cancel)
  then have secs: "abs mod 86400 div 3600 * 3600 + abs mod 86400 mod 3600 div 60 * 60 + abs mod 86400 mod 60
      = abs mod 86400"
    using div_mult_mod_eq [of "abs mod 86400" 3600] div_mult_mod_eq [of "abs mod 86400 mod 3600" 60]
    by linarith
  have "days_of_date year month day * 86400 + abs mod 86400 = abs"
    using date div_mult_mod_eq [of abs 86400] by simp
  with secs have "days_of_date year month day * 86400 + abs mod 86400 div 3600 * 3600
      + abs mod 86400 mod 3600 div 60 * 60 + abs mod 86400 mod 60 = time_sec t + time_zone t"
    unfolding abs_def by linarith
  then have "time_Date year month day (abs mod 86400 div 3600) (abs mod 86400 mod 3600 div 60)
      (abs mod 86400 mod 60) (time_nsec t) (whole_minutes (time_zone t)) =
    \<lparr>time_sec = time_sec t + time_zone t - whole_minutes (time_zone t), time_nsec = time_nsec t,
     time_zone = whole_minutes (time_zone t)\<rparr>"
    by (simp add: time_Date_def)
  moreover have "parse_fraction (append_nano (time_nsec t) @ append_zone (time_zone t)) =
      (time_nsec t, append_zone (time_zone t))"
    using parse_fraction_append_nano assms(2,3) tail by blast
  ultimately show ?thesis
    unfolding s appendFormatRFC3339_def abs_def [symmetric] ymd Let_def prod.case
    using parse_fields [where zone = "append_zone (time_zone t)", OF year _ _ _ _ _ clock]
      date parse_append_zone [OF zone] by metis
qed

lemma time_MarshalJSON_Parse:
  assumes "time_MarshalJSON t = Inr s" "0 \<le> time_nsec t" "time_nsec t < 10 ^ 9" "time_zone t mod 60 = 0"
  shows "time_Parse_RFC3339Nano s = Some t"
  using time_MarshalJSON_Parse_minutes [OF assms(1-3)] by (simp add: whole_minutes_id [OF assms(4)])

end
