(* ===== verification/Iterators.thy ===== *)
theory Iterators
  imports GoErrors
begin

text \<open>
  Iterators and pagination: \<open>pkg/xiter/iter.go\<close>, \<open>pkg/github/pagination.go\<close> and
  \<open>pkg/bitbucket/pagination.go\<close>.

  A \<open>Scan[T]\<close> is a push iterator: a function that calls \<open>yield(item, err)\<close> until \<open>yield\<close> returns
  false or nothing is left.  Here \<open>yield\<close> threads the state of the loop body, an item is
  \<open>Inr item\<close> (\<open>yield(item, nil)\<close>) or \<open>Inl err\<close>, and a scan that never returns is \<open>None\<close>.
  The \<open>n\<close>-th request of a scan is answered by \<open>fetchPage n\<close>, so the remote side may change its
  answers between requests.

  The interface \<open>scanner\<close> says what a scan owes its consumers (it feeds the events of its
  source to \<open>yield\<close>, in order, until told to stop); the two paginated scans are its
  interpretations, and the loops of the providers are proved once against it.
\<close>

section \<open>Scans and their consumers\<close>

type_synonym ('s, 'a) yield = "'s \<Rightarrow> go_error + 'a \<Rightarrow> bool \<times> 's"
type_synonym ('s, 'a) scan = "('s, 'a) yield \<Rightarrow> 's \<Rightarrow> 's option"

text \<open>The reference consumer: hand over a list of events, stopping when \<open>yield\<close> says so.\<close>

fun feed :: "('s, 'a) yield \<Rightarrow> 's \<Rightarrow> (go_error + 'a) list \<Rightarrow> 's" where
  "feed yield s [] = s"
| "feed yield s (ev # evs) =
     (case yield s ev of (cont, s') \<Rightarrow> if cont then feed yield s' evs else s')"

text \<open>The inner loop \<open>for _, item := range list { if !yield(item, nil) { return } }\<close>.\<close>

fun yield_all :: "('s, 'a) yield \<Rightarrow> 's \<Rightarrow> 'a list \<Rightarrow> bool \<times> 's" where
  "yield_all yield s [] = (True, s)"
| "yield_all yield s (x # xs) =
     (case yield s (Inr x) of (cont, s') \<Rightarrow>
        if cont then yield_all yield s' xs else (False, s'))"

lemma feed_append_items:
  "feed yield s (map Inr xs @ evs) =
     (case yield_all yield s xs of (cont, s') \<Rightarrow> if cont then feed yield s' evs else s')"
  by (induction xs arbitrary: s) (auto split: prod.splits)

lemma feed_items: "feed yield s (map Inr xs) = snd (yield_all yield s xs)"
  using feed_append_items [of yield s xs "[]"] by (auto split: prod.splits)

text \<open>\<open>CollectFromScan\<close>: all items up to the first error, and that error.\<close>

definition CollectFromScan ::
    "('a list \<times> unit result, 'a) scan \<Rightarrow> ('a list \<times> unit result) option" where
  "CollectFromScan it =
     it (\<lambda>(items, err) ev. case ev of
            Inl e \<Rightarrow> (False, (items, Err e))
          | Inr item \<Rightarrow> (True, (items @ [item], err)))
        ([], Ok ())"

text \<open>
  The loop every provider writes over a scan:
  \<^verbatim>\<open>
  for x, err := range it {
      if err != nil { return nil, wrap(err) }
      ... // skip x, panic on it, or result = append(result, convert(x))
  }
  return result, nil
  \<close>
\<close>

definition range_body ::
    "(go_error \<Rightarrow> go_error) \<Rightarrow> ('a \<Rightarrow> 'b option result) \<Rightarrow> ('b list \<times> unit result, 'a) yield" where
  "range_body wrap f = (\<lambda>(result, st) ev.
     case ev of
       Inl e \<Rightarrow> (False, (result, Err (wrap e)))
     | Inr x \<Rightarrow> (case f x of
                   Ok None \<Rightarrow> (True, (result, st))
                 | Ok (Some y) \<Rightarrow> (True, (result @ [y], st))
                 | Err e \<Rightarrow> (False, (result, Err e))
                 | Panic \<Rightarrow> (False, (result, Panic))))"

definition range_collect ::
    "('b list \<times> unit result, 'a) scan \<Rightarrow> (go_error \<Rightarrow> go_error) \<Rightarrow> ('a \<Rightarrow> 'b option result)
     \<Rightarrow> 'b list result option" where
  "range_collect it wrap f =
     map_option (\<lambda>(result, st). res_bind st (\<lambda>_. Ok result)) (it (range_body wrap f) ([], Ok ()))"

text \<open>What such a loop computes from a list of events.\<close>

fun collect_events ::
    "(go_error \<Rightarrow> go_error) \<Rightarrow> ('a \<Rightarrow> 'b option result) \<Rightarrow> (go_error + 'a) list \<Rightarrow> 'b list result" where
  "collect_events wrap f [] = Ok []"
| "collect_events wrap f (Inl e # evs) = Err (wrap e)"
| "collect_events wrap f (Inr x # evs) =
     (case f x of
        Ok None \<Rightarrow> collect_events wrap f evs
      | Ok (Some y) \<Rightarrow> res_bind (collect_events wrap f evs) (\<lambda>ys. Ok (y # ys))
      | Err e \<Rightarrow> Err e
      | Panic \<Rightarrow> Panic)"

lemma feed_range_body:
  "res_bind (snd (feed (range_body wrap f) (acc, Ok ()) evs))
            (\<lambda>_. Ok (fst (feed (range_body wrap f) (acc, Ok ()) evs))) =
   res_bind (collect_events wrap f evs) (\<lambda>ys. Ok (acc @ ys))"
proof (induction wrap f evs arbitrary: acc rule: collect_events.induct)
  case (3 wrap f x evs)
  show ?case
  proof (cases "f x")
    case (Ok v)
    then show ?thesis
      using 3 by (cases v; cases "collect_events wrap f evs") (auto simp: range_body_def)
  qed (simp_all add: range_body_def)
qed (simp_all add: range_body_def)

lemma collect_events_items:
  "(\<And>x. x \<in> set xs \<Longrightarrow> f x = Ok (Some (g x))) \<Longrightarrow>
   collect_events wrap f (map Inr xs @ evs) =
     res_bind (collect_events wrap f evs) (\<lambda>ys. Ok (map g xs @ ys))"
  by (induction xs) (auto; cases "collect_events wrap f evs"; simp)+

lemma feed_collect:
  "feed (\<lambda>(items, err) ev. case ev of Inl e \<Rightarrow> (False, (items, Err e))
                            | Inr item \<Rightarrow> (True, (items @ [item], err))) (acc, Ok ()) (map Inr xs)
     = (acc @ xs, Ok ())"
  "feed (\<lambda>(items, err) ev. case ev of Inl e \<Rightarrow> (False, (items, Err e))
                            | Inr item \<Rightarrow> (True, (items @ [item], err))) (acc, Ok ())
        (map Inr xs @ Inl e # evs)
     = (acc @ xs, Err e)"
  by (induction xs arbitrary: acc) auto

section \<open>The interface of a scan\<close>

locale scanner =
  fixes scan :: "'src \<Rightarrow> ('b list \<times> unit result, 'a) scan"
    and events :: "'src \<Rightarrow> (go_error + 'a) list option"
  assumes scan_feed: "events src = Some evs \<Longrightarrow> scan src yield s = Some (feed yield s evs)"
begin

lemma range_collect_events:
  "events src = Some evs \<Longrightarrow>
   range_collect (scan src) wrap f = Some (collect_events wrap f evs)"
  using feed_range_body [of wrap f "[]" evs]
  by (cases "collect_events wrap f evs") (auto simp: range_collect_def scan_feed split: prod.splits)

lemma range_collect_all:
  assumes "events src = Some (map Inr xs)" and "\<And>x. x \<in> set xs \<Longrightarrow> f x = Ok (Some (g x))"
  shows "range_collect (scan src) wrap f = Some (Ok (map g xs))"
  using range_collect_events [OF assms(1)] collect_events_items [of xs f g wrap "[]", OF assms(2)]
  by simp

lemma range_collect_error:
  assumes "events src = Some (map Inr xs @ [Inl e])"
    and "\<And>x. x \<in> set xs \<Longrightarrow> f x = Ok (Some (g x))"
  shows "range_collect (scan src) wrap f = Some (Err (wrap e))"
  using range_collect_events [OF assms(1)] collect_events_items [of xs f g wrap "[Inl e]", OF assms(2)]
  by simp

end

text \<open>
  An iterator made outside the program (\<open>iter.Seq2\<close>) delivers a list of events when it hands them to
  \<open>yield\<close> in order until \<open>yield\<close> returns false.
\<close>

definition delivers :: "('s, 'a) scan \<Rightarrow> (go_error + 'a) list \<Rightarrow> bool" where
  "delivers scan evs \<longleftrightarrow> (\<forall>yield s. scan yield s = Some (feed yield s evs))"

interpretation delivered: scanner fst "\<lambda>(scan, evs). if delivers scan evs then Some evs else None"
  by unfold_locales (auto simp: delivers_def split: if_splits)

section \<open>Paginated GitHub lists\<close>

record gh_list_options =
  gh_Page :: int
  gh_PerPage :: int

text \<open>The pagination fields of \<open>*github.Response\<close>; \<open>NextPage\<close> is 0 on the last page.\<close>

record gh_response =
  resp_NextPage :: int
  resp_LastPage :: int

type_synonym 'a gh_fetch = "nat \<Rightarrow> gh_list_options \<Rightarrow> go_error + ('a list \<times> gh_response)"

definition WithPerPage :: "int \<Rightarrow> gh_list_options \<Rightarrow> gh_list_options" where
  "WithPerPage perPage opt = (if perPage > 0 then opt\<lparr>gh_PerPage := perPage\<rparr> else opt)"

partial_function (option) scan_github_pages ::
    "'a gh_fetch \<Rightarrow> nat \<Rightarrow> gh_list_options \<Rightarrow> ('s, 'a) yield \<Rightarrow> 's \<Rightarrow> 's option" where
  "scan_github_pages fetchPage n opt yield s =
     (case fetchPage n opt of
        Inl err \<Rightarrow> Some (snd (yield s (Inl err)))
      | Inr (items, resp) \<Rightarrow>
          (case yield_all yield s items of
             (cont, s') \<Rightarrow>
               if \<not> cont then Some s'
               else if resp_NextPage resp = 0 then Some s'
               else scan_github_pages fetchPage (Suc n) (opt\<lparr>gh_Page := resp_NextPage resp\<rparr>) yield s'))"

definition ScanGitHubList ::
    "'a gh_fetch \<Rightarrow> (gh_list_options \<Rightarrow> gh_list_options) list \<Rightarrow> ('s, 'a) scan" where
  "ScanGitHubList fetchPage opts =
     scan_github_pages fetchPage 0 (fold (\<lambda>o1 opt. o1 opt) opts \<lparr>gh_Page = 0, gh_PerPage = 100\<rparr>)"

text \<open>The events of a paginated list: its pages in order, up to the last one or an error.\<close>

partial_function (option) github_events ::
    "'a gh_fetch \<Rightarrow> nat \<Rightarrow> gh_list_options \<Rightarrow> (go_error + 'a) list option" where
  "github_events fetchPage n opt =
     (case fetchPage n opt of
        Inl err \<Rightarrow> Some [Inl err]
      | Inr (items, resp) \<Rightarrow>
          if resp_NextPage resp = 0 then Some (map Inr items)
          else Option.bind (github_events fetchPage (Suc n) (opt\<lparr>gh_Page := resp_NextPage resp\<rparr>))
                 (\<lambda>evs. Some (map Inr items @ evs)))"

lemma scan_github_pages_feed:
  fixes fetchPage :: "'a gh_fetch" and yield :: "('s, 'a) yield"
  assumes "github_events fetchPage n opt = Some evs"
  shows "scan_github_pages fetchPage n opt yield s = Some (feed yield s evs)"
proof -
  have "\<forall>(yield :: ('s, 'a) yield) s. scan_github_pages fetchPage n opt yield s = Some (feed yield s evs)"
  proof (rule github_events.raw_induct
      [where P = "\<lambda>fp n opt evs. \<forall>(yield::('s,'a) yield) s. scan_github_pages fp n opt yield s = Some (feed yield s evs)",
        OF _ assms])
    fix g and fp :: "'a gh_fetch" and n opt evs
    assume IH: "\<And>fp n opt evs. g fp n opt = Some evs \<Longrightarrow>
        \<forall>(yield::('s,'a) yield) s. scan_github_pages fp n opt yield s = Some (feed yield s evs)"
      and eq: "(case fp n opt of Inl err \<Rightarrow> Some [Inl err]
        | Inr (items, resp) \<Rightarrow> if resp_NextPage resp = 0 then Some (map Inr items)
          else Option.bind (g fp (Suc n) (opt\<lparr>gh_Page := resp_NextPage resp\<rparr>))
                 (\<lambda>evs. Some (map Inr items @ evs))) = Some evs"
    show "\<forall>(yield::('s,'a) yield) s. scan_github_pages fp n opt yield s = Some (feed yield s evs)"
    proof (cases "fp n opt")
      case (Inl err)
      with eq show ?thesis
        by (auto simp: scan_github_pages.simps split: prod.splits)
    next
      case (Inr p)
      then show ?thesis
        using eq IH by (cases p)
          (auto simp: scan_github_pages.simps [of fp n] feed_items feed_append_items
             bind_eq_Some_conv split: if_splits prod.splits)
    qed
  qed
  then show ?thesis by blast
qed

text \<open>Pages that count up to a last page end the scan.\<close>

lemma github_events_terminates:
  assumes "\<And>n opt items resp. fetchPage n opt = Inr (items, resp) \<Longrightarrow>
      resp_NextPage resp = 0 \<or> (gh_Page opt < resp_NextPage resp \<and> resp_NextPage resp \<le> pmax)"
  shows "\<exists>evs. github_events fetchPage n opt = Some evs"
proof (induction "nat (pmax - gh_Page opt)" arbitrary: n opt rule: less_induct)
  case less
  show ?case
  proof (cases "fetchPage n opt")
    case (Inl e)
    then show ?thesis by (simp add: github_events.simps)
  next
    case (Inr p)
    obtain items resp where p: "p = (items, resp)" by (cases p)
    show ?thesis
    proof (cases "resp_NextPage resp = 0")
      case True
      with Inr p show ?thesis by (simp add: github_events.simps)
    next
      case False
      with assms [of n opt items resp] Inr p
      have "nat (pmax - resp_NextPage resp) < nat (pmax - gh_Page opt)" by auto
      then obtain evs where
        "github_events fetchPage (Suc n) (opt\<lparr>gh_Page := resp_NextPage resp\<rparr>) = Some evs"
        using less [of "opt\<lparr>gh_Page := resp_NextPage resp\<rparr>" "Suc n"] by auto
      with Inr p show ?thesis by (simp add: github_events.simps [of _ n])
    qed
  qed
qed

interpretation github_list: scanner
  "\<lambda>(fetchPage, opts). ScanGitHubList fetchPage opts"
  "\<lambda>(fetchPage, opts). github_events fetchPage 0
     (fold (\<lambda>o1 opt. o1 opt) opts \<lparr>gh_Page = 0, gh_PerPage = 100\<rparr>)"
  by unfold_locales (auto simp: ScanGitHubList_def scan_github_pages_feed)

section \<open>Paginated Bitbucket branches\<close>

record bb_branch_options =
  bb_Owner :: string
  bb_RepoSlug :: string
  bb_Pagelen :: int
  bb_PageNum :: int

text \<open>\<open>*bitbucket.RepositoryBranches\<close>, with the element type left open.\<close>

record 'a bb_branches =
  bb_Branches :: "'a list"
  bb_Next :: string
  bb_Page :: int

type_synonym 'a bb_fetch = "nat \<Rightarrow> bb_branch_options \<Rightarrow> go_error + 'a bb_branches"

partial_function (option) scan_bitbucket_pages ::
    "'a bb_fetch \<Rightarrow> nat \<Rightarrow> bb_branch_options \<Rightarrow> ('s, 'a) yield \<Rightarrow> 's \<Rightarrow> 's option" where
  "scan_bitbucket_pages fetchPage n rbo yield s =
     (case fetchPage n rbo of
        Inl err \<Rightarrow> Some (snd (yield s (Inl err)))
      | Inr resp \<Rightarrow>
          (case yield_all yield s (bb_Branches resp) of
             (cont, s') \<Rightarrow>
               if \<not> cont then Some s'
               else if bb_Next resp = [] then Some s'
               else scan_bitbucket_pages fetchPage (Suc n)
                      (rbo\<lparr>bb_PageNum := go_add (bb_Page resp) 1\<rparr>) yield s'))"

definition ScanBitbucketBranches :: "'a bb_fetch \<Rightarrow> bb_branch_options \<Rightarrow> ('s, 'a) scan" where
  "ScanBitbucketBranches fetchPage rbo = scan_bitbucket_pages fetchPage 0 rbo"

partial_function (option) bitbucket_events ::
    "'a bb_fetch \<Rightarrow> nat \<Rightarrow> bb_branch_options \<Rightarrow> (go_error + 'a) list option" where
  "bitbucket_events fetchPage n rbo =
     (case fetchPage n rbo of
        Inl err \<Rightarrow> Some [Inl err]
      | Inr resp \<Rightarrow>
          if bb_Next resp = [] then Some (map Inr (bb_Branches resp))
          else Option.bind (bitbucket_events fetchPage (Suc n)
                   (rbo\<lparr>bb_PageNum := go_add (bb_Page resp) 1\<rparr>))
                 (\<lambda>evs. Some (map Inr (bb_Branches resp) @ evs)))"

lemma scan_bitbucket_pages_feed:
  fixes fetchPage :: "'a bb_fetch" and yield :: "('s, 'a) yield"
  assumes "bitbucket_events fetchPage n rbo = Some evs"
  shows "scan_bitbucket_pages fetchPage n rbo yield s = Some (feed yield s evs)"
proof -
  have "\<forall>(yield :: ('s, 'a) yield) s. scan_bitbucket_pages fetchPage n rbo yield s = Some (feed yield s evs)"
  proof (rule bitbucket_events.raw_induct
      [where P = "\<lambda>fp n rbo evs. \<forall>(yield::('s,'a) yield) s. scan_bitbucket_pages fp n rbo yield s = Some (feed yield s evs)",
        OF _ assms])
    fix g and fp :: "'a bb_fetch" and n rbo evs
    assume IH: "\<And>fp n rbo evs. g fp n rbo = Some evs \<Longrightarrow>
        \<forall>(yield::('s,'a) yield) s. scan_bitbucket_pages fp n rbo yield s = Some (feed yield s evs)"
      and eq: "(case fp n rbo of Inl err \<Rightarrow> Some [Inl err]
        | Inr resp \<Rightarrow> if bb_Next resp = [] then Some (map Inr (bb_Branches resp))
          else Option.bind (g fp (Suc n) (rbo\<lparr>bb_PageNum := go_add (bb_Page resp) 1\<rparr>))
                 (\<lambda>evs. Some (map Inr (bb_Branches resp) @ evs))) = Some evs"
    show "\<forall>(yield::('s,'a) yield) s. scan_bitbucket_pages fp n rbo yield s = Some (feed yield s evs)"
    proof (cases "fp n rbo")
      case (Inl err)
      with eq show ?thesis
        by (auto simp: scan_bitbucket_pages.simps split: prod.splits)
    next
      case (Inr resp)
      then show ?thesis
        using eq IH
        by (auto simp: scan_bitbucket_pages.simps [of fp n] feed_items feed_append_items
             bind_eq_Some_conv split: if_splits prod.splits)
    qed
  qed
  then show ?thesis by blast
qed

interpretation bitbucket_branches: scanner
  "\<lambda>(fetchPage, rbo). ScanBitbucketBranches fetchPage rbo"
  "\<lambda>(fetchPage, rbo). bitbucket_events fetchPage 0 rbo"
  by unfold_locales (auto simp: ScanBitbucketBranches_def scan_bitbucket_pages_feed)

section \<open>Properties\<close>

text \<open>Collecting a scan.  From an iterator that delivers items and then ends or fails, \<open>CollectFromScan\<close>
  returns all items before the first failure, in order, and that failure.\<close>

theorem CollectFromScan_spec:
  assumes "delivers it (map Inr xs @ evs)" and "evs = [] \<or> (\<exists>e rest. evs = Inl e # rest)"
  shows "CollectFromScan it =
    Some (xs, case evs of Inl e # _ \<Rightarrow> Err e | _ \<Rightarrow> Ok ())"
proof -
  have "CollectFromScan it = Some (feed (\<lambda>(items, err) ev. case ev of Inl e \<Rightarrow> (False, (items, Err e))
      | Inr item \<Rightarrow> (True, (items @ [item], err))) ([], Ok ()) (map Inr xs @ evs))"
    using assms(1) by (simp add: CollectFromScan_def delivers_def)
  also have "\<dots> = Some (xs, case evs of Inl e # _ \<Rightarrow> Err e | _ \<Rightarrow> Ok ())"
    using assms(2) by (auto simp: feed_collect feed_collect(2) [of "[]", simplified]
        feed_collect(1) [of "[]", simplified])
  finally show ?thesis .
qed

lemma CollectFromScan_spec_witness:
  "CollectFromScan (\<lambda>yield s. Some (feed yield s [Inr (1::nat), Inr 2, Inl ErrNotFound, Inr 3])) =
   Some ([1, 2], Err ErrNotFound)"
  using CollectFromScan_spec [of "\<lambda>yield s. Some (feed yield s [Inr 1, Inr 2, Inl ErrNotFound, Inr 3])"
      "[1::nat, 2]" "[Inl ErrNotFound, Inr 3]"]
  by (simp add: delivers_def)

end
