(* ===== verification/GitHub.thy ===== *)
theory GitHub
  imports Iterators GoStrings Models
begin

text \<open>
  \<open>internal/services/github\<close>: the GitHub provider (repositories, organizations, branches, pull
  requests, workflow runs).  The go-github client is not part of the repository: \<open>gh_api\<close> has one
  field per call the provider makes, and \<open>NewClient\<close> gives the client for a token.  The records
  hold the fields of the library's types that the provider reads; a nilable field is an \<open>option\<close>
  and a \<open>GetX()\<close> accessor is \<open>ValueOrEmpty\<close>.
\<close>

section \<open>The client library's data\<close>

record gh_account =           \<comment> \<open>\<open>github.User\<close> and \<open>github.Organization\<close>\<close>
  gh_acc_ID :: "int option"
  gh_acc_Login :: "string option"
  gh_acc_AvatarURL :: "string option"

record gh_repository =
  gh_repo_ID :: "int option"
  gh_repo_Name :: "string option"
  gh_repo_Owner :: "gh_account option"
  gh_repo_HTMLURL :: "string option"
  gh_repo_DefaultBranch :: "string option"
  gh_repo_Description :: "string option"
  gh_repo_Private :: "bool option"

record gh_membership =
  gh_mem_Organization :: "gh_account option"

record gh_branch =
  gh_branch_Name :: "string option"

record gh_pr_branch =
  gh_prb_Ref :: "string option"
  gh_prb_SHA :: "string option"

record gh_pull_request =
  gh_pr_ID :: "int option"
  gh_pr_Number :: "int option"
  gh_pr_Title :: "string option"
  gh_pr_State :: "string option"
  gh_pr_Body :: "string option"
  gh_pr_HTMLURL :: "string option"
  gh_pr_Head :: "gh_pr_branch option"
  gh_pr_Base :: "gh_pr_branch option"
  gh_pr_MergedAt :: "time option"
  gh_pr_CreatedAt :: "time option"
  gh_pr_UpdatedAt :: "time option"
  gh_pr_Draft :: "bool option"
  gh_pr_User :: "gh_account option"

record gh_pr_list_options =
  gh_prl_State :: string
  gh_prl_Page :: int
  gh_prl_PerPage :: int

record gh_workflow_run =
  gh_run_ID :: "int option"
  gh_run_Status :: "string option"
  gh_run_Conclusion :: "string option"
  gh_run_HeadBranch :: "string option"
  gh_run_HeadSHA :: "string option"
  gh_run_HTMLURL :: "string option"
  gh_run_Event :: "string option"
  gh_run_CreatedAt :: "time option"
  gh_run_UpdatedAt :: "time option"
  gh_run_Repository :: "gh_repository option"

record gh_workflow_runs =
  gh_runs_TotalCount :: "int option"
  gh_runs_WorkflowRuns :: "gh_workflow_run list"

record gh_runs_options =
  gh_ro_Branch :: string
  gh_ro_Status :: string
  gh_ro_Page :: int
  gh_ro_PerPage :: int

text \<open>
  The calls.  Those made in a loop take the number of the request first.  \<open>Organizations_Get\<close> is
  only asked whether it fails, so its answer is the error alone.
\<close>

record gh_api =
  Repositories_Get :: "string \<Rightarrow> string \<Rightarrow> go_error + gh_repository option"
  Organizations_Get :: "string \<Rightarrow> go_error option"
  Repositories_ListByOrg :: "string \<Rightarrow> gh_repository option gh_fetch"
  Repositories_ListByUser :: "string \<Rightarrow> gh_repository option gh_fetch"
  Users_Get :: "string \<Rightarrow> go_error + gh_account"
  Organizations_ListOrgMemberships :: "string \<Rightarrow> gh_membership gh_fetch"
  Repositories_ListBranches :: "string \<Rightarrow> string \<Rightarrow> gh_branch gh_fetch"
  PullRequests_List :: "nat \<Rightarrow> string \<Rightarrow> string \<Rightarrow> gh_pr_list_options
                        \<Rightarrow> go_error + (gh_pull_request list \<times> gh_response)"
  Actions_ListRepositoryWorkflowRuns ::
    "string \<Rightarrow> string \<Rightarrow> gh_runs_options \<Rightarrow> go_error + gh_workflow_runs"

section \<open>Errors\<close>

definition classifyGitHubError :: "go_error \<Rightarrow> go_error option" where
  "classifyGitHubError err =
     (case as_GitHubErrorResponse (error_chain err) of
        None \<Rightarrow> None
      | Some status \<Rightarrow>
          if status = 404 then Some ErrNotFound
          else if status = 401 then Some ErrUnauthorized
          else None)"

text \<open>The wrapping every call site does: one format for a recognised error, one for the rest.\<close>

definition wrap_github ::
    "string \<Rightarrow> farg list \<Rightarrow> string \<Rightarrow> farg list \<Rightarrow> go_error \<Rightarrow> go_error" where
  "wrap_github known kargs other oargs err =
     (case classifyGitHubError err of
        Some sentinel \<Rightarrow> Errorf known (kargs @ [FErr sentinel])
      | None \<Rightarrow> Errorf other (oargs @ [FErr err]))"

section \<open>Repositories\<close>

definition convertVisibility :: "bool \<Rightarrow> RepositoryVisibility option" where
  "convertVisibility isPrivate =
     (if isPrivate then Some RepositoryVisibilityPrivate else Some RepositoryVisibilityPublic)"

definition convertGitHubRepoToRepository :: "gh_repository option \<Rightarrow> Repository option" where
  "convertGitHubRepoToRepository repo =
     (case repo of
        None \<Rightarrow> None
      | Some r \<Rightarrow>
          Some \<lparr>Repository_DefaultBranch = gh_repo_DefaultBranch r,
                Repository_Description = gh_repo_Description r,
                Repository_Id = strconv_Itoa (ValueOrEmpty 0 (gh_repo_ID r)),
                Repository_Name = ValueOrEmpty [] (gh_repo_Name r),
                Repository_Owner =
                  Some (case gh_repo_Owner r of
                          None \<Rightarrow> [] | Some owner \<Rightarrow> ValueOrEmpty [] (gh_acc_Login owner)),
                Repository_Url = Some (ValueOrEmpty [] (gh_repo_HTMLURL r)),
                Repository_Visibility =
                  convertVisibility (ValueOrEmpty False (gh_repo_Private r))\<rparr>)"

definition GitHub_GetRepository ::
    "(string \<Rightarrow> gh_api) \<Rightarrow> string \<Rightarrow> string \<Rightarrow> GitServerSettings \<Rightarrow> Repository option result" where
  "GitHub_GetRepository NewClient owner repo settings =
     (case Repositories_Get (NewClient (Settings_Token settings)) owner repo of
        Inl err \<Rightarrow> Err (wrap_github ''repository %s/%s: %w'' [FStr owner, FStr repo]
                     ''failed to get repository %s/%s: %w'' [FStr owner, FStr repo] err)
      | Inr repository \<Rightarrow> Ok (convertGitHubRepoToRepository repository))"

text \<open>The test of the name filter: a case-insensitive substring of the repository name.\<close>

definition name_matches :: "(string \<Rightarrow> string) \<Rightarrow> ListOptions \<Rightarrow> gh_repository option \<Rightarrow> bool" where
  "name_matches uni opt repo =
     (case ListOptions_Name opt of
        None \<Rightarrow> True
      | Some n \<Rightarrow>
          (case repo of
             None \<Rightarrow> False
           | Some r \<Rightarrow> strings_Contains (strings_ToLower uni (ValueOrEmpty [] (gh_repo_Name r)))
                          (strings_ToLower uni (ValueOrEmpty [] (Some n)))))"

definition filterRepositoriesByName ::
    "(string \<Rightarrow> string) \<Rightarrow> ('s, gh_repository option) scan \<Rightarrow> ListOptions
     \<Rightarrow> ('s, gh_repository option) scan" where
  "filterRepositoriesByName uni scan opt = (\<lambda>yield.
     scan (\<lambda>s ev. case ev of
             Inl err \<Rightarrow> yield s (Inl err)
           | Inr repo \<Rightarrow>
               if ListOptions_Name opt = None then yield s (Inr repo)
               else if repo = None then (True, s)
               else if strings_Contains
                         (strings_ToLower uni (ValueOrEmpty [] (Option.bind repo gh_repo_Name)))
                         (strings_ToLower uni (ValueOrEmpty [] (ListOptions_Name opt)))
                 then yield s (Inr repo)
               else (True, s)))"

definition listRepositories ::
    "string \<Rightarrow> gh_api \<Rightarrow> ('s, gh_repository option) scan" where
  "listRepositories owner client =
     (case Organizations_Get client owner of
        None \<Rightarrow> ScanGitHubList (Repositories_ListByOrg client owner) []
      | Some orgErr \<Rightarrow> ScanGitHubList (Repositories_ListByUser client owner) [])"

definition GitHub_ListRepositories ::
    "(string \<Rightarrow> gh_api) \<Rightarrow> (string \<Rightarrow> string) \<Rightarrow> string \<Rightarrow> GitServerSettings \<Rightarrow> ListOptions
     \<Rightarrow> Repository list result option" where
  "GitHub_ListRepositories NewClient uni owner settings listOptions =
     range_collect
       (filterRepositoriesByName uni
          (listRepositories owner (NewClient (Settings_Token settings))) listOptions)
       (wrap_github ''organization or user %s: %w'' [FStr owner]
          ''failed to list repositories for org %s: %w'' [FStr owner])
       (\<lambda>repo. case convertGitHubRepoToRepository repo of
                 None \<Rightarrow> Panic
               | Some r \<Rightarrow> Ok (Some r))"

text \<open>The filter on the level of events, and the filtered scan as a \<open>scanner\<close>.\<close>

fun filter_events ::
    "(string \<Rightarrow> string) \<Rightarrow> ListOptions \<Rightarrow> (go_error + gh_repository option) list
     \<Rightarrow> (go_error + gh_repository option) list" where
  "filter_events uni opt [] = []"
| "filter_events uni opt (Inl e # evs) = Inl e # filter_events uni opt evs"
| "filter_events uni opt (Inr r # evs) =
     (if name_matches uni opt r then Inr r # filter_events uni opt evs else filter_events uni opt evs)"

lemma filter_events_items:
  "filter_events uni opt (map Inr xs @ evs) =
     map Inr (filter (name_matches uni opt) xs) @ filter_events uni opt evs"
  by (induction xs) auto

lemma filterRepositoriesByName_feed:
  assumes "\<And>(yield :: ('s, gh_repository option) yield) s. scan yield s = Some (feed yield s evs)"
  shows "filterRepositoriesByName uni scan opt yield s = Some (feed yield s (filter_events uni opt evs))"
proof -
  have "feed (\<lambda>s ev. case ev of Inl err \<Rightarrow> yield s (Inl err)
           | Inr repo \<Rightarrow>
               if ListOptions_Name opt = None then yield s (Inr repo)
               else if repo = None then (True, s)
               else if strings_Contains
                         (strings_ToLower uni (ValueOrEmpty [] (Option.bind repo gh_repo_Name)))
                         (strings_ToLower uni (ValueOrEmpty [] (ListOptions_Name opt)))
                 then yield s (Inr repo) else (True, s)) s evs
        = feed yield s (filter_events uni opt evs)"
    by (induction uni opt evs arbitrary: s rule: filter_events.induct)
      (auto simp: name_matches_def split: option.splits prod.splits)
  with assms show ?thesis by (simp add: filterRepositoriesByName_def)
qed

definition repository_events :: "string \<Rightarrow> gh_api \<Rightarrow> (go_error + gh_repository option) list option" where
  "repository_events owner client =
     github_events
       (if Organizations_Get client owner = None then Repositories_ListByOrg client owner
        else Repositories_ListByUser client owner)
       0 \<lparr>gh_Page = 0, gh_PerPage = 100\<rparr>"

lemma listRepositories_feed:
  "repository_events owner client = Some evs \<Longrightarrow>
   listRepositories owner client yield s = Some (feed yield s evs)"
  by (auto simp: repository_events_def listRepositories_def ScanGitHubList_def
      intro: scan_github_pages_feed split: option.split)

interpretation repository_list: scanner
  "\<lambda>(uni, opt, owner, client). filterRepositoriesByName uni (listRepositories owner client) opt"
  "\<lambda>(uni, opt, owner, client).
     map_option (filter_events uni opt) (repository_events owner client)"
  by unfold_locales (auto intro!: filterRepositoriesByName_feed listRepositories_feed)

section \<open>Organizations\<close>

definition gh_Organization :: "gh_account \<Rightarrow> Organization" where
  "gh_Organization acc =
     \<lparr>Organization_AvatarUrl = gh_acc_AvatarURL acc,
      Organization_Id = strconv_Itoa (ValueOrEmpty 0 (gh_acc_ID acc)),
      Organization_Name = ValueOrEmpty [] (gh_acc_Login acc)\<rparr>"

text \<open>
  Two goroutines run under one \<open>errgroup\<close>; \<open>Wait\<close> returns the error of the one that failed first.
  When both fail the scheduler decides which (\<open>user_first\<close>).
\<close>

definition GitHub_ListUserOrganizations ::
    "(string \<Rightarrow> gh_api) \<Rightarrow> bool \<Rightarrow> GitServerSettings \<Rightarrow> Organization list result option" where
  "GitHub_ListUserOrganizations NewClient user_first settings =
     (let client = NewClient (Settings_Token settings);
          user = (case Users_Get client [] of
                    Inl err \<Rightarrow> Err (Errorf ''failed to get current user: %w'' [FErr err])
                  | Inr user \<Rightarrow> Ok (gh_Organization user))
      in map_option
           (\<lambda>orgs. case (user, orgs) of
                     (Ok userOrg, Ok result) \<Rightarrow> Ok (result @ [userOrg])
                   | (Err e, Ok result) \<Rightarrow> Err e
                   | (Ok userOrg, Err e) \<Rightarrow> Err e
                   | (Err e, Err e') \<Rightarrow> if user_first then Err e else Err e'
                   | _ \<Rightarrow> Panic)
           (range_collect
              (ScanGitHubList (Organizations_ListOrgMemberships client ''active'') [])
              (\<lambda>err. Errorf ''failed to list organizations: %w'' [FErr err])
              (\<lambda>membership. Ok (map_option gh_Organization (gh_mem_Organization membership)))))"

section \<open>Branches\<close>

definition GitHub_ListBranches ::
    "(string \<Rightarrow> gh_api) \<Rightarrow> string \<Rightarrow> string \<Rightarrow> GitServerSettings \<Rightarrow> ListOptions
     \<Rightarrow> Branch list result option" where
  "GitHub_ListBranches NewClient owner repo settings opts =
     range_collect
       (ScanGitHubList
          (Repositories_ListBranches (NewClient (Settings_Token settings)) owner repo) [])
       (wrap_github ''repository %s/%s: %w'' [FStr owner, FStr repo]
          ''failed to list branches: %w'' [])
       (\<lambda>b. Ok (Some \<lparr>Branch_Name = ValueOrEmpty [] (gh_branch_Name b)\<rparr>))"

section \<open>Pull requests\<close>

definition stateOpen :: string where "stateOpen = ''open''"
definition stateClosed :: string where "stateClosed = ''closed''"
definition stateMerged :: string where "stateMerged = ''merged''"

lemmas pr_states = stateOpen_def stateClosed_def stateMerged_def

definition mapPullRequestStateToGitHub :: "string \<Rightarrow> string" where
  "mapPullRequestStateToGitHub state =
     (if state = stateMerged \<or> state = stateClosed then stateClosed
      else if state = stateOpen then stateOpen
      else ''all'')"

definition matchesPullRequestStateFilter :: "gh_pull_request \<Rightarrow> string \<Rightarrow> bool" where
  "matchesPullRequestStateFilter pr state =
     (if state = stateMerged then gh_pr_MergedAt pr \<noteq> None
      else if state = stateClosed then gh_pr_MergedAt pr = None
      else True)"

definition convertGitHubPullRequest :: "gh_pull_request \<Rightarrow> PullRequest" where
  "convertGitHubPullRequest pr =
     \<lparr>PullRequest_Author =
        map_option (\<lambda>user. \<lparr>Owner_AvatarUrl = gh_acc_AvatarURL user,
                           Owner_Id = strconv_Itoa (ValueOrEmpty 0 (gh_acc_ID user)),
                           Owner_Name = ValueOrEmpty [] (gh_acc_Login user)\<rparr>) (gh_pr_User pr),
      PullRequest_CommitSha =
        (case gh_pr_Head pr of
           None \<Rightarrow> None
         | Some head \<Rightarrow> if ValueOrEmpty [] (gh_prb_SHA head) \<noteq> [] then gh_prb_SHA head else None),
      PullRequest_CreatedAt = ValueOrEmpty zero_time (gh_pr_CreatedAt pr),
      PullRequest_Description =
        (if ValueOrEmpty [] (gh_pr_Body pr) \<noteq> [] then gh_pr_Body pr else None),
      PullRequest_Draft = gh_pr_Draft pr,
      PullRequest_Id = strconv_Itoa (ValueOrEmpty 0 (gh_pr_ID pr)),
      PullRequest_Number = ValueOrEmpty 0 (gh_pr_Number pr),
      PullRequest_SourceBranch = ValueOrEmpty [] (Option.bind (gh_pr_Head pr) gh_prb_Ref),
      PullRequest_State =
        (if gh_pr_MergedAt pr \<noteq> None then PullRequestStateMerged
         else if ValueOrEmpty [] (gh_pr_State pr) = stateClosed then PullRequestStateClosed
         else PullRequestStateOpen),
      PullRequest_TargetBranch = ValueOrEmpty [] (Option.bind (gh_pr_Base pr) gh_prb_Ref),
      PullRequest_Title = ValueOrEmpty [] (gh_pr_Title pr),
      PullRequest_UpdatedAt = ValueOrEmpty zero_time (gh_pr_UpdatedAt pr),
      PullRequest_Url = ValueOrEmpty [] (gh_pr_HTMLURL pr)\<rparr>"

definition pr_page_response ::
    "PullRequest list \<Rightarrow> int \<Rightarrow> PullRequestListOptions \<Rightarrow> PullRequestsResponse" where
  "pr_page_response result count opts =
     \<lparr>PullRequestsResponse_Data = result,
      PullRequestsResponse_Pagination =
        \<lparr>Pagination_Page = Some (PRList_Page opts), Pagination_PerPage = Some (PRList_PerPage opts),
         Pagination_Total = count\<rparr>\<rparr>"

definition wrap_pr_error :: "string \<Rightarrow> string \<Rightarrow> go_error \<Rightarrow> go_error" where
  "wrap_pr_error owner repo =
     wrap_github ''repository %s/%s: %w'' [FStr owner, FStr repo]
       ''failed to list pull requests for %s/%s: %w'' [FStr owner, FStr repo]"

definition listPullRequestsDirect ::
    "gh_api \<Rightarrow> string \<Rightarrow> string \<Rightarrow> PullRequestListOptions \<Rightarrow> string
     \<Rightarrow> PullRequestsResponse result" where
  "listPullRequestsDirect client owner repo opts ghState =
     (case PullRequests_List client 0 owner repo
             \<lparr>gh_prl_State = ghState, gh_prl_Page = PRList_Page opts,
              gh_prl_PerPage = PRList_PerPage opts\<rparr> of
        Inl err \<Rightarrow> Err (wrap_pr_error owner repo err)
      | Inr (ghPRs, resp) \<Rightarrow>
          (let result = map convertGitHubPullRequest ghPRs;
               count = (if resp_LastPage resp > 0 then
                          go_mul (resp_LastPage resp) (PRList_PerPage opts)
                        else if int (length ghPRs) < PRList_PerPage opts then
                          go_add (go_mul (go_sub (PRList_Page opts) 1) (PRList_PerPage opts))
                            (int (length result))
                        else go_mul (PRList_Page opts) (PRList_PerPage opts))
           in Ok (pr_page_response result count opts)))"

subsection \<open>Post-filtered states\<close>

definition ghPostFilterPageSize :: int where "ghPostFilterPageSize = 100"
definition ghPostFilterMaxPages :: nat where "ghPostFilterMaxPages = 50"

text \<open>
  The loop over one GitHub page.  The flag says that the requested page is full; otherwise the
  number of matches still to skip and the results so far are handed to the next page.
\<close>

fun post_filter_page ::
    "string \<Rightarrow> int \<Rightarrow> gh_pull_request list \<Rightarrow> int \<Rightarrow> PullRequest list
     \<Rightarrow> bool \<times> int \<times> PullRequest list" where
  "post_filter_page state needed [] skip result = (False, skip, result)"
| "post_filter_page state needed (pr # prs) skip result =
     (if \<not> matchesPullRequestStateFilter pr state then
        post_filter_page state needed prs skip result
      else if skip > 0 then post_filter_page state needed prs (go_sub skip 1) result
      else (let result' = result @ [convertGitHubPullRequest pr] in
            if int (length result') \<ge> needed then (True, skip, result')
            else post_filter_page state needed prs skip result'))"

text \<open>
  The outer loop.  \<open>ctx_err n\<close> is what \<open>ctx.Err()\<close> returns at the \<open>n\<close>-th pass; \<open>pagesQueried\<close> grows
  by one with every request and the loop stops at \<open>ghPostFilterMaxPages\<close>.
\<close>

function post_filter_loop ::
    "(nat \<Rightarrow> go_error option) \<Rightarrow> gh_api \<Rightarrow> string \<Rightarrow> string \<Rightarrow> PullRequestListOptions \<Rightarrow> string
     \<Rightarrow> int \<Rightarrow> nat \<Rightarrow> int \<Rightarrow> PullRequest list \<Rightarrow> PullRequestsResponse result" where
  "post_filter_loop ctx_err client owner repo opts ghState ghPage pagesQueried skip result =
     (let exhausted = (\<lambda>result. Ok (pr_page_response result
            (go_add (go_mul (go_sub (PRList_Page opts) 1) (PRList_PerPage opts))
               (int (length result))) opts)) in
      case ctx_err pagesQueried of
        Some err \<Rightarrow> Err (Errorf ''failed to list pull requests for %s/%s: %w''
                      [FStr owner, FStr repo, FErr err])
      | None \<Rightarrow>
          if pagesQueried \<ge> ghPostFilterMaxPages then exhausted result
          else
            (case PullRequests_List client pagesQueried owner repo
                    \<lparr>gh_prl_State = ghState, gh_prl_Page = ghPage,
                     gh_prl_PerPage = ghPostFilterPageSize\<rparr> of
               Inl err \<Rightarrow> Err (wrap_pr_error owner repo err)
             | Inr (ghPRs, resp) \<Rightarrow>
                 (case post_filter_page (PRList_State opts) (PRList_PerPage opts) ghPRs skip result of
                    (True, _, result') \<Rightarrow>
                      Ok (pr_page_response result'
                            (go_add (go_mul (PRList_Page opts) (PRList_PerPage opts)) 1) opts)
                  | (False, skip', result') \<Rightarrow>
                      if resp_NextPage resp = 0 then exhausted result'
                      else post_filter_loop ctx_err client owner repo opts ghState
                             (resp_NextPage resp) (Suc pagesQueried) skip' result')))"
  by pat_completeness auto
termination
  by (relation "measure (\<lambda>(_, _, _, _, _, _, _, n, _, _). ghPostFilterMaxPages - n)") auto

declare post_filter_loop.simps [simp del]

text \<open>\<open>make([]T, 0, needed)\<close> panics when the capacity is negative.\<close>

definition listPullRequestsWithPostFilter ::
    "(nat \<Rightarrow> go_error option) \<Rightarrow> gh_api \<Rightarrow> string \<Rightarrow> string \<Rightarrow> PullRequestListOptions \<Rightarrow> string
     \<Rightarrow> PullRequestsResponse result" where
  "listPullRequestsWithPostFilter ctx_err client owner repo opts ghState =
     (if PRList_PerPage opts < 0 then Panic
      else post_filter_loop ctx_err client owner repo opts ghState 1 0
             (go_mul (go_sub (PRList_Page opts) 1) (PRList_PerPage opts)) [])"

definition GitHub_ListPullRequests ::
    "(string \<Rightarrow> gh_api) \<Rightarrow> (nat \<Rightarrow> go_error option) \<Rightarrow> string \<Rightarrow> string \<Rightarrow> GitServerSettings
     \<Rightarrow> PullRequestListOptions \<Rightarrow> PullRequestsResponse result" where
  "GitHub_ListPullRequests NewClient ctx_err owner repo settings opts =
     (let client = NewClient (Settings_Token settings);
          ghState = mapPullRequestStateToGitHub (PRList_State opts)
      in if PRList_State opts = stateMerged \<or> PRList_State opts = stateClosed
         then listPullRequestsWithPostFilter ctx_err client owner repo opts ghState
         else listPullRequestsDirect client owner repo opts ghState)"

text \<open>
  Reference: everything the loop could see if it never stopped early, as a list of events, and
  the page cut out of the matching pull requests among them.
\<close>

function post_filter_events ::
    "(nat \<Rightarrow> go_error option) \<Rightarrow> gh_api \<Rightarrow> string \<Rightarrow> string \<Rightarrow> string \<Rightarrow> int \<Rightarrow> nat
     \<Rightarrow> gh_pull_request list \<times> go_error option" where
  "post_filter_events ctx_err client owner repo ghState ghPage n =
     (case ctx_err n of
        Some err \<Rightarrow> ([], Some (Errorf ''failed to list pull requests for %s/%s: %w''
                      [FStr owner, FStr repo, FErr err]))
      | None \<Rightarrow>
          if n \<ge> ghPostFilterMaxPages then ([], None)
          else
            (case PullRequests_List client n owner repo
                    \<lparr>gh_prl_State = ghState, gh_prl_Page = ghPage,
                     gh_prl_PerPage = ghPostFilterPageSize\<rparr> of
               Inl err \<Rightarrow> ([], Some (wrap_pr_error owner repo err))
             | Inr (ghPRs, resp) \<Rightarrow>
                 if resp_NextPage resp = 0 then (ghPRs, None)
                 else (case post_filter_events ctx_err client owner repo ghState
                              (resp_NextPage resp) (Suc n) of
                         (prs, err) \<Rightarrow> (ghPRs @ prs, err))))"
  by pat_completeness auto
termination
  by (relation "measure (\<lambda>(_, _, _, _, _, _, n). ghPostFilterMaxPages - n)") auto

declare post_filter_events.simps [simp del]

definition post_filter_reference ::
    "PullRequestListOptions \<Rightarrow> gh_pull_request list \<times> go_error option \<Rightarrow> PullRequestsResponse result" where
  "post_filter_reference opts evs =
     (let matching = filter (\<lambda>pr. matchesPullRequestStateFilter pr (PRList_State opts)) (fst evs);
          skip = nat ((PRList_Page opts - 1) * PRList_PerPage opts);
          needed = nat (PRList_PerPage opts)
      in if length matching \<ge> skip + needed
         then Ok (pr_page_response (map convertGitHubPullRequest (take needed (drop skip matching)))
                    (PRList_Page opts * PRList_PerPage opts + 1) opts)
         else case snd evs of
                Some err \<Rightarrow> Err err
              | None \<Rightarrow>
                  Ok (pr_page_response (map convertGitHubPullRequest (drop skip matching))
                        ((PRList_Page opts - 1) * PRList_PerPage opts
                           + int (length (drop skip matching))) opts))"

text \<open>The matching pull requests of a page in the response's form, and how the loop consumes a page.\<close>

definition matching :: "string \<Rightarrow> gh_pull_request list \<Rightarrow> PullRequest list" where
  "matching state prs =
     map convertGitHubPullRequest (filter (\<lambda>pr. matchesPullRequestStateFilter pr state) prs)"

lemma matching_simps [simp]:
  "matching state [] = []"
  "matching state (pr # prs) =
     (if matchesPullRequestStateFilter pr state then convertGitHubPullRequest pr # matching state prs
      else matching state prs)"
  "matching state (prs @ prs') = matching state prs @ matching state prs'"
  by (simp_all add: matching_def)

lemma post_filter_page_spec:
  assumes "length result < nat needed" "in_int64 (int k)"
  shows "post_filter_page state needed prs (int k) result =
     (if length (matching state prs) \<ge> k + (nat needed - length result)
      then (True, 0, result @ take (nat needed - length result) (drop k (matching state prs)))
      else (False, int (k - length (matching state prs)), result @ drop k (matching state prs)))"
  using assms
proof (induction prs arbitrary: k result)
  case (Cons pr prs)
  let ?pr = "convertGitHubPullRequest pr"
  consider (no) "\<not> matchesPullRequestStateFilter pr state"
    | (skip) k' where "matchesPullRequestStateFilter pr state" "k = Suc k'"
    | (last) "matchesPullRequestStateFilter pr state" "k = 0" "nat needed - length result = Suc 0"
    | (more) N where "matchesPullRequestStateFilter pr state" "k = 0"
        "nat needed - length result = Suc (Suc N)"
    using Cons.prems(1) by (metis Suc_diff_Suc not0_implies_Suc)
  then show ?case
  proof cases
    case no
    with Cons show ?thesis by simp
  next
    case skip
    with Cons.prems have "in_int64 (int k')" "go_sub (int k) 1 = int k'"
      by (auto simp: in_int64_def go_arith_id)
    with Cons.IH [OF Cons.prems(1) this(1)] skip show ?thesis by simp
  next
    case last
    then have "needed \<le> int (Suc (length result))" by linarith
    with last show ?thesis by (simp add: Let_def)
  next
    case more
    then have less: "\<not> needed \<le> int (Suc (length result))" and
      N: "nat needed - Suc (length result) = Suc N" by linarith+
    with Cons.IH [of "result @ [?pr]" 0] more show ?thesis
      by (simp add: Let_def in_int64_def)
  qed
qed simp

lemma take_drop_pages:
  assumes "\<not> k + N \<le> length xs" "0 < N"
  shows "k + N \<le> length (xs @ ys) \<longleftrightarrow> k - length xs + (N - length (drop k xs)) \<le> length ys"
    and "take N (drop k (xs @ ys)) =
         drop k xs @ take (N - length (drop k xs)) (drop (k - length xs) ys)"
    and "length (drop k xs) < N"
  using assms by auto

lemma page_bounds:
  assumes "1 \<le> (p::int)" "1 \<le> q" "in_int64 (p * q + 1)"
  shows "go_add (go_mul p q) 1 = p * q + 1"
    and "go_mul (go_sub p 1) q = (p - 1) * q"
    and "0 \<le> l \<Longrightarrow> l \<le> q \<Longrightarrow> go_add (go_mul (go_sub p 1) q) l = (p - 1) * q + l"
    and "in_int64 ((p - 1) * q)" and "0 \<le> (p - 1) * q"
proof -
  define m r where "m = p * q" and "r = (p - 1) * q"
  have le: "p \<le> m" "0 \<le> r" "r + q = m"
    using assms by (simp_all add: m_def r_def algebra_simps mult_le_cancel_left1 mult_le_cancel_right1)
  have bounds: "in_int64 (p - 1)" "in_int64 m" "in_int64 r" "in_int64 (m + 1)"
    using assms le by (auto simp: in_int64_def simp flip: m_def)
  have mul: "go_mul p q = m" and sub: "go_mul (go_sub p 1) q = r"
    using bounds by (simp_all add: go_arith_id m_def r_def)
  have "go_add m 1 = m + 1" using bounds by (simp add: go_arith_id)
  with mul show "go_add (go_mul p q) 1 = p * q + 1" by (simp add: m_def)
  from sub show "go_mul (go_sub p 1) q = (p - 1) * q" by (simp add: r_def)
  from bounds show "in_int64 ((p - 1) * q)" by (simp add: r_def)
  from le show "0 \<le> (p - 1) * q" by (simp add: r_def)
  assume "0 \<le> l" "l \<le> q"
  with le bounds have "in_int64 (r + l)" by (auto simp: in_int64_def)
  then show "go_add (go_mul (go_sub p 1) q) l = (p - 1) * q + l"
    unfolding sub by (simp add: go_arith_id r_def)
qed

definition page_of :: "PullRequestListOptions \<Rightarrow> nat \<Rightarrow> PullRequest list
    \<Rightarrow> PullRequest list \<Rightarrow> go_error option \<Rightarrow> PullRequestsResponse result" where
  "page_of opts k result ms err =
    (let N = nat (PRList_PerPage opts) - length result in
     if length ms \<ge> k + N
     then Ok (pr_page_response (result @ take N (drop k ms))
                (PRList_Page opts * PRList_PerPage opts + 1) opts)
     else case err of
            Some e \<Rightarrow> Err e
          | None \<Rightarrow> Ok (pr_page_response (result @ drop k ms)
              ((PRList_Page opts - 1) * PRList_PerPage opts + int (length (result @ drop k ms))) opts))"

lemma page_of_append:
  assumes "length ms < k + (nat (PRList_PerPage opts) - length result)"
    and "length result < nat (PRList_PerPage opts)"
  shows "page_of opts k result (ms @ ms') err =
         page_of opts (k - length ms) (result @ drop k ms) ms' err"
    and "length (result @ drop k ms) < nat (PRList_PerPage opts)"
proof -
  let ?N = "nat (PRList_PerPage opts) - length result"
  have "\<not> k + ?N \<le> length ms" "0 < ?N" using assms by auto
  note tdp = take_drop_pages [OF this]
  have N: "nat (PRList_PerPage opts) - length (result @ drop k ms) = ?N - length (drop k ms)"
    by simp
  from tdp(3) assms(2) show "length (result @ drop k ms) < nat (PRList_PerPage opts)" by simp
  show "page_of opts k result (ms @ ms') err =
         page_of opts (k - length ms) (result @ drop k ms) ms' err"
    unfolding page_of_def Let_def N tdp(1) [of ms'] tdp(2) [of ms'] by (simp split: option.split)
qed

lemma post_filter_loop_spec:
  assumes opts: "1 \<le> PRList_Page opts" "1 \<le> PRList_PerPage opts"
      "in_int64 (PRList_Page opts * PRList_PerPage opts + 1)"
    and "length result < nat (PRList_PerPage opts)" "in_int64 (int k)"
  shows "post_filter_loop ctx_err client owner repo opts ghState ghPage n (int k) result =
    (case post_filter_events ctx_err client owner repo ghState ghPage n of
       (prs, err) \<Rightarrow> page_of opts k result (matching (PRList_State opts) prs) err)"
  using assms(4-)
proof (induction ctx_err client owner repo ghState ghPage n arbitrary: k result
    rule: post_filter_events.induct)
  case (1 ctx_err client owner repo ghState ghPage n)
  note bounds = page_bounds [OF opts]
  note unf = post_filter_loop.simps [of ctx_err client owner repo opts ghState ghPage n]
    post_filter_events.simps [of ctx_err client owner repo ghState ghPage n]
  let ?req = "PullRequests_List client n owner repo
    \<lparr>gh_prl_State = ghState, gh_prl_Page = ghPage, gh_prl_PerPage = ghPostFilterPageSize\<rparr>"
  have exhausted: "page_of opts k result ms None = Ok (pr_page_response (result @ drop k ms)
      (go_add (go_mul (go_sub (PRList_Page opts) 1) (PRList_PerPage opts))
         (int (length (result @ drop k ms)))) opts)"
    if "length ms < k + (nat (PRList_PerPage opts) - length result)" for ms
    using that 1(2) opts bounds(3) [of "int (length (result @ drop k ms))"]
    by (auto simp: page_of_def Let_def)
  consider (ctx) e where "ctx_err n = Some e" | (stop) "ctx_err n = None" "n \<ge> ghPostFilterMaxPages"
    | (fail) e where "ctx_err n = None" "n < ghPostFilterMaxPages" "?req = Inl e"
    | (page) prs resp where "ctx_err n = None" "\<not> n \<ge> ghPostFilterMaxPages" "?req = Inr (prs, resp)"
    by (cases "ctx_err n"; cases "ghPostFilterMaxPages \<le> n"; cases ?req) (auto simp: not_le)
  then show ?case
  proof cases
    case page
    let ?ms = "matching (PRList_State opts) prs"
    show ?thesis
    proof (cases "length ?ms \<ge> k + (nat (PRList_PerPage opts) - length result)")
      case True
      then have full: "page_of opts k result (?ms @ ms') err = Ok (pr_page_response
          (result @ take (nat (PRList_PerPage opts) - length result) (drop k ?ms))
          (go_add (go_mul (PRList_Page opts) (PRList_PerPage opts)) 1) opts)"
        for ms' err using 1(2) bounds(1) by (auto simp: page_of_def Let_def)
      show ?thesis
        using page True unf post_filter_page_spec [OF 1(2,3), of "PRList_State opts" prs]
          full [of "[]"] full
        by (auto simp: Let_def split: prod.splits)
    next
      case False
      note app = page_of_append [where ms = ?ms and k = k, OF _ 1(2)]
      have "in_int64 (int (k - length ?ms))" using 1(3) by (auto simp: in_int64_def)
      note IH = 1(1) [OF page refl _ app(2) this]
      show ?thesis
        using page False unf post_filter_page_spec [OF 1(2,3), of "PRList_State opts" prs]
          IH exhausted [of ?ms] app(1)
        by (auto simp: Let_def split: prod.splits)
    qed
  qed (use unf 1(2) opts exhausted [of "[]"] in
      \<open>simp_all add: Let_def page_of_def split: prod.splits\<close>)
qed

lemma post_filter_page_cut:
  assumes "1 \<le> PRList_Page opts" "1 \<le> PRList_PerPage opts"
    "in_int64 (PRList_Page opts * PRList_PerPage opts + 1)"
  shows "listPullRequestsWithPostFilter ctx_err client owner repo opts ghState =
    post_filter_reference opts (post_filter_events ctx_err client owner repo ghState 1 0)"
proof -
  let ?k = "nat ((PRList_Page opts - 1) * PRList_PerPage opts)"
  note bounds = page_bounds [OF assms]
  then have k: "in_int64 (int ?k)" "go_mul (go_sub (PRList_Page opts) 1) (PRList_PerPage opts) = int ?k"
    by simp_all
  have pos: "length [] < nat (PRList_PerPage opts)" using assms(2) by simp
  show ?thesis
    using post_filter_loop_spec [OF assms pos k(1)] assms(2) k(2)
    by (simp add: listPullRequestsWithPostFilter_def post_filter_reference_def page_of_def
        matching_def Let_def take_map drop_map del: int_nat_eq split: prod.split option.split)
qed

section \<open>Properties\<close>

text \<open>
  A server that numbers its pages from 1 (page 0 means page 1) and names the next page until the
  last.  And a client for the examples: it answers the \<open>n\<close>-th request for pull requests with the \<open>n\<close>-th of a
  list of pages and knows the repositories and branches given.
\<close>

definition demo_pr :: "int \<Rightarrow> bool \<Rightarrow> gh_pull_request" where
  "demo_pr n merged =
     \<lparr>gh_pr_ID = Some n, gh_pr_Number = Some n, gh_pr_Title = Some ''t'', gh_pr_State = Some ''closed'',
      gh_pr_Body = None, gh_pr_HTMLURL = None, gh_pr_Head = None, gh_pr_Base = None,
      gh_pr_MergedAt = (if merged then Some zero_time else None), gh_pr_CreatedAt = None,
      gh_pr_UpdatedAt = None, gh_pr_Draft = None, gh_pr_User = None\<rparr>"

definition numbered_pages :: "'a list list \<Rightarrow> 'a gh_fetch" where
  "numbered_pages pages n opt =
     (let i = nat (max 1 (gh_Page opt) - 1) in
      Inr (pages ! i,
        \<lparr>resp_NextPage = (if i + 1 < length pages then int i + 2 else 0), resp_LastPage = 0\<rparr>))"

definition demo_github ::
    "gh_pull_request list list \<Rightarrow> gh_repository option list list \<Rightarrow> gh_branch list list \<Rightarrow> string \<Rightarrow> gh_api" where
  "demo_github prs repos branches token =
     \<lparr>Repositories_Get = (\<lambda>_ _. Inl (GitHubErrorResponse 404 ''none'')),
      Organizations_Get = (\<lambda>_. None),
      Repositories_ListByOrg = (\<lambda>_. numbered_pages repos),
      Repositories_ListByUser = (\<lambda>_. numbered_pages repos),
      Users_Get = (\<lambda>_. Inl (ErrorString ''x'')),
      Organizations_ListOrgMemberships = (\<lambda>_. numbered_pages [[]]),
      Repositories_ListBranches = (\<lambda>_ _. numbered_pages branches),
      PullRequests_List = (\<lambda>n _ _ opts.
        Inr (prs ! n, \<lparr>resp_NextPage = (if Suc n < length prs then int n + 2 else 0),
                       resp_LastPage = 0\<rparr>)),
      Actions_ListRepositoryWorkflowRuns = (\<lambda>_ _ _. Inl (ErrorString ''x''))\<rparr>"

definition github_settings :: GitServerSettings where
  "github_settings = \<lparr>Settings_Url = [], Settings_Token = ''t'', Settings_GitProvider = ''github'',
     Settings_GitServerName = ''gh''\<rparr>"

text \<open>C1: The page of merged or closed pull requests.  For every page number and size of at least one (and
  small enough not to overflow), the filtered listing that GitHub cannot do itself is exactly the
  page cut out of all matching pull requests that the (at most 50) requests of 100 can see: the
  requested slice when it is full, whatever error would come later; otherwise the rest of the
  matches, or the error that ended the search.\<close>

theorem github_post_filtered_page:
  assumes "PRList_State opts = ''merged'' \<or> PRList_State opts = ''closed''"
    and "1 \<le> PRList_Page opts" "1 \<le> PRList_PerPage opts"
    and "in_int64 (PRList_Page opts * PRList_PerPage opts + 1)"
  shows "GitHub_ListPullRequests NewClient ctx_err owner repo settings opts =
    post_filter_reference opts
      (post_filter_events ctx_err (NewClient (Settings_Token settings)) owner repo ''closed'' 1 0)"
proof -
  have "mapPullRequestStateToGitHub (PRList_State opts) = ''closed''"
    using assms(1) by (auto simp: mapPullRequestStateToGitHub_def pr_states)
  with assms(1) post_filter_page_cut [OF assms(2-4)] show ?thesis
    by (simp add: GitHub_ListPullRequests_def pr_states Let_def)
qed

lemma github_post_filtered_page_witness:
  "GitHub_ListPullRequests (demo_github [[demo_pr 1 False, demo_pr 2 True], [demo_pr 3 True]] [] [])
     (\<lambda>_. None) ''o'' ''r'' github_settings
     \<lparr>PRList_State = ''merged'', PRList_Page = 2, PRList_PerPage = 1\<rparr> =
   Ok (pr_page_response [convertGitHubPullRequest (demo_pr 3 True)] 3
         \<lparr>PRList_State = ''merged'', PRList_Page = 2, PRList_PerPage = 1\<rparr>)"
  using github_post_filtered_page [of "\<lparr>PRList_State = ''merged'', PRList_Page = 2, PRList_PerPage = 1\<rparr>"
      "demo_github [[demo_pr 1 False, demo_pr 2 True], [demo_pr 3 True]] [] []" "\<lambda>_. None" "''o''" "''r''"
      github_settings]
  by (simp add: go_simps post_filter_events.simps demo_github_def ghPostFilterMaxPages_def
      post_filter_reference_def matchesPullRequestStateFilter_def demo_pr_def pr_states)

lemma post_filter_loop_cong:
  assumes "\<And>n. n < ghPostFilterMaxPages \<Longrightarrow> PullRequests_List client n = PullRequests_List client' n"
  shows "post_filter_loop ctx_err client owner repo opts ghState ghPage n skip result =
    post_filter_loop ctx_err client' owner repo opts ghState ghPage n skip result"
  using assms
proof (induction ctx_err client owner repo opts ghState ghPage n skip result
    rule: post_filter_loop.induct)
  case (1 ctx_err client owner repo opts ghState ghPage n skip result)
  note unf = post_filter_loop.simps [of ctx_err client owner repo opts ghState ghPage n skip result]
    post_filter_loop.simps [of ctx_err client' owner repo opts ghState ghPage n skip result]
  let ?req = "\<lparr>gh_prl_State = ghState, gh_prl_Page = ghPage, gh_prl_PerPage = ghPostFilterPageSize\<rparr>"
  show ?case
  proof (cases "ctx_err n = None \<and> \<not> n \<ge> ghPostFilterMaxPages")
    case True
    then have same: "PullRequests_List client' n owner repo ?req = PullRequests_List client n owner repo ?req"
      using 1(2) by simp
    show ?thesis
    proof (cases "PullRequests_List client n owner repo ?req")
      case (Inl e)
      with True same show ?thesis by (simp add: unf)
    next
      case (Inr p)
      obtain prs resp where p: "p = (prs, resp)" by (cases p)
      obtain full skip' result' where page: "post_filter_page (PRList_State opts) (PRList_PerPage opts)
          prs skip result = (full, skip', result')" by (metis prod_cases3)
      show ?thesis
      proof (cases "\<not> full \<and> resp_NextPage resp \<noteq> 0")
        case cont: True
        then have "full = False" "resp_NextPage resp \<noteq> 0" by simp_all
        note IH = 1(1) [OF refl conjunct1 [OF True] conjunct2 [OF True] Inr p [symmetric]
            page [symmetric] this(1) refl this(2) 1(2)]
        with True Inr p page cont same show ?thesis by (simp add: unf)
      qed (use True Inr p page same in \<open>auto simp: unf\<close>)
    qed
  qed (auto simp: unf split: option.split)
qed

lemma post_filter_events_all:
  assumes "\<And>n owner repo req prs resp pr.
      PullRequests_List client n owner repo req = Inr (prs, resp) \<Longrightarrow>
      gh_prl_State req = ghState \<Longrightarrow> pr \<in> set prs \<Longrightarrow> P pr"
  shows "pr \<in> set (fst (post_filter_events ctx_err client owner repo ghState ghPage n)) \<Longrightarrow> P pr"
  using assms
proof (induction ctx_err client owner repo ghState ghPage n rule: post_filter_events.induct)
  case (1 ctx_err client owner repo ghState ghPage n)
  note unf = post_filter_events.simps [of ctx_err client owner repo ghState ghPage n]
  let ?req = "\<lparr>gh_prl_State = ghState, gh_prl_Page = ghPage, gh_prl_PerPage = ghPostFilterPageSize\<rparr>"
  show ?case
  proof (cases "ctx_err n = None \<and> \<not> n \<ge> ghPostFilterMaxPages")
    case True
    show ?thesis
    proof (cases "PullRequests_List client n owner repo ?req")
      case (Inl e)
      with True 1(2) show ?thesis by (simp add: unf)
    next
      case (Inr p)
      obtain prs resp where p: "p = (prs, resp)" by (cases p)
      have here: "P pr" if "pr \<in> set prs" using 1(3) [OF Inr [unfolded p]] that by simp
      show ?thesis
        using 1 True Inr p here by (auto simp: unf split: if_splits prod.splits)
    qed
  qed (use 1(2) in \<open>auto simp: unf split: option.splits\<close>)
qed

text \<open>C23: The number of requests of a pull request listing.  Two clients that answer the first 50 requests
  alike give the same result, error or listing, for every state, page and page size: no request
  beyond the 50th is ever made.\<close>

theorem github_at_most_50_requests:
  assumes "\<forall>n < 50. PullRequests_List client n = PullRequests_List client' n"
  shows "GitHub_ListPullRequests (\<lambda>_. client) ctx_err owner repo settings opts =
         GitHub_ListPullRequests (\<lambda>_. client') ctx_err owner repo settings opts"
proof -
  have same: "\<And>n. n < ghPostFilterMaxPages \<Longrightarrow> PullRequests_List client n = PullRequests_List client' n"
    and "PullRequests_List client 0 = PullRequests_List client' 0"
    using assms by (simp_all add: ghPostFilterMaxPages_def)
  with post_filter_loop_cong [OF same] show ?thesis
    by (simp add: GitHub_ListPullRequests_def listPullRequestsWithPostFilter_def
        listPullRequestsDirect_def Let_def)
qed

lemma github_at_most_50_requests_witness:
  "GitHub_ListPullRequests (\<lambda>_. demo_github (replicate 50 [] @ [[demo_pr 1 True]]) [] [] [])
     (\<lambda>_. None) ''o'' ''r'' github_settings \<lparr>PRList_State = ''merged'', PRList_Page = 1, PRList_PerPage = 1\<rparr> =
   GitHub_ListPullRequests (\<lambda>_. (demo_github (replicate 50 [] @ [[demo_pr 1 True]]) [] [] [])
       \<lparr>PullRequests_List := \<lambda>n _ _ _. if n < 50 then Inr ([], \<lparr>resp_NextPage = int n + 2, resp_LastPage = 0\<rparr>)
                                      else Inl ErrNotFound\<rparr>)
     (\<lambda>_. None) ''o'' ''r'' github_settings \<lparr>PRList_State = ''merged'', PRList_Page = 1, PRList_PerPage = 1\<rparr>"
  by (rule github_at_most_50_requests) (simp add: demo_github_def nth_append)

text \<open>C22: What a merged or closed listing contains.  Against a GitHub that answers a request for closed pull
  requests with closed ones only, every pull request of the response has the state the caller asked
  for, and there are no more of them than the page size.\<close>

theorem github_filtered_states:
  assumes "PRList_State opts = ''merged'' \<or> PRList_State opts = ''closed''"
    and "1 \<le> PRList_Page opts" "1 \<le> PRList_PerPage opts"
    and "in_int64 (PRList_Page opts * PRList_PerPage opts + 1)"
    and "\<And>n owner repo req prs resp pr.
           PullRequests_List client n owner repo req = Inr (prs, resp) \<Longrightarrow>
           gh_prl_State req = ''closed'' \<Longrightarrow> pr \<in> set prs \<Longrightarrow> gh_pr_State pr = Some ''closed''"
    and "GitHub_ListPullRequests (\<lambda>_. client) ctx_err owner repo settings opts = Ok resp"
  shows "length (PullRequestsResponse_Data resp) \<le> nat (PRList_PerPage opts) \<and>
    (\<forall>pr \<in> set (PullRequestsResponse_Data resp). PullRequest_State pr =
       (if PRList_State opts = ''merged'' then PullRequestStateMerged else PullRequestStateClosed))"
proof -
  let ?events = "post_filter_events ctx_err client owner repo ''closed'' 1 0"
  let ?ms = "filter (\<lambda>pr. matchesPullRequestStateFilter pr (PRList_State opts)) (fst ?events)"
  let ?state = "if PRList_State opts = ''merged'' then PullRequestStateMerged else PullRequestStateClosed"
  have "GitHub_ListPullRequests (\<lambda>_. client) ctx_err owner repo settings opts =
      post_filter_reference opts ?events"
    using assms(1) post_filter_page_cut [OF assms(2-4)]
    by (auto simp: GitHub_ListPullRequests_def mapPullRequestStateToGitHub_def pr_states Let_def)
  with assms(6) have resp: "post_filter_reference opts ?events = Ok resp" by simp
  then have "set (PullRequestsResponse_Data resp) \<subseteq> convertGitHubPullRequest ` set ?ms"
    by (auto simp: post_filter_reference_def pr_page_response_def Let_def
        dest!: in_set_takeD in_set_dropD split: if_splits option.splits)
  moreover have "PullRequest_State (convertGitHubPullRequest pr) = ?state" if "pr \<in> set ?ms" for pr
  proof -
    have "gh_pr_State pr = Some ''closed''"
      using that post_filter_events_all [of client "''closed''" "\<lambda>pr. gh_pr_State pr = Some ''closed''",
          OF assms(5)] by auto
    with that assms(1) show ?thesis
      by (auto simp: convertGitHubPullRequest_def matchesPullRequestStateFilter_def pr_states)
  qed
  moreover have "length (PullRequestsResponse_Data resp) \<le> nat (PRList_PerPage opts)"
    using resp by (auto simp: post_filter_reference_def pr_page_response_def Let_def
        split: if_splits option.splits)
  ultimately show ?thesis by blast
qed

lemma github_filtered_states_witness:
  "PullRequest_State (convertGitHubPullRequest (demo_pr 2 True)) = PullRequestStateMerged"
proof -
  let ?opts = "\<lparr>PRList_State = ''merged'', PRList_Page = 1, PRList_PerPage = 2\<rparr>"
  let ?client = "(demo_github [] [] [] [])
    \<lparr>PullRequests_List := \<lambda>_ _ _ _. Inr ([demo_pr 1 False, demo_pr 2 True],
       \<lparr>resp_NextPage = 0, resp_LastPage = 0\<rparr>)\<rparr>"
  let ?resp = "pr_page_response [convertGitHubPullRequest (demo_pr 2 True)] 1 ?opts"
  have run: "GitHub_ListPullRequests (\<lambda>_. ?client) (\<lambda>_. None) ''o'' ''r'' github_settings ?opts = Ok ?resp"
    by (simp add: GitHub_ListPullRequests_def mapPullRequestStateToGitHub_def pr_states Let_def
        listPullRequestsWithPostFilter_def post_filter_loop.simps ghPostFilterMaxPages_def
        matchesPullRequestStateFilter_def demo_pr_def go_arith_id in_int64_def)
  have "gh_pr_State pr = Some ''closed''"
    if "PullRequests_List ?client n owner repo req = Inr (prs, resp)" "pr \<in> set prs"
    for n owner repo req prs resp pr
    using that by (auto simp: demo_pr_def)
  from github_filtered_states [of ?opts ?client, OF _ _ _ _ this run]
  have "\<forall>pr \<in> set (PullRequestsResponse_Data ?resp). PullRequest_State pr = PullRequestStateMerged"
    by (simp add: in_int64_def)
  then show ?thesis by (simp add: pr_page_response_def)
qed

text \<open>Listing repositories with a name filter.  When the pages hold the repositories \<open>repos\<close> (none of
  them nil), the result is exactly those whose lower-cased name contains the lower-cased filter as a
  substring, all of them without a filter, converted and in the order of the pages.\<close>

theorem github_repositories_filtered:
  assumes "repository_events owner (NewClient (Settings_Token settings)) = Some (map (Inr \<circ> Some) repos)"
  shows "GitHub_ListRepositories NewClient uni owner settings opt =
    Some (Ok (map (\<lambda>r. the (convertGitHubRepoToRepository (Some r)))
      (filter (\<lambda>r. case ListOptions_Name opt of
                 None \<Rightarrow> True
               | Some n \<Rightarrow> sublist (strings_ToLower uni n)
                            (strings_ToLower uni (ValueOrEmpty [] (gh_repo_Name r)))) repos)))"
proof -
  let ?keep = "\<lambda>r. case ListOptions_Name opt of None \<Rightarrow> True
    | Some n \<Rightarrow> sublist (strings_ToLower uni n) (strings_ToLower uni (ValueOrEmpty [] (gh_repo_Name r)))"
  have keep: "name_matches uni opt (Some r) = ?keep r" for r
    by (simp add: name_matches_def strings_Contains_sublist split: option.split)
  have "filter_events uni opt (map (Inr \<circ> Some) repos @ []) =
      map Inr (filter (name_matches uni opt) (map Some repos)) @ []"
    unfolding map_map [symmetric] filter_events_items by simp
  then have "map_option (filter_events uni opt)
      (repository_events owner (NewClient (Settings_Token settings))) =
    Some (map Inr (map Some (filter ?keep repos)))"
    by (simp add: assms filter_map comp_def keep)
  then have events: "(case (uni, opt, owner, NewClient (Settings_Token settings)) of
      (uni, opt, owner, client) \<Rightarrow>
        map_option (filter_events uni opt) (repository_events owner client)) =
    Some (map Inr (map Some (filter ?keep repos)))" by simp
  let ?f = "\<lambda>repo. case convertGitHubRepoToRepository repo of None \<Rightarrow> Panic | Some r \<Rightarrow> Ok (Some r)"
  let ?g = "\<lambda>r. the (convertGitHubRepoToRepository r)"
  have "?f x = Ok (Some (?g x))" if "x \<in> set (map Some (filter ?keep repos))" for x
    using that by (auto simp: convertGitHubRepoToRepository_def)
  from repository_list.range_collect_all [OF events this] show ?thesis
    by (simp add: GitHub_ListRepositories_def comp_def)
qed

text \<open>Paging through a server that numbers its pages.\<close>

lemma numbered_pages_events:
  assumes "i < length pages" "nat (max 1 (gh_Page opt) - 1) = i"
  shows "github_events (numbered_pages pages) n opt = Some (map Inr (concat (drop i pages)))"
  using assms
proof (induction "length pages - i" arbitrary: i n opt)
  case (Suc k)
  have page: "numbered_pages pages n opt = Inr (pages ! i,
      \<lparr>resp_NextPage = (if i + 1 < length pages then int i + 2 else 0), resp_LastPage = 0\<rparr>)"
    using Suc.prems by (simp add: numbered_pages_def Let_def)
  show ?case
  proof (cases "i + 1 < length pages")
    case True
    have "github_events (numbered_pages pages) (Suc n) (opt\<lparr>gh_Page := int i + 2\<rparr>) =
        Some (map Inr (concat (drop (i + 1) pages)))"
      using Suc.hyps Suc.prems True by (intro Suc.hyps(1)) auto
    with True page Suc.prems show ?thesis
      by (simp add: github_events.simps [of _ n] Cons_nth_drop_Suc [symmetric])
  next
    case False
    with page Suc.prems show ?thesis
      by (simp add: github_events.simps [of _ n] Cons_nth_drop_Suc [symmetric])
  qed
qed simp

text \<open>Listing branches follows all pages.  Against a server that numbers its pages and names the next
  page until the last, the listing ends and gives the branches of all pages in order, each once.\<close>

theorem github_branches_all_pages:
  assumes "Repositories_ListBranches (NewClient (Settings_Token settings)) owner repo = numbered_pages pages"
    and "pages \<noteq> []"
  shows "GitHub_ListBranches NewClient owner repo settings opts =
    Some (Ok (map (\<lambda>b. \<lparr>Branch_Name = ValueOrEmpty [] (gh_branch_Name b)\<rparr>) (concat pages)))"
proof -
  have "github_events (numbered_pages pages) 0 \<lparr>gh_Page = 0, gh_PerPage = 100\<rparr> =
      Some (map Inr (concat pages))"
    using numbered_pages_events [of 0 pages "\<lparr>gh_Page = 0, gh_PerPage = 100\<rparr>"] assms(2) by simp
  then show ?thesis
    using github_list.range_collect_all [where src = "(numbered_pages pages, [])" and xs = "concat pages"
        and f = "\<lambda>b. Ok (Some \<lparr>Branch_Name = ValueOrEmpty [] (gh_branch_Name b)\<rparr>)"
        and g = "\<lambda>b. \<lparr>Branch_Name = ValueOrEmpty [] (gh_branch_Name b)\<rparr>"]
    by (simp add: GitHub_ListBranches_def assms(1))
qed

definition demo_github_repo :: gh_repository where
  "demo_github_repo =
     \<lparr>gh_repo_ID = Some 1, gh_repo_Name = Some ''my-TOOL'', gh_repo_Owner = None,
      gh_repo_HTMLURL = None, gh_repo_DefaultBranch = None, gh_repo_Description = None,
      gh_repo_Private = None\<rparr>"

lemma github_repositories_filtered_witness:
  "GitHub_ListRepositories (demo_github [] [[Some demo_github_repo]] []) (\<lambda>s. s) ''o'' github_settings
     \<lparr>ListOptions_Name = Some ''Tool''\<rparr> =
   Some (Ok [the (convertGitHubRepoToRepository (Some demo_github_repo))])"
proof -
  have "repository_events ''o'' (demo_github [] [[Some demo_github_repo]] []
      (Settings_Token github_settings)) = Some (map (Inr \<circ> Some) [demo_github_repo])"
    by (simp add: repository_events_def demo_github_def github_events.simps numbered_pages_def)
  note eq = github_repositories_filtered [where NewClient = "demo_github [] [[Some demo_github_repo]] []"
      and settings = github_settings and repos = "[demo_github_repo]", OF this,
      of "\<lambda>s. s" "\<lparr>ListOptions_Name = Some ''Tool''\<rparr>"]
  have "sublist (strings_ToLower (\<lambda>s. s) ''Tool'') (strings_ToLower (\<lambda>s. s) ''my-TOOL'')"
    unfolding strings_Contains_sublist [symmetric] by code_simp
  moreover have "gh_repo_Name demo_github_repo = Some ''my-TOOL''"
    by (simp add: demo_github_repo_def)
  ultimately show ?thesis by (simp add: eq)
qed

lemma github_branches_all_pages_witness:
  "GitHub_ListBranches (demo_github [] [] [[\<lparr>gh_branch_Name = Some ''a''\<rparr>], [\<lparr>gh_branch_Name = Some ''b''\<rparr>]])
     ''o'' ''r'' github_settings \<lparr>ListOptions_Name = None\<rparr> =
   Some (Ok [\<lparr>Branch_Name = ''a''\<rparr>, \<lparr>Branch_Name = ''b''\<rparr>])"
  using github_branches_all_pages [of
      "demo_github [] [] [[\<lparr>gh_branch_Name = Some ''a''\<rparr>], [\<lparr>gh_branch_Name = Some ''b''\<rparr>]]"
      github_settings "''o''" "''r''" "[[\<lparr>gh_branch_Name = Some ''a''\<rparr>], [\<lparr>gh_branch_Name = Some ''b''\<rparr>]]"]
  by (simp add: demo_github_def)

text \<open>Error classes of the GitHub provider, on the repository call.  When the library fails (with an error
  that is none of the program's own sentinels), the returned error is a "not found" exactly for an
  error response with status 404 anywhere in the chain, an "unauthorized" exactly for status 401.\<close>

theorem github_repository_error_classes:
  assumes "Repositories_Get (NewClient (Settings_Token settings)) owner repo = Inl err"
    and "\<not> errors_Is err ErrNotFound" "\<not> errors_Is err ErrUnauthorized"
  shows "\<exists>e. GitHub_GetRepository NewClient owner repo settings = Err e \<and>
    (errors_Is e ErrNotFound \<longleftrightarrow> as_GitHubErrorResponse (error_chain err) = Some 404) \<and>
    (errors_Is e ErrUnauthorized \<longleftrightarrow> as_GitHubErrorResponse (error_chain err) = Some 401)"
  using assms(2,3)
  by (auto simp: GitHub_GetRepository_def assms(1) wrap_github_def classifyGitHubError_def errors_Is_def
      split: option.split)

lemma github_repository_error_classes_witness:
  "\<exists>e. GitHub_GetRepository (demo_github [] [] []) ''o'' ''r'' github_settings = Err e \<and>
       errors_Is e ErrNotFound"
  using github_repository_error_classes [of "demo_github [] [] []" github_settings "''o''" "''r''"
      "GitHubErrorResponse 404 ''none''"]
  by (simp add: demo_github_def errors_Is_def) blast

text \<open>C35: The total of a full filtered page.  A full page reports one more than the matches up to its end
  whether or not another match exists: when the matching pull requests seen are exactly those up to
  the end of the page, the total is one more than there are.\<close>

theorem github_full_page_total:
  assumes "PRList_State opts = ''merged'' \<or> PRList_State opts = ''closed''"
    and "1 \<le> PRList_Page opts" "1 \<le> PRList_PerPage opts"
    and "in_int64 (PRList_Page opts * PRList_PerPage opts + 1)"
    and "post_filter_events ctx_err (NewClient (Settings_Token settings)) owner repo ''closed'' 1 0 =
           (prs, None)"
    and "int (length (filter (\<lambda>pr. matchesPullRequestStateFilter pr (PRList_State opts)) prs)) =
           PRList_Page opts * PRList_PerPage opts"
  shows "\<exists>resp. GitHub_ListPullRequests NewClient ctx_err owner repo settings opts = Ok resp \<and>
    Pagination_Total (PullRequestsResponse_Pagination resp) =
      int (length (filter (\<lambda>pr. matchesPullRequestStateFilter pr (PRList_State opts)) prs)) + 1"
proof -
  have "nat ((PRList_Page opts - 1) * PRList_PerPage opts) + nat (PRList_PerPage opts) =
      nat (PRList_Page opts * PRList_PerPage opts)"
    using page_bounds(5) [OF assms(2-4)] assms(3)
    by (simp add: nat_add_distrib [symmetric] algebra_simps)
  moreover have "GitHub_ListPullRequests NewClient ctx_err owner repo settings opts =
      post_filter_reference opts (prs, None)"
    using assms(1) post_filter_page_cut [OF assms(2-4)]
    by (auto simp: GitHub_ListPullRequests_def mapPullRequestStateToGitHub_def pr_states Let_def assms(5))
  moreover have "length (filter (\<lambda>pr. matchesPullRequestStateFilter pr (PRList_State opts)) prs) =
      nat (PRList_Page opts * PRList_PerPage opts)"
    by (simp add: assms(6) [symmetric])
  ultimately show ?thesis
    using assms(6) by (simp add: post_filter_reference_def Let_def pr_page_response_def)
qed

lemma github_full_page_total_witness:
  "\<exists>resp. GitHub_ListPullRequests (demo_github [[demo_pr 1 True]] [] []) (\<lambda>_. None) ''o'' ''r''
       github_settings \<lparr>PRList_State = ''merged'', PRList_Page = 1, PRList_PerPage = 1\<rparr> = Ok resp \<and>
     Pagination_Total (PullRequestsResponse_Pagination resp) = 2"
  using github_full_page_total [of "\<lparr>PRList_State = ''merged'', PRList_Page = 1, PRList_PerPage = 1\<rparr>"
      "\<lambda>_. None" "demo_github [[demo_pr 1 True]] [] []" github_settings "''o''" "''r''" "[demo_pr 1 True]"]
  by (simp add: go_simps post_filter_events.simps demo_github_def ghPostFilterMaxPages_def
      matchesPullRequestStateFilter_def demo_pr_def pr_states)

end
