(* ===== verification/GitHubPipelines.thy ===== *)
theory GitHubPipelines
  imports GitHub Common
begin

text \<open>
  \<open>internal/services/github/github_pipelines.go\<close>: workflow runs as pipelines.  A string \<open>switch\<close>
  with several labels per case is a chain of membership tests in the order of the source.
\<close>

section \<open>Statuses and sources\<close>

definition ghConclusionSuccess :: string where "ghConclusionSuccess = ''success''"
definition ghConclusionCancelled :: string where "ghConclusionCancelled = ''cancelled''"
definition ghConclusionSkipped :: string where "ghConclusionSkipped = ''skipped''"

lemmas gh_conclusions = ghConclusionSuccess_def ghConclusionCancelled_def ghConclusionSkipped_def

definition normalizeGitHubWorkflowRunStatus :: "string \<Rightarrow> string \<Rightarrow> PipelineStatus" where
  "normalizeGitHubWorkflowRunStatus status conclusion =
     (if status \<in> {''queued'', ''pending'', ''waiting'', ''requested''} then PipelineStatusPending
      else if status = ''in_progress'' then PipelineStatusRunning
      else if status = ''completed'' then
        (if conclusion = ghConclusionSuccess \<or> conclusion = ''neutral'' then PipelineStatusSuccess
         else if conclusion \<in> {''failure'', ''timed_out'', ''startup_failure''}
           then PipelineStatusFailed
         else if conclusion = ghConclusionCancelled then PipelineStatusCancelled
         else if conclusion = ghConclusionSkipped then PipelineStatusSkipped
         else if conclusion = ''action_required'' then PipelineStatusManual
         else if conclusion = ''stale'' then PipelineStatusCancelled
         else PipelineStatusFailed)
      else PipelineStatusPending)"

definition normalizeGitHubWorkflowRunEvent :: "string \<Rightarrow> PipelineSource" where
  "normalizeGitHubWorkflowRunEvent event =
     (if event = ''push'' then PipelineSourcePush
      else if event \<in> {''pull_request'', ''pull_request_target''} then PipelineSourceMergeRequest
      else if event = ''schedule'' then PipelineSourceSchedule
      else if event = ''workflow_dispatch'' then PipelineSourceManual
      else if event \<in> {''repository_dispatch'', ''workflow_call''} then PipelineSourceTrigger
      else PipelineSourceOther)"

definition mapPipelineStatusToGitHub :: "string \<Rightarrow> string option" where
  "mapPipelineStatusToGitHub status =
     (if status = ''pending'' then Some ''queued''
      else if status = ''running'' then Some ''in_progress''
      else if status = ''success'' then Some ghConclusionSuccess
      else if status = ''failed'' then Some ''failure''
      else if status = ''cancelled'' then Some ghConclusionCancelled
      else if status = ''skipped'' then Some ghConclusionSkipped
      else if status = ''manual'' then Some ''action_required''
      else None)"

section \<open>ListPipelines and TriggerPipeline\<close>

definition gh_runs_request :: "PipelineListOptions \<Rightarrow> gh_runs_options" where
  "gh_runs_request opts =
     \<lparr>gh_ro_Branch = (case PLList_Ref opts of None \<Rightarrow> [] | Some ref \<Rightarrow> ref),
      gh_ro_Status =
        (case PLList_Status opts of
           None \<Rightarrow> []
         | Some status \<Rightarrow>
             (case mapPipelineStatusToGitHub status of None \<Rightarrow> [] | Some ghStatus \<Rightarrow> ghStatus)),
      gh_ro_Page = PLList_Page opts,
      gh_ro_PerPage = PLList_PerPage opts\<rparr>"

definition convertWorkflowRun :: "gh_workflow_run \<Rightarrow> Pipeline" where
  "convertWorkflowRun run =
     \<lparr>Pipeline_CreatedAt = ValueOrEmpty zero_time (gh_run_CreatedAt run),
      Pipeline_Id = strconv_Itoa (ValueOrEmpty 0 (gh_run_ID run)),
      Pipeline_ProjectId =
        (case gh_run_Repository run of
           None \<Rightarrow> None
         | Some repository \<Rightarrow>
             if ValueOrEmpty 0 (gh_repo_ID repository) \<noteq> 0
             then Some (strconv_Itoa (ValueOrEmpty 0 (gh_repo_ID repository))) else None),
      Pipeline_Ref = ValueOrEmpty [] (gh_run_HeadBranch run),
      Pipeline_Sha = ValueOrEmpty [] (gh_run_HeadSHA run),
      Pipeline_Source =
        (if ValueOrEmpty [] (gh_run_Event run) \<noteq> []
         then Some (normalizeGitHubWorkflowRunEvent (ValueOrEmpty [] (gh_run_Event run))) else None),
      Pipeline_Status =
        normalizeGitHubWorkflowRunStatus (ValueOrEmpty [] (gh_run_Status run))
          (ValueOrEmpty [] (gh_run_Conclusion run)),
      Pipeline_UpdatedAt = gh_run_UpdatedAt run,
      Pipeline_WebUrl = ValueOrEmpty [] (gh_run_HTMLURL run)\<rparr>"

definition GitHub_ListPipelines ::
    "(string \<Rightarrow> gh_api) \<Rightarrow> string \<Rightarrow> GitServerSettings \<Rightarrow> PipelineListOptions
     \<Rightarrow> PipelinesResponse result" where
  "GitHub_ListPipelines NewClient project settings opts =
     res_bind (SplitProject project) (\<lambda>(owner, repo).
       case Actions_ListRepositoryWorkflowRuns (NewClient (Settings_Token settings)) owner repo
              (gh_runs_request opts) of
         Inl err \<Rightarrow> Err (wrap_github ''project %s: %w'' [FStr project]
                      ''failed to list pipelines for %s: %w'' [FStr project] err)
       | Inr workflowRuns \<Rightarrow>
           Ok \<lparr>PipelinesResponse_Data = map convertWorkflowRun (gh_runs_WorkflowRuns workflowRuns),
               PipelinesResponse_Pagination =
                 \<lparr>Pagination_Page = Some (PLList_Page opts),
                  Pagination_PerPage = Some (PLList_PerPage opts),
                  Pagination_Total = ValueOrEmpty 0 (gh_runs_TotalCount workflowRuns)\<rparr>\<rparr>)"

definition GitHub_TriggerPipeline ::
    "string \<Rightarrow> string \<Rightarrow> PipelineVariable list \<Rightarrow> GitServerSettings \<Rightarrow> PipelineResponse result" where
  "GitHub_TriggerPipeline project ref variables settings =
     Err (Errorf ''trigger pipeline is not supported for GitHub'' [])"

section \<open>The filter and the reported status\<close>

fun github_filter_value :: "PipelineStatus \<Rightarrow> string" where
  "github_filter_value PipelineStatusCancelled = ''cancelled''"
| "github_filter_value PipelineStatusFailed = ''failure''"
| "github_filter_value PipelineStatusManual = ''action_required''"
| "github_filter_value PipelineStatusPending = ''queued''"
| "github_filter_value PipelineStatusRunning = ''in_progress''"
| "github_filter_value PipelineStatusSkipped = ''skipped''"
| "github_filter_value PipelineStatusSuccess = ''success''"

lemma github_filter_value:
  "mapPipelineStatusToGitHub (PipelineStatus_text st) = Some (github_filter_value st)"
  by (cases st) (simp_all add: mapPipelineStatusToGitHub_def gh_conclusions)

lemma github_status_of_filter:
  "normalizeGitHubWorkflowRunStatus ''queued'' conclusion = PipelineStatusPending"
  "normalizeGitHubWorkflowRunStatus ''in_progress'' conclusion = PipelineStatusRunning"
  "normalizeGitHubWorkflowRunStatus ''completed'' ''success'' = PipelineStatusSuccess"
  "normalizeGitHubWorkflowRunStatus ''completed'' ''failure'' = PipelineStatusFailed"
  "normalizeGitHubWorkflowRunStatus ''completed'' ''cancelled'' = PipelineStatusCancelled"
  "normalizeGitHubWorkflowRunStatus ''completed'' ''skipped'' = PipelineStatusSkipped"
  "normalizeGitHubWorkflowRunStatus ''completed'' ''action_required'' = PipelineStatusManual"
  by (simp_all add: normalizeGitHubWorkflowRunStatus_def gh_conclusions)

text \<open>The status filter and the status reported agree for GitHub.  Every one of the seven unified
  statuses has a filter value; a run that GitHub reports under this value (as its status while it is
  queued or in progress, as the conclusion of a completed run otherwise) is normalised back to the
  very status the caller asked for.\<close>

theorem github_status_filter_roundtrip:
  "\<exists>v. mapPipelineStatusToGitHub (PipelineStatus_text st) = Some v \<and>
       normalizeGitHubWorkflowRunStatus
         (if st = PipelineStatusPending \<or> st = PipelineStatusRunning then v else ''completed'') v = st"
proof (intro exI conjI)
  show "mapPipelineStatusToGitHub (PipelineStatus_text st) = Some (github_filter_value st)"
    by (rule github_filter_value)
qed (cases st; simp add: github_status_of_filter)

end
