(* ===== verification/CacheClient.thy ===== *)
theory CacheClient
  imports GoErrors
begin

text \<open>
  The cache client the program gets from the sturdyc library, and the program's two-tier cache on
  top of it (\<open>internal/cache/terminal_aware_cache.go\<close>).

  sturdyc is not part of the repository.  A \<open>Client\<close> is therefore an arbitrary object: a value
  that answers each method call with a result and with the object it has become, and nothing else
  is known of it.  Entries may expire, be evicted or be refreshed between any two calls.  What the
  program relies on is the predicate \<open>client_ok M c\<close>: whatever \<open>c\<close> returns for a key is one of the
  values \<open>M\<close> allows for it.  \<open>assoc_client\<close> is a concrete client that never loses an entry, used
  only to show that the contract can be met.
\<close>

section \<open>sturdyc.Client\<close>

text \<open>
  \<open>GetOrFetch\<close> either serves the key from memory or calls the fetch function; in the second case
  its own answer and the next client depend on what the fetch function returns.
\<close>

datatype (dead 'v, 'c) get_or_fetch =
    Hit 'v 'c
  | Fetch "'v result \<Rightarrow> 'v result \<times> 'c"

codatatype (dead 'v) Client = Client
  (Client_Get: "string \<Rightarrow> 'v option \<times> 'v Client")
  (Client_Set: "string \<Rightarrow> 'v \<Rightarrow> 'v Client")
  (Client_Delete: "string \<Rightarrow> 'v Client")
  (Client_ScanKeys: "string list \<times> 'v Client")
  (Client_GetOrFetch: "string \<Rightarrow> ('v, 'v Client) get_or_fetch")

text \<open>
  The documented behaviour: \<open>Get\<close> returns a stored value or nothing; \<open>Set\<close> replaces the value of
  its key; \<open>Delete\<close> removes the key; every key held is in the snapshot \<open>ScanKeys\<close> returns;
  \<open>GetOrFetch\<close> serves a stored value, or calls the fetch function, stores and returns what it
  fetched, and passes an error on unless it still has a value to serve.
\<close>

coinductive client_ok :: "(string \<Rightarrow> 'v set) \<Rightarrow> 'v Client \<Rightarrow> bool" where
  client_okI: "client_ok M c"
  if "\<And>k v. fst (Client_Get c k) = Some v \<Longrightarrow> v \<in> M k"
    and "\<And>k. client_ok M (snd (Client_Get c k))"
    and "\<And>k v. client_ok (M(k := {v})) (Client_Set c k v)"
    and "\<And>k. client_ok (M(k := {})) (Client_Delete c k)"
    and "client_ok (\<lambda>k. if k \<in> set (fst (Client_ScanKeys c)) then M k else {})
           (snd (Client_ScanKeys c))"
    and "\<And>k v c'. Client_GetOrFetch c k = Hit v c' \<Longrightarrow> v \<in> M k \<and> client_ok M c'"
    and "\<And>k fetched v. Client_GetOrFetch c k = Fetch fetched \<Longrightarrow>
           fst (fetched (Ok v)) = Ok v \<and> client_ok (M(k := {v})) (snd (fetched (Ok v)))"
    and "\<And>k fetched r v. Client_GetOrFetch c k = Fetch fetched \<Longrightarrow> (\<forall>w. r \<noteq> Ok w) \<Longrightarrow>
           (fst (fetched r) = Ok v \<longrightarrow> v \<in> M k) \<and> client_ok M (snd (fetched r))"
    and "\<And>k fetched e. Client_GetOrFetch c k = Fetch fetched \<Longrightarrow> M k = {} \<Longrightarrow>
           fst (fetched (Err e)) = Err e"

lemma client_ok_mono:
  assumes "client_ok M c" "\<And>k. M k \<subseteq> N k"
  shows "client_ok N c"
proof -
  have "\<exists>M. client_ok M c \<and> (\<forall>k. M k \<subseteq> N k)"
    using assms by blast
  then show ?thesis
  proof (coinduction arbitrary: N c)
    case (client_ok N c)
    then obtain M where M: "client_ok M c" "\<And>k. M k \<subseteq> N k" by blast
    let ?W = "\<lambda>N d. \<exists>M'. client_ok M' d \<and> (\<forall>k. M' k \<subseteq> N k)"
    have in_N: "x \<in> M k \<Longrightarrow> x \<in> N k" for x k
      by (rule subsetD [OF M(2)])
    have empty: "N k = {} \<Longrightarrow> M k = {}" for k
      using M(2) [of k] by simp
    have same: "client_ok M d \<Longrightarrow> ?W N d" for d
      by (intro exI [of _ M] conjI allI M(2))
    have upd: "client_ok (M(k := S)) d \<Longrightarrow> ?W (N(k := S)) d" for k S d
      by (intro exI [of _ "M(k := S)"] conjI) (simp_all add: M(2))
    have restrict: "client_ok (\<lambda>k. if k \<in> K then M k else {}) d
        \<Longrightarrow> ?W (\<lambda>k. if k \<in> K then N k else {}) d" for K d
      by (intro exI [of _ "\<lambda>k. if k \<in> K then M k else {}"] conjI) (simp_all add: M(2))
    from M(1) show ?case
    proof (cases rule: client_ok.cases)
      case client_okI
      note ok = client_okI
      show ?thesis
        apply (intro exI [of _ N] exI [of _ c] conjI refl)
        subgoal using ok(1) in_N by blast
        subgoal using same [OF ok(2)] by simp
        subgoal using upd [OF ok(3)] by (simp del: fun_upd_apply)
        subgoal using upd [OF ok(4)] by (simp del: fun_upd_apply)
        subgoal using restrict [OF ok(5)] by simp
        subgoal using ok(6) in_N same by (simp del: fun_upd_apply)
        subgoal using ok(7) upd by (simp del: fun_upd_apply)
        subgoal using ok(8) in_N same by (simp del: fun_upd_apply)
        subgoal using ok(9) empty by (simp del: fun_upd_apply)
        done
    qed
  qed
qed

text \<open>The contract, method by method.\<close>

lemma client_ok_methods:
  assumes "client_ok M c"
  shows client_ok_Get_value: "fst (Client_Get c k) = Some v \<Longrightarrow> v \<in> M k"
    and client_ok_Get: "client_ok M (snd (Client_Get c k))"
    and client_ok_Set: "client_ok (M(k := {v})) (Client_Set c k v)"
    and client_ok_Delete: "client_ok (M(k := {})) (Client_Delete c k)"
    and client_ok_ScanKeys: "client_ok (\<lambda>k. if k \<in> set (fst (Client_ScanKeys c)) then M k else {})
           (snd (Client_ScanKeys c))"
    and client_ok_Hit: "Client_GetOrFetch c k = Hit v c' \<Longrightarrow> v \<in> M k \<and> client_ok M c'"
    and client_ok_Fetch_Ok: "Client_GetOrFetch c k = Fetch fetched \<Longrightarrow>
           fst (fetched (Ok v)) = Ok v \<and> client_ok (M(k := {v})) (snd (fetched (Ok v)))"
    and client_ok_Fetch_fail: "Client_GetOrFetch c k = Fetch fetched \<Longrightarrow> (\<forall>w. r \<noteq> Ok w) \<Longrightarrow>
           (fst (fetched r) = Ok v \<longrightarrow> v \<in> M k) \<and> client_ok M (snd (fetched r))"
    and client_ok_Fetch_Err: "Client_GetOrFetch c k = Fetch fetched \<Longrightarrow> M k = {} \<Longrightarrow>
           fst (fetched (Err e)) = Err e"
  using assms by (auto elim: client_ok.cases)

text \<open>
  The weaker contract of a client with early refreshes.  Such a client calls the fetch function of
  an earlier call again in the background, so all one can say is that it stays within a fixed \<open>M\<close>
  that holds whatever is stored and whatever the fetch functions return.
\<close>

coinductive serves_only :: "(string \<Rightarrow> 'v set) \<Rightarrow> 'v Client \<Rightarrow> bool" where
  serves_onlyI: "serves_only M c"
  if "\<And>k v. fst (Client_Get c k) = Some v \<Longrightarrow> v \<in> M k"
    and "\<And>k. serves_only M (snd (Client_Get c k))"
    and "\<And>k v. v \<in> M k \<Longrightarrow> serves_only M (Client_Set c k v)"
    and "\<And>k. serves_only M (Client_Delete c k)"
    and "serves_only M (snd (Client_ScanKeys c))"
    and "\<And>k v c'. Client_GetOrFetch c k = Hit v c' \<Longrightarrow> v \<in> M k \<and> serves_only M c'"
    and "\<And>k fetched r. Client_GetOrFetch c k = Fetch fetched \<Longrightarrow> (\<forall>v. r = Ok v \<longrightarrow> v \<in> M k) \<Longrightarrow>
           (\<forall>v. fst (fetched r) = Ok v \<longrightarrow> v \<in> M k) \<and> serves_only M (snd (fetched r))"

lemma serves_only_methods:
  assumes "serves_only M c"
  shows serves_only_Get_value: "fst (Client_Get c k) = Some v \<Longrightarrow> v \<in> M k"
    and serves_only_Get: "serves_only M (snd (Client_Get c k))"
    and serves_only_Set: "v \<in> M k \<Longrightarrow> serves_only M (Client_Set c k v)"
    and serves_only_Delete: "serves_only M (Client_Delete c k)"
    and serves_only_ScanKeys: "serves_only M (snd (Client_ScanKeys c))"
    and serves_only_Hit: "Client_GetOrFetch c k = Hit v c' \<Longrightarrow> v \<in> M k \<and> serves_only M c'"
    and serves_only_Fetch: "Client_GetOrFetch c k = Fetch fetched \<Longrightarrow> (\<forall>v. r = Ok v \<longrightarrow> v \<in> M k) \<Longrightarrow>
           (\<forall>v. fst (fetched r) = Ok v \<longrightarrow> v \<in> M k) \<and> serves_only M (snd (fetched r))"
  using assms by (auto elim: serves_only.cases)

text \<open>The full contract gives the weaker one.\<close>

lemma client_ok_serves_only:
  assumes "client_ok M c" "\<And>k. M k \<subseteq> N k"
  shows "serves_only N c"
proof -
  have "client_ok N c" using assms by (rule client_ok_mono)
  then show ?thesis
  proof (coinduction arbitrary: c)
    case (serves_only c)
    have within: "client_ok (N(k := {v})) d \<Longrightarrow> v \<in> N k \<Longrightarrow> client_ok N d" for k v d
      by (erule client_ok_mono) auto
    have fetch: "(\<forall>v. fst (fetched r) = Ok v \<longrightarrow> v \<in> N k) \<and> client_ok N (snd (fetched r))"
      if "Client_GetOrFetch c k = Fetch fetched" "\<forall>v. r = Ok v \<longrightarrow> v \<in> N k" for k fetched r
      using client_ok_Fetch_Ok [OF serves_only that(1)] client_ok_Fetch_fail [OF serves_only that(1), of r]
        that(2) within [of k] by (cases r) auto
    have delete: "client_ok N (Client_Delete c k)" for k
      by (rule client_ok_mono [OF client_ok_Delete [OF serves_only]]) simp
    have scan: "client_ok N (snd (Client_ScanKeys c))"
      by (rule client_ok_mono [OF client_ok_ScanKeys [OF serves_only]]) simp
    show ?case
      apply (intro exI [of _ N] exI [of _ c] conjI refl)
      subgoal using client_ok_Get_value [OF serves_only] by blast
      subgoal using client_ok_Get [OF serves_only] by blast
      subgoal using client_ok_Set [OF serves_only] within by blast
      subgoal using delete by blast
      subgoal using scan by blast
      subgoal using client_ok_Hit [OF serves_only] by blast
      subgoal using fetch by blast
      done
  qed
qed

section \<open>A client that meets the contract\<close>

fun assoc_store :: "string \<Rightarrow> 'v result \<Rightarrow> (string \<times> 'v) list \<Rightarrow> (string \<times> 'v) list" where
  "assoc_store k (Ok v) al = (k, v) # al"
| "assoc_store k r al = al"

lemma assoc_store_fail: "\<forall>w. r \<noteq> Ok w \<Longrightarrow> assoc_store k r al = al"
  by (cases r) auto

primcorec assoc_client :: "(string \<times> 'v) list \<Rightarrow> 'v Client" where
  "Client_Get (assoc_client al) = (\<lambda>k. (map_of al k, assoc_client al))"
| "Client_Set (assoc_client al) = (\<lambda>k v. assoc_client ((k, v) # al))"
| "Client_Delete (assoc_client al) = (\<lambda>k. assoc_client (filter (\<lambda>p. fst p \<noteq> k) al))"
| "Client_ScanKeys (assoc_client al) = (map fst al, assoc_client al)"
| "Client_GetOrFetch (assoc_client al) = (\<lambda>k.
     case map_of al k of
       Some v \<Rightarrow> Hit v (assoc_client al)
     | None \<Rightarrow> Fetch (\<lambda>r. (r, assoc_client (assoc_store k r al))))"

lemma map_of_filter_key: "map_of (filter (\<lambda>p. fst p \<noteq> k) al) = (map_of al)(k := None)"
  by (induction al) (auto simp: fun_eq_iff)

lemma assoc_client_ok: "client_ok (\<lambda>k. set_option (map_of al k)) (assoc_client al)"
proof -
  let ?M = "\<lambda>al k. set_option (map_of al k)"
  have "\<exists>al. c = assoc_client al \<and> M = ?M al \<Longrightarrow> client_ok M c" for c :: "'a Client" and M
  proof (coinduction arbitrary: M c)
    case (client_ok M c)
    then obtain al where al: "c = assoc_client al" "M = ?M al" by blast
    have set: "(?M al)(k := {v}) = ?M ((k, v) # al)" for k v
      by (auto simp: fun_eq_iff)
    have del: "(?M al)(k := {}) = ?M (filter (\<lambda>p. fst p \<noteq> k) al)" for k
      by (auto simp: fun_eq_iff map_of_filter_key)
    have scan: "(\<lambda>k. if k \<in> fst ` set al then ?M al k else {}) = ?M al"
      by (auto simp: fun_eq_iff map_of_eq_None_iff [symmetric])
    show ?case
      apply (intro exI [of _ M] exI [of _ c] conjI refl)
      subgoal using al by simp
      subgoal using al by auto
      subgoal using al set by (auto simp del: fun_upd_apply)
      subgoal using al del by (auto simp del: fun_upd_apply)
      subgoal using al scan by auto
      subgoal using al by (auto split: option.splits)
      subgoal using al set by (auto split: option.splits simp del: fun_upd_apply map_of.simps)
      subgoal using al by (auto simp: assoc_store_fail split: option.splits)
      subgoal using al by (auto split: option.splits)
      done
  qed
  then show ?thesis by blast
qed

end
