(* ===== verification/Cache.thy ===== *)
theory Cache
  imports CacheClient Models
begin

text \<open>
  \<open>internal/cache\<close>: emptying a client, the two-tier \<open>TerminalAwareCache\<close>, the parameters each cache
  is created with, and the \<open>Manager\<close> behind the cache invalidation endpoint.

  The interface \<open>lossy_store\<close> is what the services rely on in any of these caches: a value that
  comes out for a key was put in for that key, and not before the last time the store was
  emptied.  A single client and the two-tier cache are its interpretations.
\<close>

section \<open>Fetching through a client\<close>

text \<open>
  \<open>GetOrFetch(ctx, key, fetchFn)\<close>.  The fetch function runs at most once per call, may change a
  world \<open>'w\<close> of its own (\<open>ListPipelineJobs\<close> records finished jobs in it) and may never return
  (\<open>None\<close>).
\<close>

definition GetOrFetch ::
    "'v Client \<Rightarrow> string \<Rightarrow> ('w \<Rightarrow> ('v result \<times> 'w) option) \<Rightarrow> 'w
     \<Rightarrow> ('v result \<times> 'v Client \<times> 'w) option" where
  "GetOrFetch c key fetchFn w =
     (case Client_GetOrFetch c key of
        Hit v c' \<Rightarrow> Some (Ok v, c', w)
      | Fetch fetched \<Rightarrow>
          (case fetchFn w of
             None \<Rightarrow> None
           | Some (r, w') \<Rightarrow> (case fetched r of (r', c') \<Rightarrow> Some (r', c', w'))))"

text \<open>A fetch function without a world of its own.\<close>

definition GetOrFetch_pure ::
    "'v Client \<Rightarrow> string \<Rightarrow> 'v result option \<Rightarrow> ('v result \<times> 'v Client) option" where
  "GetOrFetch_pure c key fetched =
     map_option (\<lambda>(r, c', _). (r, c'))
       (GetOrFetch c key (\<lambda>_. map_option (\<lambda>r. (r, ())) fetched) ())"

text \<open>Under the contract: what comes back, what the client may hold, what the world has become.\<close>

lemma GetOrFetch_cases:
  assumes ok: "client_ok M c" and run: "GetOrFetch c key fetchFn w = Some (r, c', w')"
  obtains (served) v where "r = Ok v" "v \<in> M key" "client_ok M c'"
      "w' = w \<or> (\<exists>q. fetchFn w = Some (q, w'))"
  | (fetched) v where "r = Ok v" "fetchFn w = Some (Ok v, w')" "client_ok (M(key := {v})) c'"
  | (failed) q where "\<forall>v. r \<noteq> Ok v" "\<forall>v. q \<noteq> Ok v" "fetchFn w = Some (q, w')"
      "client_ok M c'" "\<And>e. M key = {} \<Longrightarrow> q = Err e \<Longrightarrow> r = Err e"
proof (cases "Client_GetOrFetch c key")
  case (Hit v d)
  with run client_ok_Hit [OF ok Hit] show ?thesis
    by (intro served [of v]) (simp_all add: GetOrFetch_def)
next
  case (Fetch fetched_fn)
  with run obtain q where q: "fetchFn w = Some (q, w')"
    and r: "r = fst (fetched_fn q)" "c' = snd (fetched_fn q)"
    by (auto simp: GetOrFetch_def split: option.splits prod.splits)
  show ?thesis
  proof (cases "\<exists>v. q = Ok v")
    case True
    then obtain v where v: "q = Ok v" by blast
    show ?thesis
      using client_ok_Fetch_Ok [OF ok Fetch, of v] q r v by (intro fetched [of v]) simp_all
  next
    case False
    then have no: "\<forall>v. q \<noteq> Ok v" by blast
    note fail = client_ok_Fetch_fail [OF ok Fetch no]
    show ?thesis
    proof (cases "\<exists>v. r = Ok v")
      case True
      then obtain v where "r = Ok v" by blast
      with fail [of v] q r show ?thesis by (intro served [of v]) simp_all
    next
      case False
      with fail q r no client_ok_Fetch_Err [OF ok Fetch] show ?thesis
        by (intro failed [of q]) auto
    qed
  qed
qed

text \<open>With nothing stored for the key, the answer is the one of the fetch function.\<close>

lemma GetOrFetch_empty:
  assumes "client_ok M c" "M key = {}" "fetchFn w = Some (r, w')" "r \<noteq> Panic"
  shows "\<exists>c'. GetOrFetch c key fetchFn w = Some (r, c', w')"
proof (cases "Client_GetOrFetch c key")
  case (Hit v d)
  with client_ok_Hit [OF assms(1) Hit] assms(2) show ?thesis by simp
next
  case (Fetch fetched)
  have "fst (fetched r) = r"
    using client_ok_Fetch_Ok [OF assms(1) Fetch] client_ok_Fetch_Err [OF assms(1) Fetch assms(2)]
      assms(4) by (cases r) auto
  with Fetch assms(3) show ?thesis
    by (cases "fetched r") (simp add: GetOrFetch_def)
qed

lemma GetOrFetch_serves:
  assumes ok: "serves_only M c" and run: "GetOrFetch c key fetchFn w = Some (r, c', w')"
    and fetch: "\<And>v u. fetchFn w = Some (Ok v, u) \<Longrightarrow> v \<in> M key"
  shows "\<And>v. r = Ok v \<Longrightarrow> v \<in> M key" and "serves_only M c'"
    and "w' = w \<or> (\<exists>q. fetchFn w = Some (q, w'))"
proof -
  have "(\<forall>v. r = Ok v \<longrightarrow> v \<in> M key) \<and> serves_only M c' \<and>
      (w' = w \<or> (\<exists>q. fetchFn w = Some (q, w')))"
  proof (cases "Client_GetOrFetch c key")
    case (Hit v d)
    with run serves_only_Hit [OF ok Hit] show ?thesis by (auto simp: GetOrFetch_def)
  next
    case (Fetch fetched_fn)
    with run obtain q where q: "fetchFn w = Some (q, w')"
      and r: "r = fst (fetched_fn q)" "c' = snd (fetched_fn q)"
      by (auto simp: GetOrFetch_def split: option.splits prod.splits)
    with serves_only_Fetch [OF ok Fetch, of q] fetch show ?thesis by auto
  qed
  then show "\<And>v. r = Ok v \<Longrightarrow> v \<in> M key" "serves_only M c'"
    "w' = w \<or> (\<exists>q. fetchFn w = Some (q, w'))" by auto
qed

lemma GetOrFetch_pure_serves:
  assumes "serves_only M c" "GetOrFetch_pure c key fetched = Some (r, c')"
    and "\<And>v. fetched = Some (Ok v) \<Longrightarrow> v \<in> M key"
  shows "\<And>v. r = Ok v \<Longrightarrow> v \<in> M key" and "serves_only M c'"
  using GetOrFetch_serves [OF assms(1), of key "\<lambda>_. map_option (\<lambda>r. (r, ())) fetched" "()" r c' "()"]
    assms(2,3) by (auto simp: GetOrFetch_pure_def)

section \<open>The interface of a lossy store\<close>

datatype ('v, 'p) store_op = StoreGet string | StorePut string 'v 'p | StoreClear

fun store_run ::
    "('c \<Rightarrow> string \<Rightarrow> 'v option \<times> 'c) \<Rightarrow> ('c \<Rightarrow> string \<Rightarrow> 'v \<Rightarrow> 'p \<Rightarrow> 'c) \<Rightarrow> ('c \<Rightarrow> 'c)
     \<Rightarrow> 'c \<Rightarrow> ('v, 'p) store_op list \<Rightarrow> 'c" where
  "store_run get put clear c [] = c"
| "store_run get put clear c (StoreGet k # ops) = store_run get put clear (snd (get c k)) ops"
| "store_run get put clear c (StorePut k v p # ops) = store_run get put clear (put c k v p) ops"
| "store_run get put clear c (StoreClear # ops) = store_run get put clear (clear c) ops"

text \<open>The values a sequence of operations may leave behind for each key.\<close>

fun written :: "(string \<Rightarrow> 'v set) \<Rightarrow> ('v, 'p) store_op list \<Rightarrow> string \<Rightarrow> 'v set" where
  "written M [] = M"
| "written M (StoreGet k # ops) = written M ops"
| "written M (StorePut k v p # ops) = written (M(k := insert v (M k))) ops"
| "written M (StoreClear # ops) = written (\<lambda>_. {}) ops"

locale lossy_store =
  fixes ok :: "(string \<Rightarrow> 'v set) \<Rightarrow> 'c \<Rightarrow> bool"
    and get :: "'c \<Rightarrow> string \<Rightarrow> 'v option \<times> 'c"
    and put :: "'c \<Rightarrow> string \<Rightarrow> 'v \<Rightarrow> 'p \<Rightarrow> 'c"
    and clear :: "'c \<Rightarrow> 'c"
  assumes get_value: "ok M c \<Longrightarrow> fst (get c k) = Some v \<Longrightarrow> v \<in> M k"
    and get_ok: "ok M c \<Longrightarrow> ok M (snd (get c k))"
    and put_ok: "ok M c \<Longrightarrow> ok (M(k := insert v (M k))) (put c k v p)"
    and clear_ok: "ok M c \<Longrightarrow> ok (\<lambda>_. {}) (clear c)"
begin

lemma get_after_clear: "ok M c \<Longrightarrow> fst (get (clear c) k) = None"
  using get_value [OF clear_ok] by (cases "fst (get (clear c) k)") auto

lemma run_ok: "ok M c \<Longrightarrow> ok (written M ops) (store_run get put clear c ops)"
proof (induction ops arbitrary: M c)
  case (Cons op ops)
  then show ?case by (cases op) (auto simp: get_ok put_ok clear_ok simp del: fun_upd_apply)
qed simp

lemma run_value:
  assumes "ok M c" "fst (get (store_run get put clear c ops) k) = Some v"
  shows "v \<in> written M ops k"
  using get_value [OF run_ok [OF assms(1)]] assms(2) by blast

end

section \<open>A client is a lossy store\<close>

text \<open>The loop \<open>for _, key := range c.ScanKeys() { c.Delete(key) }\<close>.\<close>

definition delete_scanned :: "'v Client \<Rightarrow> 'v Client" where
  "delete_scanned c =
     (case Client_ScanKeys c of (keys, c') \<Rightarrow> fold (\<lambda>key c. Client_Delete c key) keys c')"

lemma delete_keys_ok:
  "client_ok M c \<Longrightarrow> client_ok (\<lambda>k. if k \<in> set keys then {} else M k) (fold (\<lambda>key c. Client_Delete c key) keys c)"
proof (induction keys arbitrary: M c)
  case (Cons key keys)
  have "client_ok (\<lambda>k. if k \<in> set keys then {} else (M(key := {})) k)
          (fold (\<lambda>key c. Client_Delete c key) keys (Client_Delete c key))"
    by (rule Cons.IH [OF client_ok_Delete [OF Cons.prems]])
  then show ?case by simp (rule client_ok_mono, assumption, auto)
qed simp

lemma delete_scanned_ok:
  assumes "client_ok M c"
  shows "client_ok (\<lambda>_. {}) (delete_scanned c)"
proof -
  let ?keys = "fst (Client_ScanKeys c)"
  have "delete_scanned c = fold (\<lambda>key c. Client_Delete c key) ?keys (snd (Client_ScanKeys c))"
    by (simp add: delete_scanned_def split: prod.split)
  then show ?thesis
    using delete_keys_ok [OF client_ok_ScanKeys [OF assms], of ?keys]
    by simp (erule client_ok_mono, simp)
qed

lemma client_ok_insert:
  assumes "client_ok M c"
  shows "client_ok (M(k := insert v (M k))) c"
    and "client_ok (M(k := insert v (M k))) (Client_Set c k v)"
  by (rule client_ok_mono [OF assms], auto)
    (rule client_ok_mono [OF client_ok_Set [OF assms, of k v]], auto)

interpretation client_store: lossy_store client_ok Client_Get
  "\<lambda>c k v (_ :: unit). Client_Set c k v" delete_scanned
  by unfold_locales
    (blast intro: client_ok_Get_value client_ok_Get client_ok_insert delete_scanned_ok)+

section \<open>TerminalAwareCache\<close>

record 'v TerminalAwareCache =
  tac_live :: "'v Client"
  tac_done :: "'v Client"

definition TAC_Get :: "'v TerminalAwareCache \<Rightarrow> string \<Rightarrow> 'v option \<times> 'v TerminalAwareCache" where
  "TAC_Get c key =
     (case Client_Get (tac_done c) key of
        (Some v, d') \<Rightarrow> (Some v, c\<lparr>tac_done := d'\<rparr>)
      | (None, d') \<Rightarrow>
          (case Client_Get (tac_live c) key of
             (r, l') \<Rightarrow> (r, c\<lparr>tac_done := d', tac_live := l'\<rparr>)))"

definition TAC_Set ::
    "'v TerminalAwareCache \<Rightarrow> string \<Rightarrow> 'v \<Rightarrow> bool \<Rightarrow> 'v TerminalAwareCache" where
  "TAC_Set c key value terminal =
     (if terminal then c\<lparr>tac_done := Client_Set (tac_done c) key value\<rparr>
      else c\<lparr>tac_live := Client_Set (tac_live c) key value\<rparr>)"

definition TAC_Invalidate :: "'v TerminalAwareCache \<Rightarrow> 'v TerminalAwareCache" where
  "TAC_Invalidate c =
     c\<lparr>tac_done := delete_scanned (tac_done c), tac_live := delete_scanned (tac_live c)\<rparr>"

definition tac_ok :: "(string \<Rightarrow> 'v set) \<Rightarrow> 'v TerminalAwareCache \<Rightarrow> bool" where
  "tac_ok M c \<longleftrightarrow> client_ok M (tac_live c) \<and> client_ok M (tac_done c)"

lemma tac_ok_mono: "tac_ok M c \<Longrightarrow> (\<And>k. M k \<subseteq> N k) \<Longrightarrow> tac_ok N c"
  by (auto simp: tac_ok_def elim!: client_ok_mono)

lemma TAC_Get_value: "tac_ok M c \<Longrightarrow> fst (TAC_Get c k) = Some v \<Longrightarrow> v \<in> M k"
  using client_ok_Get_value [of M "tac_done c" k v] client_ok_Get_value [of M "tac_live c" k v]
  by (auto simp: tac_ok_def TAC_Get_def split: prod.splits option.splits)

lemma TAC_Get_ok: "tac_ok M c \<Longrightarrow> tac_ok M (snd (TAC_Get c k))"
  using client_ok_Get [of M "tac_done c" k] client_ok_Get [of M "tac_live c" k]
  by (auto simp: tac_ok_def TAC_Get_def split: prod.splits option.splits)

lemma TAC_Set_ok: "tac_ok M c \<Longrightarrow> tac_ok (M(k := insert v (M k))) (TAC_Set c k v terminal)"
  by (simp add: tac_ok_def TAC_Set_def client_ok_insert del: fun_upd_apply)

lemma TAC_Invalidate_ok: "tac_ok M c \<Longrightarrow> tac_ok (\<lambda>_. {}) (TAC_Invalidate c)"
  by (auto simp: tac_ok_def TAC_Invalidate_def intro: delete_scanned_ok)

interpretation tac_store: lossy_store tac_ok TAC_Get TAC_Set TAC_Invalidate
  by unfold_locales (blast intro: TAC_Get_value TAC_Get_ok TAC_Set_ok TAC_Invalidate_ok)+

text \<open>The two tiers apart: what each may hold.\<close>

definition tiers :: "(string \<Rightarrow> 'v set) \<Rightarrow> (string \<Rightarrow> 'v set) \<Rightarrow> 'v TerminalAwareCache \<Rightarrow> bool" where
  "tiers L D c \<longleftrightarrow> client_ok L (tac_live c) \<and> client_ok D (tac_done c)"

lemma tiers_mono:
  "tiers L D c \<Longrightarrow> (\<And>k. L k \<subseteq> L' k) \<Longrightarrow> (\<And>k. D k \<subseteq> D' k) \<Longrightarrow> tiers L' D' c"
  unfolding tiers_def by (blast intro: client_ok_mono)

lemma TAC_Get_tiers:
  assumes "tiers L D c" "TAC_Get c key = (r, c')"
  shows "tiers L D c'" and "r = Some v \<Longrightarrow> v \<in> L key \<union> D key"
  using assms client_ok_Get [of D "tac_done c" key] client_ok_Get [of L "tac_live c" key]
    client_ok_Get_value [of D "tac_done c" key v] client_ok_Get_value [of L "tac_live c" key v]
  by (auto simp: tiers_def TAC_Get_def split: prod.splits option.splits)

lemma client_ok_Set_in: "client_ok M c \<Longrightarrow> v \<in> M k \<Longrightarrow> client_ok M (Client_Set c k v)"
  using client_ok_mono [OF client_ok_Set [of M c k v], of M] by auto

lemma TAC_Set_tiers:
  "tiers L D c \<Longrightarrow> (if terminal then v \<in> D key else v \<in> L key) \<Longrightarrow> tiers L D (TAC_Set c key v terminal)"
  by (auto simp: tiers_def TAC_Set_def intro: client_ok_Set_in split: if_splits)

lemma TAC_Invalidate_tiers:
  assumes "tiers L D c"
  shows "tiers (\<lambda>_. {}) (\<lambda>_. {}) (TAC_Invalidate c)"
  using assms by (auto simp: tiers_def TAC_Invalidate_def intro: delete_scanned_ok)

section \<open>The parameters of the caches\<close>

text \<open>
  What each constructor passes to \<open>sturdyc.New\<close> (durations in seconds).  The client it gets back
  is the result of \<open>new\<close>, the library's constructor.
\<close>

record EarlyRefreshes =
  minRefreshDelay :: nat
  maxRefreshDelay :: nat
  synchronousRefreshDelay :: nat
  retryBaseDelay :: nat

record CacheConfig =
  capacity :: nat
  numShards :: nat
  ttl :: nat
  evictionPercentage :: nat
  earlyRefreshes :: "EarlyRefreshes option"

definition RepositoryCacheConfig :: CacheConfig where
  "RepositoryCacheConfig = \<lparr>capacity = 100, numShards = 8, ttl = 2 * 60, evictionPercentage = 10,
     earlyRefreshes = Some \<lparr>minRefreshDelay = 10, maxRefreshDelay = 30,
       synchronousRefreshDelay = 60, retryBaseDelay = 2\<rparr>\<rparr>"

definition OrganizationCacheConfig :: CacheConfig where
  "OrganizationCacheConfig = \<lparr>capacity = 100, numShards = 8, ttl = 30 * 60, evictionPercentage = 10,
     earlyRefreshes = Some \<lparr>minRefreshDelay = 2 * 60, maxRefreshDelay = 5 * 60,
       synchronousRefreshDelay = 30 * 60, retryBaseDelay = 30\<rparr>\<rparr>"

definition BranchCacheConfig :: CacheConfig where
  "BranchCacheConfig = \<lparr>capacity = 100, numShards = 8, ttl = 5 * 60, evictionPercentage = 10,
     earlyRefreshes = Some \<lparr>minRefreshDelay = 10, maxRefreshDelay = 30,
       synchronousRefreshDelay = 60, retryBaseDelay = 2\<rparr>\<rparr>"

definition PullRequestCacheConfig :: CacheConfig where
  "PullRequestCacheConfig = \<lparr>capacity = 100, numShards = 8, ttl = 2 * 60, evictionPercentage = 10,
     earlyRefreshes = Some \<lparr>minRefreshDelay = 10, maxRefreshDelay = 30,
       synchronousRefreshDelay = 60, retryBaseDelay = 2\<rparr>\<rparr>"

definition PipelineCacheConfig :: CacheConfig where
  "PipelineCacheConfig = \<lparr>capacity = 100, numShards = 8, ttl = 60, evictionPercentage = 10,
     earlyRefreshes = Some \<lparr>minRefreshDelay = 5, maxRefreshDelay = 15,
       synchronousRefreshDelay = 30, retryBaseDelay = 2\<rparr>\<rparr>"

definition PipelineJobsCacheConfig :: CacheConfig where
  "PipelineJobsCacheConfig = \<lparr>capacity = 500, numShards = 8, ttl = 30, evictionPercentage = 10,
     earlyRefreshes = None\<rparr>"

definition TraceLiveConfig :: CacheConfig where
  "TraceLiveConfig = \<lparr>capacity = 20, numShards = 4, ttl = 30, evictionPercentage = 20,
     earlyRefreshes = None\<rparr>"

definition TraceDoneConfig :: CacheConfig where
  "TraceDoneConfig = \<lparr>capacity = 80, numShards = 4, ttl = 12 * 3600, evictionPercentage = 20,
     earlyRefreshes = None\<rparr>"

definition TerminalJobsConfig :: CacheConfig where
  "TerminalJobsConfig = \<lparr>capacity = 5000, numShards = 8, ttl = 24 * 3600, evictionPercentage = 10,
     earlyRefreshes = None\<rparr>"

definition GitServerSettingsConfig :: CacheConfig where
  "GitServerSettingsConfig = \<lparr>capacity = 200, numShards = 8, ttl = 60, evictionPercentage = 10,
     earlyRefreshes = None\<rparr>"

text \<open>\<open>MaxCacheableTraceBytes\<close> and the cached trace.\<close>

definition MaxCacheableTraceBytes :: int where
  "MaxCacheableTraceBytes = 512 * 1024"

record JobTrace =
  JobTrace_Content :: string
  JobTrace_Truncated :: bool

lemma JobTrace_eta [simp]:
  "\<lparr>JobTrace_Content = JobTrace_Content t, JobTrace_Truncated = JobTrace_Truncated t\<rparr> = t"
  by simp

definition NewPipelineJobTraceCache ::
    "(CacheConfig \<Rightarrow> JobTrace Client) \<Rightarrow> JobTrace TerminalAwareCache" where
  "NewPipelineJobTraceCache new = \<lparr>tac_live = new TraceLiveConfig, tac_done = new TraceDoneConfig\<rparr>"

text \<open>
  A forced eviction of a full shard removes \<open>evictionPercentage\<close> per cent of the entries a shard
  holds; the configuration is sound when that is at least one, and when the refresh delays are
  ordered and end before the entry expires.
\<close>

definition forced_eviction :: "CacheConfig \<Rightarrow> nat" where
  "forced_eviction cfg = capacity cfg div numShards cfg * evictionPercentage cfg div 100"

definition sound_config :: "CacheConfig \<Rightarrow> bool" where
  "sound_config cfg \<longleftrightarrow> 0 < numShards cfg \<and> 1 \<le> forced_eviction cfg \<and> 0 < ttl cfg
     \<and> (case earlyRefreshes cfg of
          None \<Rightarrow> True
        | Some r \<Rightarrow> 0 < minRefreshDelay r \<and> minRefreshDelay r \<le> maxRefreshDelay r
            \<and> maxRefreshDelay r \<le> synchronousRefreshDelay r
            \<and> synchronousRefreshDelay r \<le> ttl cfg)"

lemmas cache_config_defs =
  RepositoryCacheConfig_def OrganizationCacheConfig_def BranchCacheConfig_def
  PullRequestCacheConfig_def PipelineCacheConfig_def PipelineJobsCacheConfig_def
  TraceLiveConfig_def TraceDoneConfig_def TerminalJobsConfig_def GitServerSettingsConfig_def

section \<open>The cache manager\<close>

record Manager =
  repositoryCache :: "Repository list Client"
  organizationCache :: "Organization list Client"
  branchCache :: "Branch list Client"
  pullRequestCache :: "PullRequestsResponse Client"
  pipelineCache :: "PipelinesResponse Client"
  pipelineJobsCache :: "PipelineJob list Client"
  pipelineJobTrace :: "JobTrace TerminalAwareCache"

definition InvalidateCache :: "Manager \<Rightarrow> string \<Rightarrow> go_error option \<times> Manager" where
  "InvalidateCache m endpoint =
     (if endpoint = ''repositories'' then
        (None, m\<lparr>repositoryCache := delete_scanned (repositoryCache m)\<rparr>)
      else if endpoint = ''organizations'' then
        (None, m\<lparr>organizationCache := delete_scanned (organizationCache m)\<rparr>)
      else if endpoint = ''branches'' then
        (None, m\<lparr>branchCache := delete_scanned (branchCache m)\<rparr>)
      else if endpoint = ''pullrequests'' then
        (None, m\<lparr>pullRequestCache := delete_scanned (pullRequestCache m)\<rparr>)
      else if endpoint = ''pipelines'' then
        (None, m\<lparr>pipelineCache := delete_scanned (pipelineCache m),
                 pipelineJobsCache := delete_scanned (pipelineJobsCache m),
                 pipelineJobTrace := TAC_Invalidate (pipelineJobTrace m)\<rparr>)
      else (Some (Errorf ''unsupported endpoint: %s'' [FStr endpoint]), m))"

definition GetSupportedEndpoints :: "Manager \<Rightarrow> string list" where
  "GetSupportedEndpoints m =
     [''repositories'', ''organizations'', ''branches'', ''pullrequests'', ''pipelines'']"

text \<open>What one call may do to a manager: a cache is either emptied or left as it was.\<close>

definition emptied :: "'v Client \<Rightarrow> 'v Client \<Rightarrow> bool" where
  "emptied c c' \<longleftrightarrow> (\<forall>M. client_ok M c \<longrightarrow> client_ok (\<lambda>_. {}) c')"

definition tac_emptied :: "'v TerminalAwareCache \<Rightarrow> 'v TerminalAwareCache \<Rightarrow> bool" where
  "tac_emptied c c' \<longleftrightarrow> (\<forall>M. tac_ok M c \<longrightarrow> tac_ok (\<lambda>_. {}) c')"

lemma emptied_delete_scanned: "emptied c (delete_scanned c)"
  by (auto simp: emptied_def intro: delete_scanned_ok)

lemma tac_emptied_Invalidate: "tac_emptied c (TAC_Invalidate c)"
  by (auto simp: tac_emptied_def intro: TAC_Invalidate_ok)

lemma emptied_Get: "emptied c c' \<Longrightarrow> client_ok M c \<Longrightarrow> fst (Client_Get c' k) = None"
  using client_ok_Get_value [of "\<lambda>_. {}" c' k] by (cases "fst (Client_Get c' k)") (auto simp: emptied_def)

section \<open>Properties\<close>

text \<open>What a sequence of operations may leave behind, read off the sequence.\<close>

lemma written_iff:
  "v \<in> written M ops k \<longleftrightarrow>
     (\<exists>ops1 p ops2. ops = ops1 @ StorePut k v p # ops2 \<and> StoreClear \<notin> set ops2) \<or>
     (v \<in> M k \<and> StoreClear \<notin> set ops)"
proof (induction M ops rule: written.induct)
  case (3 M k' v' p ops)
  show ?case
    unfolding written.simps 3 Cons_eq_append_conv by auto
qed (auto simp: Cons_eq_append_conv)

text \<open>The two-tier cache never invents or revives a value.  Along any sequence of gets, sets and
  invalidations of an initially empty cache, a value returned for a key was stored under this key
  (in either tier) by a set after which the cache was not invalidated.\<close>

theorem tac_provenance:
  assumes "tac_ok (\<lambda>_. {}) c"
    and "fst (TAC_Get (store_run TAC_Get TAC_Set TAC_Invalidate c ops) key) = Some v"
  shows "\<exists>ops1 terminal ops2. ops = ops1 @ StorePut key v terminal # ops2 \<and> StoreClear \<notin> set ops2"
  using tac_store.run_value [OF assms] by (simp add: written_iff)

lemma tac_provenance_witness:
  "\<exists>ops1 terminal ops2. [StorePut ''k'' (1::nat) True, StoreClear, StorePut ''k'' 2 False] =
     ops1 @ StorePut ''k'' 2 terminal # ops2 \<and> StoreClear \<notin> set ops2"
proof (rule tac_provenance)
  show "tac_ok (\<lambda>_. {}) \<lparr>tac_live = assoc_client [], tac_done = assoc_client [] :: nat Client\<rparr>"
    using assoc_client_ok [of "[]"] by (simp add: tac_ok_def)
  show "fst (TAC_Get (store_run TAC_Get TAC_Set TAC_Invalidate
      \<lparr>tac_live = assoc_client [], tac_done = assoc_client []\<rparr>
      [StorePut ''k'' (1::nat) True, StoreClear, StorePut ''k'' 2 False]) ''k'') = Some 2"
    by (simp add: TAC_Set_def TAC_Invalidate_def TAC_Get_def delete_scanned_def)
qed

text \<open>C29: Invalidation empties exactly the caches of the endpoint it names.  \<open>pipelines\<close> covers the pipeline
  lists, the jobs and both tiers of the traces; a supported name gives no error; an unsupported name
  gives an error and leaves every cache as it was.\<close>

theorem invalidate_exactly:
  "case InvalidateCache m endpoint of (err, m') \<Rightarrow>
     (err = None \<longleftrightarrow> endpoint \<in> set (GetSupportedEndpoints m)) \<and>
     (if endpoint = ''repositories'' then emptied (repositoryCache m) (repositoryCache m')
      else repositoryCache m' = repositoryCache m) \<and>
     (if endpoint = ''organizations'' then emptied (organizationCache m) (organizationCache m')
      else organizationCache m' = organizationCache m) \<and>
     (if endpoint = ''branches'' then emptied (branchCache m) (branchCache m')
      else branchCache m' = branchCache m) \<and>
     (if endpoint = ''pullrequests'' then emptied (pullRequestCache m) (pullRequestCache m')
      else pullRequestCache m' = pullRequestCache m) \<and>
     (if endpoint = ''pipelines''
      then emptied (pipelineCache m) (pipelineCache m') \<and>
           emptied (pipelineJobsCache m) (pipelineJobsCache m') \<and>
           tac_emptied (pipelineJobTrace m) (pipelineJobTrace m')
      else pipelineCache m' = pipelineCache m \<and> pipelineJobsCache m' = pipelineJobsCache m \<and>
           pipelineJobTrace m' = pipelineJobTrace m)"
proof -
  consider "endpoint = ''repositories''" | "endpoint = ''organizations''" | "endpoint = ''branches''"
    | "endpoint = ''pullrequests''" | "endpoint = ''pipelines''"
    | "endpoint \<notin> set (GetSupportedEndpoints m)"
    by (auto simp: GetSupportedEndpoints_def)
  then show ?thesis
    by cases (simp_all add: InvalidateCache_def GetSupportedEndpoints_def emptied_delete_scanned
      tac_emptied_Invalidate)
qed

text \<open>The parameters of the ten caches.  Each has shards that hold enough entries for a forced eviction
  to remove at least one, a positive lifetime, and refresh delays that are ordered and end within
  it; and a finished-job marker outlives the long-lived trace it is needed for, so such a trace is
  never demoted while it is cached.\<close>

theorem cache_configs_sound:
  "list_all sound_config
     [RepositoryCacheConfig, OrganizationCacheConfig, BranchCacheConfig, PullRequestCacheConfig,
      PipelineCacheConfig, PipelineJobsCacheConfig, TraceLiveConfig, TraceDoneConfig,
      TerminalJobsConfig, GitServerSettingsConfig] \<and>
   ttl TraceDoneConfig \<le> ttl TerminalJobsConfig"
  by (simp add: sound_config_def forced_eviction_def cache_config_defs)

end
