(* ===== verification/GitServer.thy ===== *)
theory GitServer
  imports Cache
begin

text \<open>
  \<open>internal/services/krci/gitserver.go\<close>: the settings of a git server, read from its custom resource
  and its secret in Kubernetes and cached per server name.  The Kubernetes client is the record
  \<open>k8s\<close>; \<open>APIURL\<close> is the operator library's \<open>GetGitProviderAPIURL\<close> and \<open>tokenField\<close> its
  \<open>GitServerSecretTokenField\<close>.
\<close>

record GitServer =
  gs_Name :: string
  gs_NameSshKeySecret :: string
  gs_GitProvider :: string
  gs_GitHost :: string

record k8s =
  k8s_Get_GitServer :: "string \<Rightarrow> string \<Rightarrow> go_error + GitServer"
  k8s_List_GitServers :: "string \<Rightarrow> go_error + GitServer list"
  k8s_Get_Secret :: "string \<Rightarrow> string \<Rightarrow> go_error + (string \<Rightarrow> string option)"

record GitServerService =
  k8sClient :: k8s
  namespace :: string
  settingsCache :: "GitServerSettings Client"
  APIURL :: "GitServer \<Rightarrow> string"
  tokenField :: string

definition getGitProviderSettingsForServer ::
    "GitServerService \<Rightarrow> GitServer \<Rightarrow> GitServerSettings result" where
  "getGitProviderSettingsForServer g gitServer =
     (case k8s_Get_Secret (k8sClient g) (gs_NameSshKeySecret gitServer) (namespace g) of
        Inl err \<Rightarrow> Err err
      | Inr secretData \<Rightarrow>
          (let token = ValueOrEmpty [] (secretData (tokenField g)) in
           if token = [] then Err (ErrorString ''git provider token is empty'')
           else Ok \<lparr>Settings_Url = APIURL g gitServer,
                    Settings_Token = token,
                    Settings_GitProvider = gs_GitProvider gitServer,
                    Settings_GitServerName = gs_Name gitServer\<rparr>))"

definition fetchSettings :: "GitServerService \<Rightarrow> string \<Rightarrow> GitServerSettings result" where
  "fetchSettings g gitServerName =
     (case k8s_Get_GitServer (k8sClient g) gitServerName (namespace g) of
        Inl err \<Rightarrow> Err err
      | Inr gitServer \<Rightarrow> getGitProviderSettingsForServer g gitServer)"

definition GetGitProviderSettings ::
    "GitServerService \<Rightarrow> string \<Rightarrow> GitServerSettings result \<times> GitServerService" where
  "GetGitProviderSettings g gitServerName =
     (case GetOrFetch_pure (settingsCache g) gitServerName (Some (fetchSettings g gitServerName)) of
        Some (r, c) \<Rightarrow> (r, g\<lparr>settingsCache := c\<rparr>)
      | None \<Rightarrow> (Panic, g))"

text \<open>The fetch function always returns, so the last case does not arise.\<close>

lemma GetGitProviderSettings_returns:
  "\<exists>r c. GetOrFetch_pure (settingsCache g) name (Some (fetchSettings g name)) = Some (r, c) \<and>
         GetGitProviderSettings g name = (r, g\<lparr>settingsCache := c\<rparr>)"
  by (auto simp: GetGitProviderSettings_def GetOrFetch_pure_def GetOrFetch_def
      split: get_or_fetch.split prod.split)

definition GetGitProviderSettingsList :: "GitServerService \<Rightarrow> GitServerSettings list result" where
  "GetGitProviderSettingsList g =
     (case k8s_List_GitServers (k8sClient g) (namespace g) of
        Inl err \<Rightarrow> Err (Errorf ''failed to list GitServers: %w'' [FErr err])
      | Inr items \<Rightarrow>
          try_map (\<lambda>gs. case getGitProviderSettingsForServer g gs of
                          Err err \<Rightarrow> Err (Errorf ''failed to get settings for GitServer %s: %w''
                                       [FStr (gs_Name gs), FErr err])
                        | r \<Rightarrow> r) items)"

section \<open>Properties\<close>

text \<open>What a client of the service may rely on: a token, and the name it asked for.\<close>

definition usable_settings :: "string \<Rightarrow> GitServerSettings set" where
  "usable_settings name = {s. Settings_Token s \<noteq> [] \<and> Settings_GitServerName s = name}"

definition named_answers :: "GitServerService \<Rightarrow> bool" where
  "named_answers g \<longleftrightarrow>
     (\<forall>name gs. k8s_Get_GitServer (k8sClient g) name (namespace g) = Inr gs \<longrightarrow> gs_Name gs = name)"

lemma settings_for_server_Ok:
  "getGitProviderSettingsForServer g gs = Ok s \<Longrightarrow> s \<in> usable_settings (gs_Name gs)"
  by (auto simp: getGitProviderSettingsForServer_def usable_settings_def Let_def
      split: sum.splits if_splits)

lemma fetchSettings_usable:
  "named_answers g \<Longrightarrow> fetchSettings g name = Ok s \<Longrightarrow> s \<in> usable_settings name"
  using settings_for_server_Ok by (fastforce simp: fetchSettings_def named_answers_def split: sum.splits)

lemma GetGitProviderSettings_serves:
  assumes "named_answers g" "serves_only usable_settings (settingsCache g)"
    and "GetGitProviderSettings g name = (r, g')"
  shows "r = Ok s \<Longrightarrow> s \<in> usable_settings name"
    and "serves_only usable_settings (settingsCache g')"
    and "g' = g\<lparr>settingsCache := settingsCache g'\<rparr>"
proof -
  obtain q c where run: "GetOrFetch_pure (settingsCache g) name (Some (fetchSettings g name)) = Some (q, c)"
    and eq: "GetGitProviderSettings g name = (q, g\<lparr>settingsCache := c\<rparr>)"
    using GetGitProviderSettings_returns by blast
  have "v \<in> usable_settings name" if "Some (fetchSettings g name) = Some (Ok v)" for v
    using fetchSettings_usable [OF assms(1)] that by simp
  from GetOrFetch_pure_serves [OF assms(2) run this] eq assms(3)
  show "r = Ok s \<Longrightarrow> s \<in> usable_settings name"
    and "serves_only usable_settings (settingsCache g')"
    and "g' = g\<lparr>settingsCache := settingsCache g'\<rparr>" by auto
qed

text \<open>Requests for settings in sequence, each one against the Kubernetes of its time.\<close>

fun settings_requests ::
    "GitServerService \<Rightarrow> (k8s \<times> string) list \<Rightarrow> (string \<times> GitServerSettings result) list" where
  "settings_requests g [] = []"
| "settings_requests g ((k, name) # reqs) =
     (case GetGitProviderSettings (g\<lparr>k8sClient := k\<rparr>) name of
        (r, g') \<Rightarrow> (name, r) # settings_requests g' reqs)"

text \<open>C25: Git server settings.  Along any sequence of requests for settings, each one answered by whatever
  Kubernetes holds at its time, every answer that is not an error carries a non-empty token and the
  name of the server that was asked for; so the cache, keyed by that name, never serves the
  credentials of one server for another.\<close>

theorem settings_requests_usable:
  assumes "\<And>k name. (k, name) \<in> set reqs \<Longrightarrow> named_answers (g\<lparr>k8sClient := k\<rparr>)"
    and "serves_only usable_settings (settingsCache g)"
    and "(name, Ok s) \<in> set (settings_requests g reqs)"
  shows "s \<in> usable_settings name"
  using assms
proof (induction g reqs rule: settings_requests.induct)
  case (2 g k n reqs)
  let ?g = "g\<lparr>k8sClient := k\<rparr>"
  obtain r g' where run: "GetGitProviderSettings ?g n = (r, g')" by fastforce
  have "named_answers ?g" by (rule 2(2) [of k n]) simp
  moreover have "serves_only usable_settings (settingsCache ?g)" using 2(3) by simp
  ultimately have step: "\<And>s. r = Ok s \<Longrightarrow> s \<in> usable_settings n"
      "serves_only usable_settings (settingsCache g')" "g' = ?g\<lparr>settingsCache := settingsCache g'\<rparr>"
    using GetGitProviderSettings_serves [OF _ _ run] by blast+
  have named: "named_answers (g'\<lparr>k8sClient := k'\<rparr>)" if "(k', m) \<in> set reqs" for k' m
  proof -
    have "named_answers (g\<lparr>k8sClient := k'\<rparr>)" using 2(2) that by fastforce
    moreover have "namespace g' = namespace g" by (subst step(3)) simp
    ultimately show ?thesis by (simp add: named_answers_def)
  qed
  from 2(4) run consider "name = n" "r = Ok s" | "(name, Ok s) \<in> set (settings_requests g' reqs)"
    by auto
  then show ?case
    using step(1) 2(1) [OF run [symmetric] named step(2)] by cases auto
qed simp

definition demo_k8s :: "string \<Rightarrow> k8s" where
  "demo_k8s token =
     \<lparr>k8s_Get_GitServer = \<lambda>name ns. Inr \<lparr>gs_Name = name, gs_NameSshKeySecret = ''secret'',
        gs_GitProvider = ''gitlab'', gs_GitHost = ''git.example''\<rparr>,
      k8s_List_GitServers = \<lambda>ns. Inr [],
      k8s_Get_Secret = \<lambda>name ns. Inr [''token'' \<mapsto> token]\<rparr>"

definition demo_server :: "string \<Rightarrow> GitServerService" where
  "demo_server token =
     \<lparr>k8sClient = demo_k8s token, namespace = ''krci'', settingsCache = assoc_client [],
      APIURL = (\<lambda>gs. ''https://git.example''), tokenField = ''token''\<rparr>"

lemma settings_requests_usable_witness:
  "\<lparr>Settings_Url = ''https://git.example'', Settings_Token = ''t1'', Settings_GitProvider = ''gitlab'',
     Settings_GitServerName = ''main''\<rparr> \<in> usable_settings ''main''"
proof (rule settings_requests_usable)
  let ?reqs = "[(demo_k8s ''t1'', ''main''), (demo_k8s ''t2'', ''main'')]"
  show "named_answers (demo_server []\<lparr>k8sClient := k\<rparr>)" if "(k, name) \<in> set ?reqs" for k name
    using that by (auto simp: named_answers_def demo_k8s_def)
  show "serves_only usable_settings (settingsCache (demo_server []))"
    using client_ok_serves_only [OF assoc_client_ok [of "[]"], of usable_settings]
    by (simp add: demo_server_def)
  show "(''main'', Ok \<lparr>Settings_Url = ''https://git.example'', Settings_Token = ''t1'',
      Settings_GitProvider = ''gitlab'', Settings_GitServerName = ''main''\<rparr>)
      \<in> set (settings_requests (demo_server []) ?reqs)"
    by (simp add: demo_server_def demo_k8s_def GetGitProviderSettings_def GetOrFetch_pure_def
        GetOrFetch_def fetchSettings_def getGitProviderSettingsForServer_def)
qed

text \<open>The list of all settings.  It succeeds exactly when the servers can be listed and every one of
  them has a readable secret with a non-empty token; the result then has the settings of each
  server in the order of the list.\<close>

theorem settings_list_all_or_nothing:
  "GetGitProviderSettingsList g = Ok settings \<longleftrightarrow>
   (\<exists>servers. k8s_List_GitServers (k8sClient g) (namespace g) = Inr servers \<and>
      list_all2 (\<lambda>gs s. s \<in> usable_settings (gs_Name gs) \<and> Settings_Url s = APIURL g gs \<and>
         Settings_GitProvider s = gs_GitProvider gs \<and>
         (\<exists>secret. k8s_Get_Secret (k8sClient g) (gs_NameSshKeySecret gs) (namespace g) = Inr secret
            \<and> secret (tokenField g) = Some (Settings_Token s))) servers settings)"
proof -
  have one: "(case getGitProviderSettingsForServer g gs of
        Err err \<Rightarrow> Err (Errorf ''failed to get settings for GitServer %s: %w''
                     [FStr (gs_Name gs), FErr err]) | r \<Rightarrow> r) = Ok s \<longleftrightarrow>
      s \<in> usable_settings (gs_Name gs) \<and> Settings_Url s = APIURL g gs \<and>
      Settings_GitProvider s = gs_GitProvider gs \<and>
      (\<exists>secret. k8s_Get_Secret (k8sClient g) (gs_NameSshKeySecret gs) (namespace g) = Inr secret
         \<and> secret (tokenField g) = Some (Settings_Token s))" for gs s
    by (cases s)
      (auto simp: getGitProviderSettingsForServer_def usable_settings_def Let_def ValueOrEmpty_def
        split: sum.splits option.splits if_splits)
  show ?thesis
    by (simp add: GetGitProviderSettingsList_def try_map_Ok_iff one split: sum.split)
qed

end
