(* ===== verification/GitLab.thy ===== *)
theory GitLab
  imports Iterators GoStrings Models "HOL-Library.Multiset"
begin

text \<open>
  \<open>internal/services/gitlab/gitlab.go\<close>: the GitLab provider.  The client library (\<open>client-go\<close>) is
  not part of the repository: \<open>gl_api\<close> has one field per call, \<open>NewClient\<close> makes a client from the
  token and the base URL or fails, and the library's page iterator \<open>gitlab.Scan2\<close> is a parameter of
  the operations that use it.  A failed call may still carry a response, of which the code reads the
  status code (\<open>None\<close> when the response is nil).
\<close>

section \<open>The client library's data\<close>

datatype gl_visibility = PrivateVisibility | VisibilityValue string

datatype BuildStateValue =
  gitlab_Pending | gitlab_Running | gitlab_Success | gitlab_Failed | gitlab_Canceled
  | gitlab_Skipped | gitlab_Manual

record gl_project =
  gl_proj_ID :: int
  gl_proj_Path :: string
  gl_proj_Namespace :: "string option"     \<comment> \<open>\<open>FullPath\<close> of a nilable namespace\<close>
  gl_proj_DefaultBranch :: string
  gl_proj_Description :: string
  gl_proj_WebURL :: string
  gl_proj_Visibility :: gl_visibility

record gl_group =
  gl_group_ID :: int
  gl_group_FullPath :: string
  gl_group_AvatarURL :: string

record gl_branch =
  gl_branch_Name :: string

record gl_job =
  gl_job_ID :: int
  gl_job_Name :: string
  gl_job_Stage :: string
  gl_job_Status :: string
  gl_job_Ref :: string
  gl_job_WebURL :: string
  gl_job_AllowFailure :: bool
  gl_job_Duration :: float64
  gl_job_CreatedAt :: "time option"
  gl_job_StartedAt :: "time option"
  gl_job_FinishedAt :: "time option"
  gl_job_FailureReason :: string

record gl_pipeline =          \<comment> \<open>\<open>gitlab.Pipeline\<close> and \<open>gitlab.PipelineInfo\<close>\<close>
  gl_pl_ID :: int
  gl_pl_ProjectID :: int
  gl_pl_Status :: string
  gl_pl_Source :: string
  gl_pl_Ref :: string
  gl_pl_SHA :: string
  gl_pl_WebURL :: string
  gl_pl_CreatedAt :: "time option"
  gl_pl_UpdatedAt :: "time option"

record gl_user =
  gl_user_ID :: int
  gl_user_Username :: string
  gl_user_AvatarURL :: string

record gl_merge_request =
  gl_mr_ID :: int
  gl_mr_IID :: int
  gl_mr_Title :: string
  gl_mr_State :: string
  gl_mr_SourceBranch :: string
  gl_mr_TargetBranch :: string
  gl_mr_WebURL :: string
  gl_mr_CreatedAt :: "time option"
  gl_mr_UpdatedAt :: "time option"
  gl_mr_Draft :: bool
  gl_mr_Description :: string
  gl_mr_SHA :: string
  gl_mr_Author :: "gl_user option"

record gl_group_projects_options =
  gl_gpo_PerPage :: int
  gl_gpo_Search :: "string option"

record gl_pipelines_options =
  gl_plo_Page :: int
  gl_plo_PerPage :: int
  gl_plo_Ref :: "string option"
  gl_plo_Status :: "BuildStateValue option"

record gl_merge_requests_options =
  gl_mro_State :: string
  gl_mro_Page :: int
  gl_mro_PerPage :: int

record gl_variable =
  gl_var_Key :: string
  gl_var_Value :: string
  gl_var_VariableType :: "string option"

record gl_response =
  resp_TotalItems :: int
  resp_StatusCode :: int

type_synonym 'a gl_answer = "(go_error \<times> int option) + ('a \<times> gl_response)"

text \<open>
  A page request of the iterator: the number of the request and the pagination option (of the
  library's type \<open>'p\<close>) that the iterator hands to the callback.
\<close>

type_synonym ('p, 'a) gl_fetch = "nat \<Rightarrow> 'p \<Rightarrow> go_error + ('a list \<times> gl_response)"

record 'p gl_api =
  Projects_GetProject :: "string \<Rightarrow> go_error + gl_project option"
  Groups_ListGroupProjects ::
    "nat \<Rightarrow> string \<Rightarrow> gl_group_projects_options
     \<Rightarrow> go_error + (gl_project option list \<times> gl_response)"
  Groups_ListGroups :: "nat \<Rightarrow> 'p \<Rightarrow> go_error + (gl_group list \<times> gl_response)"
  Branches_ListBranches :: "nat \<Rightarrow> string \<Rightarrow> 'p \<Rightarrow> go_error + (gl_branch list \<times> gl_response)"
  Pipelines_CreatePipeline ::
    "string \<Rightarrow> string \<Rightarrow> gl_variable list option \<Rightarrow> gl_pipeline gl_answer"
  Pipelines_ListProjectPipelines ::
    "string \<Rightarrow> gl_pipelines_options \<Rightarrow> gl_pipeline list gl_answer"
  Jobs_ListPipelineJobs ::
    "nat \<Rightarrow> string \<Rightarrow> int \<Rightarrow> int \<Rightarrow> 'p \<Rightarrow> go_error + (gl_job list \<times> gl_response)"
  MergeRequests_ListProjectMergeRequests ::
    "string \<Rightarrow> gl_merge_requests_options \<Rightarrow> gl_merge_request list gl_answer"

type_synonym 'p gl_new_client = "string \<Rightarrow> string \<Rightarrow> go_error + 'p gl_api"

definition newGitlabClient :: "'p gl_new_client \<Rightarrow> GitServerSettings \<Rightarrow> go_error + 'p gl_api" where
  "newGitlabClient NewClient settings = NewClient (Settings_Token settings) (Settings_Url settings)"

section \<open>Constants\<close>

definition maxTraceBytes :: nat where "maxTraceBytes = 4 * 1024 * 1024"
definition maxJobsTotal :: nat where "maxJobsTotal = 500"

definition glStateOpened :: string where "glStateOpened = ''opened''"
definition glStateClosed :: string where "glStateClosed = ''closed''"
definition glStateMerged :: string where "glStateMerged = ''merged''"

definition glStatusPending :: string where "glStatusPending = ''pending''"
definition glStatusRunning :: string where "glStatusRunning = ''running''"
definition glStatusSuccess :: string where "glStatusSuccess = ''success''"
definition glStatusFailed :: string where "glStatusFailed = ''failed''"
definition glStatusCanceled :: string where "glStatusCanceled = ''canceled''"
definition glStatusSkipped :: string where "glStatusSkipped = ''skipped''"
definition glStatusManual :: string where "glStatusManual = ''manual''"

lemmas gl_states = glStateOpened_def glStateClosed_def glStateMerged_def
lemmas gl_statuses = glStatusPending_def glStatusRunning_def glStatusSuccess_def
  glStatusFailed_def glStatusCanceled_def glStatusSkipped_def glStatusManual_def

section \<open>Repositories, organizations and branches\<close>

definition GitLab_convertVisibility :: "bool \<Rightarrow> RepositoryVisibility option" where
  "GitLab_convertVisibility isPrivate =
     (if isPrivate then Some RepositoryVisibilityPrivate else Some RepositoryVisibilityPublic)"

text \<open>\<open>&repo.Namespace.FullPath\<close> panics when the namespace is nil.\<close>

definition convertGitlabRepoToRepository :: "gl_project option \<Rightarrow> Repository option result" where
  "convertGitlabRepoToRepository repo =
     (case repo of
        None \<Rightarrow> Ok None
      | Some r \<Rightarrow>
          (case gl_proj_Namespace r of
             None \<Rightarrow> Panic
           | Some fullPath \<Rightarrow>
               Ok (Some \<lparr>Repository_DefaultBranch = Some (gl_proj_DefaultBranch r),
                         Repository_Description = Some (gl_proj_Description r),
                         Repository_Id = strconv_Itoa (gl_proj_ID r),
                         Repository_Name = gl_proj_Path r,
                         Repository_Owner = Some fullPath,
                         Repository_Url = Some (gl_proj_WebURL r),
                         Repository_Visibility =
                           GitLab_convertVisibility (gl_proj_Visibility r = PrivateVisibility)\<rparr>)))"

definition GitLab_GetRepository ::
    "'p gl_new_client \<Rightarrow> string \<Rightarrow> string \<Rightarrow> GitServerSettings \<Rightarrow> Repository option result" where
  "GitLab_GetRepository NewClient owner repo settings =
     (case newGitlabClient NewClient settings of
        Inl err \<Rightarrow> Err err
      | Inr client \<Rightarrow>
          (case Projects_GetProject client (Sprintf ''%s/%s'' [FStr owner, FStr repo]) of
             Inl err \<Rightarrow>
               if errors_Is err GitLabErrNotFound
               then Err (Errorf ''repository %s/%s %w'' [FStr owner, FStr repo, FErr ErrNotFound])
               else Err err
           | Inr repository \<Rightarrow> convertGitlabRepoToRepository repository))"

definition newGitlabRepositoryListByOrgOptions :: "ListOptions \<Rightarrow> gl_group_projects_options" where
  "newGitlabRepositoryListByOrgOptions listOptions =
     \<lparr>gl_gpo_PerPage = 100, gl_gpo_Search = ListOptions_Name listOptions\<rparr>"

text \<open>The callback handed to \<open>Scan2\<close>: it does not pass the pagination option \<open>p\<close> on.\<close>

definition gitlab_projects_page ::
    "'p gl_api \<Rightarrow> string \<Rightarrow> ListOptions \<Rightarrow> ('p, gl_project option) gl_fetch" where
  "gitlab_projects_page client owner listOptions = (\<lambda>n p.
     Groups_ListGroupProjects client n owner (newGitlabRepositoryListByOrgOptions listOptions))"

definition GitLab_ListRepositories ::
    "'p gl_new_client
     \<Rightarrow> (('p, gl_project option) gl_fetch \<Rightarrow> (Repository list \<times> unit result, gl_project option) scan)
     \<Rightarrow> string \<Rightarrow> GitServerSettings \<Rightarrow> ListOptions \<Rightarrow> Repository list result option" where
  "GitLab_ListRepositories NewClient Scan2 owner settings listOptions =
     (case newGitlabClient NewClient settings of
        Inl err \<Rightarrow> Some (Err err)
      | Inr client \<Rightarrow>
          range_collect (Scan2 (gitlab_projects_page client owner listOptions))
            (\<lambda>err. if errors_Is err GitLabErrNotFound
                   then Errorf ''owner %s %w'' [FStr owner, FErr ErrNotFound] else err)
            (\<lambda>repo. res_bind (convertGitlabRepoToRepository repo)
               (\<lambda>r. case r of None \<Rightarrow> Panic | Some r \<Rightarrow> Ok (Some r))))"

definition gl_Organization :: "gl_group \<Rightarrow> Organization" where
  "gl_Organization grp =
     \<lparr>Organization_AvatarUrl =
        (if gl_group_AvatarURL grp \<noteq> [] then Some (gl_group_AvatarURL grp) else None),
      Organization_Id = strconv_Itoa (gl_group_ID grp),
      Organization_Name = gl_group_FullPath grp\<rparr>"

definition GitLab_ListUserOrganizations ::
    "'p gl_new_client
     \<Rightarrow> (('p, gl_group) gl_fetch \<Rightarrow> (Organization list \<times> unit result, gl_group) scan)
     \<Rightarrow> GitServerSettings \<Rightarrow> Organization list result option" where
  "GitLab_ListUserOrganizations NewClient Scan2 settings =
     (case newGitlabClient NewClient settings of
        Inl err \<Rightarrow> Some (Err err)
      | Inr client \<Rightarrow>
          range_collect (Scan2 (Groups_ListGroups client))
            (\<lambda>err. Errorf ''failed to list groups: %w'' [FErr err])
            (\<lambda>grp. Ok (Some (gl_Organization grp))))"

definition GitLab_ListBranches ::
    "'p gl_new_client
     \<Rightarrow> (('p, gl_branch) gl_fetch \<Rightarrow> (Branch list \<times> unit result, gl_branch) scan)
     \<Rightarrow> string \<Rightarrow> string \<Rightarrow> GitServerSettings \<Rightarrow> ListOptions \<Rightarrow> Branch list result option" where
  "GitLab_ListBranches NewClient Scan2 owner repo settings opts =
     (case newGitlabClient NewClient settings of
        Inl err \<Rightarrow> Some (Err (Errorf ''failed to create gitlab client: %w'' [FErr err]))
      | Inr client \<Rightarrow>
          range_collect
            (Scan2 (\<lambda>n p. Branches_ListBranches client n
               (Sprintf ''%s/%s'' [FStr owner, FStr repo]) p))
            (\<lambda>err. if errors_Is err GitLabErrNotFound
                   then Errorf ''project %s/%s: %w'' [FStr owner, FStr repo, FErr ErrNotFound]
                   else Errorf ''failed to list branches for %s/%s: %w''
                          [FStr owner, FStr repo, FErr err])
            (\<lambda>b. Ok (Some \<lparr>Branch_Name = gl_branch_Name b\<rparr>)))"

section \<open>Pipelines\<close>

text \<open>The error mapping shared by the calls that see the response.\<close>

definition gl_call_error ::
    "string \<Rightarrow> farg list \<Rightarrow> string \<Rightarrow> farg list \<Rightarrow> go_error \<times> int option \<Rightarrow> go_error" where
  "gl_call_error missing margs other oargs = (\<lambda>(err, status).
     if errors_Is err GitLabErrNotFound \<or> status = Some 404
     then Errorf missing (margs @ [FErr ErrNotFound])
     else if status = Some 401 \<or> status = Some 403
     then Errorf ''invalid credentials: %w'' [FErr ErrUnauthorized]
     else Errorf other (oargs @ [FErr err]))"

definition convertToPipelineVariables :: "PipelineVariable list \<Rightarrow> gl_variable list option" where
  "convertToPipelineVariables variables =
     (if length variables = 0 then None
      else Some (map (\<lambda>v. \<lparr>gl_var_Key = PipelineVariable_Key v,
                           gl_var_Value = PipelineVariable_Value v,
                           gl_var_VariableType = PipelineVariable_VariableType v\<rparr>) variables))"

definition GitLab_TriggerPipeline ::
    "'p gl_new_client \<Rightarrow> string \<Rightarrow> string \<Rightarrow> PipelineVariable list \<Rightarrow> GitServerSettings
     \<Rightarrow> PipelineResponse result" where
  "GitLab_TriggerPipeline NewClient project ref variables settings =
     (case newGitlabClient NewClient settings of
        Inl err \<Rightarrow> Err (Errorf ''failed to create gitlab client: %w'' [FErr err])
      | Inr client \<Rightarrow>
          (case Pipelines_CreatePipeline client project ref (convertToPipelineVariables variables) of
             Inl failure \<Rightarrow>
               Err (gl_call_error ''project %s or ref %s: %w'' [FStr project, FStr ref]
                      ''create pipeline for %s ref %s: %w'' [FStr project, FStr ref] failure)
           | Inr (pipeline, resp) \<Rightarrow>
               Ok \<lparr>PipelineResponse_Id = gl_pl_ID pipeline,
                   PipelineResponse_Ref = gl_pl_Ref pipeline,
                   PipelineResponse_Sha =
                     (if gl_pl_SHA pipeline \<noteq> [] then Some (gl_pl_SHA pipeline) else None),
                   PipelineResponse_Status = gl_pl_Status pipeline,
                   PipelineResponse_WebUrl = gl_pl_WebURL pipeline\<rparr>))"

definition normalizeGitLabPipelineStatus :: "string \<Rightarrow> PipelineStatus" where
  "normalizeGitLabPipelineStatus status =
     (if status \<in> {glStatusPending, ''created'', ''waiting_for_resource'', ''preparing''}
        then PipelineStatusPending
      else if status = glStatusRunning then PipelineStatusRunning
      else if status = glStatusSuccess then PipelineStatusSuccess
      else if status = glStatusFailed then PipelineStatusFailed
      else if status = glStatusCanceled then PipelineStatusCancelled
      else if status = glStatusSkipped then PipelineStatusSkipped
      else if status = glStatusManual \<or> status = ''scheduled'' then PipelineStatusManual
      else PipelineStatusPending)"

definition normalizeGitLabPipelineSource :: "string \<Rightarrow> PipelineSource" where
  "normalizeGitLabPipelineSource source =
     (if source = ''push'' then PipelineSourcePush
      else if source = ''merge_request_event'' then PipelineSourceMergeRequest
      else if source = ''schedule'' then PipelineSourceSchedule
      else if source \<in> {''web'', ''chat''} then PipelineSourceManual
      else if source \<in> {''trigger'', ''pipeline'', ''api''} then PipelineSourceTrigger
      else PipelineSourceOther)"

definition mapPipelineStatusToGitLab :: "string \<Rightarrow> BuildStateValue option" where
  "mapPipelineStatusToGitLab status =
     (if status = glStatusPending then Some gitlab_Pending
      else if status = glStatusRunning then Some gitlab_Running
      else if status = glStatusSuccess then Some gitlab_Success
      else if status = glStatusFailed then Some gitlab_Failed
      else if status = ''cancelled'' then Some gitlab_Canceled
      else if status = glStatusSkipped then Some gitlab_Skipped
      else if status = glStatusManual then Some gitlab_Manual
      else None)"

definition convertGitlabPipeline :: "gl_pipeline \<Rightarrow> Pipeline" where
  "convertGitlabPipeline p =
     \<lparr>Pipeline_CreatedAt = (case gl_pl_CreatedAt p of None \<Rightarrow> zero_time | Some t \<Rightarrow> t),
      Pipeline_Id = strconv_Itoa (gl_pl_ID p),
      Pipeline_ProjectId =
        (if gl_pl_ProjectID p \<noteq> 0 then Some (strconv_Itoa (gl_pl_ProjectID p)) else None),
      Pipeline_Ref = gl_pl_Ref p,
      Pipeline_Sha = gl_pl_SHA p,
      Pipeline_Source =
        (if gl_pl_Source p \<noteq> [] then Some (normalizeGitLabPipelineSource (gl_pl_Source p)) else None),
      Pipeline_Status = normalizeGitLabPipelineStatus (gl_pl_Status p),
      Pipeline_UpdatedAt = gl_pl_UpdatedAt p,
      Pipeline_WebUrl = gl_pl_WebURL p\<rparr>"

definition GitLab_ListPipelines ::
    "'p gl_new_client \<Rightarrow> string \<Rightarrow> GitServerSettings \<Rightarrow> PipelineListOptions
     \<Rightarrow> PipelinesResponse result" where
  "GitLab_ListPipelines NewClient project settings opts =
     (case newGitlabClient NewClient settings of
        Inl err \<Rightarrow> Err (Errorf ''failed to create gitlab client: %w'' [FErr err])
      | Inr client \<Rightarrow>
          (case Pipelines_ListProjectPipelines client project
                  \<lparr>gl_plo_Page = PLList_Page opts, gl_plo_PerPage = PLList_PerPage opts,
                   gl_plo_Ref = PLList_Ref opts,
                   gl_plo_Status = Option.bind (PLList_Status opts) mapPipelineStatusToGitLab\<rparr> of
             Inl failure \<Rightarrow>
               Err (gl_call_error ''project %s: %w'' [FStr project]
                      ''failed to list pipelines for %s: %w'' [FStr project] failure)
           | Inr (pipelines, resp) \<Rightarrow>
               Ok \<lparr>PipelinesResponse_Data = map convertGitlabPipeline pipelines,
                   PipelinesResponse_Pagination =
                     \<lparr>Pagination_Page = Some (PLList_Page opts),
                      Pagination_PerPage = Some (PLList_PerPage opts),
                      Pagination_Total = resp_TotalItems resp\<rparr>\<rparr>))"

section \<open>Jobs\<close>

definition mapGitLabJob :: "gl_job \<Rightarrow> PipelineJob" where
  "mapGitLabJob j =
     \<lparr>PipelineJob_AllowFailure = Some (gl_job_AllowFailure j),
      PipelineJob_CreatedAt = gl_job_CreatedAt j,
      PipelineJob_Duration =
        (if \<not> float64_is_zero (gl_job_Duration j) then Some (to_float32 (gl_job_Duration j)) else None),
      PipelineJob_FailureReason =
        (if gl_job_FailureReason j \<noteq> [] then Some (gl_job_FailureReason j) else None),
      PipelineJob_FinishedAt = gl_job_FinishedAt j,
      PipelineJob_Id = strconv_Itoa (gl_job_ID j),
      PipelineJob_Name = gl_job_Name j,
      PipelineJob_Ref = (if gl_job_Ref j \<noteq> [] then Some (gl_job_Ref j) else None),
      PipelineJob_Stage = gl_job_Stage j,
      PipelineJob_StartedAt = gl_job_StartedAt j,
      PipelineJob_Status = gl_job_Status j,
      PipelineJob_WebUrl = (if gl_job_WebURL j \<noteq> [] then Some (gl_job_WebURL j) else None)\<rparr>"

text \<open>The status code is 0 when the error carries no response.\<close>

definition mapGitLabJobsError :: "go_error \<Rightarrow> string \<Rightarrow> int \<Rightarrow> go_error" where
  "mapGitLabJobsError err project ident =
     (let statusCode = (case as_GitLabErrorResponse (error_chain err) of
                          Some (Some code) \<Rightarrow> code | _ \<Rightarrow> 0) in
      if errors_Is err GitLabErrNotFound \<or> statusCode = 404
      then Errorf ''project %s or id %d: %w'' [FStr project, FInt ident, FErr ErrNotFound]
      else if statusCode = 401 \<or> statusCode = 403
      then Errorf ''invalid credentials: %w'' [FErr ErrUnauthorized]
      else Errorf ''gitlab jobs request failed for %s id %d: %w'' [FStr project, FInt ident, FErr err])"

text \<open>
  The loop body over the scan: it returns on the first error and breaks once \<open>maxJobsTotal\<close> jobs
  are collected.  \<open>sort.SliceStable\<close> on the identifiers is the stable \<open>sort_key\<close>.
\<close>

definition jobs_body :: "string \<Rightarrow> int \<Rightarrow> (gl_job list \<times> unit result, gl_job) yield" where
  "jobs_body project pipelineID = (\<lambda>(rawJobs, st) ev.
     case ev of
       Inl err \<Rightarrow> (False, (rawJobs, Err (mapGitLabJobsError err project pipelineID)))
     | Inr j \<Rightarrow>
         (let rawJobs = rawJobs @ [j] in
          if length rawJobs \<ge> maxJobsTotal then (False, (rawJobs, st)) else (True, (rawJobs, st))))"

definition GitLab_ListPipelineJobs ::
    "'p gl_new_client
     \<Rightarrow> (('p, gl_job) gl_fetch \<Rightarrow> (gl_job list \<times> unit result, gl_job) scan)
     \<Rightarrow> string \<Rightarrow> int \<Rightarrow> GitServerSettings \<Rightarrow> PipelineJob list result option" where
  "GitLab_ListPipelineJobs NewClient Scan2 project pipelineID settings =
     (case newGitlabClient NewClient settings of
        Inl err \<Rightarrow> Some (Err (Errorf ''failed to create gitlab client: %w'' [FErr err]))
      | Inr client \<Rightarrow>
          map_option
            (\<lambda>(rawJobs, st). res_bind st (\<lambda>_. Ok (map mapGitLabJob (sort_key gl_job_ID rawJobs))))
            (Scan2 (\<lambda>n p. Jobs_ListPipelineJobs client n project pipelineID 100 p)
               (jobs_body project pipelineID) ([], Ok ())))"

text \<open>What the loop collects from the events of the scan.\<close>

lemma jobs_body_feed:
  assumes "length acc < maxJobsTotal"
  shows "feed (jobs_body project pipelineID) (acc, Ok ()) (map Inr js @ evs) =
    (if maxJobsTotal \<le> length acc + length js
     then (acc @ take (maxJobsTotal - length acc) js, Ok ())
     else feed (jobs_body project pipelineID) (acc @ js, Ok ()) evs)"
  using assms
proof (induction js arbitrary: acc)
  case (Cons j js)
  show ?case
  proof (cases "Suc (length acc) < maxJobsTotal")
    case True
    then have "take (maxJobsTotal - length acc) (j # js) =
        j # take (maxJobsTotal - Suc (length acc)) js"
      by (simp add: take_Cons')
    with True Cons.IH [of "acc @ [j]"] show ?thesis by (simp add: jobs_body_def Let_def)
  next
    case False
    with Cons.prems have "maxJobsTotal = Suc (length acc)" by linarith
    moreover from this have "maxJobsTotal - length acc = Suc 0" by simp
    ultimately show ?thesis by (simp add: jobs_body_def Let_def)
  qed
qed simp

section \<open>Job traces\<close>

text \<open>
  The trace is read with \<open>net/http\<close> directly.  \<open>trace_http\<close> is the outcome of the request: making
  it fails, sending it fails, or there is a response with a status code and a body that delivers
  some bytes and then ends (\<open>None\<close>) or fails (\<open>Some err\<close>).
\<close>

datatype trace_http =
    RequestError go_error
  | DoError go_error
  | Response int string "go_error option"

text \<open>\<open>io.ReadAll(io.LimitReader(body, n))\<close>: the bytes read, and the error unless the limit came first.\<close>

definition ReadAll_LimitReader :: "nat \<Rightarrow> string \<Rightarrow> go_error option \<Rightarrow> go_error + string" where
  "ReadAll_LimitReader n bytes err =
     (if length bytes \<ge> n then Inr (take n bytes)
      else case err of None \<Rightarrow> Inr bytes | Some e \<Rightarrow> Inl e)"

definition mapGitLabTraceStatus :: "int \<Rightarrow> string \<Rightarrow> int \<Rightarrow> go_error" where
  "mapGitLabTraceStatus statusCode project jobID =
     (if statusCode = 404
      then Errorf ''project %s or job %d: %w'' [FStr project, FInt jobID, FErr ErrNotFound]
      else if statusCode = 401 \<or> statusCode = 403
      then Errorf ''invalid credentials: %w'' [FErr ErrUnauthorized]
      else Errorf ''gitlab trace request failed for %s job %d: status %d''
             [FStr project, FInt jobID, FInt statusCode])"

definition GitLab_GetJobTrace ::
    "(string \<Rightarrow> string) \<Rightarrow> (string \<Rightarrow> string \<Rightarrow> trace_http) \<Rightarrow> string \<Rightarrow> int \<Rightarrow> GitServerSettings
     \<Rightarrow> (string \<times> bool) result" where
  "GitLab_GetJobTrace PathEscape http_get project jobID settings =
     (let apiURL = Sprintf ''%s/api/v4/projects/%s/jobs/%d/trace''
            [FStr (strings_TrimRight (Settings_Url settings) {CHR ''/''}),
             FStr (PathEscape project), FInt jobID] in
      case http_get apiURL (Settings_Token settings) of
        RequestError err \<Rightarrow>
          Err (Errorf ''failed to build job trace request for %s job %d: %w''
                 [FStr project, FInt jobID, FErr err])
      | DoError err \<Rightarrow>
          Err (Errorf ''failed to fetch job trace for %s job %d: %w''
                 [FStr project, FInt jobID, FErr err])
      | Response statusCode body bodyErr \<Rightarrow>
          if statusCode \<noteq> 200 then Err (mapGitLabTraceStatus statusCode project jobID)
          else
            (case ReadAll_LimitReader (maxTraceBytes + 1) body bodyErr of
               Inl err \<Rightarrow> Err (Errorf ''failed to read job trace for %s job %d: %w''
                             [FStr project, FInt jobID, FErr err])
             | Inr dat \<Rightarrow>
                 if length dat > maxTraceBytes then Ok (take maxTraceBytes dat, True)
                 else Ok (dat, False)))"

section \<open>Pull requests\<close>

definition mapPullRequestStateToGitLab :: "string \<Rightarrow> string" where
  "mapPullRequestStateToGitLab state =
     (if state = ''open'' then glStateOpened
      else if state = ''closed'' then glStateClosed
      else if state = ''merged'' then glStateMerged
      else if state = ''all'' then ''all''
      else glStateOpened)"

definition normalizeGitLabMRState :: "string \<Rightarrow> PullRequestState" where
  "normalizeGitLabMRState state =
     (if state = glStateOpened then PullRequestStateOpen
      else if state = glStateMerged then PullRequestStateMerged
      else if state = glStateClosed then PullRequestStateClosed
      else PullRequestStateOpen)"

definition convertGitlabMergeRequest :: "gl_merge_request \<Rightarrow> PullRequest" where
  "convertGitlabMergeRequest mr =
     \<lparr>PullRequest_Author =
        map_option (\<lambda>author.
            \<lparr>Owner_AvatarUrl = (if gl_user_AvatarURL author \<noteq> []
                               then Some (gl_user_AvatarURL author) else None),
             Owner_Id = strconv_Itoa (gl_user_ID author),
             Owner_Name = gl_user_Username author\<rparr>) (gl_mr_Author mr),
      PullRequest_CommitSha = (if gl_mr_SHA mr \<noteq> [] then Some (gl_mr_SHA mr) else None),
      PullRequest_CreatedAt = (case gl_mr_CreatedAt mr of None \<Rightarrow> zero_time | Some t \<Rightarrow> t),
      PullRequest_Description =
        (if gl_mr_Description mr \<noteq> [] then Some (gl_mr_Description mr) else None),
      PullRequest_Draft = Some (gl_mr_Draft mr),
      PullRequest_Id = strconv_Itoa (gl_mr_ID mr),
      PullRequest_Number = gl_mr_IID mr,
      PullRequest_SourceBranch = gl_mr_SourceBranch mr,
      PullRequest_State = normalizeGitLabMRState (gl_mr_State mr),
      PullRequest_TargetBranch = gl_mr_TargetBranch mr,
      PullRequest_Title = gl_mr_Title mr,
      PullRequest_UpdatedAt = (case gl_mr_UpdatedAt mr of None \<Rightarrow> zero_time | Some t \<Rightarrow> t),
      PullRequest_Url = gl_mr_WebURL mr\<rparr>"

definition GitLab_ListPullRequests ::
    "'p gl_new_client \<Rightarrow> string \<Rightarrow> string \<Rightarrow> GitServerSettings \<Rightarrow> PullRequestListOptions
     \<Rightarrow> PullRequestsResponse result" where
  "GitLab_ListPullRequests NewClient owner repo settings opts =
     (case newGitlabClient NewClient settings of
        Inl err \<Rightarrow> Err err
      | Inr client \<Rightarrow>
          (case MergeRequests_ListProjectMergeRequests client
                  (Sprintf ''%s/%s'' [FStr owner, FStr repo])
                  \<lparr>gl_mro_State = mapPullRequestStateToGitLab (PRList_State opts),
                   gl_mro_Page = PRList_Page opts, gl_mro_PerPage = PRList_PerPage opts\<rparr> of
             Inl failure \<Rightarrow>
               Err (gl_call_error ''project %s/%s: %w'' [FStr owner, FStr repo]
                      ''failed to list merge requests for %s/%s: %w'' [FStr owner, FStr repo] failure)
           | Inr (mrs, resp) \<Rightarrow>
               Ok \<lparr>PullRequestsResponse_Data = map convertGitlabMergeRequest mrs,
                   PullRequestsResponse_Pagination =
                     \<lparr>Pagination_Page = Some (PRList_Page opts),
                      Pagination_PerPage = Some (PRList_PerPage opts),
                      Pagination_Total = resp_TotalItems resp\<rparr>\<rparr>))"

section \<open>Properties\<close>

lemma jobs_collected:
  assumes "length js \<ge> maxJobsTotal \<or> evs = []"
  shows "feed (jobs_body project pipelineID) ([], Ok ()) (map Inr js @ evs) =
    (take maxJobsTotal js, Ok ())"
  using assms jobs_body_feed [of "[]" project pipelineID js evs]
  by (auto simp: maxJobsTotal_def)

text \<open>
  Concrete inputs for the examples below: a client that answers every list call with fixed items,
  and an iterator that asks for \<open>k\<close> pages.
\<close>

definition demo_scan :: "nat \<Rightarrow> (unit, 'a) gl_fetch \<Rightarrow> ('s, 'a) scan" where
  "demo_scan k f yield s =
     Some (feed yield s (concat (map (\<lambda>n. case f n () of
        Inl e \<Rightarrow> [Inl e] | Inr (items, resp) \<Rightarrow> map Inr items) [0..<k])))"

definition demo_job :: "int \<Rightarrow> string \<Rightarrow> gl_job" where
  "demo_job n name =
     \<lparr>gl_job_ID = n, gl_job_Name = name, gl_job_Stage = ''test'', gl_job_Status = ''success'',
      gl_job_Ref = [], gl_job_WebURL = [], gl_job_AllowFailure = False, gl_job_Duration = 0,
      gl_job_CreatedAt = None, gl_job_StartedAt = None, gl_job_FinishedAt = None,
      gl_job_FailureReason = []\<rparr>"

definition demo_project :: gl_project where
  "demo_project =
     \<lparr>gl_proj_ID = 7, gl_proj_Path = ''tool'', gl_proj_Namespace = Some ''team'',
      gl_proj_DefaultBranch = ''main'', gl_proj_Description = [], gl_proj_WebURL = ''u'',
      gl_proj_Visibility = PrivateVisibility\<rparr>"

definition demo_gitlab :: "gl_job list \<Rightarrow> unit gl_new_client" where
  "demo_gitlab jobs token url =
     (let resp = \<lparr>resp_TotalItems = 1, resp_StatusCode = 200\<rparr> in
      Inr \<lparr>Projects_GetProject = \<lambda>_. Inr (Some demo_project),
           Groups_ListGroupProjects = \<lambda>_ _ _. Inr ([Some demo_project], resp),
           Groups_ListGroups = \<lambda>_ _. Inr ([], resp),
           Branches_ListBranches = \<lambda>_ _ _. Inr ([], resp),
           Pipelines_CreatePipeline = \<lambda>_ _ _. Inl (GitLabErrNotFound, Some 404),
           Pipelines_ListProjectPipelines = \<lambda>_ _. Inl (ErrorString ''denied'', Some 403),
           Jobs_ListPipelineJobs = \<lambda>_ _ _ _ _. Inr (jobs, resp),
           MergeRequests_ListProjectMergeRequests = \<lambda>_ _. Inr ([], resp)\<rparr>)"

definition demo_settings :: GitServerSettings where
  "demo_settings = \<lparr>Settings_Url = ''https://git.example'', Settings_Token = ''t'',
     Settings_GitProvider = ''gitlab'', Settings_GitServerName = ''main''\<rparr>"

text \<open>C24: Listing the jobs of a pipeline.  When the iterator delivers the jobs \<open>js\<close> (and at least
  500 of them come before anything else, or nothing else comes), the call returns the first 500,
  converted, in an order that is ascending in the numeric job id, holds exactly the same jobs with
  the same multiplicities, and keeps the order in which jobs of one id were delivered.\<close>

theorem gitlab_jobs_sorted:
  assumes "newGitlabClient NewClient settings = Inr client"
    and "delivers (Scan2 (\<lambda>n p. Jobs_ListPipelineJobs client n project pipelineID 100 p))
           (map Inr js @ evs)"
    and "500 \<le> length js \<or> evs = []"
  shows "\<exists>jobs. GitLab_ListPipelineJobs NewClient Scan2 project pipelineID settings =
             Some (Ok (map mapGitLabJob jobs)) \<and>
           sorted (map gl_job_ID jobs) \<and> mset jobs = mset (take 500 js) \<and>
           (\<forall>k. filter (\<lambda>j. gl_job_ID j = k) jobs = filter (\<lambda>j. gl_job_ID j = k) (take 500 js))"
proof (intro exI conjI allI)
  from assms(3) have "maxJobsTotal \<le> length js \<or> evs = []" by (simp add: maxJobsTotal_def)
  from jobs_collected [OF this, of project pipelineID] assms(1,2)
  show "GitLab_ListPipelineJobs NewClient Scan2 project pipelineID settings =
      Some (Ok (map mapGitLabJob (sort_key gl_job_ID (take maxJobsTotal js))))"
    by (simp add: GitLab_ListPipelineJobs_def delivers_def)
  show "sorted (map gl_job_ID (sort_key gl_job_ID (take maxJobsTotal js)))" by simp
  show "mset (sort_key gl_job_ID (take maxJobsTotal js)) = mset (take 500 js)"
    by (simp add: maxJobsTotal_def)
  show "filter (\<lambda>j. gl_job_ID j = k) (sort_key gl_job_ID (take maxJobsTotal js)) =
      filter (\<lambda>j. gl_job_ID j = k) (take 500 js)" for k
    by (simp add: sort_key_stable maxJobsTotal_def)
qed

lemma gitlab_jobs_sorted_witness:
  "\<exists>jobs. GitLab_ListPipelineJobs (demo_gitlab [demo_job 9 ''b'', demo_job 4 ''a''])
       (demo_scan 1) ''team/tool'' 1 demo_settings = Some (Ok (map mapGitLabJob jobs)) \<and>
     sorted (map gl_job_ID jobs) \<and> mset jobs = {#demo_job 9 ''b'', demo_job 4 ''a''#}"
proof -
  let ?js = "[demo_job 9 ''b'', demo_job 4 ''a'']"
  obtain client where client: "newGitlabClient (demo_gitlab ?js) demo_settings = Inr client"
    "Jobs_ListPipelineJobs client =
       (\<lambda>_ _ _ _ _. Inr (?js, \<lparr>resp_TotalItems = 1, resp_StatusCode = 200\<rparr>))"
    by (auto simp: newGitlabClient_def demo_gitlab_def Let_def)
  have "delivers (demo_scan 1 (\<lambda>n p. Jobs_ListPipelineJobs client n ''team/tool'' 1 100 p))
      (map Inr ?js @ [])"
    by (simp add: demo_scan_def delivers_def client(2))
  from gitlab_jobs_sorted [where ?Scan2.0 = "demo_scan 1" and js = ?js and evs = "[]", OF client(1) this] show ?thesis by auto
qed

text \<open>C26: A job trace.  The call succeeds with a text and a flag exactly when GitLab answered 200, the
  text is the first 4 MiB of the body, the flag says whether the body was longer than that, and the
  body of an untruncated trace was read to its end without an error.\<close>

theorem gitlab_trace_capped:
  "GitLab_GetJobTrace PathEscape http_get project jobID settings = Ok (content, truncated) \<longleftrightarrow>
   (\<exists>body bodyErr.
      http_get (Sprintf ''%s/api/v4/projects/%s/jobs/%d/trace''
          [FStr (strings_TrimRight (Settings_Url settings) {CHR ''/''}), FStr (PathEscape project),
           FInt jobID]) (Settings_Token settings) = Response 200 body bodyErr \<and>
      content = take 4194304 body \<and> truncated = (4194304 < length body) \<and>
      (4194304 < length body \<or> bodyErr = None))"
  by (auto simp: GitLab_GetJobTrace_def ReadAll_LimitReader_def maxTraceBytes_def Let_def
      split: trace_http.splits sum.splits option.splits if_splits)

text \<open>The texts of the library's build states, as its documentation gives them.\<close>

definition documented_states :: "(BuildStateValue \<Rightarrow> string) \<Rightarrow> bool" where
  "documented_states bsv \<longleftrightarrow>
     bsv gitlab_Pending = ''pending'' \<and> bsv gitlab_Running = ''running'' \<and>
     bsv gitlab_Success = ''success'' \<and> bsv gitlab_Failed = ''failed'' \<and>
     bsv gitlab_Canceled = ''canceled'' \<and> bsv gitlab_Skipped = ''skipped'' \<and>
     bsv gitlab_Manual = ''manual''"

text \<open>The status filter and the status reported agree for GitLab.  \<open>bsv\<close> gives the text of the
  library's build states; under its documented values every unified status has a filter value that
  is normalised back to this status.\<close>

theorem gitlab_status_filter_roundtrip:
  assumes "documented_states bsv"
  shows "\<exists>v. mapPipelineStatusToGitLab (PipelineStatus_text st) = Some v \<and>
             normalizeGitLabPipelineStatus (bsv v) = st"
  using assms
  by (cases st) (simp_all add: mapPipelineStatusToGitLab_def normalizeGitLabPipelineStatus_def
      documented_states_def gl_statuses)

fun gitlab_state_text :: "BuildStateValue \<Rightarrow> string" where
  "gitlab_state_text gitlab_Pending = ''pending''"
| "gitlab_state_text gitlab_Running = ''running''"
| "gitlab_state_text gitlab_Success = ''success''"
| "gitlab_state_text gitlab_Failed = ''failed''"
| "gitlab_state_text gitlab_Canceled = ''canceled''"
| "gitlab_state_text gitlab_Skipped = ''skipped''"
| "gitlab_state_text gitlab_Manual = ''manual''"

lemma gitlab_status_filter_roundtrip_witness:
  "\<exists>v. mapPipelineStatusToGitLab ''cancelled'' = Some v \<and>
       normalizeGitLabPipelineStatus (gitlab_state_text v) = PipelineStatusCancelled"
  using gitlab_status_filter_roundtrip [of gitlab_state_text PipelineStatusCancelled]
  by (simp add: documented_states_def)

text \<open>The errors: what the two mappings make of a failure, seen through \<open>errors.Is\<close>.\<close>

lemma gl_call_error_Is:
  assumes "pick_w missing (map arg_chain margs @ [[ErrNotFound]]) = Some [ErrNotFound]"
    and "pick_w other (map arg_chain oargs @ [error_chain err]) = Some (error_chain err)"
    and "\<not> errors_Is err ErrNotFound" "\<not> errors_Is err ErrUnauthorized"
  shows "errors_Is (gl_call_error missing margs other oargs (err, status)) ErrNotFound \<longleftrightarrow>
      errors_Is err GitLabErrNotFound \<or> status = Some 404"
    and "errors_Is (gl_call_error missing margs other oargs (err, status)) ErrUnauthorized \<longleftrightarrow>
      \<not> (errors_Is err GitLabErrNotFound \<or> status = Some 404) \<and>
      (status = Some 401 \<or> status = Some 403)"
  using assms by (auto simp: gl_call_error_def go_simps)

text \<open>Error classes of the GitLab pipeline list.  When the library call fails (with an error that
  is none of the program's own sentinels), the returned error is a "not found" exactly when the
  library says so or the response has status 404, and is an "unauthorized" exactly when it is no
  "not found" and the status is 401 or 403.\<close>

theorem gitlab_pipelines_error_classes:
  assumes "newGitlabClient NewClient settings = Inr client"
    and "Pipelines_ListProjectPipelines client project
           \<lparr>gl_plo_Page = PLList_Page opts, gl_plo_PerPage = PLList_PerPage opts,
            gl_plo_Ref = PLList_Ref opts,
            gl_plo_Status = Option.bind (PLList_Status opts) mapPipelineStatusToGitLab\<rparr> =
         Inl (err, status)"
    and "\<not> errors_Is err ErrNotFound" "\<not> errors_Is err ErrUnauthorized"
  shows "\<exists>e. GitLab_ListPipelines NewClient project settings opts = Err e \<and>
    (errors_Is e ErrNotFound \<longleftrightarrow> errors_Is err GitLabErrNotFound \<or> status = Some 404) \<and>
    (errors_Is e ErrUnauthorized \<longleftrightarrow>
       \<not> (errors_Is err GitLabErrNotFound \<or> status = Some 404) \<and>
       (status = Some 401 \<or> status = Some 403))"
  using gl_call_error_Is [OF _ _ assms(3,4), of "''project %s: %w''" "[FStr project]"
      "''failed to list pipelines for %s: %w''" "[FStr project]" status]
  by (simp add: GitLab_ListPipelines_def assms(1,2))

lemma gitlab_pipelines_error_classes_witness:
  "\<exists>e. GitLab_ListPipelines (demo_gitlab []) ''team/tool'' demo_settings
         \<lparr>PLList_Ref = None, PLList_Status = None, PLList_Page = 1, PLList_PerPage = 20\<rparr> = Err e \<and>
       \<not> errors_Is e ErrNotFound \<and> errors_Is e ErrUnauthorized"
  using gitlab_pipelines_error_classes [of "demo_gitlab []" demo_settings _ "''team/tool''"
      "\<lparr>PLList_Ref = None, PLList_Status = None, PLList_Page = 1, PLList_PerPage = 20\<rparr>"
      "ErrorString ''denied''" "Some 403"]
  by (simp add: newGitlabClient_def demo_gitlab_def Let_def go_simps)

text \<open>Error classes of the paginated jobs call, where only the error itself can carry the status: the
  mapped error is a "not found" exactly for the library's own not-found error or an error response
  with status 404, an "unauthorized" exactly for a remaining status 401 or 403.\<close>

theorem gitlab_jobs_error_classes:
  assumes "\<not> errors_Is err ErrNotFound" "\<not> errors_Is err ErrUnauthorized"
  shows "(errors_Is (mapGitLabJobsError err project pipelineID) ErrNotFound \<longleftrightarrow>
            errors_Is err GitLabErrNotFound \<or>
            as_GitLabErrorResponse (error_chain err) = Some (Some 404)) \<and>
         (errors_Is (mapGitLabJobsError err project pipelineID) ErrUnauthorized \<longleftrightarrow>
            \<not> errors_Is err GitLabErrNotFound \<and>
            as_GitLabErrorResponse (error_chain err) \<in> {Some (Some 401), Some (Some 403)})"
  using assms by (auto simp: mapGitLabJobsError_def Let_def go_simps split: option.splits)

lemma gitlab_jobs_error_classes_witness:
  "errors_Is (mapGitLabJobsError (Errorf ''get page: %w'' [FErr (GitLabErrorResponse (Some 403) ''no'')])
     ''team/tool'' 12) ErrUnauthorized"
  using gitlab_jobs_error_classes
    [of "Errorf ''get page: %w'' [FErr (GitLabErrorResponse (Some 403) ''no'')]" "''team/tool''" 12]
  by (simp add: go_simps)



end
