(* ===== verification/Bitbucket.thy ===== *)
theory Bitbucket
  imports Iterators GoStrings GoTime Common
begin

text \<open>
  \<open>internal/services/bitbucket/bitbucket.go\<close>: the Bitbucket Cloud provider.  Repositories and
  branches go through the go-bitbucket client (\<open>bb_api\<close>, made by \<open>NewBasicAuth\<close>); workspaces, pull
  requests and pipelines are fetched with a REST client, whose requests are the fields of
  \<open>bb_rest\<close>: user, password, URL and query parameters give an error or a response with its decoded
  body.
\<close>

section \<open>The client libraries' data\<close>

datatype json = JString string | JObject "(string \<times> json) list" | JOther

record bb_repository =
  bb_repo_Uuid :: string
  bb_repo_Name :: string
  bb_repo_Description :: string
  bb_repo_Mainbranch :: string
  bb_repo_Owner :: "(string \<times> json) list"
  bb_repo_Links :: "(string \<times> json) list"

record bb_branch =
  bb_branch_Name :: string

record bb_api =
  Repository_Get :: "string \<Rightarrow> string \<Rightarrow> go_error + bb_repository option"
  Repositories_ListForAccount :: "string \<Rightarrow> string option \<Rightarrow> go_error + bb_repository list"
  Repository_ListBranches :: "bb_branch bb_fetch"

type_synonym bb_auth = "string \<Rightarrow> string \<Rightarrow> go_error + bb_api"

record bitbucketWorkspace =
  ws_UUID :: string
  ws_Slug :: string

record bitbucketPR =
  bbpr_ID :: int
  bbpr_Title :: string
  bbpr_State :: string
  bbpr_Description :: string
  bbpr_Draft :: bool
  bbpr_Author_DisplayName :: string
  bbpr_Author_UUID :: string
  bbpr_Author_Avatar :: string
  bbpr_Source_Branch :: string
  bbpr_Source_Commit :: string
  bbpr_Destination_Branch :: string
  bbpr_HTML :: string
  bbpr_CreatedOn :: string
  bbpr_UpdatedOn :: string

record bitbucketPipeline =
  bbpl_UUID :: string
  bbpl_BuildNumber :: int
  bbpl_State_Name :: string
  bbpl_State_Result :: "string option"
  bbpl_Target_RefType :: string
  bbpl_Target_RefName :: string
  bbpl_Target_Commit :: string
  bbpl_Trigger_Name :: string
  bbpl_CreatedOn :: string
  bbpl_CompletedOn :: string
  bbpl_HTML :: string

record 'v bb_page =          \<comment> \<open>the \<open>size\<close>/\<open>page\<close>/\<open>pagelen\<close>/\<open>values\<close> responses\<close>
  bbp_Size :: int
  bbp_Page :: int
  bbp_Pagelen :: int
  bbp_Values :: "'v list"

record 'v rest_response =
  rest_StatusCode :: int
  rest_IsError :: bool
  rest_String :: string
  rest_Result :: "'v bb_page"

text \<open>\<open>url.Values\<close>, with \<open>Set\<close> and \<open>Add\<close>.\<close>

type_synonym url_values = "string \<Rightarrow> string list option"

definition values_Set :: "string \<Rightarrow> string \<Rightarrow> url_values \<Rightarrow> url_values" where
  "values_Set key val v = v(key \<mapsto> [val])"

definition values_Add :: "string \<Rightarrow> string \<Rightarrow> url_values \<Rightarrow> url_values" where
  "values_Add key val v = v(key \<mapsto> ValueOrEmpty [] (v key) @ [val])"

type_synonym 'v rest_get =
  "string \<Rightarrow> string \<Rightarrow> string \<Rightarrow> url_values \<Rightarrow> go_error + 'v rest_response"

record bb_rest =
  Get_workspaces :: "bitbucketWorkspace rest_get"
  Get_pullrequests :: "bitbucketPR rest_get"
  Get_pipelines :: "bitbucketPipeline rest_get"

definition defaultBitbucketAPIURL :: string where
  "defaultBitbucketAPIURL = ''https://api.bitbucket.org/2.0''"

definition isBitbucketNotFound :: "go_error \<Rightarrow> bool" where
  "isBitbucketNotFound err =
     (case as_BitbucketStatusError (error_chain err) of
        Some status \<Rightarrow> strings_HasPrefix status ''404''
      | None \<Rightarrow> False)"

section \<open>Credentials\<close>

text \<open>The text of the base64 decoder's error is the parameter \<open>b64err\<close>.\<close>

definition decodeBitbucketToken ::
    "(string \<Rightarrow> go_error) \<Rightarrow> string \<Rightarrow> (string \<times> string) result" where
  "decodeBitbucketToken b64err token =
     (case base64_DecodeString token of
        None \<Rightarrow> Err (Errorf ''failed to decode token: %w'' [FErr (b64err token)])
      | Some decodedToken \<Rightarrow>
          (let basicAuth = strings_Split decodedToken (CHR '':'') in
           if length basicAuth \<noteq> 2 then Err (Errorf ''invalid token format'' [])
           else Ok (basicAuth ! 0, basicAuth ! 1)))"

lemma strings_Split_length_two:
  "length (strings_Split s c) = 2 \<longleftrightarrow>
     (\<exists>p q. strings_Split s c = [p, q] \<and> s = p @ c # q \<and> c \<notin> set p \<and> c \<notin> set q)"
proof
  assume "length (strings_Split s c) = 2"
  then obtain p q where "strings_Split s c = [p, q]"
    by (auto simp: numeral_2_eq_2 length_Suc_conv)
  then show "\<exists>p q. strings_Split s c = [p, q] \<and> s = p @ c # q \<and> c \<notin> set p \<and> c \<notin> set q"
    by (auto simp: strings_Split_two_iff)
qed auto

lemma decodeBitbucketToken_Ok_iff:
  "decodeBitbucketToken b64err token = Ok (username, password) \<longleftrightarrow>
     base64_DecodeString token = Some (username @ CHR '':'' # password) \<and>
     CHR '':'' \<notin> set username \<and> CHR '':'' \<notin> set password"
proof (cases "base64_DecodeString token")
  case (Some s)
  show ?thesis
  proof (cases "length (strings_Split s (CHR '':'')) = 2")
    case True
    then obtain p q where "strings_Split s (CHR '':'') = [p, q]"
      using strings_Split_length_two [of s "CHR '':''"] by metis
    then have "decodeBitbucketToken b64err token = Ok (p, q)"
      and "s = p @ CHR '':'' # q" "CHR '':'' \<notin> set p" "CHR '':'' \<notin> set q"
      using strings_Split_two_iff [of s "CHR '':''" p q]
      by (simp_all add: decodeBitbucketToken_def Some)
    then show ?thesis by (auto simp: Some append_sep_eq)
  next
    case False
    then have "decodeBitbucketToken b64err token = Err (Errorf ''invalid token format'' [])"
      by (simp add: decodeBitbucketToken_def Some Let_def)
    moreover have "\<not> (s = username @ CHR '':'' # password \<and> CHR '':'' \<notin> set username \<and>
        CHR '':'' \<notin> set password)"
      using False strings_Split_two_iff [of s "CHR '':''" username password] by auto
    ultimately show ?thesis by (simp add: Some)
  qed
qed (simp add: decodeBitbucketToken_def)

lemma decodeBitbucketToken_not_Panic [simp]: "decodeBitbucketToken b64err token \<noteq> Panic"
  by (simp add: decodeBitbucketToken_def Let_def split: option.split)

section \<open>Repositories, organizations and branches\<close>

definition convertBitbucketRepoToRepository :: "bb_repository option \<Rightarrow> Repository option" where
  "convertBitbucketRepoToRepository repo =
     (case repo of
        None \<Rightarrow> None
      | Some r \<Rightarrow>
          (let ownerUsername = (case map_of (bb_repo_Owner r) ''username'' of
                                  Some (JString owner) \<Rightarrow> owner | _ \<Rightarrow> []);
               repoUrl = (case map_of (bb_repo_Links r) ''html'' of
                            Some (JObject html) \<Rightarrow>
                              (case map_of html ''href'' of Some (JString href) \<Rightarrow> href | _ \<Rightarrow> [])
                          | _ \<Rightarrow> [])
           in Some \<lparr>Repository_DefaultBranch = Some (bb_repo_Mainbranch r),
                    Repository_Description = Some (bb_repo_Description r),
                    Repository_Id = bb_repo_Uuid r,
                    Repository_Name = bb_repo_Name r,
                    Repository_Owner = Some ownerUsername,
                    Repository_Url = Some repoUrl,
                    Repository_Visibility = None\<rparr>))"

definition Bitbucket_GetRepository ::
    "(string \<Rightarrow> go_error) \<Rightarrow> bb_auth \<Rightarrow> string \<Rightarrow> string \<Rightarrow> GitServerSettings
     \<Rightarrow> Repository option result" where
  "Bitbucket_GetRepository b64err NewBasicAuth owner repo settings =
     res_bind (decodeBitbucketToken b64err (Settings_Token settings)) (\<lambda>(username, password).
       case NewBasicAuth username password of
         Inl err \<Rightarrow> Err (Errorf ''failed to create bitbucket client: %w'' [FErr err])
       | Inr client \<Rightarrow>
           (case Repository_Get client owner repo of
              Inl err \<Rightarrow>
                if isBitbucketNotFound err
                then Err (Errorf ''repository %s/%s %w'' [FStr owner, FStr repo, FErr ErrNotFound])
                else Err (Errorf ''failed to get repository %s/%s: %w''
                            [FStr owner, FStr repo, FErr err])
            | Inr repository \<Rightarrow> Ok (convertBitbucketRepoToRepository repository)))"

definition Bitbucket_ListRepositories ::
    "(string \<Rightarrow> go_error) \<Rightarrow> bb_auth \<Rightarrow> string \<Rightarrow> GitServerSettings \<Rightarrow> ListOptions
     \<Rightarrow> Repository list result" where
  "Bitbucket_ListRepositories b64err NewBasicAuth account settings listOptions =
     res_bind (decodeBitbucketToken b64err (Settings_Token settings)) (\<lambda>(username, password).
       case NewBasicAuth username password of
         Inl err \<Rightarrow> Err (Errorf ''failed to create bitbucket client: %w'' [FErr err])
       | Inr client \<Rightarrow>
           (case Repositories_ListForAccount client account (ListOptions_Name listOptions) of
              Inl err \<Rightarrow>
                if isBitbucketNotFound err
                then Err (Errorf ''account %s: %w'' [FStr account, FErr ErrNotFound])
                else Err (Errorf ''failed to list repositories for account %s: %w''
                            [FStr account, FErr err])
            | Inr repositories \<Rightarrow>
                Ok (map (\<lambda>repo. the (convertBitbucketRepoToRepository (Some repo))) repositories)))"

definition Bitbucket_ListUserOrganizations ::
    "(string \<Rightarrow> go_error) \<Rightarrow> bb_rest \<Rightarrow> GitServerSettings \<Rightarrow> Organization list result" where
  "Bitbucket_ListUserOrganizations b64err httpClient settings =
     res_bind (decodeBitbucketToken b64err (Settings_Token settings)) (\<lambda>(username, password).
       case Get_workspaces httpClient username password
              (defaultBitbucketAPIURL @ ''/user/workspaces'') Map.empty of
         Inl err \<Rightarrow> Err (Errorf ''failed to list workspaces: %w'' [FErr err])
       | Inr resp \<Rightarrow>
           if rest_StatusCode resp = 401 \<or> rest_StatusCode resp = 403
           then Err (Errorf ''invalid credentials: %w'' [FErr ErrUnauthorized])
           else if rest_IsError resp
           then Err (Errorf ''failed to list workspaces: status %d, body: %s''
                       [FInt (rest_StatusCode resp), FStr (rest_String resp)])
           else Ok (map (\<lambda>ws. \<lparr>Organization_AvatarUrl = None, Organization_Id = ws_UUID ws,
                              Organization_Name = ws_Slug ws\<rparr>) (bbp_Values (rest_Result resp))))"

definition Bitbucket_ListBranches ::
    "(string \<Rightarrow> go_error) \<Rightarrow> bb_auth \<Rightarrow> string \<Rightarrow> string \<Rightarrow> GitServerSettings \<Rightarrow> ListOptions
     \<Rightarrow> Branch list result option" where
  "Bitbucket_ListBranches b64err NewBasicAuth owner repo settings opts =
     (case decodeBitbucketToken b64err (Settings_Token settings) of
        Err err \<Rightarrow> Some (Err (Errorf ''failed to decode bitbucket token: %w'' [FErr err]))
      | Panic \<Rightarrow> Some Panic
      | Ok (username, password) \<Rightarrow>
          (case NewBasicAuth username password of
             Inl err \<Rightarrow> Some (Err (Errorf ''failed to create bitbucket client: %w'' [FErr err]))
           | Inr client \<Rightarrow>
               range_collect
                 (ScanBitbucketBranches (Repository_ListBranches client)
                    \<lparr>bb_Owner = owner, bb_RepoSlug = repo, bb_Pagelen = 100, bb_PageNum = 0\<rparr>)
                 (\<lambda>err. if isBitbucketNotFound err
                        then Errorf ''repository %s/%s: %w'' [FStr owner, FStr repo, FErr ErrNotFound]
                        else Errorf ''failed to list branches: %w'' [FErr err])
                 (\<lambda>b. Ok (Some \<lparr>Branch_Name = bb_branch_Name b\<rparr>))))"

section \<open>Pull requests\<close>

definition convertBitbucketPRState :: "string \<Rightarrow> PullRequestState" where
  "convertBitbucketPRState state =
     (if state = ''OPEN'' then PullRequestStateOpen
      else if state = ''MERGED'' then PullRequestStateMerged
      else if state = ''DECLINED'' \<or> state = ''SUPERSEDED'' then PullRequestStateClosed
      else PullRequestStateOpen)"

definition bb_pr_query :: "PullRequestListOptions \<Rightarrow> url_values" where
  "bb_pr_query opts =
     (let queryParams = values_Set ''pagelen'' (strconv_Itoa (PRList_PerPage opts))
            (values_Set ''page'' (strconv_Itoa (PRList_Page opts)) Map.empty) in
      if PRList_State opts = ''open'' then values_Set ''state'' ''OPEN'' queryParams
      else if PRList_State opts = ''closed'' then values_Set ''state'' ''DECLINED'' queryParams
      else if PRList_State opts = ''merged'' then values_Set ''state'' ''MERGED'' queryParams
      else if PRList_State opts = ''all'' then
        values_Add ''state'' ''SUPERSEDED'' (values_Add ''state'' ''DECLINED''
          (values_Add ''state'' ''MERGED'' (values_Add ''state'' ''OPEN'' queryParams)))
      else values_Set ''state'' ''OPEN'' queryParams)"

text \<open>The text of the time parser's error is the parameter \<open>timeerr\<close>.\<close>

definition parse_time :: "(string \<Rightarrow> go_error) \<Rightarrow> string \<Rightarrow> string \<Rightarrow> time result" where
  "parse_time timeerr msg value =
     (case time_Parse_RFC3339Nano value of
        None \<Rightarrow> Err (Errorf msg [FStr value, FErr (timeerr value)])
      | Some t \<Rightarrow> Ok t)"

definition convertBitbucketPR :: "(string \<Rightarrow> go_error) \<Rightarrow> bitbucketPR \<Rightarrow> PullRequest result" where
  "convertBitbucketPR timeerr pr =
     res_bind (parse_time timeerr ''failed to parse created_on time %q: %w'' (bbpr_CreatedOn pr))
       (\<lambda>createdAt.
     res_bind (parse_time timeerr ''failed to parse updated_on time %q: %w'' (bbpr_UpdatedOn pr))
       (\<lambda>updatedAt.
     Ok \<lparr>PullRequest_Author =
           Some \<lparr>Owner_AvatarUrl =
                   (if bbpr_Author_Avatar pr \<noteq> [] then Some (bbpr_Author_Avatar pr) else None),
                 Owner_Id = bbpr_Author_UUID pr,
                 Owner_Name = bbpr_Author_DisplayName pr\<rparr>,
         PullRequest_CommitSha =
           (if bbpr_Source_Commit pr \<noteq> [] then Some (bbpr_Source_Commit pr) else None),
         PullRequest_CreatedAt = createdAt,
         PullRequest_Description =
           (if bbpr_Description pr \<noteq> [] then Some (bbpr_Description pr) else None),
         PullRequest_Draft = Some (bbpr_Draft pr),
         PullRequest_Id = strconv_Itoa (bbpr_ID pr),
         PullRequest_Number = bbpr_ID pr,
         PullRequest_SourceBranch = bbpr_Source_Branch pr,
         PullRequest_State = convertBitbucketPRState (bbpr_State pr),
         PullRequest_TargetBranch = bbpr_Destination_Branch pr,
         PullRequest_Title = bbpr_Title pr,
         PullRequest_UpdatedAt = updatedAt,
         PullRequest_Url = bbpr_HTML pr\<rparr>))"

definition Bitbucket_ListPullRequests ::
    "(string \<Rightarrow> go_error) \<Rightarrow> (string \<Rightarrow> go_error) \<Rightarrow> bb_rest \<Rightarrow> string \<Rightarrow> string
     \<Rightarrow> GitServerSettings \<Rightarrow> PullRequestListOptions \<Rightarrow> PullRequestsResponse result" where
  "Bitbucket_ListPullRequests b64err timeerr httpClient owner repo settings opts =
     (case decodeBitbucketToken b64err (Settings_Token settings) of
        Err err \<Rightarrow> Err (Errorf ''failed to decode bitbucket token: %w'' [FErr err])
      | Panic \<Rightarrow> Panic
      | Ok (username, password) \<Rightarrow>
          (let apiURL = Sprintf ''%s/repositories/%s/%s/pullrequests''
                 [FStr defaultBitbucketAPIURL, FStr (url_PathEscape owner), FStr (url_PathEscape repo)]
           in case Get_pullrequests httpClient username password apiURL (bb_pr_query opts) of
                Inl err \<Rightarrow> Err (Errorf ''failed to list pull requests for %s/%s: %w''
                              [FStr owner, FStr repo, FErr err])
              | Inr resp \<Rightarrow>
                  if rest_StatusCode resp = 404
                  then Err (Errorf ''repository %s/%s: %w'' [FStr owner, FStr repo, FErr ErrNotFound])
                  else if rest_StatusCode resp = 401 \<or> rest_StatusCode resp = 403
                  then Err (Errorf ''invalid credentials: %w'' [FErr ErrUnauthorized])
                  else if rest_IsError resp
                  then Err (Errorf ''failed to list pull requests for %s/%s: status %d, body: %s''
                         [FStr owner, FStr repo, FInt (rest_StatusCode resp), FStr (rest_String resp)])
                  else res_bind (try_map (convertBitbucketPR timeerr) (bbp_Values (rest_Result resp)))
                    (\<lambda>result. Ok \<lparr>PullRequestsResponse_Data = result,
                       PullRequestsResponse_Pagination =
                         \<lparr>Pagination_Page = Some (PRList_Page opts),
                          Pagination_PerPage = Some (PRList_PerPage opts),
                          Pagination_Total = bbp_Size (rest_Result resp)\<rparr>\<rparr>)))"

section \<open>Pipelines\<close>

definition normalizeBitbucketPipelineStatus :: "string \<Rightarrow> string \<Rightarrow> PipelineStatus" where
  "normalizeBitbucketPipelineStatus stateName resultName =
     (if stateName = ''PENDING'' then PipelineStatusPending
      else if stateName = ''IN_PROGRESS'' then PipelineStatusRunning
      else if stateName = ''COMPLETED'' then
        (if resultName = ''SUCCESSFUL'' then PipelineStatusSuccess
         else if resultName = ''FAILED'' \<or> resultName = ''ERROR'' then PipelineStatusFailed
         else if resultName = ''STOPPED'' \<or> resultName = ''EXPIRED'' then PipelineStatusCancelled
         else PipelineStatusFailed)
      else if stateName = ''HALTED'' \<or> stateName = ''PAUSED'' then PipelineStatusManual
      else PipelineStatusPending)"

definition normalizeBitbucketPipelineTrigger :: "string \<Rightarrow> PipelineSource" where
  "normalizeBitbucketPipelineTrigger triggerName =
     (if triggerName = ''PUSH'' then PipelineSourcePush
      else if triggerName = ''PULL_REQUEST'' then PipelineSourceMergeRequest
      else if triggerName = ''SCHEDULE'' then PipelineSourceSchedule
      else if triggerName = ''MANUAL'' then PipelineSourceManual
      else if triggerName = ''TRIGGER'' \<or> triggerName = ''API'' then PipelineSourceTrigger
      else PipelineSourceOther)"

definition bbq :: "string \<Rightarrow> string \<Rightarrow> string" where
  "bbq field value = field @ ''='' @ [CHR 0x22] @ value @ [CHR 0x22]"

definition mapPipelineStatusToBitbucketQuery :: "string \<Rightarrow> string" where
  "mapPipelineStatusToBitbucketQuery status =
     (if status = ''pending'' then bbq ''state.name'' ''PENDING''
      else if status = ''running'' then bbq ''state.name'' ''IN_PROGRESS''
      else if status = ''success'' then bbq ''state.result.name'' ''SUCCESSFUL''
      else if status = ''failed'' then bbq ''state.result.name'' ''FAILED''
      else if status = ''cancelled'' then bbq ''state.result.name'' ''STOPPED''
      else if status = ''manual'' then bbq ''state.name'' ''HALTED''
      else [])"

definition sanitize_ref :: "string \<Rightarrow> string" where
  "sanitize_ref ref =
     strings_ReplaceAll (strings_ReplaceAll ref (CHR 0x5C) [CHR 0x5C, CHR 0x5C])
       (CHR 0x22) [CHR 0x5C, CHR 0x22]"

definition bb_query_parts :: "PipelineListOptions \<Rightarrow> string list" where
  "bb_query_parts opts =
     (case PLList_Ref opts of
        None \<Rightarrow> []
      | Some ref \<Rightarrow> if ref = [] then [] else [bbq ''target.ref_name'' (sanitize_ref ref)])
     @ (case PLList_Status opts of
          None \<Rightarrow> []
        | Some status \<Rightarrow>
            (let statusQuery = mapPipelineStatusToBitbucketQuery status in
             if statusQuery \<noteq> [] then [statusQuery] else []))"

definition bb_pipelines_query :: "PipelineListOptions \<Rightarrow> url_values" where
  "bb_pipelines_query opts =
     (let queryParams = values_Set ''sort'' ''-created_on''
            (values_Set ''pagelen'' (strconv_Itoa (PLList_PerPage opts))
              (values_Set ''page'' (strconv_Itoa (PLList_Page opts)) Map.empty));
          queryParts = bb_query_parts opts
      in if length queryParts > 0
         then values_Set ''q'' (strings_Join queryParts '' AND '') queryParams
         else queryParams)"

definition convertBitbucketPipeline ::
    "(string \<Rightarrow> go_error) \<Rightarrow> bitbucketPipeline \<Rightarrow> Pipeline result" where
  "convertBitbucketPipeline timeerr p =
     (let resultName = (case bbpl_State_Result p of None \<Rightarrow> [] | Some name \<Rightarrow> name) in
      res_bind (parse_time timeerr ''failed to parse created_on time %q: %w'' (bbpl_CreatedOn p))
        (\<lambda>createdAt.
      res_bind
        (if bbpl_CompletedOn p \<noteq> [] then
           res_bind (parse_time timeerr ''failed to parse completed_on time %q: %w''
                       (bbpl_CompletedOn p)) (\<lambda>completedAt. Ok (Some completedAt))
         else Ok None)
        (\<lambda>updatedAt.
      Ok \<lparr>Pipeline_CreatedAt = createdAt,
          Pipeline_Id = strings_Trim (bbpl_UUID p) {CHR ''{'', CHR ''}''},
          Pipeline_ProjectId = None,
          Pipeline_Ref = bbpl_Target_RefName p,
          Pipeline_Sha = bbpl_Target_Commit p,
          Pipeline_Source =
            (if bbpl_Trigger_Name p \<noteq> []
             then Some (normalizeBitbucketPipelineTrigger (bbpl_Trigger_Name p)) else None),
          Pipeline_Status = normalizeBitbucketPipelineStatus (bbpl_State_Name p) resultName,
          Pipeline_UpdatedAt = updatedAt,
          Pipeline_WebUrl = bbpl_HTML p\<rparr>)))"

definition bb_pipelines_response :: "Pipeline list \<Rightarrow> int \<Rightarrow> PipelineListOptions \<Rightarrow> PipelinesResponse" where
  "bb_pipelines_response result count opts =
     \<lparr>PipelinesResponse_Data = result,
      PipelinesResponse_Pagination =
        \<lparr>Pagination_Page = Some (PLList_Page opts), Pagination_PerPage = Some (PLList_PerPage opts),
         Pagination_Total = count\<rparr>\<rparr>"

definition Bitbucket_ListPipelines ::
    "(string \<Rightarrow> go_error) \<Rightarrow> (string \<Rightarrow> go_error) \<Rightarrow> bb_rest \<Rightarrow> string \<Rightarrow> GitServerSettings
     \<Rightarrow> PipelineListOptions \<Rightarrow> PipelinesResponse result" where
  "Bitbucket_ListPipelines b64err timeerr httpClient project settings opts =
     (case decodeBitbucketToken b64err (Settings_Token settings) of
        Err err \<Rightarrow> Err (Errorf ''failed to decode bitbucket token: %w'' [FErr err])
      | Panic \<Rightarrow> Panic
      | Ok (username, password) \<Rightarrow>
          res_bind (SplitProject project) (\<lambda>(workspace, repoSlug).
            let apiURL = Sprintf ''%s/repositories/%s/%s/pipelines/''
                  [FStr defaultBitbucketAPIURL, FStr (url_PathEscape workspace),
                   FStr (url_PathEscape repoSlug)]
            in if PLList_Status opts = Some ''skipped'' then Ok (bb_pipelines_response [] 0 opts)
               else
                 (case Get_pipelines httpClient username password apiURL (bb_pipelines_query opts) of
                    Inl err \<Rightarrow> Err (Errorf ''failed to list pipelines for %s: %w''
                                  [FStr project, FErr err])
                  | Inr resp \<Rightarrow>
                      if rest_StatusCode resp = 404
                      then Err (Errorf ''project %s: %w'' [FStr project, FErr ErrNotFound])
                      else if rest_StatusCode resp = 401
                      then Err (Errorf ''invalid credentials: %w'' [FErr ErrUnauthorized])
                      else if rest_IsError resp
                      then Err (Errorf ''failed to list pipelines for %s: status %d, body: %s''
                             [FStr project, FInt (rest_StatusCode resp), FStr (rest_String resp)])
                      else res_bind
                        (try_map (convertBitbucketPipeline timeerr) (bbp_Values (rest_Result resp)))
                        (\<lambda>result. Ok (bb_pipelines_response result
                                       (bbp_Size (rest_Result resp)) opts)))))"

definition Bitbucket_TriggerPipeline ::
    "string \<Rightarrow> string \<Rightarrow> PipelineVariable list \<Rightarrow> GitServerSettings \<Rightarrow> PipelineResponse result" where
  "Bitbucket_TriggerPipeline project ref variables settings =
     Err (Errorf ''trigger pipeline is not supported for Bitbucket'' [])"

section \<open>Properties\<close>

text \<open>C30: Bitbucket credentials.  A token that is the base64 encoding of \<open>username:password\<close> is decoded to
  exactly this pair when neither part holds a colon, and is rejected as malformed otherwise (so a
  password with a colon cannot be used).\<close>

theorem bitbucket_token_roundtrip:
  "decodeBitbucketToken b64err (base64_encode (username @ CHR '':'' # password)) =
     (if CHR '':'' \<in> set username \<union> set password then Err (Errorf ''invalid token format'' [])
      else Ok (username, password))"
proof (cases "decodeBitbucketToken b64err (base64_encode (username @ CHR '':'' # password))")
  case (Ok r)
  obtain p q where "r = (p, q)" by (cases r)
  with Ok have "username @ CHR '':'' # password = p @ CHR '':'' # q"
    and nc: "CHR '':'' \<notin> set p" "CHR '':'' \<notin> set q"
    by (simp_all add: decodeBitbucketToken_Ok_iff base64_roundtrip)
  let ?f = "filter (\<lambda>c. c = CHR '':'')"
  have "?f p = []" "?f q = []" using nc by (auto simp: filter_empty_conv)
  with arg_cong [OF \<open>username @ CHR '':'' # password = p @ CHR '':'' # q\<close>, of ?f]
  have "?f username = [] \<and> ?f password = []" by (auto simp: append_eq_Cons_conv)
  then have "CHR '':'' \<notin> set username \<union> set password"
    by (auto simp: filter_empty_conv)
  moreover from this \<open>username @ CHR '':'' # password = p @ CHR '':'' # q\<close> nc
  have "p = username" "q = password" by (simp_all add: append_sep_eq)
  ultimately show ?thesis using Ok \<open>r = (p, q)\<close> by simp
next
  case (Err e)
  then have "CHR '':'' \<in> set username \<union> set password"
    using decodeBitbucketToken_Ok_iff [of b64err "base64_encode (username @ CHR '':'' # password)"
        username password] by (auto simp: base64_roundtrip)
  moreover from Err have "e = Errorf ''invalid token format'' []"
    by (auto simp: decodeBitbucketToken_def base64_roundtrip Let_def split: if_splits)
  ultimately show ?thesis using Err by simp
qed simp

text \<open>Reading a quoted value of the query language: up to the first quote that is not escaped.\<close>

fun bb_unquote :: "string \<Rightarrow> (string \<times> string) option" where
  "bb_unquote [] = None"
| "bb_unquote [c] = (if c = CHR 0x22 then Some ([], []) else None)"
| "bb_unquote (c # d # s) =
     (if c = CHR 0x22 then Some ([], d # s)
      else if c = CHR 0x5C then map_option (\<lambda>(v, rest). (d # v, rest)) (bb_unquote s)
      else map_option (\<lambda>(v, rest). (c # v, rest)) (bb_unquote (d # s)))"

lemma bb_unquote_plain:
  "c \<noteq> CHR 0x22 \<Longrightarrow> c \<noteq> CHR 0x5C \<Longrightarrow>
   bb_unquote (c # s) = map_option (\<lambda>(v, rest). (c # v, rest)) (bb_unquote s)"
  by (cases s) auto

lemma sanitize_ref_Cons:
  "sanitize_ref [] = []"
  "sanitize_ref (c # ref) =
     (if c = CHR 0x22 \<or> c = CHR 0x5C then [CHR 0x5C, c] else [c]) @ sanitize_ref ref"
  by (simp_all add: sanitize_ref_def strings_ReplaceAll_def)

lemma bb_unquote_sanitize:
  "bb_unquote (sanitize_ref ref @ CHR 0x22 # rest) = Some (ref, rest)"
proof (induction ref)
  case Nil
  then show ?case by (cases rest) (simp_all add: sanitize_ref_Cons)
next
  case (Cons c ref)
  then show ?case by (auto simp: sanitize_ref_Cons bb_unquote_plain)
qed

text \<open>The ref filter of the Bitbucket pipeline query.  Whatever characters the ref holds, the query
  parameter reads back as the comparison of the target's ref with exactly this ref, followed by
  nothing but the status comparison: quotes and backslashes of the ref cannot end the literal.\<close>

theorem bitbucket_ref_query_quoted:
  assumes "ref \<noteq> []"
  shows "\<exists>q rest. bb_pipelines_query \<lparr>PLList_Ref = Some ref, PLList_Status = status,
             PLList_Page = page, PLList_PerPage = perPage\<rparr> ''q'' = Some [q] \<and>
           strings_HasPrefix q (''target.ref_name='' @ [CHR 0x22]) \<and>
           bb_unquote (drop 17 q) = Some (ref, rest) \<and>
           rest = (case status of
                     None \<Rightarrow> []
                   | Some s \<Rightarrow> if mapPipelineStatusToBitbucketQuery s = [] then []
                             else '' AND '' @ mapPipelineStatusToBitbucketQuery s)"
proof -
  let ?opts = "\<lparr>PLList_Ref = Some ref, PLList_Status = status, PLList_Page = page,
    PLList_PerPage = perPage\<rparr>"
  define rest where "rest = (case status of None \<Rightarrow> []
    | Some s \<Rightarrow> if mapPipelineStatusToBitbucketQuery s = [] then []
              else '' AND '' @ mapPipelineStatusToBitbucketQuery s)"
  let ?q = "''target.ref_name='' @ CHR 0x22 # sanitize_ref ref @ CHR 0x22 # rest"
  have "bb_pipelines_query ?opts ''q'' = Some [?q]"
    using assms
    by (simp add: bb_pipelines_query_def bb_query_parts_def values_Set_def bbq_def Let_def rest_def
        split: option.split)
  moreover have "bb_unquote (drop 17 ?q) = Some (ref, rest)"
    using bb_unquote_sanitize [of ref rest] by simp
  ultimately show ?thesis
    unfolding rest_def by (intro exI conjI) (auto simp: strings_HasPrefix_def)
qed

lemma bitbucket_ref_query_quoted_witness:
  "\<exists>q. bb_pipelines_query \<lparr>PLList_Ref = Some [CHR ''a'', CHR 0x22, CHR 0x5C], PLList_Status = None,
        PLList_Page = 1, PLList_PerPage = 20\<rparr> ''q'' = Some [q] \<and>
      bb_unquote (drop 17 q) = Some ([CHR ''a'', CHR 0x22, CHR 0x5C], [])"
  using bitbucket_ref_query_quoted [of "[CHR ''a'', CHR 0x22, CHR 0x5C]" None 1 20] by auto

text \<open>The status filter and the status reported agree for Bitbucket.  Only \<open>skipped\<close> has no query;
  every other unified status queries a state name that is normalised to it whatever the result is,
  or a result name with which a completed pipeline is normalised to it.\<close>

theorem bitbucket_status_filter_sound:
  "(st = PipelineStatusSkipped \<and> mapPipelineStatusToBitbucketQuery (PipelineStatus_text st) = []) \<or>
   (\<exists>name. mapPipelineStatusToBitbucketQuery (PipelineStatus_text st) = bbq ''state.name'' name \<and>
      (\<forall>result. normalizeBitbucketPipelineStatus name result = st)) \<or>
   (\<exists>name. mapPipelineStatusToBitbucketQuery (PipelineStatus_text st) =
             bbq ''state.result.name'' name \<and>
      normalizeBitbucketPipelineStatus ''COMPLETED'' name = st)"
proof (cases st)
  case PipelineStatusCancelled
  then show ?thesis
    by (intro disjI2 exI [of _ "''STOPPED''"])
      (simp add: mapPipelineStatusToBitbucketQuery_def normalizeBitbucketPipelineStatus_def)
next
  case PipelineStatusFailed
  then show ?thesis
    by (intro disjI2 exI [of _ "''FAILED''"])
      (simp add: mapPipelineStatusToBitbucketQuery_def normalizeBitbucketPipelineStatus_def)
next
  case PipelineStatusSuccess
  then show ?thesis
    by (intro disjI2 exI [of _ "''SUCCESSFUL''"])
      (simp add: mapPipelineStatusToBitbucketQuery_def normalizeBitbucketPipelineStatus_def)
next
  case PipelineStatusManual
  then show ?thesis
    by (intro disjI2 disjI1 exI [of _ "''HALTED''"])
      (simp add: mapPipelineStatusToBitbucketQuery_def normalizeBitbucketPipelineStatus_def)
next
  case PipelineStatusPending
  then show ?thesis
    by (intro disjI2 disjI1 exI [of _ "''PENDING''"])
      (simp add: mapPipelineStatusToBitbucketQuery_def normalizeBitbucketPipelineStatus_def)
next
  case PipelineStatusRunning
  then show ?thesis
    by (intro disjI2 disjI1 exI [of _ "''IN_PROGRESS''"])
      (simp add: mapPipelineStatusToBitbucketQuery_def normalizeBitbucketPipelineStatus_def)
next
  case PipelineStatusSkipped
  then show ?thesis by (simp add: mapPipelineStatusToBitbucketQuery_def)
qed


end
