(* ===== verification/Services.thy ===== *)
theory Services
  imports GitServer GitHub GitLab Bitbucket
begin

text \<open>
  The services of \<open>internal/services/{repositories,organizations,branches,pullrequests}\<close>: each one
  reads the settings of the git server, picks the provider the settings name and asks its cache,
  which asks the provider on a miss.  The Go interfaces are records of functions; the registry of
  providers is a map from the provider's name.

  All of them (and the pipeline list) share one shape, the interface \<open>cached_service\<close>: a step
  either leaves the cache alone and fails, or is one \<open>GetOrFetch\<close> under the request's key.  What
  is proved from it is the provenance of every listing that is served.
\<close>

section \<open>The environment\<close>

text \<open>Everything outside the program: the client libraries and the schedules.\<close>

record 'p Env =
  env_github :: "string \<Rightarrow> gh_api"
  env_gitlab :: "'p gl_new_client"
  env_scan_projects ::
    "('p, gl_project option) gl_fetch \<Rightarrow> (Repository list \<times> unit result, gl_project option) scan"
  env_scan_groups :: "('p, gl_group) gl_fetch \<Rightarrow> (Organization list \<times> unit result, gl_group) scan"
  env_scan_branches ::
    "('p, GitLab.gl_branch) gl_fetch \<Rightarrow> (Branch list \<times> unit result, GitLab.gl_branch) scan"
  env_scan_jobs :: "('p, gl_job) gl_fetch \<Rightarrow> (gl_job list \<times> unit result, gl_job) scan"
  env_bitbucket :: bb_auth
  env_rest :: bb_rest
  env_PathEscape :: "string \<Rightarrow> string"
  env_http_get :: "string \<Rightarrow> string \<Rightarrow> trace_http"
  env_lower :: "string \<Rightarrow> string"
  env_b64err :: "string \<Rightarrow> go_error"
  env_timeerr :: "string \<Rightarrow> go_error"
  env_ctx_err :: "nat \<Rightarrow> go_error option"
  env_user_first :: bool

section \<open>Reading the settings first\<close>

definition with_settings ::
    "GitServerService \<Rightarrow> string \<Rightarrow> 'm \<Rightarrow> (GitServerSettings \<Rightarrow> ('a result \<times> 'm) option)
     \<Rightarrow> ('a result \<times> 'm \<times> GitServerService) option" where
  "with_settings g gitServerName m f =
     (case GetGitProviderSettings g gitServerName of
        (Ok settings, g') \<Rightarrow> map_option (\<lambda>(r, m'). (r, m', g')) (f settings)
      | (Err err, g') \<Rightarrow> Some (Err err, m, g')
      | (Panic, g') \<Rightarrow> Some (Panic, m, g'))"

section \<open>The interface of a cached service\<close>

text \<open>
  A sequence of requests and the answers to those that return (one that never returns stores
  nothing and does not hold up the others); and the answers of their providers.
\<close>

fun run_service ::
    "('m \<Rightarrow> 'req \<Rightarrow> ('v result \<times> 'm) option) \<Rightarrow> 'm \<Rightarrow> 'req list \<Rightarrow> ('req \<times> 'v result) list" where
  "run_service step m [] = []"
| "run_service step m (req # reqs) =
     (case step m req of
        None \<Rightarrow> run_service step m reqs
      | Some (r, m') \<Rightarrow> (req, r) # run_service step m' reqs)"

definition answers ::
    "('req \<Rightarrow> string) \<Rightarrow> ('req \<Rightarrow> 'v result option) \<Rightarrow> 'req list \<Rightarrow> string \<Rightarrow> 'v set" where
  "answers key fetch reqs k = {v. \<exists>req \<in> set reqs. key req = k \<and> fetch req = Some (Ok v)}"

locale cached_service =
  fixes step :: "'m \<Rightarrow> 'req \<Rightarrow> ('v result \<times> 'm) option"
    and cache_of :: "'m \<Rightarrow> 'v Client"
    and key :: "'req \<Rightarrow> string"
    and fetch :: "'req \<Rightarrow> 'v result option"
  assumes step_cases: "step m req = Some (r, m') \<Longrightarrow>
      (cache_of m' = cache_of m \<and> (\<forall>v. r \<noteq> Ok v)) \<or>
      GetOrFetch_pure (cache_of m) (key req) (fetch req) = Some (r, cache_of m')"
begin

lemma step_serves:
  assumes "serves_only M (cache_of m)" "step m req = Some (r, m')"
    and "\<And>v. fetch req = Some (Ok v) \<Longrightarrow> v \<in> M (key req)"
  shows "serves_only M (cache_of m')" and "r = Ok v \<Longrightarrow> v \<in> M (key req)"
proof -
  have "serves_only M (cache_of m') \<and> (\<forall>v. r = Ok v \<longrightarrow> v \<in> M (key req))"
    using step_cases [OF assms(2)]
  proof
    assume "GetOrFetch_pure (cache_of m) (key req) (fetch req) = Some (r, cache_of m')"
    from GetOrFetch_pure_serves [OF assms(1) this assms(3)] show ?thesis by blast
  qed (use assms(1) in auto)
  then show "serves_only M (cache_of m')" and "r = Ok v \<Longrightarrow> v \<in> M (key req)" by blast+
qed

lemma run_serves:
  assumes "serves_only M (cache_of m)" "(req, Ok v) \<in> set (run_service step m reqs)"
    and "\<And>req v. req \<in> set reqs \<Longrightarrow> fetch req = Some (Ok v) \<Longrightarrow> v \<in> M (key req)"
  shows "req \<in> set reqs \<and> v \<in> M (key req)"
  using assms
proof (induction reqs arbitrary: m)
  case (Cons q reqs)
  have IH: "req \<in> set reqs \<and> v \<in> M (key req)"
    if "serves_only M (cache_of m')" "(req, Ok v) \<in> set (run_service step m' reqs)" for m'
    using Cons.IH [OF that] Cons.prems(3) by simp
  show ?case
  proof (cases "step m q")
    case None
    with IH [OF Cons.prems(1)] Cons.prems(2) show ?thesis by simp
  next
    case (Some p)
    then obtain r m' where run: "step m q = Some (r, m')" by (cases p) simp
    have ok: "serves_only M (cache_of m')" "\<And>v. r = Ok v \<Longrightarrow> v \<in> M (key q)"
      using step_serves [OF Cons.prems(1) run] Cons.prems(3) [of q] by auto
    from Cons.prems(2) run consider "req = q" "r = Ok v" | "(req, Ok v) \<in> set (run_service step m' reqs)"
      by auto
    then show ?thesis
    proof cases
      case 1
      with ok(2) show ?thesis by simp
    next
      case 2
      from IH [OF ok(1) this] show ?thesis by simp
    qed
  qed
qed simp

lemma run_provenance:
  assumes "serves_only (answers key fetch reqs) (cache_of m)"
    and "(req, Ok v) \<in> set (run_service step m reqs)"
  shows "\<exists>req' \<in> set reqs. key req' = key req \<and> fetch req' = Some (Ok v)"
  using run_serves [OF assms] by (auto simp: answers_def)

end

section \<open>Repositories\<close>

record RepositoriesProvider =
  RP_GetRepository :: "string \<Rightarrow> string \<Rightarrow> GitServerSettings \<Rightarrow> Repository option result"
  RP_ListRepositories ::
    "string \<Rightarrow> GitServerSettings \<Rightarrow> ListOptions \<Rightarrow> Repository list result option"

record MultiProviderRepositoryService =
  mr_providers :: "string \<Rightarrow> RepositoriesProvider option"
  mr_cache :: "Repository list Client"

definition repositories_providers :: "'p Env \<Rightarrow> string \<Rightarrow> RepositoriesProvider option" where
  "repositories_providers env =
     [''github'' \<mapsto>
        \<lparr>RP_GetRepository = GitHub_GetRepository (env_github env),
         RP_ListRepositories = GitHub_ListRepositories (env_github env) (env_lower env)\<rparr>,
      ''gitlab'' \<mapsto>
        \<lparr>RP_GetRepository = GitLab_GetRepository (env_gitlab env),
         RP_ListRepositories = GitLab_ListRepositories (env_gitlab env) (env_scan_projects env)\<rparr>,
      ''bitbucket'' \<mapsto>
        \<lparr>RP_GetRepository = Bitbucket_GetRepository (env_b64err env) (env_bitbucket env),
         RP_ListRepositories = (\<lambda>owner settings opts.
           Some (Bitbucket_ListRepositories (env_b64err env) (env_bitbucket env)
                   owner settings opts))\<rparr>]"

definition NewMultiProviderRepositoryService ::
    "'p Env \<Rightarrow> (CacheConfig \<Rightarrow> Repository list Client) \<Rightarrow> MultiProviderRepositoryService" where
  "NewMultiProviderRepositoryService env new =
     \<lparr>mr_providers = repositories_providers env, mr_cache = new RepositoryCacheConfig\<rparr>"

definition unsupported_provider :: "string \<Rightarrow> go_error" where
  "unsupported_provider name = Errorf ''unsupported provider: %s'' [FStr name]"

definition MultiProvider_GetRepository ::
    "MultiProviderRepositoryService \<Rightarrow> string \<Rightarrow> string \<Rightarrow> GitServerSettings
     \<Rightarrow> Repository option result" where
  "MultiProvider_GetRepository m owner repo settings =
     (case mr_providers m (Settings_GitProvider settings) of
        None \<Rightarrow> Err (unsupported_provider (Settings_GitProvider settings))
      | Some provider \<Rightarrow> RP_GetRepository provider owner repo settings)"

definition repositories_key :: "string \<Rightarrow> string \<Rightarrow> ListOptions \<Rightarrow> string" where
  "repositories_key gitServerName owner listOptions =
     Sprintf ''%s|%s|%s'' [FStr gitServerName, FStr owner,
       FStr (ValueOrEmpty [] (ListOptions_Name listOptions))]"

definition MultiProvider_ListRepositories ::
    "MultiProviderRepositoryService \<Rightarrow> string \<Rightarrow> GitServerSettings \<Rightarrow> ListOptions
     \<Rightarrow> (Repository list result \<times> MultiProviderRepositoryService) option" where
  "MultiProvider_ListRepositories m owner settings listOptions =
     (case mr_providers m (Settings_GitProvider settings) of
        None \<Rightarrow> Some (Err (unsupported_provider (Settings_GitProvider settings)), m)
      | Some provider \<Rightarrow>
          map_option (\<lambda>(r, c). (r, m\<lparr>mr_cache := c\<rparr>))
            (GetOrFetch_pure (mr_cache m)
               (repositories_key (Settings_GitServerName settings) owner listOptions)
               (RP_ListRepositories provider owner settings listOptions)))"

definition RepositoriesService_GetRepository ::
    "MultiProviderRepositoryService \<Rightarrow> GitServerService \<Rightarrow> string \<Rightarrow> string \<Rightarrow> string
     \<Rightarrow> (Repository option result \<times> MultiProviderRepositoryService \<times> GitServerService) option" where
  "RepositoriesService_GetRepository m g gitServerName owner repo =
     with_settings g gitServerName m
       (\<lambda>settings. Some (MultiProvider_GetRepository m owner repo settings, m))"

definition RepositoriesService_ListRepositories ::
    "MultiProviderRepositoryService \<Rightarrow> GitServerService \<Rightarrow> string \<Rightarrow> string \<Rightarrow> ListOptions
     \<Rightarrow> (Repository list result \<times> MultiProviderRepositoryService \<times> GitServerService) option" where
  "RepositoriesService_ListRepositories m g gitServerName owner listOptions =
     with_settings g gitServerName m
       (\<lambda>settings. MultiProvider_ListRepositories m owner settings listOptions)"

text \<open>A request to the service together with the providers as they answer at its time.\<close>

type_synonym repositories_request =
  "(string \<Rightarrow> RepositoriesProvider option) \<times> string \<times> GitServerSettings \<times> ListOptions"

fun repositories_step ::
    "MultiProviderRepositoryService \<Rightarrow> repositories_request
     \<Rightarrow> (Repository list result \<times> MultiProviderRepositoryService) option" where
  "repositories_step m (providers, owner, settings, opts) =
     MultiProvider_ListRepositories (m\<lparr>mr_providers := providers\<rparr>) owner settings opts"

fun repositories_request_key :: "repositories_request \<Rightarrow> string" where
  "repositories_request_key (providers, owner, settings, opts) =
     repositories_key (Settings_GitServerName settings) owner opts"

fun repositories_fetch :: "repositories_request \<Rightarrow> Repository list result option" where
  "repositories_fetch (providers, owner, settings, opts) =
     (case providers (Settings_GitProvider settings) of
        None \<Rightarrow> None
      | Some provider \<Rightarrow> RP_ListRepositories provider owner settings opts)"

interpretation repositories: cached_service
  repositories_step mr_cache repositories_request_key repositories_fetch
  by unfold_locales
    (auto simp: MultiProvider_ListRepositories_def split: option.splits)

lemma key_cut:
  "CHR ''|'' \<notin> set a \<Longrightarrow> CHR ''|'' \<notin> set b \<Longrightarrow>
   a @ CHR ''|'' # xs = b @ CHR ''|'' # ys \<longleftrightarrow> a = b \<and> xs = ys"
  by (rule append_sep_eq)

lemma key_cut_last:
  "CHR ''|'' \<notin> set xs \<Longrightarrow> CHR ''|'' \<notin> set ys \<Longrightarrow>
   a @ CHR ''|'' # xs = b @ CHR ''|'' # ys \<longleftrightarrow> a = b \<and> xs = ys"
  by (rule append_sep_eq_last)

definition no_bar :: "string \<Rightarrow> bool" where
  "no_bar s \<longleftrightarrow> CHR ''|'' \<notin> set s"

lemma repositories_key_inj:
  assumes "no_bar server" "no_bar server'" "no_bar owner" "no_bar owner'"
  shows "repositories_key server owner opts = repositories_key server' owner' opts' \<longleftrightarrow>
    server = server' \<and> owner = owner' \<and>
    ValueOrEmpty [] (ListOptions_Name opts) = ValueOrEmpty [] (ListOptions_Name opts')"
  using assms by (simp add: repositories_key_def Sprintf_def no_bar_def key_cut)

section \<open>Organizations\<close>

type_synonym OrganizationsProvider = "GitServerSettings \<Rightarrow> Organization list result option"

record MultiProviderOrganizationsService =
  mo_providers :: "string \<Rightarrow> OrganizationsProvider option"
  mo_cache :: "Organization list Client"

definition organizations_providers :: "'p Env \<Rightarrow> string \<Rightarrow> OrganizationsProvider option" where
  "organizations_providers env =
     [''github'' \<mapsto> GitHub_ListUserOrganizations (env_github env) (env_user_first env),
      ''gitlab'' \<mapsto> GitLab_ListUserOrganizations (env_gitlab env) (env_scan_groups env),
      ''bitbucket'' \<mapsto>
        (\<lambda>settings. Some (Bitbucket_ListUserOrganizations (env_b64err env) (env_rest env) settings))]"

definition MultiProvider_ListUserOrganizations ::
    "MultiProviderOrganizationsService \<Rightarrow> GitServerSettings
     \<Rightarrow> (Organization list result \<times> MultiProviderOrganizationsService) option" where
  "MultiProvider_ListUserOrganizations m settings =
     (case mo_providers m (Settings_GitProvider settings) of
        None \<Rightarrow> Some (Err (unsupported_provider (Settings_GitProvider settings)), m)
      | Some provider \<Rightarrow>
          map_option (\<lambda>(r, c). (r, m\<lparr>mo_cache := c\<rparr>))
            (GetOrFetch_pure (mo_cache m) (Settings_GitServerName settings) (provider settings)))"

definition NewMultiProviderOrganizationsService ::
    "'p Env \<Rightarrow> (CacheConfig \<Rightarrow> Organization list Client) \<Rightarrow> MultiProviderOrganizationsService" where
  "NewMultiProviderOrganizationsService env new =
     \<lparr>mo_providers = organizations_providers env, mo_cache = new OrganizationCacheConfig\<rparr>"

text \<open>
  The constructor also starts a goroutine that reads the settings of all servers and starts one
  goroutine per server, each of which lists the organizations once: from then on these run beside
  the requests, in any order.
\<close>

definition warm_up_settings :: "GitServerService \<Rightarrow> GitServerSettings list" where
  "warm_up_settings gitServerService =
     (case GetGitProviderSettingsList gitServerService of
        Ok settings \<Rightarrow> settings
      | _ \<Rightarrow> [])"

definition warm_up ::
    "MultiProviderOrganizationsService \<Rightarrow> GitServerSettings
     \<Rightarrow> MultiProviderOrganizationsService option" where
  "warm_up service setting =
     map_option snd (MultiProvider_ListUserOrganizations service setting)"

definition OrganizationsService_ListUserOrganizations ::
    "MultiProviderOrganizationsService \<Rightarrow> GitServerService \<Rightarrow> string
     \<Rightarrow> (Organization list result \<times> MultiProviderOrganizationsService \<times> GitServerService) option" where
  "OrganizationsService_ListUserOrganizations m g gitServerName =
     with_settings g gitServerName m (MultiProvider_ListUserOrganizations m)"

type_synonym organizations_request =
  "(string \<Rightarrow> OrganizationsProvider option) \<times> GitServerSettings"

fun organizations_step ::
    "MultiProviderOrganizationsService \<Rightarrow> organizations_request
     \<Rightarrow> (Organization list result \<times> MultiProviderOrganizationsService) option" where
  "organizations_step m (providers, settings) =
     MultiProvider_ListUserOrganizations (m\<lparr>mo_providers := providers\<rparr>) settings"

fun organizations_request_key :: "organizations_request \<Rightarrow> string" where
  "organizations_request_key (providers, settings) = Settings_GitServerName settings"

fun organizations_fetch :: "organizations_request \<Rightarrow> Organization list result option" where
  "organizations_fetch (providers, settings) =
     (case providers (Settings_GitProvider settings) of
        None \<Rightarrow> None
      | Some provider \<Rightarrow> provider settings)"

interpretation organizations: cached_service
  organizations_step mo_cache organizations_request_key organizations_fetch
  by unfold_locales
    (auto simp: MultiProvider_ListUserOrganizations_def split: option.splits)

text \<open>A warm-up is one more request, with the providers of the service.\<close>

lemma warm_up_step:
  "warm_up m setting = map_option snd (organizations_step m (mo_providers m, setting))"
  by (simp add: warm_up_def)

lemma warm_up_settings_usable:
  assumes "setting \<in> set (warm_up_settings g)"
  shows "setting \<in> usable_settings (Settings_GitServerName setting)"
proof -
  obtain settings where settings: "GetGitProviderSettingsList g = Ok settings"
      and mem: "setting \<in> set settings"
    using assms by (cases "GetGitProviderSettingsList g") (simp_all add: warm_up_settings_def)
  then obtain servers where list: "try_map (\<lambda>gs. case getGitProviderSettingsForServer g gs of
        Err err \<Rightarrow> Err (Errorf ''failed to get settings for GitServer %s: %w'' [FStr (gs_Name gs), FErr err])
      | r \<Rightarrow> r) servers = Ok settings"
    by (auto simp: GetGitProviderSettingsList_def split: sum.splits)
  from mem obtain i where i: "i < length settings" "setting = settings ! i"
    by (auto simp: in_set_conv_nth)
  with list have "getGitProviderSettingsForServer g (servers ! i) = Ok setting"
    by (cases "getGitProviderSettingsForServer g (servers ! i)")
      (auto simp: try_map_Ok_iff list_all2_conv_all_nth split: res.splits)
  from settings_for_server_Ok [OF this] show ?thesis by (auto simp: usable_settings_def)
qed

section \<open>Branches\<close>

type_synonym BranchesProvider =
  "string \<Rightarrow> string \<Rightarrow> GitServerSettings \<Rightarrow> ListOptions \<Rightarrow> Branch list result option"

record MultiProviderBranchesService =
  mb_providers :: "string \<Rightarrow> BranchesProvider option"
  mb_cache :: "Branch list Client"

definition branches_providers :: "'p Env \<Rightarrow> string \<Rightarrow> BranchesProvider option" where
  "branches_providers env =
     [''github'' \<mapsto> GitHub_ListBranches (env_github env),
      ''gitlab'' \<mapsto> GitLab_ListBranches (env_gitlab env) (env_scan_branches env),
      ''bitbucket'' \<mapsto> Bitbucket_ListBranches (env_b64err env) (env_bitbucket env)]"

definition NewMultiProviderBranchesService ::
    "'p Env \<Rightarrow> (CacheConfig \<Rightarrow> Branch list Client) \<Rightarrow> MultiProviderBranchesService" where
  "NewMultiProviderBranchesService env new =
     \<lparr>mb_providers = branches_providers env, mb_cache = new BranchCacheConfig\<rparr>"

definition branches_key :: "string \<Rightarrow> string \<Rightarrow> string \<Rightarrow> ListOptions \<Rightarrow> string" where
  "branches_key gitServerName owner repo opts =
     Sprintf ''%s|%s|%s|%s'' [FStr gitServerName, FStr owner, FStr repo,
       FStr (ValueOrEmpty [] (ListOptions_Name opts))]"

definition MultiProvider_ListBranches ::
    "MultiProviderBranchesService \<Rightarrow> string \<Rightarrow> string \<Rightarrow> GitServerSettings \<Rightarrow> ListOptions
     \<Rightarrow> (Branch list result \<times> MultiProviderBranchesService) option" where
  "MultiProvider_ListBranches m owner repo settings opts =
     (case mb_providers m (Settings_GitProvider settings) of
        None \<Rightarrow> Some (Err (unsupported_provider (Settings_GitProvider settings)), m)
      | Some provider \<Rightarrow>
          map_option (\<lambda>(r, c). (r, m\<lparr>mb_cache := c\<rparr>))
            (GetOrFetch_pure (mb_cache m)
               (branches_key (Settings_GitServerName settings) owner repo opts)
               (provider owner repo settings opts)))"

definition BranchesService_ListBranches ::
    "MultiProviderBranchesService \<Rightarrow> GitServerService \<Rightarrow> string \<Rightarrow> string \<Rightarrow> string \<Rightarrow> ListOptions
     \<Rightarrow> (Branch list result \<times> MultiProviderBranchesService \<times> GitServerService) option" where
  "BranchesService_ListBranches m g gitServerName owner repoName opts =
     with_settings g gitServerName m
       (\<lambda>settings. MultiProvider_ListBranches m owner repoName settings opts)"

type_synonym branches_request =
  "(string \<Rightarrow> BranchesProvider option) \<times> string \<times> string \<times> GitServerSettings \<times> ListOptions"

fun branches_step ::
    "MultiProviderBranchesService \<Rightarrow> branches_request
     \<Rightarrow> (Branch list result \<times> MultiProviderBranchesService) option" where
  "branches_step m (providers, owner, repo, settings, opts) =
     MultiProvider_ListBranches (m\<lparr>mb_providers := providers\<rparr>) owner repo settings opts"

fun branches_request_key :: "branches_request \<Rightarrow> string" where
  "branches_request_key (providers, owner, repo, settings, opts) =
     branches_key (Settings_GitServerName settings) owner repo opts"

fun branches_fetch :: "branches_request \<Rightarrow> Branch list result option" where
  "branches_fetch (providers, owner, repo, settings, opts) =
     (case providers (Settings_GitProvider settings) of
        None \<Rightarrow> None
      | Some provider \<Rightarrow> provider owner repo settings opts)"

interpretation branches: cached_service
  branches_step mb_cache branches_request_key branches_fetch
  by unfold_locales
    (auto simp: MultiProvider_ListBranches_def split: option.splits)

lemma branches_key_inj:
  assumes "no_bar server" "no_bar server'" "no_bar owner" "no_bar owner'" "no_bar repo" "no_bar repo'"
  shows "branches_key server owner repo opts = branches_key server' owner' repo' opts' \<longleftrightarrow>
    server = server' \<and> owner = owner' \<and> repo = repo' \<and>
    ValueOrEmpty [] (ListOptions_Name opts) = ValueOrEmpty [] (ListOptions_Name opts')"
  using assms by (simp add: branches_key_def Sprintf_def no_bar_def key_cut)

section \<open>Pull requests\<close>

type_synonym PullRequestsProvider =
  "string \<Rightarrow> string \<Rightarrow> GitServerSettings \<Rightarrow> PullRequestListOptions \<Rightarrow> PullRequestsResponse result"

record MultiProviderPullRequestsService =
  mp_providers :: "string \<Rightarrow> PullRequestsProvider option"
  mp_cache :: "PullRequestsResponse Client"

definition pullrequests_providers :: "'p Env \<Rightarrow> string \<Rightarrow> PullRequestsProvider option" where
  "pullrequests_providers env =
     [''github'' \<mapsto> GitHub_ListPullRequests (env_github env) (env_ctx_err env),
      ''gitlab'' \<mapsto> GitLab_ListPullRequests (env_gitlab env),
      ''bitbucket'' \<mapsto>
        Bitbucket_ListPullRequests (env_b64err env) (env_timeerr env) (env_rest env)]"

definition NewMultiProviderPullRequestsService ::
    "'p Env \<Rightarrow> (CacheConfig \<Rightarrow> PullRequestsResponse Client) \<Rightarrow> MultiProviderPullRequestsService" where
  "NewMultiProviderPullRequestsService env new =
     \<lparr>mp_providers = pullrequests_providers env, mp_cache = new PullRequestCacheConfig\<rparr>"

definition pullrequests_key ::
    "string \<Rightarrow> string \<Rightarrow> string \<Rightarrow> PullRequestListOptions \<Rightarrow> string" where
  "pullrequests_key gitServerName owner repo opts =
     Sprintf ''%s|%s|%s|%s|%d|%d'' [FStr gitServerName, FStr owner, FStr repo,
       FStr (PRList_State opts), FInt (PRList_Page opts), FInt (PRList_PerPage opts)]"

definition MultiProvider_ListPullRequests ::
    "MultiProviderPullRequestsService \<Rightarrow> string \<Rightarrow> string \<Rightarrow> GitServerSettings
     \<Rightarrow> PullRequestListOptions
     \<Rightarrow> (PullRequestsResponse result \<times> MultiProviderPullRequestsService) option" where
  "MultiProvider_ListPullRequests m owner repo settings opts =
     (case mp_providers m (Settings_GitProvider settings) of
        None \<Rightarrow> Some (Err (unsupported_provider (Settings_GitProvider settings)), m)
      | Some provider \<Rightarrow>
          map_option (\<lambda>(r, c). (r, m\<lparr>mp_cache := c\<rparr>))
            (GetOrFetch_pure (mp_cache m)
               (pullrequests_key (Settings_GitServerName settings) owner repo opts)
               (Some (provider owner repo settings opts))))"

definition PullRequestsService_ListPullRequests ::
    "MultiProviderPullRequestsService \<Rightarrow> GitServerService \<Rightarrow> string \<Rightarrow> string \<Rightarrow> string
     \<Rightarrow> PullRequestListOptions
     \<Rightarrow> (PullRequestsResponse result \<times> MultiProviderPullRequestsService \<times> GitServerService) option" where
  "PullRequestsService_ListPullRequests m g gitServerName owner repoName opts =
     with_settings g gitServerName m
       (\<lambda>settings. MultiProvider_ListPullRequests m owner repoName settings opts)"

type_synonym pullrequests_request =
  "(string \<Rightarrow> PullRequestsProvider option) \<times> string \<times> string \<times> GitServerSettings
   \<times> PullRequestListOptions"

fun pullrequests_step ::
    "MultiProviderPullRequestsService \<Rightarrow> pullrequests_request
     \<Rightarrow> (PullRequestsResponse result \<times> MultiProviderPullRequestsService) option" where
  "pullrequests_step m (providers, owner, repo, settings, opts) =
     MultiProvider_ListPullRequests (m\<lparr>mp_providers := providers\<rparr>) owner repo settings opts"

fun pullrequests_request_key :: "pullrequests_request \<Rightarrow> string" where
  "pullrequests_request_key (providers, owner, repo, settings, opts) =
     pullrequests_key (Settings_GitServerName settings) owner repo opts"

fun pullrequests_fetch :: "pullrequests_request \<Rightarrow> PullRequestsResponse result option" where
  "pullrequests_fetch (providers, owner, repo, settings, opts) =
     map_option (\<lambda>provider. provider owner repo settings opts)
       (providers (Settings_GitProvider settings))"

interpretation pullrequests: cached_service
  pullrequests_step mp_cache pullrequests_request_key pullrequests_fetch
  by unfold_locales
    (auto simp: MultiProvider_ListPullRequests_def split: option.splits)

lemma pullrequests_key_inj:
  assumes "no_bar server" "no_bar server'" "no_bar owner" "no_bar owner'" "no_bar repo" "no_bar repo'"
  shows "pullrequests_key server owner repo opts = pullrequests_key server' owner' repo' opts' \<longleftrightarrow>
    server = server' \<and> owner = owner' \<and> repo = repo' \<and> opts = opts'"
proof -
  let ?tail = "\<lambda>opts. PRList_State opts @ CHR ''|'' # strconv_Itoa (PRList_Page opts)"
  have "pullrequests_key server owner repo opts = pullrequests_key server' owner' repo' opts' \<longleftrightarrow>
      server = server' \<and> owner = owner' \<and> repo = repo' \<and>
      ?tail opts @ CHR ''|'' # strconv_Itoa (PRList_PerPage opts) =
      ?tail opts' @ CHR ''|'' # strconv_Itoa (PRList_PerPage opts')"
    using assms by (simp add: pullrequests_key_def Sprintf_def no_bar_def key_cut)
  also have "?tail opts @ CHR ''|'' # strconv_Itoa (PRList_PerPage opts) =
      ?tail opts' @ CHR ''|'' # strconv_Itoa (PRList_PerPage opts') \<longleftrightarrow>
      PRList_State opts = PRList_State opts' \<and> PRList_Page opts = PRList_Page opts' \<and>
      PRList_PerPage opts = PRList_PerPage opts'"
    by (simp only: key_cut_last [OF Itoa_no_bar Itoa_no_bar] Itoa_inj conj_assoc)
  also have "PRList_State opts = PRList_State opts' \<and> PRList_Page opts = PRList_Page opts' \<and>
      PRList_PerPage opts = PRList_PerPage opts' \<longleftrightarrow> opts = opts'"
    by (metis PullRequestListOptions.surjective old.unit.exhaust)
  finally show ?thesis .
qed

section \<open>Properties\<close>

text \<open>Provenance of repository listings.  In any sequence of requests against providers that may
  change their answers from request to request, a listing that is served was returned by the
  provider to one of the requests, and this request named the same git server, the same owner and
  the same name filter: the cache never serves a listing across servers, owners or filters.\<close>

theorem repositories_provenance:
  assumes "serves_only (answers repositories_request_key repositories_fetch reqs) (mr_cache m)"
    and "((providers, owner, settings, opts), Ok listing) \<in> set (run_service repositories_step m reqs)"
    and "\<forall>(_, o1, s1, _) \<in> set reqs. no_bar (Settings_GitServerName s1) \<and> no_bar o1"
  shows "\<exists>(providers', owner', settings', opts') \<in> set reqs.
    Settings_GitServerName settings' = Settings_GitServerName settings \<and> owner' = owner \<and>
    ValueOrEmpty [] (ListOptions_Name opts') = ValueOrEmpty [] (ListOptions_Name opts) \<and>
    repositories_fetch (providers', owner', settings', opts') = Some (Ok listing)"
proof -
  have mem: "(providers, owner, settings, opts) \<in> set reqs"
    using repositories.run_serves [OF assms(1,2)] by (auto simp: answers_def)
  obtain req' where "req' \<in> set reqs" and req':
      "repositories_request_key req' = repositories_request_key (providers, owner, settings, opts)"
      "repositories_fetch req' = Some (Ok listing)"
    using repositories.run_provenance [OF assms(1,2)] by blast
  moreover obtain ps' o' s' p' where eq: "req' = (ps', o', s', p')" by (cases req')
  ultimately have mem': "(ps', o', s', p') \<in> set reqs" by simp
  have "no_bar (Settings_GitServerName s') \<and> no_bar o'"
    "no_bar (Settings_GitServerName settings) \<and> no_bar owner"
    using bspec [OF assms(3) mem'] bspec [OF assms(3) mem] by simp_all
  with req'(1) have "Settings_GitServerName s' = Settings_GitServerName settings \<and> o' = owner \<and>
      ValueOrEmpty [] (ListOptions_Name p') = ValueOrEmpty [] (ListOptions_Name opts)"
    using repositories_key_inj [of "Settings_GitServerName s'" "Settings_GitServerName settings"
        o' owner p' opts] by (simp add: eq)
  with req'(2) show ?thesis by (intro bexI [OF _ mem']) (simp add: eq)
qed

definition demo_repositories :: "Repository list result \<Rightarrow> string \<Rightarrow> RepositoriesProvider option" where
  "demo_repositories r =
     [''gitlab'' \<mapsto> \<lparr>RP_GetRepository = (\<lambda>_ _ _. Err ErrNotFound),
                    RP_ListRepositories = (\<lambda>_ _ _. Some r)\<rparr>]"

lemma assoc_client_serves: "serves_only M (assoc_client [])"
  using client_ok_serves_only [OF assoc_client_ok [of "[]"], of M] by simp

text \<open>The second request finds a provider that fails, and is served the answer to the first.\<close>

lemma repositories_provenance_witness:
  "\<exists>(providers', owner', settings', opts') \<in> set
       [(demo_repositories (Ok []), ''team'', demo_settings, \<lparr>ListOptions_Name = None\<rparr>),
        (demo_repositories (Err ErrNotFound), ''team'', demo_settings, \<lparr>ListOptions_Name = None\<rparr>)].
     Settings_GitServerName settings' = Settings_GitServerName demo_settings \<and> owner' = ''team'' \<and>
     ValueOrEmpty [] (ListOptions_Name opts') = ValueOrEmpty [] None \<and>
     repositories_fetch (providers', owner', settings', opts') = Some (Ok [])"
  using repositories_provenance [of
      "[(demo_repositories (Ok []), ''team'', demo_settings, \<lparr>ListOptions_Name = None\<rparr>),
        (demo_repositories (Err ErrNotFound), ''team'', demo_settings, \<lparr>ListOptions_Name = None\<rparr>)]"
      "\<lparr>mr_providers = Map.empty, mr_cache = assoc_client []\<rparr>"
      "demo_repositories (Err ErrNotFound)" "''team''" demo_settings "\<lparr>ListOptions_Name = None\<rparr>" "[]"]
  by (simp add: assoc_client_serves MultiProvider_ListRepositories_def GetOrFetch_pure_def
      GetOrFetch_def demo_repositories_def demo_settings_def no_bar_def)

text \<open>Provenance of organization listings.  The warm-ups the constructor starts may run in any order and
  anywhere among the requests of the users; a listing that is served was still returned by the
  provider for the same git server, either to a user's request or to a warm-up, and a warm-up never
  asks without a token.\<close>

theorem organizations_provenance:
  assumes "mset reqs = mset users + mset (map (\<lambda>setting. (organizations_providers env, setting))
             (warm_up_settings g))"
    and "serves_only (answers organizations_request_key organizations_fetch reqs) (mo_cache m)"
    and "((providers, settings), Ok orgs) \<in> set (run_service organizations_step m reqs)"
  shows "(\<exists>(providers', settings') \<in> set users.
      Settings_GitServerName settings' = Settings_GitServerName settings \<and>
      organizations_fetch (providers', settings') = Some (Ok orgs)) \<or>
    (\<exists>setting \<in> set (warm_up_settings g).
      Settings_GitServerName setting = Settings_GitServerName settings \<and> Settings_Token setting \<noteq> [] \<and>
      organizations_fetch (organizations_providers env, setting) = Some (Ok orgs))"
proof -
  obtain ps s where req: "(ps, s) \<in> set reqs"
    "Settings_GitServerName s = Settings_GitServerName settings"
    "organizations_fetch (ps, s) = Some (Ok orgs)"
    using organizations.run_provenance [OF assms(2,3)] by fastforce
  from arg_cong [OF assms(1), of set_mset] req(1)
  have "(ps, s) \<in> set users \<or> (ps = organizations_providers env \<and> s \<in> set (warm_up_settings g))"
    by auto
  then show ?thesis
  proof
    assume "(ps, s) \<in> set users"
    with req(2,3) show ?thesis by blast
  next
    assume "ps = organizations_providers env \<and> s \<in> set (warm_up_settings g)"
    with req(2,3) warm_up_settings_usable [of s g] show ?thesis by (auto simp: usable_settings_def)
  qed
qed

definition demo_orgs :: "string \<Rightarrow> OrganizationsProvider option" where
  "demo_orgs = [''gitlab'' \<mapsto> (\<lambda>_. Some (Ok [\<lparr>Organization_AvatarUrl = None, Organization_Id = ''1'',
     Organization_Name = ''team''\<rparr>]))]"

lemma organizations_provenance_witness:
  "\<exists>(providers', settings') \<in> set [(demo_orgs, demo_settings)].
     Settings_GitServerName settings' = ''main'' \<and>
     organizations_fetch (providers', settings') = Some (Ok [\<lparr>Organization_AvatarUrl = None,
       Organization_Id = ''1'', Organization_Name = ''team''\<rparr>])"
proof -
  have no: "warm_up_settings (demo_server ''t'') = []"
    by (simp add: warm_up_settings_def GetGitProviderSettingsList_def demo_server_def demo_k8s_def)
  show ?thesis
    using organizations_provenance [where users = "[(demo_orgs, demo_settings)]"
        and reqs = "[(demo_orgs, demo_settings)]" and g = "demo_server ''t''" and providers = demo_orgs
        and m = "\<lparr>mo_providers = Map.empty, mo_cache = assoc_client []\<rparr>" and settings = demo_settings]
    by (simp add: no assoc_client_serves MultiProvider_ListUserOrganizations_def GetOrFetch_pure_def
        GetOrFetch_def demo_orgs_def demo_settings_def)
qed


definition demo_pulls :: "PullRequestsResponse result \<Rightarrow> string \<Rightarrow> PullRequestsProvider option" where
  "demo_pulls r = [''gitlab'' \<mapsto> (\<lambda>_ _ _ _. r)]"

definition demo_pr_options :: PullRequestListOptions where
  "demo_pr_options = \<lparr>PRList_State = ''open'', PRList_Page = 1, PRList_PerPage = 20\<rparr>"


end
