(* ===== verification/Pipelines.thy ===== *)
theory Pipelines
  imports Services GitHubPipelines
begin

text \<open>
  \<open>internal/services/pipelines\<close>: triggering and listing pipelines, the jobs of a pipeline and the
  traces of jobs.  The jobs list is cached for seconds; while fetching it the service records the
  finished jobs in \<open>terminalJobs\<close>, and a trace of a recorded job goes to the long-lived tier of
  the trace cache.

  A request is one atomic step.  Concurrent misses on one trace are collapsed by a \<open>singleflight\<close>
  group; \<open>joined\<close> says whether this request runs the fetch itself (\<open>None\<close>) or waits for another
  request with the same key and shares its result.
\<close>

section \<open>Providers and state\<close>

record PipelineJobsProvider =
  PJ_ListPipelineJobs ::
    "string \<Rightarrow> int \<Rightarrow> GitServerSettings \<Rightarrow> PipelineJob list result option"
  PJ_GetJobTrace :: "string \<Rightarrow> int \<Rightarrow> GitServerSettings \<Rightarrow> (string \<times> bool) result"

text \<open>\<open>PP_jobs\<close> is the type assertion \<open>provider.(PipelineJobsProvider)\<close>.\<close>

record PipelineProvider =
  PP_TriggerPipeline ::
    "string \<Rightarrow> string \<Rightarrow> PipelineVariable list \<Rightarrow> GitServerSettings \<Rightarrow> PipelineResponse result"
  PP_ListPipelines ::
    "string \<Rightarrow> GitServerSettings \<Rightarrow> PipelineListOptions \<Rightarrow> PipelinesResponse result"
  PP_jobs :: "PipelineJobsProvider option"

record MultiProviderPipelineService =
  mpl_providers :: "string \<Rightarrow> PipelineProvider option"
  mpl_cache :: "PipelinesResponse Client"
  jobsCache :: "PipelineJob list Client"
  traceCache :: "JobTrace TerminalAwareCache"
  terminalJobs :: "bool Client"

definition pipeline_providers :: "'p Env \<Rightarrow> string \<Rightarrow> PipelineProvider option" where
  "pipeline_providers env =
     [''gitlab'' \<mapsto>
        \<lparr>PP_TriggerPipeline = GitLab_TriggerPipeline (env_gitlab env),
         PP_ListPipelines = GitLab_ListPipelines (env_gitlab env),
         PP_jobs = Some
           \<lparr>PJ_ListPipelineJobs = GitLab_ListPipelineJobs (env_gitlab env) (env_scan_jobs env),
            PJ_GetJobTrace = GitLab_GetJobTrace (env_PathEscape env) (env_http_get env)\<rparr>\<rparr>,
      ''github'' \<mapsto>
        \<lparr>PP_TriggerPipeline = GitHub_TriggerPipeline,
         PP_ListPipelines = GitHub_ListPipelines (env_github env),
         PP_jobs = None\<rparr>,
      ''bitbucket'' \<mapsto>
        \<lparr>PP_TriggerPipeline = Bitbucket_TriggerPipeline,
         PP_ListPipelines =
           Bitbucket_ListPipelines (env_b64err env) (env_timeerr env) (env_rest env),
         PP_jobs = None\<rparr>]"

record cache_constructors =
  new_pipelines :: "CacheConfig \<Rightarrow> PipelinesResponse Client"
  new_jobs :: "CacheConfig \<Rightarrow> PipelineJob list Client"
  new_traces :: "CacheConfig \<Rightarrow> JobTrace Client"
  new_flags :: "CacheConfig \<Rightarrow> bool Client"

definition NewMultiProviderPipelineService ::
    "'p Env \<Rightarrow> cache_constructors \<Rightarrow> MultiProviderPipelineService" where
  "NewMultiProviderPipelineService env new =
     \<lparr>mpl_providers = pipeline_providers env,
      mpl_cache = new_pipelines new PipelineCacheConfig,
      jobsCache = new_jobs new PipelineJobsCacheConfig,
      traceCache = NewPipelineJobTraceCache (new_traces new),
      terminalJobs = new_flags new TerminalJobsConfig\<rparr>"

section \<open>Operations\<close>

definition terminalJobStatuses :: "string \<Rightarrow> bool option" where
  "terminalJobStatuses =
     [''success'' \<mapsto> True, ''failed'' \<mapsto> True, ''canceled'' \<mapsto> True, ''skipped'' \<mapsto> True]"

definition isTerminalJobStatus :: "string \<Rightarrow> bool" where
  "isTerminalJobStatus status = ValueOrEmpty False (terminalJobStatuses status)"

definition terminalJobKey :: "string \<Rightarrow> string \<Rightarrow> string" where
  "terminalJobKey gitServerName jobID = Sprintf ''%s|%s'' [FStr gitServerName, FStr jobID]"

definition unsupported_request :: "string \<Rightarrow> string \<Rightarrow> go_error" where
  "unsupported_request f name = Errorf f [FStr name, FErr ErrBadRequest]"

definition MultiProvider_TriggerPipeline ::
    "MultiProviderPipelineService \<Rightarrow> string \<Rightarrow> string \<Rightarrow> PipelineVariable list
     \<Rightarrow> GitServerSettings \<Rightarrow> PipelineResponse result" where
  "MultiProvider_TriggerPipeline m project ref variables settings =
     (case mpl_providers m (Settings_GitProvider settings) of
        None \<Rightarrow> Err (unsupported_request ''unsupported provider %s: %w'' (Settings_GitProvider settings))
      | Some provider \<Rightarrow> PP_TriggerPipeline provider project ref variables settings)"

definition pipelines_key :: "string \<Rightarrow> string \<Rightarrow> PipelineListOptions \<Rightarrow> string" where
  "pipelines_key gitServerName project opts =
     (let refKey = (case PLList_Ref opts of None \<Rightarrow> [] | Some ref \<Rightarrow> ref);
          statusKey = (case PLList_Status opts of None \<Rightarrow> [] | Some status \<Rightarrow> status)
      in Sprintf ''%s|%s|%s|%s|%d|%d'' [FStr gitServerName, FStr project, FStr refKey,
           FStr statusKey, FInt (PLList_Page opts), FInt (PLList_PerPage opts)])"

definition MultiProvider_ListPipelines ::
    "MultiProviderPipelineService \<Rightarrow> string \<Rightarrow> GitServerSettings \<Rightarrow> PipelineListOptions
     \<Rightarrow> (PipelinesResponse result \<times> MultiProviderPipelineService) option" where
  "MultiProvider_ListPipelines m project settings opts =
     (case mpl_providers m (Settings_GitProvider settings) of
        None \<Rightarrow> Some (Err (unsupported_request ''unsupported provider %s: %w''
                         (Settings_GitProvider settings)), m)
      | Some provider \<Rightarrow>
          map_option (\<lambda>(r, c). (r, m\<lparr>mpl_cache := c\<rparr>))
            (GetOrFetch_pure (mpl_cache m)
               (pipelines_key (Settings_GitServerName settings) project opts)
               (Some (PP_ListPipelines provider project settings opts))))"

definition jobsProvider ::
    "MultiProviderPipelineService \<Rightarrow> string \<Rightarrow> go_error + PipelineJobsProvider" where
  "jobsProvider m gitProvider =
     (case mpl_providers m gitProvider of
        None \<Rightarrow> Inl (unsupported_request ''unsupported provider %s: %w'' gitProvider)
      | Some provider \<Rightarrow>
          (case PP_jobs provider of
             None \<Rightarrow> Inl (unsupported_request ''provider %s does not support pipeline jobs: %w''
                            gitProvider)
           | Some jp \<Rightarrow> Inr jp))"

fun markTerminalJobs :: "bool Client \<Rightarrow> string \<Rightarrow> PipelineJob list \<Rightarrow> bool Client" where
  "markTerminalJobs tj gitServerName [] = tj"
| "markTerminalJobs tj gitServerName (job # jobs) =
     markTerminalJobs
       (if isTerminalJobStatus (PipelineJob_Status job)
        then Client_Set tj (terminalJobKey gitServerName (PipelineJob_Id job)) True else tj)
       gitServerName jobs"

definition jobs_key :: "string \<Rightarrow> string \<Rightarrow> int \<Rightarrow> string" where
  "jobs_key gitServerName project ident =
     Sprintf ''%s|%s|%d'' [FStr gitServerName, FStr project, FInt ident]"

definition jobs_fetch ::
    "PipelineJobsProvider \<Rightarrow> string \<Rightarrow> int \<Rightarrow> GitServerSettings \<Rightarrow> bool Client
     \<Rightarrow> (PipelineJob list result \<times> bool Client) option" where
  "jobs_fetch jp project pipelineID settings tj =
     map_option
       (\<lambda>r. case r of
              Ok jobs \<Rightarrow> (Ok jobs, markTerminalJobs tj (Settings_GitServerName settings) jobs)
            | _ \<Rightarrow> (r, tj))
       (PJ_ListPipelineJobs jp project pipelineID settings)"

definition MultiProvider_ListPipelineJobs ::
    "MultiProviderPipelineService \<Rightarrow> string \<Rightarrow> int \<Rightarrow> GitServerSettings
     \<Rightarrow> (PipelineJob list result \<times> MultiProviderPipelineService) option" where
  "MultiProvider_ListPipelineJobs m project pipelineID settings =
     (case jobsProvider m (Settings_GitProvider settings) of
        Inl err \<Rightarrow> Some (Err err, m)
      | Inr jp \<Rightarrow>
          map_option (\<lambda>(r, c, tj). (r, m\<lparr>jobsCache := c, terminalJobs := tj\<rparr>))
            (GetOrFetch (jobsCache m) (jobs_key (Settings_GitServerName settings) project pipelineID)
               (jobs_fetch jp project pipelineID settings) (terminalJobs m)))"

definition cacheable :: "JobTrace \<Rightarrow> bool" where
  "cacheable t \<longleftrightarrow> \<not> JobTrace_Truncated t \<and> int (length (JobTrace_Content t)) \<le> MaxCacheableTraceBytes"

text \<open>The function run under the flight.\<close>

definition trace_flight ::
    "MultiProviderPipelineService \<Rightarrow> PipelineJobsProvider \<Rightarrow> string \<Rightarrow> string \<Rightarrow> int
     \<Rightarrow> GitServerSettings \<Rightarrow> JobTrace result \<times> MultiProviderPipelineService" where
  "trace_flight m jp key project jobID settings =
     (case TAC_Get (traceCache m) key of
        (Some cached, tc) \<Rightarrow> (Ok cached, m\<lparr>traceCache := tc\<rparr>)
      | (None, tc) \<Rightarrow>
          (case PJ_GetJobTrace jp project jobID settings of
             Err ferr \<Rightarrow> (Err ferr, m\<lparr>traceCache := tc\<rparr>)
           | Panic \<Rightarrow> (Panic, m\<lparr>traceCache := tc\<rparr>)
           | Ok (content, truncated) \<Rightarrow>
               (let trace = \<lparr>JobTrace_Content = content, JobTrace_Truncated = truncated\<rparr> in
                if cacheable trace then
                  (case Client_Get (terminalJobs m)
                          (terminalJobKey (Settings_GitServerName settings) (strconv_Itoa jobID)) of
                     (r, tj) \<Rightarrow>
                       (Ok trace, m\<lparr>terminalJobs := tj, traceCache := TAC_Set tc key trace (r \<noteq> None)\<rparr>))
                else (Ok trace, m\<lparr>traceCache := tc\<rparr>))))"

definition trace_result :: "JobTrace result \<Rightarrow> (string \<times> bool) result" where
  "trace_result r = res_bind r (\<lambda>t. Ok (JobTrace_Content t, JobTrace_Truncated t))"

definition MultiProvider_GetJobTrace ::
    "MultiProviderPipelineService \<Rightarrow> JobTrace result option \<Rightarrow> string \<Rightarrow> int \<Rightarrow> GitServerSettings
     \<Rightarrow> (string \<times> bool) result \<times> MultiProviderPipelineService" where
  "MultiProvider_GetJobTrace m joined project jobID settings =
     (case jobsProvider m (Settings_GitProvider settings) of
        Inl err \<Rightarrow> (Err err, m)
      | Inr jp \<Rightarrow>
          (let key = jobs_key (Settings_GitServerName settings) project jobID in
           case TAC_Get (traceCache m) key of
             (Some cached, tc) \<Rightarrow> (trace_result (Ok cached), m\<lparr>traceCache := tc\<rparr>)
           | (None, tc) \<Rightarrow>
               (case joined of
                  Some r \<Rightarrow> (trace_result r, m\<lparr>traceCache := tc\<rparr>)
                | None \<Rightarrow>
                    (case trace_flight (m\<lparr>traceCache := tc\<rparr>) jp key project jobID settings of
                       (r, m') \<Rightarrow> (trace_result r, m')))))"

section \<open>The pipelines service\<close>

definition PipelinesService_TriggerPipeline ::
    "MultiProviderPipelineService \<Rightarrow> GitServerService \<Rightarrow> string \<Rightarrow> string \<Rightarrow> string
     \<Rightarrow> PipelineVariable list
     \<Rightarrow> (PipelineResponse result \<times> MultiProviderPipelineService \<times> GitServerService) option" where
  "PipelinesService_TriggerPipeline m g gitServerName project ref variables =
     with_settings g gitServerName m
       (\<lambda>settings. Some (MultiProvider_TriggerPipeline m project ref variables settings, m))"

definition PipelinesService_ListPipelines ::
    "MultiProviderPipelineService \<Rightarrow> GitServerService \<Rightarrow> string \<Rightarrow> string \<Rightarrow> PipelineListOptions
     \<Rightarrow> (PipelinesResponse result \<times> MultiProviderPipelineService \<times> GitServerService) option" where
  "PipelinesService_ListPipelines m g gitServerName project opts =
     with_settings g gitServerName m
       (\<lambda>settings. MultiProvider_ListPipelines m project settings opts)"

definition PipelinesService_ListPipelineJobs ::
    "MultiProviderPipelineService \<Rightarrow> GitServerService \<Rightarrow> string \<Rightarrow> string \<Rightarrow> int
     \<Rightarrow> (PipelineJob list result \<times> MultiProviderPipelineService \<times> GitServerService) option" where
  "PipelinesService_ListPipelineJobs m g gitServerName project pipelineID =
     with_settings g gitServerName m
       (\<lambda>settings. MultiProvider_ListPipelineJobs m project pipelineID settings)"

definition PipelinesService_GetJobTrace ::
    "MultiProviderPipelineService \<Rightarrow> GitServerService \<Rightarrow> JobTrace result option \<Rightarrow> string
     \<Rightarrow> string \<Rightarrow> int
     \<Rightarrow> ((string \<times> bool) result \<times> MultiProviderPipelineService \<times> GitServerService) option" where
  "PipelinesService_GetJobTrace m g joined gitServerName project jobID =
     with_settings g gitServerName m
       (\<lambda>settings. Some (MultiProvider_GetJobTrace m joined project jobID settings))"

text \<open>The pipeline list is a cached service like the others.\<close>

type_synonym pipelines_request =
  "(string \<Rightarrow> PipelineProvider option) \<times> string \<times> GitServerSettings \<times> PipelineListOptions"

fun pipelines_step ::
    "MultiProviderPipelineService \<Rightarrow> pipelines_request
     \<Rightarrow> (PipelinesResponse result \<times> MultiProviderPipelineService) option" where
  "pipelines_step m (providers, project, settings, opts) =
     MultiProvider_ListPipelines (m\<lparr>mpl_providers := providers\<rparr>) project settings opts"

fun pipelines_request_key :: "pipelines_request \<Rightarrow> string" where
  "pipelines_request_key (providers, project, settings, opts) =
     pipelines_key (Settings_GitServerName settings) project opts"

fun pipelines_fetch :: "pipelines_request \<Rightarrow> PipelinesResponse result option" where
  "pipelines_fetch (providers, project, settings, opts) =
     map_option (\<lambda>provider. PP_ListPipelines provider project settings opts)
       (providers (Settings_GitProvider settings))"

interpretation pipelines: cached_service
  pipelines_step mpl_cache pipelines_request_key pipelines_fetch
  by unfold_locales
    (auto simp: MultiProvider_ListPipelines_def split: option.splits)

section \<open>The service as a state machine\<close>

text \<open>
  The reachable states of the service under any sequence of requests and invalidations, with
  providers that may change at any time.  Two ghost components record what the providers have
  said: \<open>F\<close> the keys of the jobs reported with a terminal status, \<open>G\<close> the traces returned for a
  (server, project, job).
\<close>

definition reported_finished ::
    "(string \<Rightarrow> PipelineProvider option) \<Rightarrow> string \<Rightarrow> int \<Rightarrow> GitServerSettings \<Rightarrow> string set" where
  "reported_finished providers project pipelineID settings =
     {terminalJobKey (Settings_GitServerName settings) (PipelineJob_Id job) | provider jp jobs job.
        providers (Settings_GitProvider settings) = Some provider \<and> PP_jobs provider = Some jp \<and>
        PJ_ListPipelineJobs jp project pipelineID settings = Some (Ok jobs) \<and>
        job \<in> set jobs \<and> isTerminalJobStatus (PipelineJob_Status job)}"

type_synonym traced = "string \<times> string \<times> int \<times> JobTrace"

definition returned_traces ::
    "(string \<Rightarrow> PipelineProvider option) \<Rightarrow> string \<Rightarrow> int \<Rightarrow> GitServerSettings \<Rightarrow> traced set" where
  "returned_traces providers project jobID settings =
     {(Settings_GitServerName settings, project, jobID,
       \<lparr>JobTrace_Content = content, JobTrace_Truncated = truncated\<rparr>) | provider jp content truncated.
        providers (Settings_GitProvider settings) = Some provider \<and> PP_jobs provider = Some jp \<and>
        PJ_GetJobTrace jp project jobID settings = Ok (content, truncated)}"

type_synonym pipe_state = "MultiProviderPipelineService \<times> string set \<times> traced set"

inductive pipe_step :: "pipe_state \<Rightarrow> pipe_state \<Rightarrow> bool" where
  step_pipelines:
    "MultiProvider_ListPipelines (m\<lparr>mpl_providers := ps\<rparr>) project settings opts = Some (r, m') \<Longrightarrow>
     pipe_step (m, F, G) (m', F, G)"
| step_jobs:
    "MultiProvider_ListPipelineJobs (m\<lparr>mpl_providers := ps\<rparr>) project pipelineID settings = Some (r, m') \<Longrightarrow>
     pipe_step (m, F, G) (m', F \<union> reported_finished ps project pipelineID settings, G)"
| step_trace:
    "MultiProvider_GetJobTrace (m\<lparr>mpl_providers := ps\<rparr>) joined project jobID settings = (r, m') \<Longrightarrow>
     (\<And>t. joined = Some (Ok t) \<Longrightarrow> (Settings_GitServerName settings, project, jobID, t) \<in> G) \<Longrightarrow>
     pipe_step (m, F, G) (m', F, G \<union> returned_traces ps project jobID settings)"
| step_invalidate:
    "pipe_step (m, F, G)
       (m\<lparr>mpl_cache := delete_scanned (mpl_cache m), jobsCache := delete_scanned (jobsCache m),
          traceCache := TAC_Invalidate (traceCache m)\<rparr>, F, G)"

definition fresh_pipelines :: "MultiProviderPipelineService \<Rightarrow> bool" where
  "fresh_pipelines m \<longleftrightarrow> tac_ok (\<lambda>_. {}) (traceCache m) \<and> client_ok (\<lambda>_. {}) (terminalJobs m)
     \<and> client_ok (\<lambda>_. {}) (jobsCache m)"

inductive pipe_reachable :: "pipe_state \<Rightarrow> bool" where
  reach_fresh: "fresh_pipelines m \<Longrightarrow> pipe_reachable (m, {}, {})"
| reach_step: "pipe_reachable s \<Longrightarrow> pipe_step s s' \<Longrightarrow> pipe_reachable s'"

text \<open>What each tier of the trace cache and the markers may hold.\<close>

definition live_traces :: "traced set \<Rightarrow> string \<Rightarrow> JobTrace set" where
  "live_traces G key =
     {t. cacheable t \<and> (\<exists>server project jobID. key = jobs_key server project jobID \<and>
                          (server, project, jobID, t) \<in> G)}"

definition done_traces :: "string set \<Rightarrow> traced set \<Rightarrow> string \<Rightarrow> JobTrace set" where
  "done_traces F G key =
     {t. cacheable t \<and> (\<exists>server project jobID. key = jobs_key server project jobID \<and>
                          (server, project, jobID, t) \<in> G \<and>
                          terminalJobKey server (strconv_Itoa jobID) \<in> F)}"

definition markers :: "string set \<Rightarrow> string \<Rightarrow> bool set" where
  "markers F key = (if key \<in> F then {True} else {})"

fun pipe_inv :: "pipe_state \<Rightarrow> bool" where
  "pipe_inv (m, F, G) \<longleftrightarrow>
     tiers (live_traces G) (done_traces F G) (traceCache m) \<and>
     client_ok (markers F) (terminalJobs m) \<and>
     (\<exists>M. client_ok M (jobsCache m))"

lemma done_live: "done_traces F G key \<subseteq> live_traces G key"
  by (auto simp: done_traces_def live_traces_def)

lemma traces_mono:
  assumes "F \<subseteq> F'" "G \<subseteq> G'"
  shows "live_traces G key \<subseteq> live_traces G' key" "done_traces F G key \<subseteq> done_traces F' G' key"
    "markers F key \<subseteq> markers F' key"
  using assms by (auto simp: live_traces_def done_traces_def markers_def) blast+

lemma pipe_inv_mono:
  assumes "pipe_inv (m, F, G)" "F \<subseteq> F'" "G \<subseteq> G'"
  shows "pipe_inv (m, F', G')"
proof -
  note mono = traces_mono [OF assms(2,3)]
  from assms(1) have "tiers (live_traces G) (done_traces F G) (traceCache m)"
    "client_ok (markers F) (terminalJobs m)" "\<exists>M. client_ok M (jobsCache m)" by simp_all
  with tiers_mono [OF _ mono(1,2)] client_ok_mono [OF _ mono(3)] show ?thesis by simp
qed

lemma markers_iff: "b \<in> markers F key \<longleftrightarrow> b \<and> key \<in> F"
  by (auto simp: markers_def)

lemma markTerminalJobs_ok:
  assumes "client_ok (markers F) tj"
    and "\<And>job. job \<in> set jobs \<Longrightarrow> isTerminalJobStatus (PipelineJob_Status job) \<Longrightarrow>
           terminalJobKey server (PipelineJob_Id job) \<in> F"
  shows "client_ok (markers F) (markTerminalJobs tj server jobs)"
  using assms
proof (induction tj server jobs rule: markTerminalJobs.induct)
  case (2 tj server job jobs)
  have "client_ok (markers F) (if isTerminalJobStatus (PipelineJob_Status job)
      then Client_Set tj (terminalJobKey server (PipelineJob_Id job)) True else tj)"
    using 2(2,3) by (auto simp: markers_iff intro!: client_ok_Set_in)
  from 2(1) [OF this] 2(3) show ?case by simp
qed simp

text \<open>Listing the jobs of a pipeline keeps the invariant once the finished jobs are recorded.\<close>

lemma ListPipelineJobs_inv:
  assumes inv: "pipe_inv (m, F, G)"
    and run: "MultiProvider_ListPipelineJobs (m\<lparr>mpl_providers := ps\<rparr>) project pid settings = Some (r, m')"
  shows "pipe_inv (m', F \<union> reported_finished ps project pid settings, G)"
proof -
  let ?F = "F \<union> reported_finished ps project pid settings"
  let ?server = "Settings_GitServerName settings"
  have inv': "pipe_inv (m, ?F, G)" by (rule pipe_inv_mono [OF inv]) auto
  then obtain M where M: "client_ok M (jobsCache m)" and marks: "client_ok (markers ?F) (terminalJobs m)"
    by auto
  show ?thesis
  proof (cases "jobsProvider (m\<lparr>mpl_providers := ps\<rparr>) (Settings_GitProvider settings)")
    case (Inl err)
    with run inv' show ?thesis by (auto simp: MultiProvider_ListPipelineJobs_def)
  next
    case (Inr jp)
    then obtain provider where jp: "ps (Settings_GitProvider settings) = Some provider"
      "PP_jobs provider = Some jp"
      by (auto simp: jobsProvider_def split: option.splits)
    from run Inr obtain c tj where m': "m' = m\<lparr>mpl_providers := ps, jobsCache := c, terminalJobs := tj\<rparr>"
      and get: "GetOrFetch (jobsCache m) (jobs_key ?server project pid)
        (jobs_fetch jp project pid settings) (terminalJobs m) = Some (r, c, tj)"
      by (auto simp: MultiProvider_ListPipelineJobs_def)
    have fetched: "client_ok (markers ?F) tj'"
      if "jobs_fetch jp project pid settings (terminalJobs m) = Some (q, tj')" for q tj'
    proof -
      from that obtain z where z: "PJ_ListPipelineJobs jp project pid settings = Some z"
        and tj': "(q, tj') = (case z of
            Ok jobs \<Rightarrow> (Ok jobs, markTerminalJobs (terminalJobs m) ?server jobs)
          | _ \<Rightarrow> (z, terminalJobs m))"
        by (auto simp: jobs_fetch_def)
      show ?thesis
      proof (cases z)
        case (Ok jobs)
        with jp z have "terminalJobKey ?server (PipelineJob_Id job) \<in> ?F"
          if "job \<in> set jobs" "isTerminalJobStatus (PipelineJob_Status job)" for job
          using that by (auto simp: reported_finished_def)
        with markTerminalJobs_ok [OF marks] tj' Ok show ?thesis by simp
      qed (use tj' marks in simp_all)
    qed
    from GetOrFetch_cases [OF M get]
    have "client_ok (markers ?F) tj \<and> (\<exists>M. client_ok M c)"
      by cases (use fetched marks in auto)
    with inv' show ?thesis by (simp add: m')
  qed
qed

text \<open>A flight keeps the invariant and yields a trace the provider has returned for this key.\<close>

definition known_traces :: "traced set \<Rightarrow> string \<Rightarrow> JobTrace set" where
  "known_traces G key =
     {t. \<exists>server project jobID. key = jobs_key server project jobID \<and> (server, project, jobID, t) \<in> G}"

lemma tier_known: "live_traces G key \<union> done_traces F G key \<subseteq> known_traces G key"
  by (auto simp: live_traces_def done_traces_def known_traces_def)

lemma trace_flight_inv:
  assumes inv: "pipe_inv (m, F, G)" and key: "key = jobs_key (Settings_GitServerName settings) project jobID"
    and ret: "\<And>c b. PJ_GetJobTrace jp project jobID settings = Ok (c, b) \<Longrightarrow>
      (Settings_GitServerName settings, project, jobID,
       \<lparr>JobTrace_Content = c, JobTrace_Truncated = b\<rparr>) \<in> G"
    and run: "trace_flight m jp key project jobID settings = (r, m')"
  shows "pipe_inv (m', F, G) \<and> (\<forall>t. r = Ok t \<longrightarrow> t \<in> known_traces G key)"
proof -
  obtain cached tc where get: "TAC_Get (traceCache m) key = (cached, tc)" by fastforce
  from inv have "tiers (live_traces G) (done_traces F G) (traceCache m)" by simp
  note tc = TAC_Get_tiers [OF this get]
  show ?thesis
  proof (cases cached)
    case (Some t)
    with run get inv tc tier_known [of G key F] show ?thesis by (auto simp: trace_flight_def)
  next
    case None
    show ?thesis
    proof (cases "PJ_GetJobTrace jp project jobID settings")
      case (Ok p)
      obtain c b where p: "p = (c, b)" by (cases p)
      let ?t = "\<lparr>JobTrace_Content = c, JobTrace_Truncated = b\<rparr>"
      have t: "(Settings_GitServerName settings, project, jobID, ?t) \<in> G" using ret Ok p by simp
      then have known: "?t \<in> known_traces G key" by (auto simp: known_traces_def key)
      show ?thesis
      proof (cases "cacheable ?t")
        case True
        let ?tk = "terminalJobKey (Settings_GitServerName settings) (strconv_Itoa jobID)"
        obtain q tj where mark: "Client_Get (terminalJobs m) ?tk = (q, tj)" by fastforce
        from inv have "client_ok (markers F) (terminalJobs m)" by simp
        from client_ok_Get [OF this, of ?tk] client_ok_Get_value [OF this, of ?tk] mark
        have tj: "client_ok (markers F) tj" "q \<noteq> None \<Longrightarrow> ?tk \<in> F" by (auto simp: markers_iff)
        have "tiers (live_traces G) (done_traces F G) (TAC_Set tc key ?t (q \<noteq> None))"
          using tc(1) True t tj(2)
          by (intro TAC_Set_tiers) (auto simp: live_traces_def done_traces_def key)
        with run get None Ok p True mark inv tj known show ?thesis
          by (auto simp: trace_flight_def Let_def)
      qed (use run get None Ok p inv tc known in \<open>auto simp: trace_flight_def Let_def\<close>)
    qed (use run get None inv tc in \<open>auto simp: trace_flight_def\<close>)
  qed
qed

lemma GetJobTrace_inv:
  assumes inv: "pipe_inv (m, F, G)"
    and join: "\<And>t. joined = Some (Ok t) \<Longrightarrow> (Settings_GitServerName settings, project, jobID, t) \<in> G"
    and run: "MultiProvider_GetJobTrace (m\<lparr>mpl_providers := ps\<rparr>) joined project jobID settings = (r, m')"
  shows "pipe_inv (m', F, G \<union> returned_traces ps project jobID settings) \<and>
    (\<forall>c b. r = Ok (c, b) \<longrightarrow> \<lparr>JobTrace_Content = c, JobTrace_Truncated = b\<rparr> \<in>
       known_traces (G \<union> returned_traces ps project jobID settings)
         (jobs_key (Settings_GitServerName settings) project jobID))"
proof (cases "jobsProvider (m\<lparr>mpl_providers := ps\<rparr>) (Settings_GitProvider settings)")
  case (Inl err)
  have "pipe_inv (m, F, G \<union> returned_traces ps project jobID settings)"
    by (rule pipe_inv_mono [OF inv]) auto
  with Inl run show ?thesis by (auto simp: MultiProvider_GetJobTrace_def)
next
  case (Inr jp)
  let ?G = "G \<union> returned_traces ps project jobID settings"
  let ?server = "Settings_GitServerName settings"
  let ?key = "jobs_key ?server project jobID"
  from Inr obtain provider where jp: "ps (Settings_GitProvider settings) = Some provider"
    "PP_jobs provider = Some jp"
    by (auto simp: jobsProvider_def split: option.splits)
  have inv': "pipe_inv (m, F, ?G)" by (rule pipe_inv_mono [OF inv]) auto
  obtain cached tc where get: "TAC_Get (traceCache m) ?key = (cached, tc)" by fastforce
  from inv' have "tiers (live_traces ?G) (done_traces F ?G) (traceCache m)" by simp
  note tc = TAC_Get_tiers [OF this get]
  let ?m = "m\<lparr>mpl_providers := ps, traceCache := tc\<rparr>"
  have inv_m: "pipe_inv (?m, F, ?G)" using inv' tc(1) by simp
  have result: "\<lparr>JobTrace_Content = c, JobTrace_Truncated = b\<rparr> = t"
    if "trace_result (Ok t) = Ok (c, b)" for t c b using that by (cases t) (simp add: trace_result_def)
  show ?thesis
  proof (cases cached)
    case (Some t)
    with tc(2) tier_known [of ?G ?key F] have "t \<in> known_traces ?G ?key" by blast
    moreover from run get Some Inr have "r = trace_result (Ok t)" "m' = ?m"
      by (simp_all add: MultiProvider_GetJobTrace_def Let_def)
    ultimately show ?thesis using inv_m result by metis
  next
    case None
    show ?thesis
    proof (cases joined)
      case (Some q)
      from run get None Some Inr have r: "r = trace_result q" "m' = ?m"
        by (simp_all add: MultiProvider_GetJobTrace_def Let_def)
      have "t \<in> known_traces ?G ?key" if "q = Ok t" for t
        using join [of t] that Some by (auto simp: known_traces_def)
      with r inv_m result show ?thesis by (cases q) (auto simp: trace_result_def)
    next
      case fly: None
      obtain q m1 where flight: "trace_flight ?m jp ?key project jobID settings = (q, m1)" by fastforce
      from run get None fly Inr flight have r: "r = trace_result q" "m' = m1"
        by (simp_all add: MultiProvider_GetJobTrace_def Let_def)
      have "(?server, project, jobID, \<lparr>JobTrace_Content = c, JobTrace_Truncated = b\<rparr>) \<in> ?G"
        if "PJ_GetJobTrace jp project jobID settings = Ok (c, b)" for c b
        using that jp by (auto simp: returned_traces_def)
      from trace_flight_inv [OF inv_m refl this flight] r result show ?thesis
        by (cases q) (auto simp: trace_result_def)
    qed
  qed
qed

lemma pipe_step_inv: "pipe_step s s' \<Longrightarrow> pipe_inv s \<Longrightarrow> pipe_inv s'"
proof (induction rule: pipe_step.induct)
  case (step_pipelines m ps project settings opts r m' F G)
  then show ?case
    by (auto simp: MultiProvider_ListPipelines_def split: option.splits)
next
  case (step_jobs m ps project pipelineID settings r m' F G)
  then show ?case using ListPipelineJobs_inv by blast
next
  case (step_trace m ps joined project jobID settings r m' G F)
  then show ?case using GetJobTrace_inv by blast
next
  case (step_invalidate m F G)
  then have "tiers (live_traces G) (done_traces F G) (traceCache m)"
    and "\<exists>M. client_ok M (jobsCache m)" by simp_all
  then have "tiers (live_traces G) (done_traces F G) (TAC_Invalidate (traceCache m))"
    and "\<exists>M. client_ok M (delete_scanned (jobsCache m))"
    using tiers_mono [OF TAC_Invalidate_tiers] delete_scanned_ok by blast+
  with step_invalidate show ?case by simp
qed

lemma pipe_reachable_inv: "pipe_reachable s \<Longrightarrow> pipe_inv s"
proof (induction rule: pipe_reachable.induct)
  case (reach_fresh m)
  then show ?case
    by (auto simp: fresh_pipelines_def tac_ok_def tiers_def elim!: client_ok_mono)
next
  case (reach_step s s')
  then show ?case by (blast intro: pipe_step_inv)
qed

section \<open>Requests that find nothing cached\<close>

lemma TAC_Get_empty:
  assumes "tac_ok (\<lambda>_. {}) tc"
  obtains tc' where "TAC_Get tc key = (None, tc')" "tac_ok (\<lambda>_. {}) tc'"
  using TAC_Get_value [OF assms, of key] TAC_Get_ok [OF assms, of key]
  by (cases "TAC_Get tc key"; cases "fst (TAC_Get tc key)") auto

lemma GetJobTrace_uncached:
  assumes "tac_ok (\<lambda>_. {}) (traceCache m)"
    and "jobsProvider m (Settings_GitProvider settings) = Inr jp"
  shows "fst (MultiProvider_GetJobTrace m None project jobID settings) =
    PJ_GetJobTrace jp project jobID settings"
proof -
  let ?key = "jobs_key (Settings_GitServerName settings) project jobID"
  obtain tc1 where tc1: "TAC_Get (traceCache m) ?key = (None, tc1)" "tac_ok (\<lambda>_. {}) tc1"
    using TAC_Get_empty [OF assms(1)] .
  obtain tc2 where tc2: "TAC_Get tc1 ?key = (None, tc2)"
    using TAC_Get_empty [OF tc1(2)] .
  show ?thesis
    by (cases "PJ_GetJobTrace jp project jobID settings")
      (auto simp: MultiProvider_GetJobTrace_def assms(2) Let_def tc1(1) tc2 trace_flight_def trace_result_def
        split: prod.split)
qed

lemma ListPipelineJobs_uncached:
  assumes "client_ok (\<lambda>_. {}) (jobsCache m)"
    and "jobsProvider m (Settings_GitProvider settings) = Inr jp"
    and "PJ_ListPipelineJobs jp project pipelineID settings = Some r" "r \<noteq> Panic"
  shows "\<exists>m'. MultiProvider_ListPipelineJobs m project pipelineID settings = Some (r, m')"
proof -
  let ?fetch = "jobs_fetch jp project pipelineID settings"
  obtain tj where fetch: "?fetch (terminalJobs m) = Some (r, tj)"
    using assms(3) by (cases r) (simp_all add: jobs_fetch_def)
  obtain c' where "GetOrFetch (jobsCache m) (jobs_key (Settings_GitServerName settings) project pipelineID)
      ?fetch (terminalJobs m) = Some (r, c', tj)"
    using GetOrFetch_empty [where M = "\<lambda>_. {}" and fetchFn = ?fetch, OF assms(1) refl fetch assms(4)]
    by blast
  with assms(2) show ?thesis by (simp add: MultiProvider_ListPipelineJobs_def)
qed

section \<open>Properties\<close>

lemma jobs_key_inj:
  assumes "no_bar server" "no_bar server'"
  shows "jobs_key server project ident = jobs_key server' project' ident' \<longleftrightarrow>
    server = server' \<and> project = project' \<and> ident = ident'"
  using assms
  by (simp add: jobs_key_def Sprintf_def no_bar_def key_cut key_cut_last [OF Itoa_no_bar Itoa_no_bar]
      Itoa_inj)

text \<open>Witness inputs: a GitLab-like provider with one finished job, and an empty service.\<close>

definition demo_jobs :: "string \<Rightarrow> PipelineProvider option" where
  "demo_jobs =
     [''gitlab'' \<mapsto>
        \<lparr>PP_TriggerPipeline = (\<lambda>_ _ _ _. Err ErrNotFound),
         PP_ListPipelines = (\<lambda>_ _ _. Err ErrNotFound),
         PP_jobs = Some
           \<lparr>PJ_ListPipelineJobs = (\<lambda>_ _ _. Some (Ok [mapGitLabJob (demo_job 4 ''build'')])),
            PJ_GetJobTrace = (\<lambda>_ _ _. Ok (''log'', False))\<rparr>\<rparr>]"

definition demo_pipelines :: MultiProviderPipelineService where
  "demo_pipelines =
     \<lparr>mpl_providers = demo_jobs, mpl_cache = assoc_client [], jobsCache = assoc_client [],
      traceCache = \<lparr>tac_live = assoc_client [], tac_done = assoc_client []\<rparr>,
      terminalJobs = assoc_client []\<rparr>"

lemma assoc_client_empty: "client_ok (\<lambda>_. {}) (assoc_client [])"
  using assoc_client_ok [of "[]"] by simp

lemma demo_pipelines_reachable: "pipe_reachable (demo_pipelines, {}, {})"
  by (rule reach_fresh)
    (simp add: fresh_pipelines_def demo_pipelines_def tac_ok_def assoc_client_empty)

lemmas demo_trace_defs = MultiProvider_GetJobTrace_def jobsProvider_def trace_flight_def TAC_Get_def
  trace_result_def demo_pipelines_def demo_jobs_def demo_settings_def cacheable_def
  MaxCacheableTraceBytes_def

text \<open>Provenance of job traces.  In every reachable state of the service, and whether the trace comes
  from a cache tier, from a flight of another request or from the provider, a trace that is
  returned for a job was returned by the provider for the same git server, the same project and the
  same job.\<close>

theorem trace_provenance:
  assumes "pipe_reachable (m, F, G)"
    and "\<forall>t. joined = Some (Ok t) \<longrightarrow> (Settings_GitServerName settings, project, jobID, t) \<in> G"
    and "MultiProvider_GetJobTrace (m\<lparr>mpl_providers := ps\<rparr>) joined project jobID settings =
           (Ok (content, truncated), m')"
    and "no_bar (Settings_GitServerName settings)" "\<forall>(server, _) \<in> G. no_bar server"
  shows "(Settings_GitServerName settings, project, jobID,
          \<lparr>JobTrace_Content = content, JobTrace_Truncated = truncated\<rparr>)
         \<in> G \<union> returned_traces ps project jobID settings"
proof -
  let ?G = "G \<union> returned_traces ps project jobID settings"
  let ?t = "\<lparr>JobTrace_Content = content, JobTrace_Truncated = truncated\<rparr>"
  have "?t \<in> known_traces ?G (jobs_key (Settings_GitServerName settings) project jobID)"
    using GetJobTrace_inv [OF pipe_reachable_inv [OF assms(1)] _ assms(3)] assms(2) by blast
  then obtain s p j where spj: "(s, p, j, ?t) \<in> ?G"
    "jobs_key (Settings_GitServerName settings) project jobID = jobs_key s p j"
    by (auto simp: known_traces_def)
  have "no_bar s"
    using spj(1) assms(4,5) by (auto simp: returned_traces_def)
  with spj jobs_key_inj [OF assms(4)] show ?thesis by auto
qed

lemma trace_provenance_witness:
  "(''main'', ''team/tool'', 4, \<lparr>JobTrace_Content = ''log'', JobTrace_Truncated = False\<rparr>)
   \<in> {} \<union> returned_traces demo_jobs ''team/tool'' 4 demo_settings"
proof -
  obtain m' where "MultiProvider_GetJobTrace (demo_pipelines\<lparr>mpl_providers := demo_jobs\<rparr>) None
      ''team/tool'' 4 demo_settings = (Ok (''log'', False), m')"
    by (simp add: demo_trace_defs Let_def split: prod.split)
  from trace_provenance [OF demo_pipelines_reachable _ this] show ?thesis
    by (simp add: demo_settings_def no_bar_def)
qed

lemma pipelines_key_inj:
  assumes "no_bar server" "no_bar server'" "no_bar project" "no_bar project'"
    and "no_bar (ValueOrEmpty [] (PLList_Status opts))" "no_bar (ValueOrEmpty [] (PLList_Status opts'))"
  shows "pipelines_key server project opts = pipelines_key server' project' opts' \<longleftrightarrow>
    server = server' \<and> project = project' \<and>
    ValueOrEmpty [] (PLList_Ref opts) = ValueOrEmpty [] (PLList_Ref opts') \<and>
    ValueOrEmpty [] (PLList_Status opts) = ValueOrEmpty [] (PLList_Status opts') \<and>
    PLList_Page opts = PLList_Page opts' \<and> PLList_PerPage opts = PLList_PerPage opts'"
proof -
  let ?head = "\<lambda>opts. ValueOrEmpty [] (PLList_Ref opts) @ CHR ''|'' # ValueOrEmpty [] (PLList_Status opts)"
  let ?tail = "\<lambda>opts. ?head opts @ CHR ''|'' # strconv_Itoa (PLList_Page opts)"
  have key: "pipelines_key server project opts =
      server @ CHR ''|'' # project @ CHR ''|'' # ?tail opts @ CHR ''|'' # strconv_Itoa (PLList_PerPage opts)"
    for server project opts
    by (simp add: pipelines_key_def Sprintf_def ValueOrEmpty_def)
  have "?tail opts @ CHR ''|'' # strconv_Itoa (PLList_PerPage opts) =
      ?tail opts' @ CHR ''|'' # strconv_Itoa (PLList_PerPage opts') \<longleftrightarrow>
      ?head opts = ?head opts' \<and> PLList_Page opts = PLList_Page opts' \<and>
      PLList_PerPage opts = PLList_PerPage opts'"
    by (simp only: key_cut_last [OF Itoa_no_bar Itoa_no_bar] Itoa_inj conj_assoc)
  then show ?thesis
    using assms by (auto simp: key no_bar_def key_cut key_cut_last)
qed

text \<open>C20: Provenance of pipeline listings.  A page of pipelines that is served was returned by the provider
  to a request for the same git server and project, with the same ref and status filter and the
  same page number and size.  Only the server, the project and the status have to be free of the
  bar that separates the parts of the key; a ref may contain it.\<close>

theorem pipelines_provenance:
  assumes "serves_only (answers pipelines_request_key pipelines_fetch reqs) (mpl_cache m)"
    and "((providers, project, settings, opts), Ok page) \<in> set (run_service pipelines_step m reqs)"
    and "\<forall>(_, p1, s1, o1) \<in> set reqs. no_bar (Settings_GitServerName s1) \<and> no_bar p1 \<and>
           no_bar (ValueOrEmpty [] (PLList_Status o1))"
  shows "\<exists>(providers', project', settings', opts') \<in> set reqs.
    Settings_GitServerName settings' = Settings_GitServerName settings \<and> project' = project \<and>
    ValueOrEmpty [] (PLList_Ref opts') = ValueOrEmpty [] (PLList_Ref opts) \<and>
    ValueOrEmpty [] (PLList_Status opts') = ValueOrEmpty [] (PLList_Status opts) \<and>
    PLList_Page opts' = PLList_Page opts \<and> PLList_PerPage opts' = PLList_PerPage opts \<and>
    pipelines_fetch (providers', project', settings', opts') = Some (Ok page)"
proof -
  have mem: "(providers, project, settings, opts) \<in> set reqs"
    using pipelines.run_serves [OF assms(1,2)] by (auto simp: answers_def)
  obtain req' where "req' \<in> set reqs" and req':
      "pipelines_request_key req' = pipelines_request_key (providers, project, settings, opts)"
      "pipelines_fetch req' = Some (Ok page)"
    using pipelines.run_provenance [OF assms(1,2)] by blast
  moreover obtain ps' j' s' p' where eq: "req' = (ps', j', s', p')" by (cases req')
  ultimately have mem': "(ps', j', s', p') \<in> set reqs" by simp
  from req'(1) have "Settings_GitServerName s' = Settings_GitServerName settings \<and> j' = project \<and>
      ValueOrEmpty [] (PLList_Ref p') = ValueOrEmpty [] (PLList_Ref opts) \<and>
      ValueOrEmpty [] (PLList_Status p') = ValueOrEmpty [] (PLList_Status opts) \<and>
      PLList_Page p' = PLList_Page opts \<and> PLList_PerPage p' = PLList_PerPage opts"
    using bspec [OF assms(3) mem'] bspec [OF assms(3) mem]
    by (simp add: eq pipelines_key_inj)
  with req'(2) show ?thesis by (intro bexI [OF _ mem']) (simp add: eq)
qed

definition demo_pipeline_lists :: "PipelinesResponse result \<Rightarrow> string \<Rightarrow> PipelineProvider option" where
  "demo_pipeline_lists r =
     [''gitlab'' \<mapsto> \<lparr>PP_TriggerPipeline = (\<lambda>_ _ _ _. Err ErrNotFound),
        PP_ListPipelines = (\<lambda>_ _ _. r), PP_jobs = None\<rparr>]"

definition demo_pl_options :: PipelineListOptions where
  "demo_pl_options =
     \<lparr>PLList_Ref = Some ''a|b'', PLList_Status = None, PLList_Page = 1, PLList_PerPage = 20\<rparr>"

definition demo_pl_page :: PipelinesResponse where
  "demo_pl_page = \<lparr>PipelinesResponse_Data = [], PipelinesResponse_Pagination =
     \<lparr>Pagination_Page = Some 1, Pagination_PerPage = Some 20, Pagination_Total = 0\<rparr>\<rparr>"

lemma pipelines_provenance_witness:
  "\<exists>(providers', project', settings', opts') \<in> set
       [(demo_pipeline_lists (Ok demo_pl_page), ''team/tool'', demo_settings, demo_pl_options),
        (demo_pipeline_lists (Err ErrNotFound), ''team/tool'', demo_settings, demo_pl_options)].
     Settings_GitServerName settings' = Settings_GitServerName demo_settings \<and>
     project' = ''team/tool'' \<and>
     ValueOrEmpty [] (PLList_Ref opts') = ''a|b'' \<and>
     ValueOrEmpty [] (PLList_Status opts') = ValueOrEmpty [] (PLList_Status demo_pl_options) \<and>
     PLList_Page opts' = 1 \<and> PLList_PerPage opts' = 20 \<and>
     pipelines_fetch (providers', project', settings', opts') = Some (Ok demo_pl_page)"
  using pipelines_provenance [of
      "[(demo_pipeline_lists (Ok demo_pl_page), ''team/tool'', demo_settings, demo_pl_options),
        (demo_pipeline_lists (Err ErrNotFound), ''team/tool'', demo_settings, demo_pl_options)]"
      demo_pipelines "demo_pipeline_lists (Err ErrNotFound)" "''team/tool''" demo_settings
      demo_pl_options demo_pl_page]
  by (simp add: assoc_client_serves MultiProvider_ListPipelines_def GetOrFetch_pure_def
      GetOrFetch_def demo_pipeline_lists_def demo_settings_def no_bar_def demo_pipelines_def
      demo_pl_options_def ValueOrEmpty_def)

text \<open>C2: What the trace cache holds.  In every reachable state a trace found in the cache is complete and
  at most 512 KiB long and was returned by the provider for this server, project and job; and if the
  long-lived tier holds it, the provider has reported this job of this server as finished.\<close>

theorem trace_tiers_sound:
  assumes "pipe_reachable (m, F, G)" "no_bar server" "\<forall>(s, _) \<in> G. no_bar s"
    and "fst (TAC_Get (traceCache m) (jobs_key server project jobID)) = Some t"
  shows "\<not> JobTrace_Truncated t \<and> length (JobTrace_Content t) \<le> 524288 \<and>
    (server, project, jobID, t) \<in> G \<and>
    (fst (Client_Get (tac_done (traceCache m)) (jobs_key server project jobID)) = None \<or>
     terminalJobKey server (strconv_Itoa jobID) \<in> F)"
proof -
  let ?key = "jobs_key server project jobID"
  have tiers: "tiers (live_traces G) (done_traces F G) (traceCache m)"
    using pipe_reachable_inv [OF assms(1)] by simp
  obtain c' where "TAC_Get (traceCache m) ?key = (Some t, c')"
    using assms(4) by (cases "TAC_Get (traceCache m) ?key") auto
  from TAC_Get_tiers(2) [OF tiers this] done_live have "t \<in> live_traces G ?key" by blast
  then obtain s p j where "cacheable t" "?key = jobs_key s p j" "(s, p, j, t) \<in> G"
    by (auto simp: live_traces_def)
  moreover from this(3) assms(3) have "no_bar s" by auto
  ultimately have 1: "cacheable t" "(server, project, jobID, t) \<in> G"
    using jobs_key_inj [OF assms(2)] by auto
  have "terminalJobKey server (strconv_Itoa jobID) \<in> F"
    if get: "fst (Client_Get (tac_done (traceCache m)) ?key) = Some d" for d
  proof -
    from tiers have "client_ok (done_traces F G) (tac_done (traceCache m))" by (simp add: tiers_def)
    from client_ok_Get_value [OF this get] obtain s p j where
      "?key = jobs_key s p j" "(s, p, j, d) \<in> G" "terminalJobKey s (strconv_Itoa j) \<in> F"
      by (auto simp: done_traces_def)
    moreover from this(2) assms(3) have "no_bar s" by auto
    ultimately show ?thesis using jobs_key_inj [OF assms(2)] by auto
  qed
  with 1 show ?thesis
    by (cases "fst (Client_Get (tac_done (traceCache m)) ?key)")
      (auto simp: cacheable_def MaxCacheableTraceBytes_def)
qed

text \<open>The jobs are listed first, so the trace of the finished job goes to the long-lived tier.\<close>

definition demo_after_jobs :: MultiProviderPipelineService where
  "demo_after_jobs =
     snd (the (MultiProvider_ListPipelineJobs demo_pipelines ''team/tool'' 1 demo_settings))"

definition demo_after_trace :: MultiProviderPipelineService where
  "demo_after_trace = snd (MultiProvider_GetJobTrace demo_after_jobs None ''team/tool'' 4 demo_settings)"

lemma demo_after_jobs_eq:
  "demo_after_jobs = demo_pipelines
     \<lparr>jobsCache := assoc_client
        [(jobs_key ''main'' ''team/tool'' 1, [mapGitLabJob (demo_job 4 ''build'')])],
      terminalJobs := assoc_client [(terminalJobKey ''main'' (strconv_Itoa 4), True)]\<rparr>"
  by (simp add: demo_after_jobs_def MultiProvider_ListPipelineJobs_def GetOrFetch_def jobsProvider_def
      jobs_fetch_def demo_pipelines_def demo_jobs_def demo_settings_def isTerminalJobStatus_def
      terminalJobStatuses_def mapGitLabJob_def demo_job_def)

lemma demo_after_trace_eq:
  "MultiProvider_GetJobTrace (demo_after_jobs\<lparr>mpl_providers := demo_jobs\<rparr>) None ''team/tool'' 4
     demo_settings =
   (Ok (''log'', False), demo_after_jobs\<lparr>traceCache :=
      \<lparr>tac_live = assoc_client [],
       tac_done = assoc_client [(jobs_key ''main'' ''team/tool'' 4,
         \<lparr>JobTrace_Content = ''log'', JobTrace_Truncated = False\<rparr>)]\<rparr>\<rparr>)"
  by (simp add: demo_after_jobs_eq demo_trace_defs Let_def TAC_Set_def del: not_None_eq)

lemma demo_after_trace_state:
  "demo_after_trace = demo_after_jobs\<lparr>traceCache :=
      \<lparr>tac_live = assoc_client [],
       tac_done = assoc_client [(jobs_key ''main'' ''team/tool'' 4,
         \<lparr>JobTrace_Content = ''log'', JobTrace_Truncated = False\<rparr>)]\<rparr>\<rparr>"
proof -
  have "demo_after_jobs\<lparr>mpl_providers := demo_jobs\<rparr> = demo_after_jobs"
    by (simp add: demo_after_jobs_eq demo_pipelines_def)
  then show ?thesis using demo_after_trace_eq by (simp add: demo_after_trace_def)
qed

lemma demo_reachable:
  "pipe_reachable (demo_after_trace,
     {} \<union> reported_finished demo_jobs ''team/tool'' 1 demo_settings,
     {} \<union> returned_traces demo_jobs ''team/tool'' 4 demo_settings)"
proof -
  have run: "MultiProvider_ListPipelineJobs (demo_pipelines\<lparr>mpl_providers := demo_jobs\<rparr>) ''team/tool'' 1
      demo_settings = Some (Ok [mapGitLabJob (demo_job 4 ''build'')], demo_after_jobs)"
    by (simp add: demo_after_jobs_eq MultiProvider_ListPipelineJobs_def GetOrFetch_def jobsProvider_def
        jobs_fetch_def demo_pipelines_def demo_jobs_def demo_settings_def isTerminalJobStatus_def
        terminalJobStatuses_def mapGitLabJob_def demo_job_def)
  from reach_step [OF demo_pipelines_reachable step_jobs [OF run]] step_trace [OF demo_after_trace_eq]
  show ?thesis
    unfolding demo_after_trace_state by (blast intro: reach_step)
qed

lemma trace_tiers_sound_witness:
  "terminalJobKey ''main'' (strconv_Itoa 4)
     \<in> {} \<union> reported_finished demo_jobs ''team/tool'' 1 demo_settings"
proof -
  have "fst (TAC_Get (traceCache demo_after_trace) (jobs_key ''main'' ''team/tool'' 4)) =
      Some \<lparr>JobTrace_Content = ''log'', JobTrace_Truncated = False\<rparr>"
    and "fst (Client_Get (tac_done (traceCache demo_after_trace)) (jobs_key ''main'' ''team/tool'' 4)) \<noteq> None"
    by (simp_all add: demo_after_trace_state TAC_Get_def)
  with trace_tiers_sound [OF demo_reachable, of "''main''" "''team/tool''" 4] show ?thesis
    by (auto simp: no_bar_def returned_traces_def demo_settings_def)
qed

text \<open>Which providers have jobs and logs.  With the providers the constructor registers, GitLab's jobs
  interface is found and any other provider name is refused as a bad request.\<close>

theorem jobs_only_for_gitlab:
  "case jobsProvider (NewMultiProviderPipelineService env new) gitProvider of
     Inr jp \<Rightarrow> gitProvider = ''gitlab'' \<and>
       jp = \<lparr>PJ_ListPipelineJobs = GitLab_ListPipelineJobs (env_gitlab env) (env_scan_jobs env),
             PJ_GetJobTrace = GitLab_GetJobTrace (env_PathEscape env) (env_http_get env)\<rparr>
   | Inl err \<Rightarrow> gitProvider \<noteq> ''gitlab'' \<and> errors_Is err ErrBadRequest"
  by (simp add: jobsProvider_def NewMultiProviderPipelineService_def pipeline_providers_def
      unsupported_request_def errors_Is_def)

end
