(* ===== verification/Json.thy ===== *)
theory Json
  imports GoErrors GoTime
begin

text \<open>
  \<open>encoding/json\<close> for the responses: the JSON value \<open>Marshal\<close> makes of each model, from the tags of
  the struct's fields (\<open>internal/models/models_gen.go\<close>).  Fields come in the order of the struct; a
  field tagged \<open>omitempty\<close> is a pointer and is left out when it is nil.  The lists are never nil
  slices (the services make them), so they are arrays and not \<open>null\<close>.  A value is a tree: strings
  are the Go strings and numbers the Go numbers before they are written as text.  Encoding fails
  for a time that RFC 3339 cannot express and for a float that is not finite.
\<close>

datatype json =
    JNull
  | JBool bool
  | JInt int
  | JFloat32 float32
  | JString string
  | JArray "json list"
  | JObject "(string \<times> json) list"

type_synonym encoded = "go_error + json"

section \<open>Building values\<close>

fun json_fields :: "(string \<times> encoded option) list \<Rightarrow> go_error + (string \<times> json) list" where
  "json_fields [] = Inr []"
| "json_fields ((k, None) # fs) = json_fields fs"
| "json_fields ((k, Some (Inl e)) # fs) = Inl e"
| "json_fields ((k, Some (Inr j)) # fs) = map_sum id (\<lambda>js. (k, j) # js) (json_fields fs)"

definition json_object :: "(string \<times> encoded option) list \<Rightarrow> encoded" where
  "json_object fs = map_sum id JObject (json_fields fs)"

fun json_values :: "('a \<Rightarrow> encoded) \<Rightarrow> 'a list \<Rightarrow> go_error + json list" where
  "json_values enc [] = Inr []"
| "json_values enc (x # xs) =
     (case enc x of
        Inl e \<Rightarrow> Inl e
      | Inr j \<Rightarrow> map_sum id (\<lambda>js. j # js) (json_values enc xs))"

definition json_array :: "('a \<Rightarrow> encoded) \<Rightarrow> 'a list \<Rightarrow> encoded" where
  "json_array enc xs = map_sum id JArray (json_values enc xs)"

definition json_string :: "string \<Rightarrow> encoded" where "json_string s = Inr (JString s)"
definition json_int :: "int \<Rightarrow> encoded" where "json_int n = Inr (JInt n)"
definition json_bool :: "bool \<Rightarrow> encoded" where "json_bool b = Inr (JBool b)"

text \<open>A \<open>time.Time\<close>; its error names the type of the value, which is a pointer for optional fields.\<close>

definition json_time :: "string \<Rightarrow> time \<Rightarrow> encoded" where
  "json_time typename t =
     (case time_MarshalJSON t of
        Inl reason \<Rightarrow> Inl (Errorf ''json: error calling MarshalJSON for type %s: %w''
                             [FStr typename, FErr (ErrorString reason)])
      | Inr s \<Rightarrow> json_string s)"

text \<open>A \<open>float32\<close> with all exponent bits set is an infinity or not a number.\<close>

definition json_float32 :: "float32 \<Rightarrow> encoded" where
  "json_float32 b =
     (if b div 2 ^ 23 mod 2 ^ 8 = 255
      then Inl (ErrorString (''json: unsupported value: '' @
             (if b mod 2 ^ 23 \<noteq> 0 then ''NaN'' else if b div 2 ^ 31 mod 2 = 0 then ''+Inf'' else ''-Inf'')))
      else Inr (JFloat32 b))"

text \<open>A field that is always there, and one tagged \<open>omitempty\<close>.\<close>

definition json_field :: "string \<Rightarrow> encoded \<Rightarrow> string \<times> encoded option" where
  "json_field name v = (name, Some v)"

definition omitempty :: "string \<Rightarrow> ('a \<Rightarrow> encoded) \<Rightarrow> 'a option \<Rightarrow> string \<times> encoded option" where
  "omitempty name enc ptr = (name, map_option enc ptr)"

section \<open>The models\<close>

definition json_Error :: "Error \<Rightarrow> encoded" where
  "json_Error e = json_object
     [json_field ''code'' (json_string (Code e)), json_field ''message'' (json_string (Message e))]"

definition json_Branch :: "Branch \<Rightarrow> encoded" where
  "json_Branch b = json_object [json_field ''name'' (json_string (Branch_Name b))]"

definition json_BranchesResponse :: "BranchesResponse \<Rightarrow> encoded" where
  "json_BranchesResponse r =
     json_object [json_field ''data'' (json_array json_Branch (BranchesResponse_Data r))]"

definition json_CacheInvalidationResponse :: "CacheInvalidationResponse \<Rightarrow> encoded" where
  "json_CacheInvalidationResponse r = json_object
     [json_field ''endpoint'' (json_string (Invalidation_Endpoint r)),
      json_field ''message'' (json_string (Invalidation_Message r))]"

definition json_Organization :: "Organization \<Rightarrow> encoded" where
  "json_Organization o1 = json_object
     [omitempty ''avatar_url'' json_string (Organization_AvatarUrl o1),
      json_field ''id'' (json_string (Organization_Id o1)),
      json_field ''name'' (json_string (Organization_Name o1))]"

definition json_OrganizationsResponse :: "OrganizationsResponse \<Rightarrow> encoded" where
  "json_OrganizationsResponse r =
     json_object [json_field ''data'' (json_array json_Organization (OrganizationsResponse_Data r))]"

definition json_Owner :: "Owner \<Rightarrow> encoded" where
  "json_Owner o1 = json_object
     [omitempty ''avatar_url'' json_string (Owner_AvatarUrl o1),
      json_field ''id'' (json_string (Owner_Id o1)),
      json_field ''name'' (json_string (Owner_Name o1))]"

definition json_Pagination :: "Pagination \<Rightarrow> encoded" where
  "json_Pagination p = json_object
     [omitempty ''page'' json_int (Pagination_Page p),
      omitempty ''per_page'' json_int (Pagination_PerPage p),
      json_field ''total'' (json_int (Pagination_Total p))]"

definition json_Pipeline :: "Pipeline \<Rightarrow> encoded" where
  "json_Pipeline p = json_object
     [json_field ''created_at'' (json_time ''time.Time'' (Pipeline_CreatedAt p)),
      json_field ''id'' (json_string (Pipeline_Id p)),
      omitempty ''project_id'' json_string (Pipeline_ProjectId p),
      json_field ''ref'' (json_string (Pipeline_Ref p)),
      json_field ''sha'' (json_string (Pipeline_Sha p)),
      omitempty ''source'' (\<lambda>s. json_string (PipelineSource_text s)) (Pipeline_Source p),
      json_field ''status'' (json_string (PipelineStatus_text (Pipeline_Status p))),
      omitempty ''updated_at'' (json_time ''*time.Time'') (Pipeline_UpdatedAt p),
      json_field ''web_url'' (json_string (Pipeline_WebUrl p))]"

definition json_PipelinesResponse :: "PipelinesResponse \<Rightarrow> encoded" where
  "json_PipelinesResponse r = json_object
     [json_field ''data'' (json_array json_Pipeline (PipelinesResponse_Data r)),
      json_field ''pagination'' (json_Pagination (PipelinesResponse_Pagination r))]"

definition json_PipelineJob :: "PipelineJob \<Rightarrow> encoded" where
  "json_PipelineJob j = json_object
     [omitempty ''allow_failure'' json_bool (PipelineJob_AllowFailure j),
      omitempty ''created_at'' (json_time ''*time.Time'') (PipelineJob_CreatedAt j),
      omitempty ''duration'' json_float32 (PipelineJob_Duration j),
      omitempty ''failure_reason'' json_string (PipelineJob_FailureReason j),
      omitempty ''finished_at'' (json_time ''*time.Time'') (PipelineJob_FinishedAt j),
      json_field ''id'' (json_string (PipelineJob_Id j)),
      json_field ''name'' (json_string (PipelineJob_Name j)),
      omitempty ''ref'' json_string (PipelineJob_Ref j),
      json_field ''stage'' (json_string (PipelineJob_Stage j)),
      omitempty ''started_at'' (json_time ''*time.Time'') (PipelineJob_StartedAt j),
      json_field ''status'' (json_string (PipelineJob_Status j)),
      omitempty ''web_url'' json_string (PipelineJob_WebUrl j)]"

definition json_PipelineJobsResponse :: "PipelineJobsResponse \<Rightarrow> encoded" where
  "json_PipelineJobsResponse r =
     json_object [json_field ''data'' (json_array json_PipelineJob (PipelineJobsResponse_Data r))]"

definition json_PipelineJobTraceResponse :: "PipelineJobTraceResponse \<Rightarrow> encoded" where
  "json_PipelineJobTraceResponse r = json_object
     [json_field ''content'' (json_string (TraceResponse_Content r)),
      json_field ''job_id'' (json_string (TraceResponse_JobId r)),
      omitempty ''truncated'' json_bool (TraceResponse_Truncated r)]"

definition json_PipelineResponse :: "PipelineResponse \<Rightarrow> encoded" where
  "json_PipelineResponse r = json_object
     [json_field ''id'' (json_int (PipelineResponse_Id r)),
      json_field ''ref'' (json_string (PipelineResponse_Ref r)),
      omitempty ''sha'' json_string (PipelineResponse_Sha r),
      json_field ''status'' (json_string (PipelineResponse_Status r)),
      json_field ''web_url'' (json_string (PipelineResponse_WebUrl r))]"

definition json_PullRequest :: "PullRequest \<Rightarrow> encoded" where
  "json_PullRequest p = json_object
     [omitempty ''author'' json_Owner (PullRequest_Author p),
      omitempty ''commit_sha'' json_string (PullRequest_CommitSha p),
      json_field ''created_at'' (json_time ''time.Time'' (PullRequest_CreatedAt p)),
      omitempty ''description'' json_string (PullRequest_Description p),
      omitempty ''draft'' json_bool (PullRequest_Draft p),
      json_field ''id'' (json_string (PullRequest_Id p)),
      json_field ''number'' (json_int (PullRequest_Number p)),
      json_field ''source_branch'' (json_string (PullRequest_SourceBranch p)),
      json_field ''state'' (json_string (PullRequestState_text (PullRequest_State p))),
      json_field ''target_branch'' (json_string (PullRequest_TargetBranch p)),
      json_field ''title'' (json_string (PullRequest_Title p)),
      json_field ''updated_at'' (json_time ''time.Time'' (PullRequest_UpdatedAt p)),
      json_field ''url'' (json_string (PullRequest_Url p))]"

definition json_PullRequestsResponse :: "PullRequestsResponse \<Rightarrow> encoded" where
  "json_PullRequestsResponse r = json_object
     [json_field ''data'' (json_array json_PullRequest (PullRequestsResponse_Data r)),
      json_field ''pagination'' (json_Pagination (PullRequestsResponse_Pagination r))]"

definition json_Repository :: "Repository \<Rightarrow> encoded" where
  "json_Repository r = json_object
     [omitempty ''default_branch'' json_string (Repository_DefaultBranch r),
      omitempty ''description'' json_string (Repository_Description r),
      json_field ''id'' (json_string (Repository_Id r)),
      json_field ''name'' (json_string (Repository_Name r)),
      omitempty ''owner'' json_string (Repository_Owner r),
      omitempty ''url'' json_string (Repository_Url r),
      omitempty ''visibility'' (\<lambda>v. json_string (RepositoryVisibility_text v))
        (Repository_Visibility r)]"

definition json_RepositoriesResponse :: "RepositoriesResponse \<Rightarrow> encoded" where
  "json_RepositoriesResponse r =
     json_object [json_field ''data'' (json_array json_Repository (RepositoriesResponse_Data r))]"

end
