(* ===== verification/GoHttp.thy ===== *)
theory GoHttp
  imports Json GoStrings
begin

text \<open>
  The parts of \<open>net/url\<close> and \<open>net/http\<close> that the generated server uses: the query of a request, and
  the writer of a response.  A handler runs on a writer and on the state of the program; it
  returns, panics with whatever it has written, or never returns (\<open>None\<close>).
\<close>

section \<open>The query of a URL\<close>

record Request =
  req_Method :: string
  req_Path :: string
  req_RawQuery :: string

fun hex_val :: "char \<Rightarrow> nat option" where
  "hex_val c =
     (let n = (of_char c :: nat) in
      if 48 \<le> n \<and> n \<le> 57 then Some (n - 48)
      else if 97 \<le> n \<and> n \<le> 102 then Some (n - 87)
      else if 65 \<le> n \<and> n \<le> 70 then Some (n - 55)
      else None)"

text \<open>\<open>QueryUnescape\<close>; \<open>None\<close> is its error.\<close>

fun url_QueryUnescape :: "string \<Rightarrow> string option" where
  "url_QueryUnescape [] = Some []"
| "url_QueryUnescape (c # s) =
     (if c = CHR ''+'' then map_option (\<lambda>t. CHR '' '' # t) (url_QueryUnescape s)
      else if c = CHR ''%'' then
        (case s of
           a # b # s' \<Rightarrow>
             (case (hex_val a, hex_val b) of
                (Some x, Some y) \<Rightarrow>
                  map_option (\<lambda>t. char_of (x * 16 + y) # t) (url_QueryUnescape s')
              | _ \<Rightarrow> None)
         | _ \<Rightarrow> None)
      else map_option (\<lambda>t. c # t) (url_QueryUnescape s))"

text \<open>
  \<open>URL.Query\<close>: the pairs of the query in order.  A piece with a semicolon or with an invalid escape
  is dropped (the program ignores the error).
\<close>

type_synonym url_Values = "(string \<times> string) list"

definition parse_piece :: "string \<Rightarrow> (string \<times> string) option" where
  "parse_piece piece =
     (if CHR '';'' \<in> set piece \<or> piece = [] then None
      else
        Option.bind (url_QueryUnescape (takeWhile (\<lambda>c. c \<noteq> CHR ''='') piece)) (\<lambda>key.
        Option.bind (url_QueryUnescape (tl (dropWhile (\<lambda>c. c \<noteq> CHR ''='') piece))) (\<lambda>val.
        Some (key, val))))"

definition url_Query :: "Request \<Rightarrow> url_Values" where
  "url_Query r = List.map_filter parse_piece (strings_Split (req_RawQuery r) (CHR ''&''))"

text \<open>\<open>Values[name]\<close> and \<open>Values.Get(name)\<close>.\<close>

definition Values_all :: "url_Values \<Rightarrow> string \<Rightarrow> string list" where
  "Values_all q name = map snd (filter (\<lambda>p. fst p = name) q)"

definition Values_Get :: "url_Values \<Rightarrow> string \<Rightarrow> string" where
  "Values_Get q name = (case Values_all q name of [] \<Rightarrow> [] | v # _ \<Rightarrow> v)"

section \<open>The response writer\<close>

text \<open>
  The headers are fixed when the status is written; the first status wins, and writing a body
  without one writes 200.
\<close>

datatype chunk = Text string | Json json

record ResponseWriter =
  rw_Header :: "string \<Rightarrow> string option"
  rw_sent :: "(int \<times> (string \<Rightarrow> string option)) option"
  rw_body :: "chunk list"

definition fresh_writer :: ResponseWriter where
  "fresh_writer = \<lparr>rw_Header = Map.empty, rw_sent = None, rw_body = []\<rparr>"

definition Header_Set :: "string \<Rightarrow> string \<Rightarrow> ResponseWriter \<Rightarrow> ResponseWriter" where
  "Header_Set name val w = w\<lparr>rw_Header := (rw_Header w)(name \<mapsto> val)\<rparr>"

definition WriteHeader :: "int \<Rightarrow> ResponseWriter \<Rightarrow> ResponseWriter" where
  "WriteHeader code w =
     (case rw_sent w of
        None \<Rightarrow> w\<lparr>rw_sent := Some (code, rw_Header w)\<rparr>
      | Some _ \<Rightarrow> w)"

definition Write_body :: "chunk \<Rightarrow> ResponseWriter \<Rightarrow> ResponseWriter" where
  "Write_body c w = (let w = WriteHeader 200 w in w\<lparr>rw_body := rw_body w @ [c]\<rparr>)"

definition http_Error :: "string \<Rightarrow> int \<Rightarrow> ResponseWriter \<Rightarrow> ResponseWriter" where
  "http_Error message code w =
     (let w = w\<lparr>rw_Header := (rw_Header w)(''Content-Length'' := None)\<rparr>;
          w = Header_Set ''Content-Type'' ''text/plain; charset=utf-8'' w;
          w = Header_Set ''X-Content-Type-Options'' ''nosniff'' w;
          w = WriteHeader code w
      in Write_body (Text (message @ [CHR 0x0A])) w)"

text \<open>
  \<open>json.NewEncoder(w).Encode(v)\<close>: nothing is written when the value cannot be encoded.  That the
  client is still there to read is assumed.
\<close>

definition json_Encode :: "encoded \<Rightarrow> ResponseWriter \<Rightarrow> go_error option \<times> ResponseWriter" where
  "json_Encode v w =
     (case v of
        Inl err \<Rightarrow> (Some err, w)
      | Inr j \<Rightarrow> (None, Write_body (Json j) w))"

datatype outcome = Returned | Panicking

type_synonym 's http_handler =
  "Request \<Rightarrow> ResponseWriter \<Rightarrow> 's \<Rightarrow> (outcome \<times> ResponseWriter \<times> 's) option"

section \<open>Reading back what a client escapes\<close>

text \<open>\<open>url.QueryEscape\<close> and \<open>Values.Encode\<close>, as a client uses them.\<close>

definition query_safe :: "char \<Rightarrow> bool" where
  "query_safe c =
     (let n = (of_char c :: nat) in
      (65 \<le> n \<and> n \<le> 90) \<or> (97 \<le> n \<and> n \<le> 122) \<or> (48 \<le> n \<and> n \<le> 57) \<or> c \<in> set ''-_.~'')"

definition url_QueryEscape :: "string \<Rightarrow> string" where
  "url_QueryEscape s =
     concat (map (\<lambda>c. if query_safe c then [c]
                      else if c = CHR '' '' then ''+''
                      else [CHR ''%'', upper_hex (of_char c div 16), upper_hex (of_char c mod 16)]) s)"

definition encode_query :: "(string \<times> string) list \<Rightarrow> string" where
  "encode_query kvs =
     strings_Join (map (\<lambda>(k, v). url_QueryEscape k @ ''='' @ url_QueryEscape v) kvs) ''&''"

lemma query_safe_plain:
  "query_safe c \<Longrightarrow> c \<noteq> CHR ''+'' \<and> c \<noteq> CHR ''%'' \<and> c \<noteq> CHR ''&'' \<and> c \<noteq> CHR ''='' \<and> c \<noteq> CHR '';''"
  by (auto simp: query_safe_def Let_def)

lemma hex_val_upper_hex: "n < 16 \<Longrightarrow> hex_val (upper_hex n) = Some n"
  by (simp add: upper_hex_def)

lemma QueryUnescape_Escape [simp]: "url_QueryUnescape (url_QueryEscape s) = Some s"
proof (induction s)
  case (Cons c s)
  have byte: "(of_char c :: nat) < 256" by (metis of_char_of nat_of_char_less_256)
  then have "hex_val (upper_hex (of_char c div 16)) = Some (of_char c div 16)"
    "hex_val (upper_hex (of_char c mod 16)) = Some (of_char c mod 16)"
    by (intro hex_val_upper_hex; simp add: less_mult_imp_div_less)+
  moreover have "char_of ((of_char c :: nat) div 16 * 16 + of_char c mod 16) = c" by simp
  ultimately show ?case
    using Cons query_safe_plain [of c] by (simp add: url_QueryEscape_def del: hex_val.simps)
qed (simp add: url_QueryEscape_def)

lemma upper_hex_plain:
  "n < 16 \<Longrightarrow> upper_hex n \<noteq> CHR ''&'' \<and> upper_hex n \<noteq> CHR ''='' \<and> upper_hex n \<noteq> CHR '';''"
proof -
  assume "n < 16"
  then have "(of_char (upper_hex n) :: nat) \<in> {48..57} \<union> {65..70}" by (simp add: upper_hex_def)
  then show ?thesis by auto
qed

lemma QueryEscape_plain:
  assumes "c \<in> set (url_QueryEscape s)"
  shows "c \<noteq> CHR ''&'' \<and> c \<noteq> CHR ''='' \<and> c \<noteq> CHR '';''"
proof -
  from assms obtain x where "x \<in> set s" and c: "c \<in> set (if query_safe x then [x]
        else if x = CHR '' '' then ''+''
        else [CHR ''%'', upper_hex (of_char x div 16), upper_hex (of_char x mod 16)])"
    unfolding url_QueryEscape_def set_concat set_map by blast
  have "(of_char x :: nat) < 256" by (metis of_char_of nat_of_char_less_256)
  then have "(of_char x :: nat) div 16 < 16" "(of_char x :: nat) mod 16 < 16"
    by (simp_all add: less_mult_imp_div_less)
  with c query_safe_plain [of x] upper_hex_plain show ?thesis
    by (auto split: if_splits)
qed

lemma parse_piece_encoded:
  "parse_piece (url_QueryEscape k @ ''='' @ url_QueryEscape v) = Some (k, v)"
proof -
  have "takeWhile (\<lambda>c. c \<noteq> CHR ''='') (url_QueryEscape k @ ''='' @ url_QueryEscape v) = url_QueryEscape k"
    "dropWhile (\<lambda>c. c \<noteq> CHR ''='') (url_QueryEscape k @ ''='' @ url_QueryEscape v) = CHR ''='' # url_QueryEscape v"
    using QueryEscape_plain [of _ k] by (simp_all add: takeWhile_append2 dropWhile_append2)
  moreover have "CHR '';'' \<notin> set (url_QueryEscape k @ ''='' @ url_QueryEscape v)"
    using QueryEscape_plain by auto
  ultimately show ?thesis
    unfolding parse_piece_def by simp
qed

lemma Split_Join:
  assumes "\<forall>x \<in> set xs. c \<notin> set x" "xs \<noteq> []"
  shows "strings_Split (strings_Join xs [c]) c = xs"
  using assms
proof (induction xs "[c]" rule: strings_Join.induct)
  have one: "strings_Split x c = [x]" if "c \<notin> set x" for x
    using that by (induction x) auto
  have cons: "strings_Split (x @ c # ys) c = x # strings_Split ys c" if "c \<notin> set x" for x ys
    using that by (induction x) auto
  {
    case (2 x)
    then show ?case by (simp add: one)
  next
    case (3 x y xs)
    then show ?case by (simp add: cons)
  }
qed simp

text \<open>A server reads from an encoded query the pairs the client put in.\<close>

lemma url_Query_encode:
  assumes "req_RawQuery r = encode_query kvs"
  shows "url_Query r = kvs"
proof (cases "kvs = []")
  case True
  with assms show ?thesis
    by (simp add: url_Query_def encode_query_def map_filter_simps parse_piece_def)
next
  case False
  have "strings_Split (encode_query kvs) (CHR ''&'') = map (\<lambda>(k, v). url_QueryEscape k @ ''='' @ url_QueryEscape v) kvs"
    unfolding encode_query_def
    by (rule Split_Join) (use False QueryEscape_plain in \<open>auto simp del: append.simps\<close>)
  moreover have "List.map_filter parse_piece
      (map (\<lambda>(k, v). url_QueryEscape k @ ''='' @ url_QueryEscape v) kvs) = kvs" for kvs
    by (induction kvs) (auto simp: map_filter_simps parse_piece_encoded [simplified])
  ultimately show ?thesis
    by (simp add: url_Query_def assms)
qed

end
