(* ===== verification/ServerTypes.thy ===== *)
theory ServerTypes
  imports GoHttp
begin

text \<open>
  The types of \<open>internal/api/server_gen.go\<close>: the parameters of each operation and its response
  objects, with the \<open>Visit\<close> method that writes each of them.  A response object is the Go type of the
  same name (\<open>ListBranches200JSONResponse\<close>, ...), so an operation can only answer with a status that
  has a type.
\<close>

section \<open>Parameters\<close>

record ListBranchesParams =
  lbp_GitServer :: string
  lbp_Owner :: string
  lbp_RepoName :: string

record InvalidateCacheParams =
  icp_Endpoint :: string

record GetPipelineJobTraceParams =
  gtp_GitServer :: string
  gtp_Project :: string
  gtp_JobId :: string

record ListPipelineJobsParams =
  ljp_GitServer :: string
  ljp_Project :: string
  ljp_PipelineId :: string

record ListPipelinesParams =
  lpp_GitServer :: string
  lpp_Project :: string
  lpp_Ref :: "string option"
  lpp_Status :: "string option"
  lpp_Page :: "int option"
  lpp_PerPage :: "int option"

record ListPullRequestsParams =
  lrp_GitServer :: string
  lrp_Owner :: string
  lrp_RepoName :: string
  lrp_State :: "string option"
  lrp_Page :: "int option"
  lrp_PerPage :: "int option"

record ListRepositoriesParams =
  rpp_GitServer :: string
  rpp_Owner :: string
  rpp_RepoName :: "string option"

record GetRepositoryParams =
  grp_GitServer :: string
  grp_Owner :: string
  grp_RepoName :: string

record TriggerPipelineParams =
  tpp_GitServer :: string
  tpp_Project :: string
  tpp_Ref :: string
  tpp_Variables :: "string option"

record ListUserOrganizationsParams =
  lop_GitServer :: string

section \<open>Response objects\<close>

text \<open>Every \<open>Visit\<close> method sets the content type, writes the status of its type and encodes the value.\<close>

definition visit_JSON :: "int \<Rightarrow> encoded \<Rightarrow> ResponseWriter \<Rightarrow> go_error option \<times> ResponseWriter" where
  "visit_JSON code v w =
     json_Encode v (WriteHeader code (Header_Set ''Content-Type'' ''application/json'' w))"

datatype ListBranchesResponseObject =
    ListBranches200JSONResponse BranchesResponse
  | ListBranches400JSONResponse Error
  | ListBranches401JSONResponse Error
  | ListBranches500JSONResponse Error

fun VisitListBranchesResponse ::
    "ListBranchesResponseObject \<Rightarrow> ResponseWriter \<Rightarrow> go_error option \<times> ResponseWriter" where
  "VisitListBranchesResponse (ListBranches200JSONResponse response) w =
     visit_JSON 200 (json_BranchesResponse response) w"
| "VisitListBranchesResponse (ListBranches400JSONResponse response) w =
     visit_JSON 400 (json_Error response) w"
| "VisitListBranchesResponse (ListBranches401JSONResponse response) w =
     visit_JSON 401 (json_Error response) w"
| "VisitListBranchesResponse (ListBranches500JSONResponse response) w =
     visit_JSON 500 (json_Error response) w"

datatype InvalidateCacheResponseObject =
    InvalidateCache200JSONResponse CacheInvalidationResponse
  | InvalidateCache400JSONResponse Error
  | InvalidateCache500JSONResponse Error

fun VisitInvalidateCacheResponse ::
    "InvalidateCacheResponseObject \<Rightarrow> ResponseWriter \<Rightarrow> go_error option \<times> ResponseWriter" where
  "VisitInvalidateCacheResponse (InvalidateCache200JSONResponse response) w =
     visit_JSON 200 (json_CacheInvalidationResponse response) w"
| "VisitInvalidateCacheResponse (InvalidateCache400JSONResponse response) w =
     visit_JSON 400 (json_Error response) w"
| "VisitInvalidateCacheResponse (InvalidateCache500JSONResponse response) w =
     visit_JSON 500 (json_Error response) w"

datatype GetPipelineJobTraceResponseObject =
    GetPipelineJobTrace200JSONResponse PipelineJobTraceResponse
  | GetPipelineJobTrace400JSONResponse Error
  | GetPipelineJobTrace401JSONResponse Error
  | GetPipelineJobTrace404JSONResponse Error
  | GetPipelineJobTrace500JSONResponse Error

fun VisitGetPipelineJobTraceResponse ::
    "GetPipelineJobTraceResponseObject \<Rightarrow> ResponseWriter \<Rightarrow> go_error option \<times> ResponseWriter" where
  "VisitGetPipelineJobTraceResponse (GetPipelineJobTrace200JSONResponse response) w =
     visit_JSON 200 (json_PipelineJobTraceResponse response) w"
| "VisitGetPipelineJobTraceResponse (GetPipelineJobTrace400JSONResponse response) w =
     visit_JSON 400 (json_Error response) w"
| "VisitGetPipelineJobTraceResponse (GetPipelineJobTrace401JSONResponse response) w =
     visit_JSON 401 (json_Error response) w"
| "VisitGetPipelineJobTraceResponse (GetPipelineJobTrace404JSONResponse response) w =
     visit_JSON 404 (json_Error response) w"
| "VisitGetPipelineJobTraceResponse (GetPipelineJobTrace500JSONResponse response) w =
     visit_JSON 500 (json_Error response) w"

datatype ListPipelineJobsResponseObject =
    ListPipelineJobs200JSONResponse PipelineJobsResponse
  | ListPipelineJobs400JSONResponse Error
  | ListPipelineJobs401JSONResponse Error
  | ListPipelineJobs404JSONResponse Error
  | ListPipelineJobs500JSONResponse Error

fun VisitListPipelineJobsResponse ::
    "ListPipelineJobsResponseObject \<Rightarrow> ResponseWriter \<Rightarrow> go_error option \<times> ResponseWriter" where
  "VisitListPipelineJobsResponse (ListPipelineJobs200JSONResponse response) w =
     visit_JSON 200 (json_PipelineJobsResponse response) w"
| "VisitListPipelineJobsResponse (ListPipelineJobs400JSONResponse response) w =
     visit_JSON 400 (json_Error response) w"
| "VisitListPipelineJobsResponse (ListPipelineJobs401JSONResponse response) w =
     visit_JSON 401 (json_Error response) w"
| "VisitListPipelineJobsResponse (ListPipelineJobs404JSONResponse response) w =
     visit_JSON 404 (json_Error response) w"
| "VisitListPipelineJobsResponse (ListPipelineJobs500JSONResponse response) w =
     visit_JSON 500 (json_Error response) w"

datatype ListPipelinesResponseObject =
    ListPipelines200JSONResponse PipelinesResponse
  | ListPipelines400JSONResponse Error
  | ListPipelines401JSONResponse Error
  | ListPipelines404JSONResponse Error
  | ListPipelines500JSONResponse Error

fun VisitListPipelinesResponse ::
    "ListPipelinesResponseObject \<Rightarrow> ResponseWriter \<Rightarrow> go_error option \<times> ResponseWriter" where
  "VisitListPipelinesResponse (ListPipelines200JSONResponse response) w =
     visit_JSON 200 (json_PipelinesResponse response) w"
| "VisitListPipelinesResponse (ListPipelines400JSONResponse response) w =
     visit_JSON 400 (json_Error response) w"
| "VisitListPipelinesResponse (ListPipelines401JSONResponse response) w =
     visit_JSON 401 (json_Error response) w"
| "VisitListPipelinesResponse (ListPipelines404JSONResponse response) w =
     visit_JSON 404 (json_Error response) w"
| "VisitListPipelinesResponse (ListPipelines500JSONResponse response) w =
     visit_JSON 500 (json_Error response) w"

datatype ListPullRequestsResponseObject =
    ListPullRequests200JSONResponse PullRequestsResponse
  | ListPullRequests400JSONResponse Error
  | ListPullRequests401JSONResponse Error
  | ListPullRequests404JSONResponse Error
  | ListPullRequests500JSONResponse Error

fun VisitListPullRequestsResponse ::
    "ListPullRequestsResponseObject \<Rightarrow> ResponseWriter \<Rightarrow> go_error option \<times> ResponseWriter" where
  "VisitListPullRequestsResponse (ListPullRequests200JSONResponse response) w =
     visit_JSON 200 (json_PullRequestsResponse response) w"
| "VisitListPullRequestsResponse (ListPullRequests400JSONResponse response) w =
     visit_JSON 400 (json_Error response) w"
| "VisitListPullRequestsResponse (ListPullRequests401JSONResponse response) w =
     visit_JSON 401 (json_Error response) w"
| "VisitListPullRequestsResponse (ListPullRequests404JSONResponse response) w =
     visit_JSON 404 (json_Error response) w"
| "VisitListPullRequestsResponse (ListPullRequests500JSONResponse response) w =
     visit_JSON 500 (json_Error response) w"

datatype ListRepositoriesResponseObject =
    ListRepositories200JSONResponse RepositoriesResponse
  | ListRepositories400JSONResponse Error
  | ListRepositories401JSONResponse Error
  | ListRepositories500JSONResponse Error

fun VisitListRepositoriesResponse ::
    "ListRepositoriesResponseObject \<Rightarrow> ResponseWriter \<Rightarrow> go_error option \<times> ResponseWriter" where
  "VisitListRepositoriesResponse (ListRepositories200JSONResponse response) w =
     visit_JSON 200 (json_RepositoriesResponse response) w"
| "VisitListRepositoriesResponse (ListRepositories400JSONResponse response) w =
     visit_JSON 400 (json_Error response) w"
| "VisitListRepositoriesResponse (ListRepositories401JSONResponse response) w =
     visit_JSON 401 (json_Error response) w"
| "VisitListRepositoriesResponse (ListRepositories500JSONResponse response) w =
     visit_JSON 500 (json_Error response) w"

datatype GetRepositoryResponseObject =
    GetRepository200JSONResponse Repository
  | GetRepository400JSONResponse Error
  | GetRepository404JSONResponse Error

fun VisitGetRepositoryResponse ::
    "GetRepositoryResponseObject \<Rightarrow> ResponseWriter \<Rightarrow> go_error option \<times> ResponseWriter" where
  "VisitGetRepositoryResponse (GetRepository200JSONResponse response) w =
     visit_JSON 200 (json_Repository response) w"
| "VisitGetRepositoryResponse (GetRepository400JSONResponse response) w =
     visit_JSON 400 (json_Error response) w"
| "VisitGetRepositoryResponse (GetRepository404JSONResponse response) w =
     visit_JSON 404 (json_Error response) w"

datatype TriggerPipelineResponseObject =
    TriggerPipeline201JSONResponse PipelineResponse
  | TriggerPipeline400JSONResponse Error
  | TriggerPipeline401JSONResponse Error
  | TriggerPipeline404JSONResponse Error
  | TriggerPipeline500JSONResponse Error

fun VisitTriggerPipelineResponse ::
    "TriggerPipelineResponseObject \<Rightarrow> ResponseWriter \<Rightarrow> go_error option \<times> ResponseWriter" where
  "VisitTriggerPipelineResponse (TriggerPipeline201JSONResponse response) w =
     visit_JSON 201 (json_PipelineResponse response) w"
| "VisitTriggerPipelineResponse (TriggerPipeline400JSONResponse response) w =
     visit_JSON 400 (json_Error response) w"
| "VisitTriggerPipelineResponse (TriggerPipeline401JSONResponse response) w =
     visit_JSON 401 (json_Error response) w"
| "VisitTriggerPipelineResponse (TriggerPipeline404JSONResponse response) w =
     visit_JSON 404 (json_Error response) w"
| "VisitTriggerPipelineResponse (TriggerPipeline500JSONResponse response) w =
     visit_JSON 500 (json_Error response) w"

datatype ListUserOrganizationsResponseObject =
    ListUserOrganizations200JSONResponse OrganizationsResponse
  | ListUserOrganizations400JSONResponse Error
  | ListUserOrganizations401JSONResponse Error
  | ListUserOrganizations500JSONResponse Error

fun VisitListUserOrganizationsResponse ::
    "ListUserOrganizationsResponseObject \<Rightarrow> ResponseWriter \<Rightarrow> go_error option \<times> ResponseWriter" where
  "VisitListUserOrganizationsResponse (ListUserOrganizations200JSONResponse response) w =
     visit_JSON 200 (json_OrganizationsResponse response) w"
| "VisitListUserOrganizationsResponse (ListUserOrganizations400JSONResponse response) w =
     visit_JSON 400 (json_Error response) w"
| "VisitListUserOrganizationsResponse (ListUserOrganizations401JSONResponse response) w =
     visit_JSON 401 (json_Error response) w"
| "VisitListUserOrganizationsResponse (ListUserOrganizations500JSONResponse response) w =
     visit_JSON 500 (json_Error response) w"

end
