(* ===== verification/Api.thy ===== *)
theory Api
  imports Pipelines ServerTypes
begin

text \<open>
  \<open>internal/api\<close>: the configuration, the request handlers and the server that wires them to the
  services.  A handler takes the parameters of its request and the state of the server, and gives a
  response object of \<open>ServerTypes\<close> and the next state; it may also panic, or never return (\<open>None\<close>).
  A handler never returns a Go error: failures are response objects.
\<close>

section \<open>Configuration\<close>

record Config =
  Config_Namespace :: string
  Config_Port :: string

text \<open>\<open>None\<close>: \<open>log.Fatal\<close> ends the process.\<close>

definition GetConfigOrDie :: "(string \<Rightarrow> string) \<Rightarrow> Config option" where
  "GetConfigOrDie getenv =
     (let namespace = getenv ''NAMESPACE'' in
      if namespace = [] then None
      else (let port = getenv ''PORT''; port = (if port = [] then ''8080'' else port)
            in Some \<lparr>Config_Namespace = namespace, Config_Port = port\<rparr>))"

section \<open>Error bodies\<close>

definition error_json :: "string \<Rightarrow> string \<Rightarrow> Error" where
  "error_json code message = \<lparr>Code = code, Message = message\<rparr>"

section \<open>The server\<close>

record Server =
  srv_gitServers :: GitServerService
  srv_repositories :: MultiProviderRepositoryService
  srv_organizations :: MultiProviderOrganizationsService
  srv_branches :: MultiProviderBranchesService
  srv_pullrequests :: MultiProviderPullRequestsService
  srv_pipelines :: MultiProviderPipelineService

text \<open>
  The cache manager holds pointers to the caches of the services: it is read off the server's
  state, and what it becomes is written back.
\<close>

definition cacheManager :: "Server \<Rightarrow> Manager" where
  "cacheManager s =
     \<lparr>repositoryCache = mr_cache (srv_repositories s),
      organizationCache = mo_cache (srv_organizations s),
      branchCache = mb_cache (srv_branches s),
      pullRequestCache = mp_cache (srv_pullrequests s),
      pipelineCache = mpl_cache (srv_pipelines s),
      pipelineJobsCache = jobsCache (srv_pipelines s),
      pipelineJobTrace = traceCache (srv_pipelines s)\<rparr>"

definition update_caches :: "Manager \<Rightarrow> Server \<Rightarrow> Server" where
  "update_caches m s =
     s\<lparr>srv_repositories := (srv_repositories s)\<lparr>mr_cache := repositoryCache m\<rparr>,
       srv_organizations := (srv_organizations s)\<lparr>mo_cache := organizationCache m\<rparr>,
       srv_branches := (srv_branches s)\<lparr>mb_cache := branchCache m\<rparr>,
       srv_pullrequests := (srv_pullrequests s)\<lparr>mp_cache := pullRequestCache m\<rparr>,
       srv_pipelines := (srv_pipelines s)
         \<lparr>mpl_cache := pipelineCache m, jobsCache := pipelineJobsCache m,
          traceCache := pipelineJobTrace m\<rparr>\<rparr>"

text \<open>The Kubernetes client is made by a library: its configuration, a scheme that the two kinds of
  objects are added to, and the client for both.  The first error ends it.\<close>

record ('cfg, 'scheme) k8s_library =
  lib_GetConfig :: "go_error + 'cfg"
  lib_NewScheme :: 'scheme
  corev1_AddToScheme :: "'scheme \<Rightarrow> go_error + 'scheme"
  codebaseApi_AddToScheme :: "'scheme \<Rightarrow> go_error + 'scheme"
  client_New :: "'cfg \<Rightarrow> 'scheme \<Rightarrow> go_error + k8s"

definition initk8sClient :: "('cfg, 'scheme) k8s_library \<Rightarrow> go_error + k8s" where
  "initk8sClient lib =
     sum_bind (lib_GetConfig lib) (\<lambda>k8sCfg.
     sum_bind (corev1_AddToScheme lib (lib_NewScheme lib)) (\<lambda>scheme.
     sum_bind (codebaseApi_AddToScheme lib scheme) (\<lambda>scheme.
       client_New lib k8sCfg scheme)))"

text \<open>\<open>BuildHandler\<close>, given the libraries.  The services share one git server service.\<close>

record cache_library =
  lib_settings :: "CacheConfig \<Rightarrow> GitServerSettings Client"
  lib_repositories :: "CacheConfig \<Rightarrow> Repository list Client"
  lib_organizations :: "CacheConfig \<Rightarrow> Organization list Client"
  lib_branches :: "CacheConfig \<Rightarrow> Branch list Client"
  lib_pullrequests :: "CacheConfig \<Rightarrow> PullRequestsResponse Client"
  lib_pipelines :: cache_constructors

definition NewGitServerService ::
    "k8s \<Rightarrow> string \<Rightarrow> (CacheConfig \<Rightarrow> GitServerSettings Client) \<Rightarrow> (GitServer \<Rightarrow> string) \<Rightarrow> string
     \<Rightarrow> GitServerService" where
  "NewGitServerService client ns new url field =
     \<lparr>k8sClient = client, namespace = ns, settingsCache = new GitServerSettingsConfig,
      APIURL = url, tokenField = field\<rparr>"

definition BuildHandler ::
    "'p Env \<Rightarrow> cache_library \<Rightarrow> ('cfg, 'scheme) k8s_library \<Rightarrow> (GitServer \<Rightarrow> string) \<Rightarrow> string \<Rightarrow> Config
     \<Rightarrow> go_error + Server" where
  "BuildHandler env lib kube url field conf =
     (case initk8sClient kube of
        Inl err \<Rightarrow> Inl err
      | Inr client \<Rightarrow>
          Inr \<lparr>srv_gitServers =
                 NewGitServerService client (Config_Namespace conf) (lib_settings lib) url field,
               srv_repositories = NewMultiProviderRepositoryService env (lib_repositories lib),
               srv_organizations = NewMultiProviderOrganizationsService env (lib_organizations lib),
               srv_branches = NewMultiProviderBranchesService env (lib_branches lib),
               srv_pullrequests = NewMultiProviderPullRequestsService env (lib_pullrequests lib),
               srv_pipelines = NewMultiProviderPipelineService env (lib_pipelines lib)\<rparr>)"

section \<open>Pagination\<close>

definition clampPagination :: "int option \<Rightarrow> int option \<Rightarrow> int \<times> int" where
  "clampPagination page perPage =
     (let p = (case page of None \<Rightarrow> 1 | Some v \<Rightarrow> v);
          pp = (case perPage of None \<Rightarrow> 20 | Some v \<Rightarrow> if v > 100 then 100 else v);
          p = (if p < 1 then 1 else p);
          pp = (if pp < 1 then 20 else pp)
      in (p, pp))"

section \<open>Repositories, organizations and branches\<close>

text \<open>What a handler makes of a service's answer: a response object, unless the service panics.\<close>

definition respond :: "('a \<Rightarrow> 'o) \<Rightarrow> (go_error \<Rightarrow> 'o) \<Rightarrow> 'a result \<Rightarrow> 'o result" where
  "respond body errResponse r =
     (case r of
        Ok x \<Rightarrow> Ok (body x)
      | Err err \<Rightarrow> Ok (errResponse err)
      | Panic \<Rightarrow> Panic)"

definition GetRepository_errResponse :: "go_error \<Rightarrow> GetRepositoryResponseObject" where
  "GetRepository_errResponse err =
     (if errors_Is err ErrNotFound then
        GetRepository404JSONResponse (error_json ''not_found'' (error_text err))
      else GetRepository400JSONResponse (error_json ''bad_request'' (error_text err)))"

text \<open>\<open>*repo\<close> panics when the provider gives a nil repository without an error.\<close>

definition GetRepository ::
    "GetRepositoryParams \<Rightarrow> Server \<Rightarrow> (GetRepositoryResponseObject result \<times> Server) option" where
  "GetRepository params s =
     map_option
       (\<lambda>(r, m, g).
          (respond GetRepository200JSONResponse GetRepository_errResponse
             (res_bind r (\<lambda>repo. case repo of None \<Rightarrow> Panic | Some repo \<Rightarrow> Ok repo)),
           s\<lparr>srv_repositories := m, srv_gitServers := g\<rparr>))
       (RepositoriesService_GetRepository (srv_repositories s) (srv_gitServers s)
          (grp_GitServer params) (grp_Owner params) (grp_RepoName params))"

definition getListOptions :: "ListRepositoriesParams \<Rightarrow> ListOptions" where
  "getListOptions params = \<lparr>ListOptions_Name = rpp_RepoName params\<rparr>"

definition ListRepositories ::
    "ListRepositoriesParams \<Rightarrow> Server \<Rightarrow> (ListRepositoriesResponseObject result \<times> Server) option" where
  "ListRepositories params s =
     map_option
       (\<lambda>(r, m, g).
          (respond
             (\<lambda>repositories. ListRepositories200JSONResponse \<lparr>RepositoriesResponse_Data = repositories\<rparr>)
             (\<lambda>err. ListRepositories400JSONResponse (error_json ''bad_request'' (error_text err))) r,
           s\<lparr>srv_repositories := m, srv_gitServers := g\<rparr>))
       (RepositoriesService_ListRepositories (srv_repositories s) (srv_gitServers s)
          (rpp_GitServer params) (rpp_Owner params) (getListOptions params))"

definition ListUserOrganizations ::
    "ListUserOrganizationsParams \<Rightarrow> Server
     \<Rightarrow> (ListUserOrganizationsResponseObject result \<times> Server) option" where
  "ListUserOrganizations params s =
     map_option
       (\<lambda>(r, m, g).
          (respond
             (\<lambda>orgs. ListUserOrganizations200JSONResponse \<lparr>OrganizationsResponse_Data = orgs\<rparr>)
             (\<lambda>err. ListUserOrganizations400JSONResponse (error_json ''bad_request'' (error_text err))) r,
           s\<lparr>srv_organizations := m, srv_gitServers := g\<rparr>))
       (OrganizationsService_ListUserOrganizations (srv_organizations s) (srv_gitServers s)
          (lop_GitServer params))"

definition ListBranches_errResponse :: "go_error \<Rightarrow> ListBranchesResponseObject" where
  "ListBranches_errResponse err =
     ListBranches400JSONResponse (error_json ''bad_request'' (error_text err))"

definition ListBranches ::
    "ListBranchesParams \<Rightarrow> Server \<Rightarrow> (ListBranchesResponseObject result \<times> Server) option" where
  "ListBranches params s =
     map_option
       (\<lambda>(r, m, g).
          (respond (\<lambda>branches. ListBranches200JSONResponse \<lparr>BranchesResponse_Data = branches\<rparr>)
             ListBranches_errResponse r,
           s\<lparr>srv_branches := m, srv_gitServers := g\<rparr>))
       (BranchesService_ListBranches (srv_branches s) (srv_gitServers s)
          (lbp_GitServer params) (lbp_Owner params) (lbp_RepoName params)
          \<lparr>ListOptions_Name = None\<rparr>)"

section \<open>Pull requests\<close>

definition ListPullRequests_errResponse :: "go_error \<Rightarrow> ListPullRequestsResponseObject" where
  "ListPullRequests_errResponse err =
     (if errors_Is err ErrUnauthorized then
        ListPullRequests401JSONResponse (error_json ''401'' (error_text err))
      else if errors_Is err ErrNotFound then
        ListPullRequests404JSONResponse (error_json ''404'' (error_text err))
      else ListPullRequests500JSONResponse (error_json ''500'' (error_text err)))"

definition ListPullRequests ::
    "ListPullRequestsParams \<Rightarrow> Server \<Rightarrow> (ListPullRequestsResponseObject result \<times> Server) option" where
  "ListPullRequests params s =
     (let state = (case lrp_State params of None \<Rightarrow> ''open'' | Some st \<Rightarrow> st);
          (page, perPage) = clampPagination (lrp_Page params) (lrp_PerPage params)
      in map_option
           (\<lambda>(r, m, g). (respond ListPullRequests200JSONResponse ListPullRequests_errResponse r,
                         s\<lparr>srv_pullrequests := m, srv_gitServers := g\<rparr>))
           (PullRequestsService_ListPullRequests (srv_pullrequests s) (srv_gitServers s)
              (lrp_GitServer params) (lrp_Owner params) (lrp_RepoName params)
              \<lparr>PRList_State = state, PRList_Page = page, PRList_PerPage = perPage\<rparr>))"

section \<open>Cache invalidation\<close>

definition InvalidateCache_errResponse :: "go_error \<Rightarrow> InvalidateCacheResponseObject" where
  "InvalidateCache_errResponse err =
     (if error_text err = ''unsupported endpoint''
      then InvalidateCache400JSONResponse (error_json ''invalid_endpoint'' (error_text err))
      else InvalidateCache500JSONResponse (error_json ''internal_error'' (error_text err)))"

definition InvalidateCache_handler ::
    "InvalidateCacheParams \<Rightarrow> Server \<Rightarrow> InvalidateCacheResponseObject \<times> Server" where
  "InvalidateCache_handler params s =
     (let endpoint = icp_Endpoint params in
      case InvalidateCache (cacheManager s) endpoint of
        (Some err, m) \<Rightarrow> (InvalidateCache_errResponse err, update_caches m s)
      | (None, m) \<Rightarrow>
          (InvalidateCache200JSONResponse
             \<lparr>Invalidation_Endpoint = endpoint,
              Invalidation_Message =
                Sprintf (''Cache for endpoint '' @ [CHR 0x27] @ ''%s'' @ [CHR 0x27]
                   @ '' has been successfully invalidated'') [FStr endpoint]\<rparr>,
           update_caches m s))"

section \<open>Pipelines\<close>

definition jobsErrResponse :: "go_error \<Rightarrow> ListPipelineJobsResponseObject" where
  "jobsErrResponse err =
     (if errors_Is err ErrUnauthorized then
        ListPipelineJobs401JSONResponse (error_json ''401'' (error_text err))
      else if errors_Is err ErrBadRequest then
        ListPipelineJobs400JSONResponse (error_json ''400'' (error_text err))
      else if errors_Is err ErrNotFound then
        ListPipelineJobs404JSONResponse (error_json ''404'' (error_text err))
      else ListPipelineJobs500JSONResponse (error_json ''500'' (error_text err)))"

definition traceErrResponse :: "go_error \<Rightarrow> GetPipelineJobTraceResponseObject" where
  "traceErrResponse err =
     (if errors_Is err ErrUnauthorized then
        GetPipelineJobTrace401JSONResponse (error_json ''401'' (error_text err))
      else if errors_Is err ErrBadRequest then
        GetPipelineJobTrace400JSONResponse (error_json ''400'' (error_text err))
      else if errors_Is err ErrNotFound then
        GetPipelineJobTrace404JSONResponse (error_json ''404'' (error_text err))
      else GetPipelineJobTrace500JSONResponse (error_json ''500'' (error_text err)))"

definition triggerErrResponse :: "go_error \<Rightarrow> TriggerPipelineResponseObject" where
  "triggerErrResponse err =
     (if errors_Is err ErrUnauthorized then
        TriggerPipeline401JSONResponse (error_json ''401'' (error_text err))
      else if errors_Is err ErrBadRequest then
        TriggerPipeline400JSONResponse (error_json ''400'' (error_text err))
      else if errors_Is err ErrNotFound then
        TriggerPipeline404JSONResponse (error_json ''404'' (error_text err))
      else TriggerPipeline500JSONResponse (error_json ''500'' (error_text err)))"

definition listErrResponse :: "go_error \<Rightarrow> ListPipelinesResponseObject" where
  "listErrResponse err =
     (if errors_Is err ErrUnauthorized then
        ListPipelines401JSONResponse (error_json ''401'' (error_text err))
      else if errors_Is err ErrBadRequest then
        ListPipelines400JSONResponse (error_json ''400'' (error_text err))
      else if errors_Is err ErrNotFound then
        ListPipelines404JSONResponse (error_json ''404'' (error_text err))
      else ListPipelines500JSONResponse (error_json ''500'' (error_text err)))"

text \<open>
  \<open>json_variables\<close> is \<open>json.Unmarshal\<close> into a list of pipeline variables; the handler only passes on
  the text of its error.
\<close>

definition TriggerPipeline ::
    "(string \<Rightarrow> go_error + PipelineVariable list) \<Rightarrow> TriggerPipelineParams \<Rightarrow> Server
     \<Rightarrow> (TriggerPipelineResponseObject result \<times> Server) option" where
  "TriggerPipeline json_variables params s =
     (if tpp_GitServer params = [] then
        Some (Ok (TriggerPipeline400JSONResponse
          (error_json ''400'' ''gitServer parameter is required'')), s)
      else if tpp_Project params = [] then
        Some (Ok (TriggerPipeline400JSONResponse
          (error_json ''400'' ''project parameter is required'')), s)
      else if tpp_Ref params = [] then
        Some (Ok (TriggerPipeline400JSONResponse
          (error_json ''400'' ''ref parameter is required'')), s)
      else
        (case (if ValueOrEmpty [] (tpp_Variables params) \<noteq> []
               then json_variables (ValueOrEmpty [] (tpp_Variables params)) else Inr []) of
           Inl err \<Rightarrow>
             Some (Ok (TriggerPipeline400JSONResponse (error_json ''400''
               (Sprintf ''invalid variables JSON format (expected array of {key, value, variableType}): %v''
                  [FErr err]))), s)
         | Inr variables \<Rightarrow>
             map_option
               (\<lambda>(r, m, g). (respond TriggerPipeline201JSONResponse triggerErrResponse r,
                             s\<lparr>srv_pipelines := m, srv_gitServers := g\<rparr>))
               (PipelinesService_TriggerPipeline (srv_pipelines s) (srv_gitServers s)
                  (tpp_GitServer params) (tpp_Project params) (tpp_Ref params) variables)))"

definition ListPipelines ::
    "ListPipelinesParams \<Rightarrow> Server \<Rightarrow> (ListPipelinesResponseObject result \<times> Server) option" where
  "ListPipelines params s =
     (let (page, perPage) = clampPagination (lpp_Page params) (lpp_PerPage params);
          ref = (if ValueOrEmpty [] (lpp_Ref params) \<noteq> [] then lpp_Ref params else None)
      in map_option
           (\<lambda>(r, m, g). (respond ListPipelines200JSONResponse listErrResponse r,
                         s\<lparr>srv_pipelines := m, srv_gitServers := g\<rparr>))
           (PipelinesService_ListPipelines (srv_pipelines s) (srv_gitServers s)
              (lpp_GitServer params) (lpp_Project params)
              \<lparr>PLList_Ref = ref, PLList_Status = lpp_Status params, PLList_Page = page,
               PLList_PerPage = perPage\<rparr>))"

definition ListPipelineJobs ::
    "ListPipelineJobsParams \<Rightarrow> Server \<Rightarrow> (ListPipelineJobsResponseObject result \<times> Server) option" where
  "ListPipelineJobs params s =
     (case strconv_Atoi (ljp_PipelineId params) of
        None \<Rightarrow> Some (Ok (ListPipelineJobs400JSONResponse (error_json ''400'' ''pipelineId must be a numeric value'')), s)
      | Some pipelineID \<Rightarrow>
          map_option
            (\<lambda>(r, m, g). (respond
                             (\<lambda>jobs. ListPipelineJobs200JSONResponse \<lparr>PipelineJobsResponse_Data = jobs\<rparr>)
                             jobsErrResponse r,
                          s\<lparr>srv_pipelines := m, srv_gitServers := g\<rparr>))
            (PipelinesService_ListPipelineJobs (srv_pipelines s) (srv_gitServers s)
               (ljp_GitServer params) (ljp_Project params) pipelineID))"

definition GetPipelineJobTrace ::
    "JobTrace result option \<Rightarrow> GetPipelineJobTraceParams \<Rightarrow> Server
     \<Rightarrow> (GetPipelineJobTraceResponseObject result \<times> Server) option" where
  "GetPipelineJobTrace joined params s =
     (case strconv_Atoi (gtp_JobId params) of
        None \<Rightarrow> Some (Ok (GetPipelineJobTrace400JSONResponse (error_json ''400'' ''jobId must be a numeric value'')), s)
      | Some jobID \<Rightarrow>
          map_option
            (\<lambda>(r, m, g).
               (respond
                  (\<lambda>(trace, truncated).
                     GetPipelineJobTrace200JSONResponse
                       \<lparr>TraceResponse_Content = trace, TraceResponse_JobId = gtp_JobId params,
                        TraceResponse_Truncated = Some truncated\<rparr>)
                  traceErrResponse r,
                s\<lparr>srv_pipelines := m, srv_gitServers := g\<rparr>))
            (PipelinesService_GetJobTrace (srv_pipelines s) (srv_gitServers s) joined
               (gtp_GitServer params) (gtp_Project params) jobID))"

section \<open>Properties\<close>

text \<open>Pagination parameters.  The page is at least 1 and the page size between 1 and 100; values in
  range are kept, a missing or too small page is 1, a missing or too small size is 20 and a too large
  one 100.\<close>

theorem clampPagination_bounds:
  "case clampPagination page perPage of (p, pp) \<Rightarrow>
     1 \<le> p \<and> 1 \<le> pp \<and> pp \<le> 100 \<and>
     p = max 1 (ValueOrEmpty 1 page) \<and>
     pp = (if ValueOrEmpty 20 perPage < 1 then 20 else min 100 (ValueOrEmpty 20 perPage))"
  by (auto simp: clampPagination_def ValueOrEmpty_def Let_def split: option.split)

text \<open>The reference classification of the pipeline endpoints.\<close>

fun classify_error :: "go_error \<Rightarrow> int" where
  "classify_error err =
     (if errors_Is err ErrUnauthorized then 401
      else if errors_Is err ErrBadRequest then 400
      else if errors_Is err ErrNotFound then 404
      else 500)"

text \<open>Error responses of the pipeline endpoints.  All four write the same response for an error: its
  status is 401 for an "unauthorized" anywhere in the chain, else 400 for a bad request, else 404 for
  a "not found", else 500; the body is the JSON object with this status in decimal as its code and
  the text of the error as its message.\<close>

theorem pipeline_errors_classified:
  "VisitListPipelinesResponse (listErrResponse err) w =
     visit_JSON (classify_error err)
       (Inr (JObject [(''code'', JString (strconv_Itoa (classify_error err))),
                      (''message'', JString (error_text err))])) w \<and>
   VisitListPipelineJobsResponse (jobsErrResponse err) w = VisitListPipelinesResponse (listErrResponse err) w \<and>
   VisitGetPipelineJobTraceResponse (traceErrResponse err) w = VisitListPipelinesResponse (listErrResponse err) w \<and>
   VisitTriggerPipelineResponse (triggerErrResponse err) w = VisitListPipelinesResponse (listErrResponse err) w"
proof -
  have codes: "strconv_Itoa 401 = ''401''" "strconv_Itoa 400 = ''400''" "strconv_Itoa 404 = ''404''"
    "strconv_Itoa 500 = ''500''" by code_simp+
  show ?thesis
    by (simp add: listErrResponse_def jobsErrResponse_def traceErrResponse_def
        triggerErrResponse_def codes json_Error_def json_object_def json_field_def json_string_def error_json_def)
qed

text \<open>C40: Cache invalidation as the endpoint reports it.  The five endpoints the manager lists as supported
  get a 200; for every other name nothing changes and the response is a 500: the text of the
  manager's error always names the endpoint, so it never equals the text the handler compares it
  with, and the 400 branch is never taken.\<close>

theorem invalidate_endpoint_status:
  "case InvalidateCache_handler params s of (resp, s') \<Rightarrow>
     if icp_Endpoint params \<in> set (GetSupportedEndpoints (cacheManager s))
     then (\<exists>body. resp = InvalidateCache200JSONResponse body \<and>
             Invalidation_Endpoint body = icp_Endpoint params)
     else s' = s \<and> (\<exists>err. resp = InvalidateCache500JSONResponse err \<and> Code err = ''internal_error'')"
proof -
  have "update_caches (cacheManager s) s = s"
    by (simp add: update_caches_def cacheManager_def)
  then show ?thesis
    by (auto simp: InvalidateCache_handler_def InvalidateCache_def GetSupportedEndpoints_def Let_def
        InvalidateCache_errResponse_def error_json_def)
qed

end
