(* ===== verification/ServerGen.thy ===== *)
theory ServerGen
  imports ServerTypes
begin

text \<open>
  \<open>internal/api/server_gen.go\<close>: what is between a request and a handler.  The wrapper of an operation
  reads its parameters from the query and answers itself when one is missing or malformed; the
  strict handler runs the operation and writes its response object; \<open>HandlerWithOptions\<close> registers
  one route per operation.  The state \<open>'s\<close> of the program is left open.

  \<open>runtime.BindQueryParameter\<close> (oapi-codegen) and the router (chi) are not part of the repository.
  The first is the parameter \<open>param_binder\<close>, the second the function that serves a \<open>Router\<close>; what the
  properties rely on are \<open>binder_ok\<close> and \<open>chi_routes\<close>, each shown to be met by a concrete function.
\<close>

section \<open>Parameter errors\<close>

datatype param_error =
    UnescapedCookieParamError string go_error
  | UnmarshalingParamError string go_error
  | RequiredParamError string
  | RequiredHeaderError string go_error
  | InvalidParamFormatError string go_error
  | TooManyValuesForParamError string int

fun param_error_Error :: "param_error \<Rightarrow> string" where
  "param_error_Error (UnescapedCookieParamError name err) =
     Sprintf (''error unescaping cookie parameter '' @ [CHR 0x27] @ ''%s'' @ [CHR 0x27]) [FStr name]"
| "param_error_Error (UnmarshalingParamError name err) =
     Sprintf ''Error unmarshaling parameter %s as JSON: %s'' [FStr name, FStr (error_text err)]"
| "param_error_Error (RequiredParamError name) =
     Sprintf ''Query argument %s is required, but not found'' [FStr name]"
| "param_error_Error (RequiredHeaderError name err) =
     Sprintf ''Header parameter %s is required, but not found'' [FStr name]"
| "param_error_Error (InvalidParamFormatError name err) =
     Sprintf ''Invalid format for parameter %s: %s'' [FStr name, FStr (error_text err)]"
| "param_error_Error (TooManyValuesForParamError name n) =
     Sprintf ''Expected one value for %s, got %d'' [FStr name, FInt n]"

text \<open>\<open>Unwrap\<close>; \<open>None\<close> for the two types that have no such method.\<close>

fun param_error_Unwrap :: "param_error \<Rightarrow> go_error option" where
  "param_error_Unwrap (UnescapedCookieParamError name err) = Some err"
| "param_error_Unwrap (UnmarshalingParamError name err) = Some err"
| "param_error_Unwrap (RequiredParamError name) = None"
| "param_error_Unwrap (RequiredHeaderError name err) = Some err"
| "param_error_Unwrap (InvalidParamFormatError name err) = Some err"
| "param_error_Unwrap (TooManyValuesForParamError name n) = None"

section \<open>Reading parameters\<close>

text \<open>\<open>BindQueryParameter("form", true, required, name, query, dest)\<close> at the types of its destinations.\<close>

record param_binder =
  bind_string :: "string \<Rightarrow> url_Values \<Rightarrow> go_error + string"
  bind_optional :: "string \<Rightarrow> url_Values \<Rightarrow> go_error + string option"
  bind_optional_int :: "string \<Rightarrow> url_Values \<Rightarrow> go_error + int option"

definition required_param :: "param_binder \<Rightarrow> string \<Rightarrow> url_Values \<Rightarrow> param_error + string" where
  "required_param b name q =
     (if Values_Get q name \<noteq> []
      then map_sum (InvalidParamFormatError name) id (bind_string b name q)
      else Inl (RequiredParamError name))"

definition optional_param :: "param_binder \<Rightarrow> string \<Rightarrow> url_Values \<Rightarrow> param_error + string option" where
  "optional_param b name q = map_sum (InvalidParamFormatError name) id (bind_optional b name q)"

definition optional_int_param :: "param_binder \<Rightarrow> string \<Rightarrow> url_Values \<Rightarrow> param_error + int option" where
  "optional_int_param b name q = map_sum (InvalidParamFormatError name) id (bind_optional_int b name q)"

definition ListBranches_params :: "param_binder \<Rightarrow> url_Values \<Rightarrow> param_error + ListBranchesParams" where
  "ListBranches_params b q =
     sum_bind (required_param b ''gitServer'' q) (\<lambda>gitServer'.
     sum_bind (required_param b ''owner'' q) (\<lambda>owner'.
     sum_bind (required_param b ''repoName'' q) (\<lambda>repoName'.
     Inr \<lparr>lbp_GitServer = gitServer', lbp_Owner = owner', lbp_RepoName = repoName'\<rparr>)))"

definition InvalidateCache_params :: "param_binder \<Rightarrow> url_Values \<Rightarrow> param_error + InvalidateCacheParams" where
  "InvalidateCache_params b q =
     sum_bind (required_param b ''endpoint'' q) (\<lambda>endpoint'.
     Inr \<lparr>icp_Endpoint = endpoint'\<rparr>)"

definition GetPipelineJobTrace_params :: "param_binder \<Rightarrow> url_Values \<Rightarrow> param_error + GetPipelineJobTraceParams" where
  "GetPipelineJobTrace_params b q =
     sum_bind (required_param b ''gitServer'' q) (\<lambda>gitServer'.
     sum_bind (required_param b ''project'' q) (\<lambda>project'.
     sum_bind (required_param b ''jobId'' q) (\<lambda>jobId'.
     Inr \<lparr>gtp_GitServer = gitServer', gtp_Project = project', gtp_JobId = jobId'\<rparr>)))"

definition ListPipelineJobs_params :: "param_binder \<Rightarrow> url_Values \<Rightarrow> param_error + ListPipelineJobsParams" where
  "ListPipelineJobs_params b q =
     sum_bind (required_param b ''gitServer'' q) (\<lambda>gitServer'.
     sum_bind (required_param b ''project'' q) (\<lambda>project'.
     sum_bind (required_param b ''pipelineId'' q) (\<lambda>pipelineId'.
     Inr \<lparr>ljp_GitServer = gitServer', ljp_Project = project', ljp_PipelineId = pipelineId'\<rparr>)))"

definition ListPipelines_params :: "param_binder \<Rightarrow> url_Values \<Rightarrow> param_error + ListPipelinesParams" where
  "ListPipelines_params b q =
     sum_bind (required_param b ''gitServer'' q) (\<lambda>gitServer'.
     sum_bind (required_param b ''project'' q) (\<lambda>project'.
     sum_bind (optional_param b ''ref'' q) (\<lambda>ref'.
     sum_bind (optional_param b ''status'' q) (\<lambda>status'.
     sum_bind (optional_int_param b ''page'' q) (\<lambda>page'.
     sum_bind (optional_int_param b ''perPage'' q) (\<lambda>perPage'.
     Inr \<lparr>lpp_GitServer = gitServer', lpp_Project = project', lpp_Ref = ref', lpp_Status = status', lpp_Page = page', lpp_PerPage = perPage'\<rparr>))))))"

definition ListPullRequests_params :: "param_binder \<Rightarrow> url_Values \<Rightarrow> param_error + ListPullRequestsParams" where
  "ListPullRequests_params b q =
     sum_bind (required_param b ''gitServer'' q) (\<lambda>gitServer'.
     sum_bind (required_param b ''owner'' q) (\<lambda>owner'.
     sum_bind (required_param b ''repoName'' q) (\<lambda>repoName'.
     sum_bind (optional_param b ''state'' q) (\<lambda>state'.
     sum_bind (optional_int_param b ''page'' q) (\<lambda>page'.
     sum_bind (optional_int_param b ''perPage'' q) (\<lambda>perPage'.
     Inr \<lparr>lrp_GitServer = gitServer', lrp_Owner = owner', lrp_RepoName = repoName', lrp_State = state', lrp_Page = page', lrp_PerPage = perPage'\<rparr>))))))"

definition ListRepositories_params :: "param_binder \<Rightarrow> url_Values \<Rightarrow> param_error + ListRepositoriesParams" where
  "ListRepositories_params b q =
     sum_bind (required_param b ''gitServer'' q) (\<lambda>gitServer'.
     sum_bind (required_param b ''owner'' q) (\<lambda>owner'.
     sum_bind (optional_param b ''repoName'' q) (\<lambda>repoName'.
     Inr \<lparr>rpp_GitServer = gitServer', rpp_Owner = owner', rpp_RepoName = repoName'\<rparr>)))"

definition GetRepository_params :: "param_binder \<Rightarrow> url_Values \<Rightarrow> param_error + GetRepositoryParams" where
  "GetRepository_params b q =
     sum_bind (required_param b ''gitServer'' q) (\<lambda>gitServer'.
     sum_bind (required_param b ''owner'' q) (\<lambda>owner'.
     sum_bind (required_param b ''repoName'' q) (\<lambda>repoName'.
     Inr \<lparr>grp_GitServer = gitServer', grp_Owner = owner', grp_RepoName = repoName'\<rparr>)))"

definition TriggerPipeline_params :: "param_binder \<Rightarrow> url_Values \<Rightarrow> param_error + TriggerPipelineParams" where
  "TriggerPipeline_params b q =
     sum_bind (required_param b ''gitServer'' q) (\<lambda>gitServer'.
     sum_bind (required_param b ''project'' q) (\<lambda>project'.
     sum_bind (required_param b ''ref'' q) (\<lambda>ref'.
     sum_bind (optional_param b ''variables'' q) (\<lambda>variables'.
     Inr \<lparr>tpp_GitServer = gitServer', tpp_Project = project', tpp_Ref = ref', tpp_Variables = variables'\<rparr>))))"

definition ListUserOrganizations_params :: "param_binder \<Rightarrow> url_Values \<Rightarrow> param_error + ListUserOrganizationsParams" where
  "ListUserOrganizations_params b q =
     sum_bind (required_param b ''gitServer'' q) (\<lambda>gitServer'.
     Inr \<lparr>lop_GitServer = gitServer'\<rparr>)"

section \<open>The interface of the handlers and its wrapper\<close>

record 's ServerInterface =
  si_ListBranches :: "ListBranchesParams \<Rightarrow> 's http_handler"
  si_InvalidateCache :: "InvalidateCacheParams \<Rightarrow> 's http_handler"
  si_GetPipelineJobTrace :: "GetPipelineJobTraceParams \<Rightarrow> 's http_handler"
  si_ListPipelineJobs :: "ListPipelineJobsParams \<Rightarrow> 's http_handler"
  si_ListPipelines :: "ListPipelinesParams \<Rightarrow> 's http_handler"
  si_ListPullRequests :: "ListPullRequestsParams \<Rightarrow> 's http_handler"
  si_ListRepositories :: "ListRepositoriesParams \<Rightarrow> 's http_handler"
  si_GetRepository :: "GetRepositoryParams \<Rightarrow> 's http_handler"
  si_TriggerPipeline :: "TriggerPipelineParams \<Rightarrow> 's http_handler"
  si_ListUserOrganizations :: "ListUserOrganizationsParams \<Rightarrow> 's http_handler"

definition not_implemented :: "'s http_handler" where
  "not_implemented r w s = Some (Returned, WriteHeader 501 w, s)"

definition Unimplemented :: "'s ServerInterface" where
  "Unimplemented =
     \<lparr>si_ListBranches = (\<lambda>params. not_implemented),
      si_InvalidateCache = (\<lambda>params. not_implemented),
      si_GetPipelineJobTrace = (\<lambda>params. not_implemented),
      si_ListPipelineJobs = (\<lambda>params. not_implemented),
      si_ListPipelines = (\<lambda>params. not_implemented),
      si_ListPullRequests = (\<lambda>params. not_implemented),
      si_ListRepositories = (\<lambda>params. not_implemented),
      si_GetRepository = (\<lambda>params. not_implemented),
      si_TriggerPipeline = (\<lambda>params. not_implemented),
      si_ListUserOrganizations = (\<lambda>params. not_implemented)\<rparr>"

record 's ServerInterfaceWrapper =
  siw_Handler :: "'s ServerInterface"
  siw_Middlewares :: "('s http_handler \<Rightarrow> 's http_handler) list"
  siw_ErrorHandlerFunc :: "ResponseWriter \<Rightarrow> Request \<Rightarrow> param_error \<Rightarrow> ResponseWriter"

text \<open>The end of every wrapper: the error handler, or the operation under the middlewares.\<close>

definition serve_with ::
    "'s ServerInterfaceWrapper \<Rightarrow> param_error + 'p \<Rightarrow> ('p \<Rightarrow> 's http_handler) \<Rightarrow> 's http_handler" where
  "serve_with siw params operation r w s =
     (case params of
        Inl err \<Rightarrow> Some (Returned, siw_ErrorHandlerFunc siw w r err, s)
      | Inr p \<Rightarrow> foldl (\<lambda>handler middleware. middleware handler) (operation p) (siw_Middlewares siw) r w s)"

definition Wrapper_ListBranches :: "param_binder \<Rightarrow> 's ServerInterfaceWrapper \<Rightarrow> 's http_handler" where
  "Wrapper_ListBranches b siw r =
     serve_with siw (ListBranches_params b (url_Query r)) (si_ListBranches (siw_Handler siw)) r"

definition Wrapper_InvalidateCache :: "param_binder \<Rightarrow> 's ServerInterfaceWrapper \<Rightarrow> 's http_handler" where
  "Wrapper_InvalidateCache b siw r =
     serve_with siw (InvalidateCache_params b (url_Query r)) (si_InvalidateCache (siw_Handler siw)) r"

definition Wrapper_GetPipelineJobTrace :: "param_binder \<Rightarrow> 's ServerInterfaceWrapper \<Rightarrow> 's http_handler" where
  "Wrapper_GetPipelineJobTrace b siw r =
     serve_with siw (GetPipelineJobTrace_params b (url_Query r)) (si_GetPipelineJobTrace (siw_Handler siw)) r"

definition Wrapper_ListPipelineJobs :: "param_binder \<Rightarrow> 's ServerInterfaceWrapper \<Rightarrow> 's http_handler" where
  "Wrapper_ListPipelineJobs b siw r =
     serve_with siw (ListPipelineJobs_params b (url_Query r)) (si_ListPipelineJobs (siw_Handler siw)) r"

definition Wrapper_ListPipelines :: "param_binder \<Rightarrow> 's ServerInterfaceWrapper \<Rightarrow> 's http_handler" where
  "Wrapper_ListPipelines b siw r =
     serve_with siw (ListPipelines_params b (url_Query r)) (si_ListPipelines (siw_Handler siw)) r"

definition Wrapper_ListPullRequests :: "param_binder \<Rightarrow> 's ServerInterfaceWrapper \<Rightarrow> 's http_handler" where
  "Wrapper_ListPullRequests b siw r =
     serve_with siw (ListPullRequests_params b (url_Query r)) (si_ListPullRequests (siw_Handler siw)) r"

definition Wrapper_ListRepositories :: "param_binder \<Rightarrow> 's ServerInterfaceWrapper \<Rightarrow> 's http_handler" where
  "Wrapper_ListRepositories b siw r =
     serve_with siw (ListRepositories_params b (url_Query r)) (si_ListRepositories (siw_Handler siw)) r"

definition Wrapper_GetRepository :: "param_binder \<Rightarrow> 's ServerInterfaceWrapper \<Rightarrow> 's http_handler" where
  "Wrapper_GetRepository b siw r =
     serve_with siw (GetRepository_params b (url_Query r)) (si_GetRepository (siw_Handler siw)) r"

definition Wrapper_TriggerPipeline :: "param_binder \<Rightarrow> 's ServerInterfaceWrapper \<Rightarrow> 's http_handler" where
  "Wrapper_TriggerPipeline b siw r =
     serve_with siw (TriggerPipeline_params b (url_Query r)) (si_TriggerPipeline (siw_Handler siw)) r"

definition Wrapper_ListUserOrganizations :: "param_binder \<Rightarrow> 's ServerInterfaceWrapper \<Rightarrow> 's http_handler" where
  "Wrapper_ListUserOrganizations b siw r =
     serve_with siw (ListUserOrganizations_params b (url_Query r)) (si_ListUserOrganizations (siw_Handler siw)) r"

section \<open>Routing\<close>

text \<open>A chi router: its middlewares in the order of \<open>Use\<close>, and its routes.\<close>

record 's Router =
  router_Use :: "('s http_handler \<Rightarrow> 's http_handler) list"
  router_routes :: "(string \<times> string \<times> 's http_handler) list"

definition NewRouter :: "'s Router" where
  "NewRouter = \<lparr>router_Use = [], router_routes = []\<rparr>"

definition add_route :: "string \<Rightarrow> string \<Rightarrow> 's http_handler \<Rightarrow> 's Router \<Rightarrow> 's Router" where
  "add_route method pattern h r = r\<lparr>router_routes := router_routes r @ [(method, pattern, h)]\<rparr>"

record 's ChiServerOptions =
  opt_BaseURL :: string
  opt_BaseRouter :: "'s Router option"
  opt_Middlewares :: "('s http_handler \<Rightarrow> 's http_handler) list"
  opt_ErrorHandlerFunc :: "(ResponseWriter \<Rightarrow> Request \<Rightarrow> param_error \<Rightarrow> ResponseWriter) option"

definition HandlerWithOptions ::
    "param_binder \<Rightarrow> 's ServerInterface \<Rightarrow> 's ChiServerOptions \<Rightarrow> 's Router" where
  "HandlerWithOptions b si options =
     (let r = (case opt_BaseRouter options of None \<Rightarrow> NewRouter | Some r \<Rightarrow> r);
          errorHandler =
            (case opt_ErrorHandlerFunc options of
               None \<Rightarrow> (\<lambda>w r err. http_Error (param_error_Error err) 400 w)
             | Some h \<Rightarrow> h);
          wrapper = \<lparr>siw_Handler = si, siw_Middlewares = opt_Middlewares options,
                     siw_ErrorHandlerFunc = errorHandler\<rparr>;
          base = opt_BaseURL options;
          r = add_route ''GET'' (base @ ''/api/v1/branches'') (Wrapper_ListBranches b wrapper) r;
          r = add_route ''DELETE'' (base @ ''/api/v1/cache/invalidate'') (Wrapper_InvalidateCache b wrapper) r;
          r = add_route ''GET'' (base @ ''/api/v1/pipeline-job-trace'') (Wrapper_GetPipelineJobTrace b wrapper) r;
          r = add_route ''GET'' (base @ ''/api/v1/pipeline-jobs'') (Wrapper_ListPipelineJobs b wrapper) r;
          r = add_route ''GET'' (base @ ''/api/v1/pipelines'') (Wrapper_ListPipelines b wrapper) r;
          r = add_route ''GET'' (base @ ''/api/v1/pull-requests'') (Wrapper_ListPullRequests b wrapper) r;
          r = add_route ''GET'' (base @ ''/api/v1/repositories'') (Wrapper_ListRepositories b wrapper) r;
          r = add_route ''GET'' (base @ ''/api/v1/repository'') (Wrapper_GetRepository b wrapper) r;
          r = add_route ''POST'' (base @ ''/api/v1/trigger-pipeline'') (Wrapper_TriggerPipeline b wrapper) r;
          r = add_route ''GET'' (base @ ''/api/v1/user/organizations'') (Wrapper_ListUserOrganizations b wrapper) r
      in r)"

definition Handler :: "param_binder \<Rightarrow> 's ServerInterface \<Rightarrow> 's Router" where
  "Handler b si = HandlerWithOptions b si
     \<lparr>opt_BaseURL = [], opt_BaseRouter = None, opt_Middlewares = [], opt_ErrorHandlerFunc = None\<rparr>"

definition HandlerFromMux :: "param_binder \<Rightarrow> 's ServerInterface \<Rightarrow> 's Router \<Rightarrow> 's Router" where
  "HandlerFromMux b si r = HandlerWithOptions b si
     \<lparr>opt_BaseURL = [], opt_BaseRouter = Some r, opt_Middlewares = [], opt_ErrorHandlerFunc = None\<rparr>"

definition HandlerFromMuxWithBaseURL ::
    "param_binder \<Rightarrow> 's ServerInterface \<Rightarrow> 's Router \<Rightarrow> string \<Rightarrow> 's Router" where
  "HandlerFromMuxWithBaseURL b si r baseURL = HandlerWithOptions b si
     \<lparr>opt_BaseURL = baseURL, opt_BaseRouter = Some r, opt_Middlewares = [], opt_ErrorHandlerFunc = None\<rparr>"

section \<open>The strict handler\<close>

record 's StrictServerInterface =
  ssi_ListBranches ::
    "ListBranchesParams \<Rightarrow> 's \<Rightarrow> (ListBranchesResponseObject result \<times> 's) option"
  ssi_InvalidateCache ::
    "InvalidateCacheParams \<Rightarrow> 's \<Rightarrow> (InvalidateCacheResponseObject result \<times> 's) option"
  ssi_GetPipelineJobTrace ::
    "GetPipelineJobTraceParams \<Rightarrow> 's \<Rightarrow> (GetPipelineJobTraceResponseObject result \<times> 's) option"
  ssi_ListPipelineJobs ::
    "ListPipelineJobsParams \<Rightarrow> 's \<Rightarrow> (ListPipelineJobsResponseObject result \<times> 's) option"
  ssi_ListPipelines ::
    "ListPipelinesParams \<Rightarrow> 's \<Rightarrow> (ListPipelinesResponseObject result \<times> 's) option"
  ssi_ListPullRequests ::
    "ListPullRequestsParams \<Rightarrow> 's \<Rightarrow> (ListPullRequestsResponseObject result \<times> 's) option"
  ssi_ListRepositories ::
    "ListRepositoriesParams \<Rightarrow> 's \<Rightarrow> (ListRepositoriesResponseObject result \<times> 's) option"
  ssi_GetRepository ::
    "GetRepositoryParams \<Rightarrow> 's \<Rightarrow> (GetRepositoryResponseObject result \<times> 's) option"
  ssi_TriggerPipeline ::
    "TriggerPipelineParams \<Rightarrow> 's \<Rightarrow> (TriggerPipelineResponseObject result \<times> 's) option"
  ssi_ListUserOrganizations ::
    "ListUserOrganizationsParams \<Rightarrow> 's \<Rightarrow> (ListUserOrganizationsResponseObject result \<times> 's) option"

text \<open>
  A strict middleware sees requests and responses as \<open>interface{}\<close>: one of the request objects, and
  one of the response objects, nil, or a value of another type (given by its name).
\<close>

datatype request_object =
    ListBranchesRequestObject ListBranchesParams
  | InvalidateCacheRequestObject InvalidateCacheParams
  | GetPipelineJobTraceRequestObject GetPipelineJobTraceParams
  | ListPipelineJobsRequestObject ListPipelineJobsParams
  | ListPipelinesRequestObject ListPipelinesParams
  | ListPullRequestsRequestObject ListPullRequestsParams
  | ListRepositoriesRequestObject ListRepositoriesParams
  | GetRepositoryRequestObject GetRepositoryParams
  | TriggerPipelineRequestObject TriggerPipelineParams
  | ListUserOrganizationsRequestObject ListUserOrganizationsParams

datatype response_object =
    NilResponse
  | OtherResponse string
  | ListBranchesResponse ListBranchesResponseObject
  | InvalidateCacheResponse InvalidateCacheResponseObject
  | GetPipelineJobTraceResponse GetPipelineJobTraceResponseObject
  | ListPipelineJobsResponse ListPipelineJobsResponseObject
  | ListPipelinesResponse ListPipelinesResponseObject
  | ListPullRequestsResponse ListPullRequestsResponseObject
  | ListRepositoriesResponse ListRepositoriesResponseObject
  | GetRepositoryResponse GetRepositoryResponseObject
  | TriggerPipelineResponse TriggerPipelineResponseObject
  | ListUserOrganizationsResponse ListUserOrganizationsResponseObject

text \<open>The verb \<open>%T\<close>.\<close>

fun response_type :: "response_object \<Rightarrow> string" where
  "response_type NilResponse = ''<nil>''"
| "response_type (OtherResponse t) = t"
| "response_type (ListBranchesResponse (ListBranches200JSONResponse _)) = ''api.ListBranches200JSONResponse''"
| "response_type (ListBranchesResponse (ListBranches400JSONResponse _)) = ''api.ListBranches400JSONResponse''"
| "response_type (ListBranchesResponse (ListBranches401JSONResponse _)) = ''api.ListBranches401JSONResponse''"
| "response_type (ListBranchesResponse (ListBranches500JSONResponse _)) = ''api.ListBranches500JSONResponse''"
| "response_type (InvalidateCacheResponse (InvalidateCache200JSONResponse _)) = ''api.InvalidateCache200JSONResponse''"
| "response_type (InvalidateCacheResponse (InvalidateCache400JSONResponse _)) = ''api.InvalidateCache400JSONResponse''"
| "response_type (InvalidateCacheResponse (InvalidateCache500JSONResponse _)) = ''api.InvalidateCache500JSONResponse''"
| "response_type (GetPipelineJobTraceResponse (GetPipelineJobTrace200JSONResponse _)) = ''api.GetPipelineJobTrace200JSONResponse''"
| "response_type (GetPipelineJobTraceResponse (GetPipelineJobTrace400JSONResponse _)) = ''api.GetPipelineJobTrace400JSONResponse''"
| "response_type (GetPipelineJobTraceResponse (GetPipelineJobTrace401JSONResponse _)) = ''api.GetPipelineJobTrace401JSONResponse''"
| "response_type (GetPipelineJobTraceResponse (GetPipelineJobTrace404JSONResponse _)) = ''api.GetPipelineJobTrace404JSONResponse''"
| "response_type (GetPipelineJobTraceResponse (GetPipelineJobTrace500JSONResponse _)) = ''api.GetPipelineJobTrace500JSONResponse''"
| "response_type (ListPipelineJobsResponse (ListPipelineJobs200JSONResponse _)) = ''api.ListPipelineJobs200JSONResponse''"
| "response_type (ListPipelineJobsResponse (ListPipelineJobs400JSONResponse _)) = ''api.ListPipelineJobs400JSONResponse''"
| "response_type (ListPipelineJobsResponse (ListPipelineJobs401JSONResponse _)) = ''api.ListPipelineJobs401JSONResponse''"
| "response_type (ListPipelineJobsResponse (ListPipelineJobs404JSONResponse _)) = ''api.ListPipelineJobs404JSONResponse''"
| "response_type (ListPipelineJobsResponse (ListPipelineJobs500JSONResponse _)) = ''api.ListPipelineJobs500JSONResponse''"
| "response_type (ListPipelinesResponse (ListPipelines200JSONResponse _)) = ''api.ListPipelines200JSONResponse''"
| "response_type (ListPipelinesResponse (ListPipelines400JSONResponse _)) = ''api.ListPipelines400JSONResponse''"
| "response_type (ListPipelinesResponse (ListPipelines401JSONResponse _)) = ''api.ListPipelines401JSONResponse''"
| "response_type (ListPipelinesResponse (ListPipelines404JSONResponse _)) = ''api.ListPipelines404JSONResponse''"
| "response_type (ListPipelinesResponse (ListPipelines500JSONResponse _)) = ''api.ListPipelines500JSONResponse''"
| "response_type (ListPullRequestsResponse (ListPullRequests200JSONResponse _)) = ''api.ListPullRequests200JSONResponse''"
| "response_type (ListPullRequestsResponse (ListPullRequests400JSONResponse _)) = ''api.ListPullRequests400JSONResponse''"
| "response_type (ListPullRequestsResponse (ListPullRequests401JSONResponse _)) = ''api.ListPullRequests401JSONResponse''"
| "response_type (ListPullRequestsResponse (ListPullRequests404JSONResponse _)) = ''api.ListPullRequests404JSONResponse''"
| "response_type (ListPullRequestsResponse (ListPullRequests500JSONResponse _)) = ''api.ListPullRequests500JSONResponse''"
| "response_type (ListRepositoriesResponse (ListRepositories200JSONResponse _)) = ''api.ListRepositories200JSONResponse''"
| "response_type (ListRepositoriesResponse (ListRepositories400JSONResponse _)) = ''api.ListRepositories400JSONResponse''"
| "response_type (ListRepositoriesResponse (ListRepositories401JSONResponse _)) = ''api.ListRepositories401JSONResponse''"
| "response_type (ListRepositoriesResponse (ListRepositories500JSONResponse _)) = ''api.ListRepositories500JSONResponse''"
| "response_type (GetRepositoryResponse (GetRepository200JSONResponse _)) = ''api.GetRepository200JSONResponse''"
| "response_type (GetRepositoryResponse (GetRepository400JSONResponse _)) = ''api.GetRepository400JSONResponse''"
| "response_type (GetRepositoryResponse (GetRepository404JSONResponse _)) = ''api.GetRepository404JSONResponse''"
| "response_type (TriggerPipelineResponse (TriggerPipeline201JSONResponse _)) = ''api.TriggerPipeline201JSONResponse''"
| "response_type (TriggerPipelineResponse (TriggerPipeline400JSONResponse _)) = ''api.TriggerPipeline400JSONResponse''"
| "response_type (TriggerPipelineResponse (TriggerPipeline401JSONResponse _)) = ''api.TriggerPipeline401JSONResponse''"
| "response_type (TriggerPipelineResponse (TriggerPipeline404JSONResponse _)) = ''api.TriggerPipeline404JSONResponse''"
| "response_type (TriggerPipelineResponse (TriggerPipeline500JSONResponse _)) = ''api.TriggerPipeline500JSONResponse''"
| "response_type (ListUserOrganizationsResponse (ListUserOrganizations200JSONResponse _)) = ''api.ListUserOrganizations200JSONResponse''"
| "response_type (ListUserOrganizationsResponse (ListUserOrganizations400JSONResponse _)) = ''api.ListUserOrganizations400JSONResponse''"
| "response_type (ListUserOrganizationsResponse (ListUserOrganizations401JSONResponse _)) = ''api.ListUserOrganizations401JSONResponse''"
| "response_type (ListUserOrganizationsResponse (ListUserOrganizations500JSONResponse _)) = ''api.ListUserOrganizations500JSONResponse''"

type_synonym 's StrictHandlerFunc =
  "request_object \<Rightarrow> Request \<Rightarrow> ResponseWriter \<Rightarrow> 's
   \<Rightarrow> (response_object result \<times> ResponseWriter \<times> 's) option"

record StrictHTTPServerOptions =
  RequestErrorHandlerFunc :: "(ResponseWriter \<Rightarrow> Request \<Rightarrow> go_error \<Rightarrow> ResponseWriter) option"
  ResponseErrorHandlerFunc :: "(ResponseWriter \<Rightarrow> Request \<Rightarrow> go_error \<Rightarrow> ResponseWriter) option"

record 's strictHandler =
  sh_ssi :: "'s StrictServerInterface"
  sh_middlewares :: "('s StrictHandlerFunc \<Rightarrow> string \<Rightarrow> 's StrictHandlerFunc) list"
  sh_options :: StrictHTTPServerOptions

text \<open>Calling a nil function panics.\<close>

definition response_error ::
    "StrictHTTPServerOptions \<Rightarrow> Request \<Rightarrow> go_error \<Rightarrow> ResponseWriter \<Rightarrow> outcome \<times> ResponseWriter" where
  "response_error options r err w =
     (case ResponseErrorHandlerFunc options of
        None \<Rightarrow> (Panicking, w)
      | Some handle \<Rightarrow> (Returned, handle w r err))"

text \<open>An operation as the innermost \<open>StrictHandlerFunc\<close>.\<close>

definition strict_call ::
    "('p \<Rightarrow> 's \<Rightarrow> ('o result \<times> 's) option) \<Rightarrow> ('o \<Rightarrow> response_object) \<Rightarrow> 'p \<Rightarrow> ResponseWriter \<Rightarrow> 's
     \<Rightarrow> (response_object result \<times> ResponseWriter \<times> 's) option" where
  "strict_call operation wrap params w s =
     map_option (\<lambda>(r, s'). (res_bind r (\<lambda>response. Ok (wrap response)), w, s')) (operation params s)"

text \<open>
  What follows the call: an error goes to the error handler, a response object of this operation
  (\<open>visit\<close> is the type assertion) is written, nil writes nothing and anything else is an error.
\<close>

definition strict_respond ::
    "StrictHTTPServerOptions
     \<Rightarrow> (response_object \<Rightarrow> (ResponseWriter \<Rightarrow> go_error option \<times> ResponseWriter) option) \<Rightarrow> Request
     \<Rightarrow> (response_object result \<times> ResponseWriter \<times> 's) option
     \<Rightarrow> (outcome \<times> ResponseWriter \<times> 's) option" where
  "strict_respond options visit r =
     map_option
       (\<lambda>(result, w, s).
          let (out, w') =
            (case result of
               Panic \<Rightarrow> (Panicking, w)
             | Err err \<Rightarrow> response_error options r err w
             | Ok response \<Rightarrow>
                 (case visit response of
                    Some write \<Rightarrow>
                      (case write w of
                         (None, w') \<Rightarrow> (Returned, w')
                       | (Some err, w') \<Rightarrow> response_error options r err w')
                  | None \<Rightarrow>
                      if response = NilResponse then (Returned, w)
                      else response_error options r
                             (Errorf ''unexpected response type: %T'' [FStr (response_type response)]) w))
          in (out, w', s))"

definition strict_ListBranches :: "'s strictHandler \<Rightarrow> ListBranchesParams \<Rightarrow> 's http_handler" where
  "strict_ListBranches sh params r w s =
     (let handler = (\<lambda>request r w s.
            case request of
              ListBranchesRequestObject p \<Rightarrow> strict_call (ssi_ListBranches (sh_ssi sh)) ListBranchesResponse p w s
            | _ \<Rightarrow> Some (Panic, w, s));
          handler = foldl (\<lambda>handler middleware. middleware handler ''ListBranches'') handler (sh_middlewares sh)
      in strict_respond (sh_options sh)
           (\<lambda>response. case response of ListBranchesResponse v \<Rightarrow> Some (VisitListBranchesResponse v) | _ \<Rightarrow> None)
           r (handler (ListBranchesRequestObject params) r w s))"

definition strict_InvalidateCache :: "'s strictHandler \<Rightarrow> InvalidateCacheParams \<Rightarrow> 's http_handler" where
  "strict_InvalidateCache sh params r w s =
     (let handler = (\<lambda>request r w s.
            case request of
              InvalidateCacheRequestObject p \<Rightarrow> strict_call (ssi_InvalidateCache (sh_ssi sh)) InvalidateCacheResponse p w s
            | _ \<Rightarrow> Some (Panic, w, s));
          handler = foldl (\<lambda>handler middleware. middleware handler ''InvalidateCache'') handler (sh_middlewares sh)
      in strict_respond (sh_options sh)
           (\<lambda>response. case response of InvalidateCacheResponse v \<Rightarrow> Some (VisitInvalidateCacheResponse v) | _ \<Rightarrow> None)
           r (handler (InvalidateCacheRequestObject params) r w s))"

definition strict_GetPipelineJobTrace :: "'s strictHandler \<Rightarrow> GetPipelineJobTraceParams \<Rightarrow> 's http_handler" where
  "strict_GetPipelineJobTrace sh params r w s =
     (let handler = (\<lambda>request r w s.
            case request of
              GetPipelineJobTraceRequestObject p \<Rightarrow> strict_call (ssi_GetPipelineJobTrace (sh_ssi sh)) GetPipelineJobTraceResponse p w s
            | _ \<Rightarrow> Some (Panic, w, s));
          handler = foldl (\<lambda>handler middleware. middleware handler ''GetPipelineJobTrace'') handler (sh_middlewares sh)
      in strict_respond (sh_options sh)
           (\<lambda>response. case response of GetPipelineJobTraceResponse v \<Rightarrow> Some (VisitGetPipelineJobTraceResponse v) | _ \<Rightarrow> None)
           r (handler (GetPipelineJobTraceRequestObject params) r w s))"

definition strict_ListPipelineJobs :: "'s strictHandler \<Rightarrow> ListPipelineJobsParams \<Rightarrow> 's http_handler" where
  "strict_ListPipelineJobs sh params r w s =
     (let handler = (\<lambda>request r w s.
            case request of
              ListPipelineJobsRequestObject p \<Rightarrow> strict_call (ssi_ListPipelineJobs (sh_ssi sh)) ListPipelineJobsResponse p w s
            | _ \<Rightarrow> Some (Panic, w, s));
          handler = foldl (\<lambda>handler middleware. middleware handler ''ListPipelineJobs'') handler (sh_middlewares sh)
      in strict_respond (sh_options sh)
           (\<lambda>response. case response of ListPipelineJobsResponse v \<Rightarrow> Some (VisitListPipelineJobsResponse v) | _ \<Rightarrow> None)
           r (handler (ListPipelineJobsRequestObject params) r w s))"

definition strict_ListPipelines :: "'s strictHandler \<Rightarrow> ListPipelinesParams \<Rightarrow> 's http_handler" where
  "strict_ListPipelines sh params r w s =
     (let handler = (\<lambda>request r w s.
            case request of
              ListPipelinesRequestObject p \<Rightarrow> strict_call (ssi_ListPipelines (sh_ssi sh)) ListPipelinesResponse p w s
            | _ \<Rightarrow> Some (Panic, w, s));
          handler = foldl (\<lambda>handler middleware. middleware handler ''ListPipelines'') handler (sh_middlewares sh)
      in strict_respond (sh_options sh)
           (\<lambda>response. case response of ListPipelinesResponse v \<Rightarrow> Some (VisitListPipelinesResponse v) | _ \<Rightarrow> None)
           r (handler (ListPipelinesRequestObject params) r w s))"

definition strict_ListPullRequests :: "'s strictHandler \<Rightarrow> ListPullRequestsParams \<Rightarrow> 's http_handler" where
  "strict_ListPullRequests sh params r w s =
     (let handler = (\<lambda>request r w s.
            case request of
              ListPullRequestsRequestObject p \<Rightarrow> strict_call (ssi_ListPullRequests (sh_ssi sh)) ListPullRequestsResponse p w s
            | _ \<Rightarrow> Some (Panic, w, s));
          handler = foldl (\<lambda>handler middleware. middleware handler ''ListPullRequests'') handler (sh_middlewares sh)
      in strict_respond (sh_options sh)
           (\<lambda>response. case response of ListPullRequestsResponse v \<Rightarrow> Some (VisitListPullRequestsResponse v) | _ \<Rightarrow> None)
           r (handler (ListPullRequestsRequestObject params) r w s))"

definition strict_ListRepositories :: "'s strictHandler \<Rightarrow> ListRepositoriesParams \<Rightarrow> 's http_handler" where
  "strict_ListRepositories sh params r w s =
     (let handler = (\<lambda>request r w s.
            case request of
              ListRepositoriesRequestObject p \<Rightarrow> strict_call (ssi_ListRepositories (sh_ssi sh)) ListRepositoriesResponse p w s
            | _ \<Rightarrow> Some (Panic, w, s));
          handler = foldl (\<lambda>handler middleware. middleware handler ''ListRepositories'') handler (sh_middlewares sh)
      in strict_respond (sh_options sh)
           (\<lambda>response. case response of ListRepositoriesResponse v \<Rightarrow> Some (VisitListRepositoriesResponse v) | _ \<Rightarrow> None)
           r (handler (ListRepositoriesRequestObject params) r w s))"

definition strict_GetRepository :: "'s strictHandler \<Rightarrow> GetRepositoryParams \<Rightarrow> 's http_handler" where
  "strict_GetRepository sh params r w s =
     (let handler = (\<lambda>request r w s.
            case request of
              GetRepositoryRequestObject p \<Rightarrow> strict_call (ssi_GetRepository (sh_ssi sh)) GetRepositoryResponse p w s
            | _ \<Rightarrow> Some (Panic, w, s));
          handler = foldl (\<lambda>handler middleware. middleware handler ''GetRepository'') handler (sh_middlewares sh)
      in strict_respond (sh_options sh)
           (\<lambda>response. case response of GetRepositoryResponse v \<Rightarrow> Some (VisitGetRepositoryResponse v) | _ \<Rightarrow> None)
           r (handler (GetRepositoryRequestObject params) r w s))"

definition strict_TriggerPipeline :: "'s strictHandler \<Rightarrow> TriggerPipelineParams \<Rightarrow> 's http_handler" where
  "strict_TriggerPipeline sh params r w s =
     (let handler = (\<lambda>request r w s.
            case request of
              TriggerPipelineRequestObject p \<Rightarrow> strict_call (ssi_TriggerPipeline (sh_ssi sh)) TriggerPipelineResponse p w s
            | _ \<Rightarrow> Some (Panic, w, s));
          handler = foldl (\<lambda>handler middleware. middleware handler ''TriggerPipeline'') handler (sh_middlewares sh)
      in strict_respond (sh_options sh)
           (\<lambda>response. case response of TriggerPipelineResponse v \<Rightarrow> Some (VisitTriggerPipelineResponse v) | _ \<Rightarrow> None)
           r (handler (TriggerPipelineRequestObject params) r w s))"

definition strict_ListUserOrganizations :: "'s strictHandler \<Rightarrow> ListUserOrganizationsParams \<Rightarrow> 's http_handler" where
  "strict_ListUserOrganizations sh params r w s =
     (let handler = (\<lambda>request r w s.
            case request of
              ListUserOrganizationsRequestObject p \<Rightarrow> strict_call (ssi_ListUserOrganizations (sh_ssi sh)) ListUserOrganizationsResponse p w s
            | _ \<Rightarrow> Some (Panic, w, s));
          handler = foldl (\<lambda>handler middleware. middleware handler ''ListUserOrganizations'') handler (sh_middlewares sh)
      in strict_respond (sh_options sh)
           (\<lambda>response. case response of ListUserOrganizationsResponse v \<Rightarrow> Some (VisitListUserOrganizationsResponse v) | _ \<Rightarrow> None)
           r (handler (ListUserOrganizationsRequestObject params) r w s))"

text \<open>\<open>*strictHandler\<close> as a \<open>ServerInterface\<close>, and its constructors.\<close>

definition NewStrictHandlerWithOptions ::
    "'s StrictServerInterface \<Rightarrow> ('s StrictHandlerFunc \<Rightarrow> string \<Rightarrow> 's StrictHandlerFunc) list
     \<Rightarrow> StrictHTTPServerOptions \<Rightarrow> 's ServerInterface" where
  "NewStrictHandlerWithOptions ssi middlewares options =
     (let sh = \<lparr>sh_ssi = ssi, sh_middlewares = middlewares, sh_options = options\<rparr> in
      \<lparr>si_ListBranches = strict_ListBranches sh,
       si_InvalidateCache = strict_InvalidateCache sh,
       si_GetPipelineJobTrace = strict_GetPipelineJobTrace sh,
       si_ListPipelineJobs = strict_ListPipelineJobs sh,
       si_ListPipelines = strict_ListPipelines sh,
       si_ListPullRequests = strict_ListPullRequests sh,
       si_ListRepositories = strict_ListRepositories sh,
       si_GetRepository = strict_GetRepository sh,
       si_TriggerPipeline = strict_TriggerPipeline sh,
       si_ListUserOrganizations = strict_ListUserOrganizations sh\<rparr>)"

definition NewStrictHandler ::
    "'s StrictServerInterface \<Rightarrow> ('s StrictHandlerFunc \<Rightarrow> string \<Rightarrow> 's StrictHandlerFunc) list
     \<Rightarrow> 's ServerInterface" where
  "NewStrictHandler ssi middlewares =
     NewStrictHandlerWithOptions ssi middlewares
       \<lparr>RequestErrorHandlerFunc = Some (\<lambda>w r err. http_Error (error_text err) 400 w),
        ResponseErrorHandlerFunc = Some (\<lambda>w r err. http_Error (error_text err) 500 w)\<rparr>"

end
