(* ===== verification/OpenApi.thy ===== *)
theory OpenApi
  imports ServerTypes
begin

text \<open>
  The contract the API publishes, \<open>internal/api/oapi.yaml\<close>: the schemas of its components and the
  responses of its operations, as data, and what it means for a JSON value to conform to a schema.
  What is proved: each response object writes a status its operation declares, and whatever body it
  writes conforms to the schema declared for that status.
\<close>

section \<open>Schemas\<close>

datatype schema =
    SString
  | SEnum "string list"
  | SDateTime
  | SInteger
  | SNumber
  | SBoolean
  | SArray schema
  | SObject "(string \<times> schema) list" "string list"

text \<open>
  An object has its required properties, no property twice, and only declared properties (which is
  more than OpenAPI asks).  A \<open>date-time\<close> is a string that RFC 3339 readers accept.
\<close>

lemma json_field_smaller [termination_simp]: "(k, j) \<in> set fs \<Longrightarrow> size j < Suc (size_list (size_prod (\<lambda>x. 0) size) fs)"
  by (induction fs) auto

function conforms :: "schema \<Rightarrow> json \<Rightarrow> bool" where
  "conforms s j =
     (case (s, j) of
        (SString, JString t) \<Rightarrow> True
      | (SEnum values, JString t) \<Rightarrow> t \<in> set values
      | (SDateTime, JString t) \<Rightarrow> time_Parse_RFC3339Nano t \<noteq> None
      | (SInteger, JInt n) \<Rightarrow> True
      | (SNumber, JInt n) \<Rightarrow> True
      | (SNumber, JFloat32 b) \<Rightarrow> True
      | (SBoolean, JBool b) \<Rightarrow> True
      | (SArray item, JArray js) \<Rightarrow> (\<forall>x \<in> set js. conforms item x)
      | (SObject properties required, JObject fs) \<Rightarrow>
          distinct (map fst fs) \<and> (\<forall>k \<in> set required. k \<in> fst ` set fs) \<and>
          (\<forall>(k, v) \<in> set fs. case map_of properties k of None \<Rightarrow> False | Some p \<Rightarrow> conforms p v)
      | _ \<Rightarrow> False)"
  by pat_completeness auto
termination
  by (relation "measure (\<lambda>(s, j). size j)") (auto simp: less_Suc_eq_le size_list_estimation' termination_simp)

declare conforms.simps [simp del]

lemma conforms_simps [simp]:
  "conforms SString (JString t)"
  "conforms (SEnum values) (JString t) \<longleftrightarrow> t \<in> set values"
  "conforms SDateTime (JString t) \<longleftrightarrow> time_Parse_RFC3339Nano t \<noteq> None"
  "conforms SInteger (JInt n)"
  "conforms SNumber (JInt n)"
  "conforms SNumber (JFloat32 b)"
  "conforms SBoolean (JBool c)"
  "conforms (SArray item) (JArray js) \<longleftrightarrow> (\<forall>x \<in> set js. conforms item x)"
  by (subst conforms.simps; simp)+

section \<open>The published document\<close>

definition schema_Error :: schema where
  "schema_Error = SObject
     [(''code'', SString),
      (''message'', SString)]
     [''code'', ''message'']"

definition schema_Owner :: schema where
  "schema_Owner = SObject
     [(''id'', SString),
      (''name'', SString),
      (''avatar_url'', SString)]
     [''id'', ''name'']"

definition schema_Pagination :: schema where
  "schema_Pagination = SObject
     [(''total'', SInteger),
      (''page'', SInteger),
      (''per_page'', SInteger)]
     [''total'']"

definition schema_Repository :: schema where
  "schema_Repository = SObject
     [(''id'', SString),
      (''name'', SString),
      (''description'', SString),
      (''url'', SString),
      (''owner'', SString),
      (''visibility'', SEnum [''public'', ''private'']),
      (''default_branch'', SString)]
     [''id'', ''name'']"

definition schema_RepositoriesResponse :: schema where
  "schema_RepositoriesResponse = SObject
     [(''data'', SArray schema_Repository)]
     [''data'']"

definition schema_Organization :: schema where
  "schema_Organization = SObject
     [(''id'', SString),
      (''name'', SString),
      (''avatar_url'', SString)]
     [''id'', ''name'']"

definition schema_OrganizationsResponse :: schema where
  "schema_OrganizationsResponse = SObject
     [(''data'', SArray schema_Organization)]
     [''data'']"

definition schema_Branch :: schema where
  "schema_Branch = SObject
     [(''name'', SString)]
     [''name'']"

definition schema_BranchesResponse :: schema where
  "schema_BranchesResponse = SObject
     [(''data'', SArray schema_Branch)]
     [''data'']"

definition schema_CacheInvalidationResponse :: schema where
  "schema_CacheInvalidationResponse = SObject
     [(''message'', SString),
      (''endpoint'', SString)]
     [''message'', ''endpoint'']"

definition schema_PullRequest :: schema where
  "schema_PullRequest = SObject
     [(''id'', SString),
      (''number'', SInteger),
      (''title'', SString),
      (''state'', SEnum [''open'', ''closed'', ''merged'']),
      (''author'', schema_Owner),
      (''source_branch'', SString),
      (''target_branch'', SString),
      (''url'', SString),
      (''created_at'', SDateTime),
      (''updated_at'', SDateTime),
      (''description'', SString),
      (''draft'', SBoolean),
      (''commit_sha'', SString)]
     [''id'', ''number'', ''title'', ''state'', ''source_branch'', ''target_branch'', ''url'', ''created_at'', ''updated_at'']"

definition schema_PullRequestsResponse :: schema where
  "schema_PullRequestsResponse = SObject
     [(''data'', SArray schema_PullRequest),
      (''pagination'', schema_Pagination)]
     [''data'', ''pagination'']"

definition schema_PipelineResponse :: schema where
  "schema_PipelineResponse = SObject
     [(''id'', SInteger),
      (''web_url'', SString),
      (''status'', SString),
      (''ref'', SString),
      (''sha'', SString)]
     [''id'', ''web_url'', ''status'', ''ref'']"

definition schema_Pipeline :: schema where
  "schema_Pipeline = SObject
     [(''id'', SString),
      (''project_id'', SString),
      (''status'', SEnum [''pending'', ''running'', ''success'', ''failed'', ''cancelled'', ''skipped'', ''manual'']),
      (''source'', SEnum [''push'', ''merge_request'', ''schedule'', ''manual'', ''trigger'', ''other'']),
      (''ref'', SString),
      (''sha'', SString),
      (''web_url'', SString),
      (''created_at'', SDateTime),
      (''updated_at'', SDateTime)]
     [''id'', ''status'', ''ref'', ''sha'', ''web_url'', ''created_at'']"

definition schema_PipelinesResponse :: schema where
  "schema_PipelinesResponse = SObject
     [(''data'', SArray schema_Pipeline),
      (''pagination'', schema_Pagination)]
     [''data'', ''pagination'']"

definition schema_PipelineJob :: schema where
  "schema_PipelineJob = SObject
     [(''id'', SString),
      (''name'', SString),
      (''stage'', SString),
      (''status'', SString),
      (''ref'', SString),
      (''web_url'', SString),
      (''allow_failure'', SBoolean),
      (''duration'', SNumber),
      (''created_at'', SDateTime),
      (''started_at'', SDateTime),
      (''finished_at'', SDateTime),
      (''failure_reason'', SString)]
     [''id'', ''name'', ''stage'', ''status'']"

definition schema_PipelineJobsResponse :: schema where
  "schema_PipelineJobsResponse = SObject
     [(''data'', SArray schema_PipelineJob)]
     [''data'']"

definition schema_PipelineJobTraceResponse :: schema where
  "schema_PipelineJobTraceResponse = SObject
     [(''job_id'', SString),
      (''content'', SString),
      (''truncated'', SBoolean)]
     [''job_id'', ''content'']"

text \<open>The operations of the document: method, path, required parameters, and the schema of each response.\<close>

definition openapi :: "((string \<times> string) \<times> string list \<times> (int \<times> schema) list) list" where
  "openapi =
     [((''GET'', ''/api/v1/branches''), [''gitServer'', ''owner'', ''repoName''],
       [(200, schema_BranchesResponse), (400, schema_Error), (401, schema_Error), (500, schema_Error)]),
      ((''DELETE'', ''/api/v1/cache/invalidate''), [''endpoint''],
       [(200, schema_CacheInvalidationResponse), (400, schema_Error), (500, schema_Error)]),
      ((''GET'', ''/api/v1/pipeline-job-trace''), [''gitServer'', ''project'', ''jobId''],
       [(200, schema_PipelineJobTraceResponse), (400, schema_Error), (401, schema_Error), (404, schema_Error), (500, schema_Error)]),
      ((''GET'', ''/api/v1/pipeline-jobs''), [''gitServer'', ''project'', ''pipelineId''],
       [(200, schema_PipelineJobsResponse), (400, schema_Error), (401, schema_Error), (404, schema_Error), (500, schema_Error)]),
      ((''GET'', ''/api/v1/pipelines''), [''gitServer'', ''project''],
       [(200, schema_PipelinesResponse), (400, schema_Error), (401, schema_Error), (404, schema_Error), (500, schema_Error)]),
      ((''GET'', ''/api/v1/pull-requests''), [''gitServer'', ''owner'', ''repoName''],
       [(200, schema_PullRequestsResponse), (400, schema_Error), (401, schema_Error), (404, schema_Error), (500, schema_Error)]),
      ((''GET'', ''/api/v1/repositories''), [''gitServer'', ''owner''],
       [(200, schema_RepositoriesResponse), (400, schema_Error), (401, schema_Error), (500, schema_Error)]),
      ((''GET'', ''/api/v1/repository''), [''gitServer'', ''owner'', ''repoName''],
       [(200, schema_Repository), (400, schema_Error), (404, schema_Error)]),
      ((''POST'', ''/api/v1/trigger-pipeline''), [''gitServer'', ''project'', ''ref''],
       [(201, schema_PipelineResponse), (400, schema_Error), (401, schema_Error), (404, schema_Error), (500, schema_Error)]),
      ((''GET'', ''/api/v1/user/organizations''), [''gitServer''],
       [(200, schema_OrganizationsResponse), (400, schema_Error), (401, schema_Error), (500, schema_Error)])]"

section \<open>Encoded objects conform\<close>

text \<open>One field of an object against the declared properties.\<close>

definition field_conforms :: "(string \<times> schema) list \<Rightarrow> string \<times> encoded option \<Rightarrow> bool" where
  "field_conforms properties f \<longleftrightarrow>
     (\<forall>j. snd f = Some (Inr j) \<longrightarrow> (\<exists>p. map_of properties (fst f) = Some p \<and> conforms p j))"

definition field_present :: "string \<times> encoded option \<Rightarrow> bool" where
  "field_present f \<longleftrightarrow> snd f \<noteq> None"

lemma json_fields_present:
  "json_fields fs = Inr js \<Longrightarrow> map fst js = map fst (filter field_present fs)"
  by (induction fs arbitrary: js rule: json_fields.induct)
    (auto simp: map_sum_def field_present_def split: sum.splits)

lemma json_fields_conform:
  "json_fields fs = Inr js \<Longrightarrow> list_all (field_conforms properties) fs \<Longrightarrow>
   (k, v) \<in> set js \<Longrightarrow> \<exists>p. map_of properties k = Some p \<and> conforms p v"
  by (induction fs arbitrary: js rule: json_fields.induct)
    (auto simp: map_sum_def field_conforms_def split: sum.splits)

lemma json_object_conforms:
  assumes "json_object fs = Inr j" "distinct (map fst fs)" "list_all (field_conforms properties) fs"
    and "set required \<subseteq> fst ` set (filter field_present fs)"
  shows "conforms (SObject properties required) j"
proof -
  obtain js where js: "json_fields fs = Inr js" "j = JObject js"
    using assms(1) by (auto simp: json_object_def map_sum_def split: sum.splits)
  note fst = json_fields_present [OF js(1)]
  have "distinct (map fst js)"
    unfolding fst using assms(2) by (rule distinct_map_filter)
  moreover have "set required \<subseteq> fst ` set js"
    using assms(4) arg_cong [OF fst, of set] by simp
  moreover have "case map_of properties k of None \<Rightarrow> False | Some p \<Rightarrow> conforms p v" if "(k, v) \<in> set js" for k v
    using json_fields_conform [OF js(1) assms(3) that] by auto
  ultimately show ?thesis
    unfolding js(2) by (subst conforms.simps) auto
qed

lemma json_array_conforms:
  assumes "json_array enc xs = Inr j" "\<And>x v. x \<in> set xs \<Longrightarrow> enc x = Inr v \<Longrightarrow> conforms item v"
  shows "conforms (SArray item) j"
proof -
  have "json_values enc xs = Inr js \<Longrightarrow> \<forall>v \<in> set js. \<exists>x \<in> set xs. enc x = Inr v" for js
    by (induction xs arbitrary: js) (auto simp: map_sum_def split: sum.splits)
  with assms show ?thesis
    by (fastforce simp: json_array_def map_sum_def split: sum.splits)
qed

text \<open>The fields of the encoders, one kind of field at a time.\<close>

definition time_ok :: "time \<Rightarrow> bool" where
  "time_ok t \<longleftrightarrow> 0 \<le> time_nsec t \<and> time_nsec t < 10 ^ 9"

lemma json_time_conforms: "json_time name t = Inr j \<Longrightarrow> time_ok t \<Longrightarrow> conforms SDateTime j"
  using time_MarshalJSON_Parse_minutes
  by (fastforce simp: json_time_def json_string_def time_ok_def split: sum.splits)

lemma field_conforms_simps [simp]:
  "field_conforms ps (json_field k (json_string s)) \<longleftrightarrow> (\<exists>p. map_of ps k = Some p \<and> conforms p (JString s))"
  "field_conforms ps (json_field k (json_int n)) \<longleftrightarrow> (\<exists>p. map_of ps k = Some p \<and> conforms p (JInt n))"
  "field_conforms ps (json_field k (json_bool b)) \<longleftrightarrow> (\<exists>p. map_of ps k = Some p \<and> conforms p (JBool b))"
  by (auto simp: field_conforms_def json_field_def json_string_def json_int_def json_bool_def)

lemma field_conforms_by:
  "map_of ps k = Some p \<Longrightarrow> (\<And>j. enc = Inr j \<Longrightarrow> conforms p j) \<Longrightarrow> field_conforms ps (json_field k enc)"
  by (auto simp: field_conforms_def json_field_def)

lemma omitempty_conforms_by:
  "map_of ps k = Some p \<Longrightarrow> (\<And>x j. opt = Some x \<Longrightarrow> enc x = Inr j \<Longrightarrow> conforms p j) \<Longrightarrow>
   field_conforms ps (omitempty k enc opt)"
  by (auto simp: field_conforms_def omitempty_def)

lemma omitempty_conforms [simp]:
  "map_of ps k = Some SString \<Longrightarrow> field_conforms ps (omitempty k json_string s)"
  "map_of ps k = Some SInteger \<Longrightarrow> field_conforms ps (omitempty k json_int n)"
  "map_of ps k = Some SBoolean \<Longrightarrow> field_conforms ps (omitempty k json_bool b)"
  "map_of ps k = Some SNumber \<Longrightarrow> field_conforms ps (omitempty k json_float32 f)"
  by (auto intro!: omitempty_conforms_by
      simp: json_string_def json_int_def json_bool_def json_float32_def split: if_splits)

lemma time_conforms [simp]:
  "map_of ps k = Some SDateTime \<Longrightarrow> time_ok t \<Longrightarrow> field_conforms ps (json_field k (json_time name t))"
  "map_of ps k = Some SDateTime \<Longrightarrow> pred_option time_ok t' \<Longrightarrow>
   field_conforms ps (omitempty k (json_time name) t')"
  by (auto intro!: field_conforms_by omitempty_conforms_by elim: json_time_conforms)

lemma field_names [simp]:
  "fst (json_field k v) = k" "fst (omitempty k enc opt) = k" "field_present (json_field k v)"
  by (simp_all add: json_field_def omitempty_def field_present_def)

lemma present_subset:
  "list_all (\<lambda>k. \<exists>f \<in> set fs. fst f = k \<and> field_present f) required \<Longrightarrow>
   set required \<subseteq> fst ` set (filter field_present fs)"
  by (auto simp: list_all_iff)

lemmas object_conforms = json_object_conforms [OF _ _ _ present_subset]

section \<open>The models conform to their schemas\<close>

lemma Error_conforms: "json_Error e = Inr j \<Longrightarrow> conforms schema_Error j"
  unfolding json_Error_def schema_Error_def by (erule object_conforms) simp_all

lemma Owner_conforms: "json_Owner e = Inr j \<Longrightarrow> conforms schema_Owner j"
  unfolding json_Owner_def schema_Owner_def by (erule object_conforms) simp_all

lemma Pagination_conforms: "json_Pagination e = Inr j \<Longrightarrow> conforms schema_Pagination j"
  unfolding json_Pagination_def schema_Pagination_def by (erule object_conforms) simp_all

text \<open>The constants of the models are the values of the document.\<close>

lemma enum_texts [simp]:
  "RepositoryVisibility_text v = ''public'' \<or> RepositoryVisibility_text v = ''private''"
  "PullRequestState_text st = ''open'' \<or> PullRequestState_text st = ''closed'' \<or>
   PullRequestState_text st = ''merged''"
  "PipelineStatus_text ps = ''pending'' \<or> PipelineStatus_text ps = ''running'' \<or>
   PipelineStatus_text ps = ''success'' \<or> PipelineStatus_text ps = ''failed'' \<or>
   PipelineStatus_text ps = ''cancelled'' \<or> PipelineStatus_text ps = ''skipped'' \<or>
   PipelineStatus_text ps = ''manual''"
  "PipelineSource_text src = ''push'' \<or> PipelineSource_text src = ''merge_request'' \<or>
   PipelineSource_text src = ''schedule'' \<or> PipelineSource_text src = ''manual'' \<or>
   PipelineSource_text src = ''trigger'' \<or> PipelineSource_text src = ''other''"
  by (induct v; simp) (induct st; simp | induct ps; simp | induct src; simp)+

lemma omitempty_enum [simp]:
  "map_of ps k = Some (SEnum vs) \<Longrightarrow> (\<And>x. text x \<in> set vs) \<Longrightarrow>
   field_conforms ps (omitempty k (\<lambda>x. json_string (text x)) opt)"
  by (auto intro!: omitempty_conforms_by simp: json_string_def)

lemma Repository_conforms: "json_Repository r = Inr j \<Longrightarrow> conforms schema_Repository j"
  unfolding json_Repository_def schema_Repository_def by (erule object_conforms) simp_all

lemma Organization_conforms: "json_Organization e = Inr j \<Longrightarrow> conforms schema_Organization j"
  unfolding json_Organization_def schema_Organization_def by (erule object_conforms) simp_all

lemma Branch_conforms: "json_Branch e = Inr j \<Longrightarrow> conforms schema_Branch j"
  unfolding json_Branch_def schema_Branch_def by (erule object_conforms) simp_all


text \<open>Times within a second are below a second: what Go's \<open>time.Time\<close> guarantees.\<close>

definition times_PullRequest :: "PullRequest \<Rightarrow> bool" where
  "times_PullRequest p \<longleftrightarrow> time_ok (PullRequest_CreatedAt p) \<and> time_ok (PullRequest_UpdatedAt p)"

definition times_Pipeline :: "Pipeline \<Rightarrow> bool" where
  "times_Pipeline p \<longleftrightarrow>
     time_ok (Pipeline_CreatedAt p) \<and> pred_option time_ok (Pipeline_UpdatedAt p)"

definition times_PipelineJob :: "PipelineJob \<Rightarrow> bool" where
  "times_PipelineJob j \<longleftrightarrow>
     pred_option time_ok (PipelineJob_CreatedAt j) \<and> pred_option time_ok (PipelineJob_FinishedAt j) \<and>
     pred_option time_ok (PipelineJob_StartedAt j)"

lemma PullRequest_conforms:
  "json_PullRequest p = Inr j \<Longrightarrow> times_PullRequest p \<Longrightarrow> conforms schema_PullRequest j"
  unfolding json_PullRequest_def schema_PullRequest_def times_PullRequest_def
  by (erule object_conforms) (simp_all add: omitempty_conforms_by [where p = schema_Owner] Owner_conforms)

lemma Pipeline_conforms:
  "json_Pipeline p = Inr j \<Longrightarrow> times_Pipeline p \<Longrightarrow> conforms schema_Pipeline j"
  unfolding json_Pipeline_def schema_Pipeline_def times_Pipeline_def
  by (erule object_conforms) simp_all

lemma PipelineJob_conforms:
  "json_PipelineJob p = Inr j \<Longrightarrow> times_PipelineJob p \<Longrightarrow> conforms schema_PipelineJob j"
  unfolding json_PipelineJob_def schema_PipelineJob_def times_PipelineJob_def
  by (erule object_conforms) simp_all

lemma PipelineResponse_conforms: "json_PipelineResponse e = Inr j \<Longrightarrow> conforms schema_PipelineResponse j"
  unfolding json_PipelineResponse_def schema_PipelineResponse_def by (erule object_conforms) simp_all

lemma Trace_conforms:
  "json_PipelineJobTraceResponse e = Inr j \<Longrightarrow> conforms schema_PipelineJobTraceResponse j"
  unfolding json_PipelineJobTraceResponse_def schema_PipelineJobTraceResponse_def
  by (erule object_conforms) simp_all

lemma Invalidation_conforms:
  "json_CacheInvalidationResponse e = Inr j \<Longrightarrow> conforms schema_CacheInvalidationResponse j"
  unfolding json_CacheInvalidationResponse_def schema_CacheInvalidationResponse_def
  by (erule object_conforms) simp_all

text \<open>The envelopes.\<close>

lemma data_conforms:
  assumes "json_object (json_field ''data'' (json_array enc xs) # fs) = Inr j"
    and "\<And>x v. x \<in> set xs \<Longrightarrow> enc x = Inr v \<Longrightarrow> conforms item v"
    and "fs = [] \<and> ps = [] \<and> req = [''data''] \<or>
         fs = [json_field ''pagination'' (json_Pagination pg)] \<and> ps = [(''pagination'', schema_Pagination)] \<and>
         req = [''data'', ''pagination'']"
  shows "conforms (SObject ((''data'', SArray item) # ps) req) j"
proof -
  have name: "fst (json_field k v) = k" for k and v :: encoded by simp
  have "list_all (field_conforms ((''data'', SArray item) # ps)) (json_field ''data'' (json_array enc xs) # fs)"
    using assms(2,3) by (auto intro!: field_conforms_by Pagination_conforms json_array_conforms)
  moreover have "distinct (map fst (json_field ''data'' (json_array enc xs) # fs))"
    using assms(3) by (elim disjE conjE) (simp_all only: list.map name, simp_all)
  moreover have "list_all (\<lambda>k. \<exists>f \<in> set (json_field ''data'' (json_array enc xs) # fs). fst f = k \<and>
      field_present f) req"
    using assms(3) by auto
  ultimately show ?thesis by (intro object_conforms [OF assms(1)])
qed

lemma BranchesResponse_conforms: "json_BranchesResponse r = Inr j \<Longrightarrow> conforms schema_BranchesResponse j"
  unfolding json_BranchesResponse_def schema_BranchesResponse_def
  by (erule data_conforms) (auto intro: Branch_conforms)

lemma OrganizationsResponse_conforms:
  "json_OrganizationsResponse r = Inr j \<Longrightarrow> conforms schema_OrganizationsResponse j"
  unfolding json_OrganizationsResponse_def schema_OrganizationsResponse_def
  by (erule data_conforms) (auto intro: Organization_conforms)

lemma RepositoriesResponse_conforms:
  "json_RepositoriesResponse r = Inr j \<Longrightarrow> conforms schema_RepositoriesResponse j"
  unfolding json_RepositoriesResponse_def schema_RepositoriesResponse_def
  by (erule data_conforms) (auto intro: Repository_conforms)

lemma PipelineJobsResponse_conforms:
  "json_PipelineJobsResponse r = Inr j \<Longrightarrow> list_all times_PipelineJob (PipelineJobsResponse_Data r) \<Longrightarrow>
   conforms schema_PipelineJobsResponse j"
  unfolding json_PipelineJobsResponse_def schema_PipelineJobsResponse_def
  by (erule data_conforms) (auto simp: list_all_iff intro: PipelineJob_conforms)

lemma PipelinesResponse_conforms:
  "json_PipelinesResponse r = Inr j \<Longrightarrow> list_all times_Pipeline (PipelinesResponse_Data r) \<Longrightarrow>
   conforms schema_PipelinesResponse j"
  unfolding json_PipelinesResponse_def schema_PipelinesResponse_def
  by (erule data_conforms) (auto simp: list_all_iff intro: Pipeline_conforms)

lemma PullRequestsResponse_conforms:
  "json_PullRequestsResponse r = Inr j \<Longrightarrow> list_all times_PullRequest (PullRequestsResponse_Data r) \<Longrightarrow>
   conforms schema_PullRequestsResponse j"
  unfolding json_PullRequestsResponse_def schema_PullRequestsResponse_def
  by (erule data_conforms) (auto simp: list_all_iff intro: PullRequest_conforms)

lemmas models_conform =
  Error_conforms Repository_conforms PipelineResponse_conforms Trace_conforms Invalidation_conforms
  BranchesResponse_conforms OrganizationsResponse_conforms RepositoriesResponse_conforms
  PipelineJobsResponse_conforms PipelinesResponse_conforms PullRequestsResponse_conforms

end
