(* ===== verification/HttpApi.thy ===== *)
theory HttpApi
  imports Api ServerGen OpenApi
begin

text \<open>
  The server as HTTP clients see it: \<open>internal/api/server.go\<close> puts the handlers of \<open>Api\<close> under the
  generated server of \<open>ServerGen\<close>.  The specification reads an operation's parameters off the query,
  runs the operation and writes its response object; the routed, wrapped and strict server is
  proved to do exactly this, and what it writes to conform to the published document.
\<close>

section \<open>The server under the generated code\<close>

text \<open>\<open>*Server\<close> as a \<open>StrictServerInterface\<close>; the two parameters are those of the handlers.\<close>

definition Server_interface ::
    "(string \<Rightarrow> go_error + PipelineVariable list) \<Rightarrow> JobTrace result option
     \<Rightarrow> Server StrictServerInterface" where
  "Server_interface json_variables joined =
     \<lparr>ssi_ListBranches = ListBranches,
      ssi_InvalidateCache = (\<lambda>params s. case InvalidateCache_handler params s of (r, s') \<Rightarrow> Some (Ok r, s')),
      ssi_GetPipelineJobTrace = GetPipelineJobTrace joined,
      ssi_ListPipelineJobs = ListPipelineJobs,
      ssi_ListPipelines = ListPipelines,
      ssi_ListPullRequests = ListPullRequests,
      ssi_ListRepositories = ListRepositories,
      ssi_GetRepository = GetRepository,
      ssi_TriggerPipeline = TriggerPipeline json_variables,
      ssi_ListUserOrganizations = ListUserOrganizations\<rparr>"

text \<open>The last statement of \<open>BuildHandler\<close>: no middlewares, and options without error handlers.\<close>

definition BuildHandler_interface ::
    "(string \<Rightarrow> go_error + PipelineVariable list) \<Rightarrow> JobTrace result option \<Rightarrow> Server ServerInterface" where
  "BuildHandler_interface json_variables joined =
     NewStrictHandlerWithOptions (Server_interface json_variables joined) []
       \<lparr>RequestErrorHandlerFunc = None, ResponseErrorHandlerFunc = None\<rparr>"

section \<open>The specification\<close>

text \<open>Running an operation, and writing the response object it returned.\<close>

fun run_call ::
    "(string \<Rightarrow> go_error + PipelineVariable list) \<Rightarrow> JobTrace result option \<Rightarrow> request_object \<Rightarrow> Server
     \<Rightarrow> (response_object result \<times> Server) option" where
  "run_call jv joined (ListBranchesRequestObject p) s =
     map_option (\<lambda>(r, s'). (res_bind r (\<lambda>v. Ok (ListBranchesResponse v)), s')) (ListBranches p s)"
| "run_call jv joined (InvalidateCacheRequestObject p) s =
     (case InvalidateCache_handler p s of (r, s') \<Rightarrow> Some (Ok (InvalidateCacheResponse r), s'))"
| "run_call jv joined (GetPipelineJobTraceRequestObject p) s =
     map_option (\<lambda>(r, s'). (res_bind r (\<lambda>v. Ok (GetPipelineJobTraceResponse v)), s')) (GetPipelineJobTrace joined p s)"
| "run_call jv joined (ListPipelineJobsRequestObject p) s =
     map_option (\<lambda>(r, s'). (res_bind r (\<lambda>v. Ok (ListPipelineJobsResponse v)), s')) (ListPipelineJobs p s)"
| "run_call jv joined (ListPipelinesRequestObject p) s =
     map_option (\<lambda>(r, s'). (res_bind r (\<lambda>v. Ok (ListPipelinesResponse v)), s')) (ListPipelines p s)"
| "run_call jv joined (ListPullRequestsRequestObject p) s =
     map_option (\<lambda>(r, s'). (res_bind r (\<lambda>v. Ok (ListPullRequestsResponse v)), s')) (ListPullRequests p s)"
| "run_call jv joined (ListRepositoriesRequestObject p) s =
     map_option (\<lambda>(r, s'). (res_bind r (\<lambda>v. Ok (ListRepositoriesResponse v)), s')) (ListRepositories p s)"
| "run_call jv joined (GetRepositoryRequestObject p) s =
     map_option (\<lambda>(r, s'). (res_bind r (\<lambda>v. Ok (GetRepositoryResponse v)), s')) (GetRepository p s)"
| "run_call jv joined (TriggerPipelineRequestObject p) s =
     map_option (\<lambda>(r, s'). (res_bind r (\<lambda>v. Ok (TriggerPipelineResponse v)), s')) (TriggerPipeline jv p s)"
| "run_call jv joined (ListUserOrganizationsRequestObject p) s =
     map_option (\<lambda>(r, s'). (res_bind r (\<lambda>v. Ok (ListUserOrganizationsResponse v)), s')) (ListUserOrganizations p s)"

fun visit_response :: "response_object \<Rightarrow> ResponseWriter \<Rightarrow> go_error option \<times> ResponseWriter" where
  "visit_response NilResponse w = (None, w)"
| "visit_response (OtherResponse t) w = (None, w)"
| "visit_response (ListBranchesResponse v) w = VisitListBranchesResponse v w"
| "visit_response (InvalidateCacheResponse v) w = VisitInvalidateCacheResponse v w"
| "visit_response (GetPipelineJobTraceResponse v) w = VisitGetPipelineJobTraceResponse v w"
| "visit_response (ListPipelineJobsResponse v) w = VisitListPipelineJobsResponse v w"
| "visit_response (ListPipelinesResponse v) w = VisitListPipelinesResponse v w"
| "visit_response (ListPullRequestsResponse v) w = VisitListPullRequestsResponse v w"
| "visit_response (ListRepositoriesResponse v) w = VisitListRepositoriesResponse v w"
| "visit_response (GetRepositoryResponse v) w = VisitGetRepositoryResponse v w"
| "visit_response (TriggerPipelineResponse v) w = VisitTriggerPipelineResponse v w"
| "visit_response (ListUserOrganizationsResponse v) w = VisitListUserOrganizationsResponse v w"

text \<open>How the parameters of an operation are read.\<close>

definition operations ::
    "((string \<times> string) \<times> (param_binder \<Rightarrow> url_Values \<Rightarrow> param_error + request_object)) list" where
  "operations =
     [((''GET'', ''/api/v1/branches''), \<lambda>b q. map_sum id ListBranchesRequestObject (ListBranches_params b q)),
      ((''DELETE'', ''/api/v1/cache/invalidate''), \<lambda>b q. map_sum id InvalidateCacheRequestObject (InvalidateCache_params b q)),
      ((''GET'', ''/api/v1/pipeline-job-trace''), \<lambda>b q. map_sum id GetPipelineJobTraceRequestObject (GetPipelineJobTrace_params b q)),
      ((''GET'', ''/api/v1/pipeline-jobs''), \<lambda>b q. map_sum id ListPipelineJobsRequestObject (ListPipelineJobs_params b q)),
      ((''GET'', ''/api/v1/pipelines''), \<lambda>b q. map_sum id ListPipelinesRequestObject (ListPipelines_params b q)),
      ((''GET'', ''/api/v1/pull-requests''), \<lambda>b q. map_sum id ListPullRequestsRequestObject (ListPullRequests_params b q)),
      ((''GET'', ''/api/v1/repositories''), \<lambda>b q. map_sum id ListRepositoriesRequestObject (ListRepositories_params b q)),
      ((''GET'', ''/api/v1/repository''), \<lambda>b q. map_sum id GetRepositoryRequestObject (GetRepository_params b q)),
      ((''POST'', ''/api/v1/trigger-pipeline''), \<lambda>b q. map_sum id TriggerPipelineRequestObject (TriggerPipeline_params b q)),
      ((''GET'', ''/api/v1/user/organizations''), \<lambda>b q. map_sum id ListUserOrganizationsRequestObject (ListUserOrganizations_params b q))]"

text \<open>
  A parameter that is missing or malformed is answered with a 400 in plain text and nothing else
  happens; otherwise the operation runs, and its response is written.  The request panics when the
  operation does, and when the response cannot be encoded.
\<close>

definition serve_operation ::
    "(string \<Rightarrow> go_error + PipelineVariable list) \<Rightarrow> JobTrace result option
     \<Rightarrow> (url_Values \<Rightarrow> param_error + request_object) \<Rightarrow> Server http_handler" where
  "serve_operation jv joined read r w s =
     (case read (url_Query r) of
        Inl err \<Rightarrow> Some (Returned, http_Error (param_error_Error err) 400 w, s)
      | Inr call \<Rightarrow>
          map_option
            (\<lambda>(result, s').
               case result of
                 Ok resp \<Rightarrow>
                   (case visit_response resp w of
                      (None, w') \<Rightarrow> (Returned, w', s')
                    | (Some err, w') \<Rightarrow> (Panicking, w', s'))
               | _ \<Rightarrow> (Panicking, w, s'))
            (run_call jv joined call s))"

section \<open>What is assumed of the router and of parameter binding\<close>

text \<open>
  chi's documented behaviour: a request whose method and path are those of a route without
  wildcards is served by its handler, inside the middlewares, the first one outermost.
\<close>

definition static_pattern :: "string \<Rightarrow> bool" where
  "static_pattern p \<longleftrightarrow> CHR ''{'' \<notin> set p \<and> CHR ''}'' \<notin> set p \<and> CHR ''*'' \<notin> set p"

definition chi_routes :: "('s Router \<Rightarrow> 's http_handler) \<Rightarrow> bool" where
  "chi_routes serve \<longleftrightarrow>
     (\<forall>router h r w s.
        (req_Method r, req_Path r, h) \<in> set (router_routes router) \<longrightarrow>
        distinct (map (\<lambda>(m, p, h). (m, p)) (router_routes router)) \<longrightarrow>
        (\<forall>(m, p, h) \<in> set (router_routes router). static_pattern p) \<longrightarrow>
        serve router r w s = foldr (\<lambda>middleware h. middleware h) (router_Use router) h r w s)"

text \<open>
  oapi-codegen's documented binding of a query parameter: one value is the value (a number in
  decimal for an \<open>int\<close>), and an optional parameter that is absent is nil.
\<close>

definition binder_ok :: "param_binder \<Rightarrow> bool" where
  "binder_ok b \<longleftrightarrow>
     (\<forall>name q v. Values_all q name = [v] \<longrightarrow>
        bind_string b name q = Inr v \<and> bind_optional b name q = Inr (Some v) \<and>
        (\<forall>n. strconv_Atoi v = Some n \<longrightarrow> bind_optional_int b name q = Inr (Some n))) \<and>
     (\<forall>name q. Values_all q name = [] \<longrightarrow>
        bind_optional b name q = Inr None \<and> bind_optional_int b name q = Inr None)"

text \<open>Functions that behave like this.\<close>

definition first_route :: "'s Router \<Rightarrow> 's http_handler" where
  "first_route router r =
     foldr (\<lambda>middleware h. middleware h) (router_Use router)
       (case find (\<lambda>(m, p, h). m = req_Method r \<and> p = req_Path r) (router_routes router) of
          Some (m, p, h) \<Rightarrow> h
        | None \<Rightarrow> (\<lambda>r w s. Some (Returned, http_Error ''404 page not found'' 404 w, s))) r"

definition simple_binder :: param_binder where
  "simple_binder =
     \<lparr>bind_string = (\<lambda>name q. case Values_all q name of
          [v] \<Rightarrow> Inr v | _ \<Rightarrow> Inl (ErrorString ''multiple values'')),
      bind_optional = (\<lambda>name q. case Values_all q name of
          [] \<Rightarrow> Inr None | [v] \<Rightarrow> Inr (Some v) | _ \<Rightarrow> Inl (ErrorString ''multiple values'')),
      bind_optional_int = (\<lambda>name q. case Values_all q name of
          [] \<Rightarrow> Inr None
        | [v] \<Rightarrow> (case strconv_Atoi v of
                     Some n \<Rightarrow> Inr (Some n) | None \<Rightarrow> Inl (ErrorString ''invalid syntax''))
        | _ \<Rightarrow> Inl (ErrorString ''multiple values''))\<rparr>"

lemma first_route_chi: "chi_routes first_route"
proof -
  have find: "find (\<lambda>(m, p, h). m = a \<and> p = b) rs = Some (a, b, h)"
    if "(a, b, h) \<in> set rs" "distinct (map (\<lambda>(m, p, h). (m, p)) rs)"
    for a b :: string and h :: "'a http_handler" and rs
    using that by (induction rs) (force split: if_splits)+
  show ?thesis
    unfolding chi_routes_def first_route_def
    by (intro allI impI) (simp only: find option.case prod.case)
qed

lemma simple_binder_ok: "binder_ok simple_binder"
  by (auto simp: binder_ok_def simple_binder_def split: list.splits)

section \<open>The routed server implements the specification\<close>

text \<open>The wrapper \<open>HandlerFromMux\<close> makes, and a strict operation without middlewares and error handlers.\<close>

definition default_wrapper ::
    "(string \<Rightarrow> go_error + PipelineVariable list) \<Rightarrow> JobTrace result option \<Rightarrow> Server ServerInterfaceWrapper" where
  "default_wrapper jv joined =
     \<lparr>siw_Handler = BuildHandler_interface jv joined, siw_Middlewares = [],
      siw_ErrorHandlerFunc = (\<lambda>w r err. http_Error (param_error_Error err) 400 w)\<rparr>"

lemma strict_respond_nil:
  assumes "\<And>v. visit (wrap v) = Some (visit_response (wrap v))"
  shows "strict_respond \<lparr>RequestErrorHandlerFunc = None, ResponseErrorHandlerFunc = None\<rparr> visit r
      (map_option (\<lambda>(r, s'). (res_bind r (\<lambda>v. Ok (wrap v)), w, s')) answer) =
    map_option
      (\<lambda>(result, s').
         case result of
           Ok resp \<Rightarrow>
             (case visit_response resp w of
                (None, w') \<Rightarrow> (Returned, w', s')
              | (Some err, w') \<Rightarrow> (Panicking, w', s'))
         | _ \<Rightarrow> (Panicking, w, s'))
      (map_option (\<lambda>(r, s'). (res_bind r (\<lambda>v. Ok (wrap v)), s')) answer)"
proof (cases answer)
  case (Some a)
  obtain r1 s1 where "a = (r1, s1)" by fastforce
  with Some show ?thesis
    using assms
    by (cases r1) (auto simp: strict_respond_def response_error_def split: prod.splits option.splits)
qed (simp add: strict_respond_def)

lemma serve_with_operation:
  assumes "\<And>p r w s. operation p r w s = strict_respond \<lparr>RequestErrorHandlerFunc = None, ResponseErrorHandlerFunc = None\<rparr>
      visit r (map_option (\<lambda>(r, s'). (res_bind r (\<lambda>v. Ok (wrap v)), w, s')) (run p s))"
    and "\<And>v. visit (wrap v) = Some (visit_response (wrap v))"
    and "\<And>p s. run_call jv joined (request p) s =
      map_option (\<lambda>(r, s'). (res_bind r (\<lambda>v. Ok (wrap v)), s')) (run p s)"
  shows "(\<lambda>r. serve_with (default_wrapper jv joined) (read b (url_Query r)) operation r) =
    serve_operation jv joined (\<lambda>q. map_sum id request (read b q))"
  by (intro ext)
    (simp add: serve_with_def serve_operation_def default_wrapper_def assms(1,3)
       strict_respond_nil [where visit = visit and wrap = wrap, OF assms(2)]
       split: sum.split)

lemmas interface_defs =
  default_wrapper_def BuildHandler_interface_def NewStrictHandlerWithOptions_def Server_interface_def
  strict_call_def Let_def

lemma wrapped_operations:
  "Wrapper_ListBranches b (default_wrapper jv joined) =
     serve_operation jv joined (\<lambda>q. map_sum id ListBranchesRequestObject (ListBranches_params b q))"
  "Wrapper_InvalidateCache b (default_wrapper jv joined) =
     serve_operation jv joined (\<lambda>q. map_sum id InvalidateCacheRequestObject (InvalidateCache_params b q))"
  "Wrapper_GetPipelineJobTrace b (default_wrapper jv joined) =
     serve_operation jv joined (\<lambda>q. map_sum id GetPipelineJobTraceRequestObject (GetPipelineJobTrace_params b q))"
  "Wrapper_ListPipelineJobs b (default_wrapper jv joined) =
     serve_operation jv joined (\<lambda>q. map_sum id ListPipelineJobsRequestObject (ListPipelineJobs_params b q))"
  "Wrapper_ListPipelines b (default_wrapper jv joined) =
     serve_operation jv joined (\<lambda>q. map_sum id ListPipelinesRequestObject (ListPipelines_params b q))"
  "Wrapper_ListPullRequests b (default_wrapper jv joined) =
     serve_operation jv joined (\<lambda>q. map_sum id ListPullRequestsRequestObject (ListPullRequests_params b q))"
  "Wrapper_ListRepositories b (default_wrapper jv joined) =
     serve_operation jv joined (\<lambda>q. map_sum id ListRepositoriesRequestObject (ListRepositories_params b q))"
  "Wrapper_GetRepository b (default_wrapper jv joined) =
     serve_operation jv joined (\<lambda>q. map_sum id GetRepositoryRequestObject (GetRepository_params b q))"
  "Wrapper_TriggerPipeline b (default_wrapper jv joined) =
     serve_operation jv joined (\<lambda>q. map_sum id TriggerPipelineRequestObject (TriggerPipeline_params b q))"
  "Wrapper_ListUserOrganizations b (default_wrapper jv joined) =
     serve_operation jv joined (\<lambda>q. map_sum id ListUserOrganizationsRequestObject (ListUserOrganizations_params b q))"
  unfolding Wrapper_ListBranches_def Wrapper_InvalidateCache_def Wrapper_GetPipelineJobTrace_def Wrapper_ListPipelineJobs_def Wrapper_ListPipelines_def Wrapper_ListPullRequests_def Wrapper_ListRepositories_def Wrapper_GetRepository_def Wrapper_TriggerPipeline_def Wrapper_ListUserOrganizations_def
  subgoal by (rule serve_with_operation [where wrap = ListBranchesResponse
      and visit = "\<lambda>response. case response of ListBranchesResponse v \<Rightarrow> Some (VisitListBranchesResponse v) | _ \<Rightarrow> None"
      and run = "ListBranches"])
    (auto simp: strict_ListBranches_def interface_defs split: prod.split)
  subgoal by (rule serve_with_operation [where wrap = InvalidateCacheResponse
      and visit = "\<lambda>response. case response of InvalidateCacheResponse v \<Rightarrow> Some (VisitInvalidateCacheResponse v) | _ \<Rightarrow> None"
      and run = "\<lambda>p s. case InvalidateCache_handler p s of (r, s') \<Rightarrow> Some (Ok r, s')"])
    (auto simp: strict_InvalidateCache_def interface_defs split: prod.split)
  subgoal by (rule serve_with_operation [where wrap = GetPipelineJobTraceResponse
      and visit = "\<lambda>response. case response of GetPipelineJobTraceResponse v \<Rightarrow> Some (VisitGetPipelineJobTraceResponse v) | _ \<Rightarrow> None"
      and run = "GetPipelineJobTrace joined"])
    (auto simp: strict_GetPipelineJobTrace_def interface_defs split: prod.split)
  subgoal by (rule serve_with_operation [where wrap = ListPipelineJobsResponse
      and visit = "\<lambda>response. case response of ListPipelineJobsResponse v \<Rightarrow> Some (VisitListPipelineJobsResponse v) | _ \<Rightarrow> None"
      and run = "ListPipelineJobs"])
    (auto simp: strict_ListPipelineJobs_def interface_defs split: prod.split)
  subgoal by (rule serve_with_operation [where wrap = ListPipelinesResponse
      and visit = "\<lambda>response. case response of ListPipelinesResponse v \<Rightarrow> Some (VisitListPipelinesResponse v) | _ \<Rightarrow> None"
      and run = "ListPipelines"])
    (auto simp: strict_ListPipelines_def interface_defs split: prod.split)
  subgoal by (rule serve_with_operation [where wrap = ListPullRequestsResponse
      and visit = "\<lambda>response. case response of ListPullRequestsResponse v \<Rightarrow> Some (VisitListPullRequestsResponse v) | _ \<Rightarrow> None"
      and run = "ListPullRequests"])
    (auto simp: strict_ListPullRequests_def interface_defs split: prod.split)
  subgoal by (rule serve_with_operation [where wrap = ListRepositoriesResponse
      and visit = "\<lambda>response. case response of ListRepositoriesResponse v \<Rightarrow> Some (VisitListRepositoriesResponse v) | _ \<Rightarrow> None"
      and run = "ListRepositories"])
    (auto simp: strict_ListRepositories_def interface_defs split: prod.split)
  subgoal by (rule serve_with_operation [where wrap = GetRepositoryResponse
      and visit = "\<lambda>response. case response of GetRepositoryResponse v \<Rightarrow> Some (VisitGetRepositoryResponse v) | _ \<Rightarrow> None"
      and run = "GetRepository"])
    (auto simp: strict_GetRepository_def interface_defs split: prod.split)
  subgoal by (rule serve_with_operation [where wrap = TriggerPipelineResponse
      and visit = "\<lambda>response. case response of TriggerPipelineResponse v \<Rightarrow> Some (VisitTriggerPipelineResponse v) | _ \<Rightarrow> None"
      and run = "TriggerPipeline jv"])
    (auto simp: strict_TriggerPipeline_def interface_defs split: prod.split)
  subgoal by (rule serve_with_operation [where wrap = ListUserOrganizationsResponse
      and visit = "\<lambda>response. case response of ListUserOrganizationsResponse v \<Rightarrow> Some (VisitListUserOrganizationsResponse v) | _ \<Rightarrow> None"
      and run = "ListUserOrganizations"])
    (auto simp: strict_ListUserOrganizations_def interface_defs split: prod.split)
  done

lemma routes_of_HandlerFromMux:
  assumes "router_routes mux = []"
  shows "router_routes (HandlerFromMux b (BuildHandler_interface jv joined) mux) =
      map (\<lambda>((m, p), read). (m, p, serve_operation jv joined (read b))) operations"
    and "router_Use (HandlerFromMux b (BuildHandler_interface jv joined) mux) = router_Use mux"
proof -
  let ?options = "\<lparr>opt_BaseURL = [], opt_BaseRouter = Some mux, opt_Middlewares = [],
    opt_ErrorHandlerFunc = None\<rparr> :: Server ChiServerOptions"
  have wrapper: "\<lparr>siw_Handler = BuildHandler_interface jv joined, siw_Middlewares = opt_Middlewares ?options,
      siw_ErrorHandlerFunc = \<lambda>w r err. http_Error (param_error_Error err) 400 w\<rparr> = default_wrapper jv joined"
    by (simp add: default_wrapper_def)
  show "router_routes (HandlerFromMux b (BuildHandler_interface jv joined) mux) =
      map (\<lambda>((m, p), read). (m, p, serve_operation jv joined (read b))) operations"
    by (simp add: HandlerFromMux_def HandlerWithOptions_def Let_def add_route_def assms
        wrapper [simplified] wrapped_operations operations_def)
  show "router_Use (HandlerFromMux b (BuildHandler_interface jv joined) mux) = router_Use mux"
    by (simp add: HandlerFromMux_def HandlerWithOptions_def Let_def add_route_def)
qed

lemma operations_keys: "distinct (map fst operations)" "\<forall>((m, p), read) \<in> set operations. static_pattern p"
  by (simp_all add: operations_def static_pattern_def)

lemma served_operation:
  assumes "chi_routes serve" "router_routes mux = []"
    and "map_of operations (req_Method r, req_Path r) = Some read"
  shows "serve (HandlerFromMux b (BuildHandler_interface jv joined) mux) r w s =
    foldr (\<lambda>middleware h. middleware h) (router_Use mux) (serve_operation jv joined (read b)) r w s"
proof -
  let ?router = "HandlerFromMux b (BuildHandler_interface jv joined) mux"
  note routes = routes_of_HandlerFromMux [OF assms(2), where b = b and jv = jv and joined = joined]
  have "(req_Method r, req_Path r, serve_operation jv joined (read b)) \<in> set (router_routes ?router)"
    using map_of_SomeD [OF assms(3)] unfolding routes(1) by force
  moreover have "map (\<lambda>(m, p, h). (m, p)) (router_routes ?router) = map fst operations"
    unfolding routes(1) by (auto simp: case_prod_beta)
  moreover have "\<forall>(m, p, h) \<in> set (router_routes ?router). static_pattern p"
    using operations_keys(2) unfolding routes(1) by fastforce
  ultimately show ?thesis
    using assms(1) operations_keys(1) routes(2) unfolding chi_routes_def by metis
qed

section \<open>Properties\<close>

text \<open>C5: The HTTP server implements its specification.  Behind the router, the parameter wrappers and the
  strict handler, a request to an operation's method and path is served exactly as
  \<open>serve_operation\<close> says, inside the router's own middlewares: its parameters are read in order, the
  first that is missing or malformed is answered with a 400, and otherwise the operation of that path
  and no other runs on them, once, and its response object is written.\<close>

theorem http_server_refines:
  assumes "chi_routes serve" "router_routes mux = []"
    and "map_of operations (req_Method r, req_Path r) = Some read"
  shows "serve (HandlerFromMux b (BuildHandler_interface jv joined) mux) r w s =
    foldr (\<lambda>middleware h. middleware h) (router_Use mux) (serve_operation jv joined (read b)) r w s"
  using assms by (rule served_operation)

lemma http_server_refines_witness:
  "\<forall>s. first_route (HandlerFromMux simple_binder (BuildHandler_interface (\<lambda>_. Inr []) None) NewRouter)
     \<lparr>req_Method = ''DELETE'', req_Path = ''/api/v1/cache/invalidate'', req_RawQuery = []\<rparr> fresh_writer s =
   Some (Returned, http_Error ''Query argument endpoint is required, but not found'' 400 fresh_writer, s)"
  (is "\<forall>s. ?P s")
proof
  fix s
  let ?r = "\<lparr>req_Method = ''DELETE'', req_Path = ''/api/v1/cache/invalidate'', req_RawQuery = []\<rparr>"
  have "map_of operations (req_Method ?r, req_Path ?r) =
      Some (\<lambda>b q. map_sum id InvalidateCacheRequestObject (InvalidateCache_params b q))"
    by (simp add: operations_def)
  from http_server_refines [OF first_route_chi _ this, where mux = NewRouter and s = s] show "?P s"
    by (simp add: NewRouter_def serve_operation_def InvalidateCache_params_def required_param_def
        url_Query_def parse_piece_def map_filter_simps Values_Get_def Values_all_def Sprintf_def)
qed

text \<open>The request a client makes for a call: its parameters, an optional one only if it is given.\<close>

definition opt_pair :: "string \<Rightarrow> string option \<Rightarrow> (string \<times> string) list" where
  "opt_pair name v = (case v of None \<Rightarrow> [] | Some x \<Rightarrow> [(name, x)])"

fun client_request :: "request_object \<Rightarrow> (string \<times> string) \<times> (string \<times> string) list" where
  "client_request (ListBranchesRequestObject p) =
     ((''GET'', ''/api/v1/branches''),
      [(''gitServer'', lbp_GitServer p), (''owner'', lbp_Owner p), (''repoName'', lbp_RepoName p)])"
| "client_request (InvalidateCacheRequestObject p) =
     ((''DELETE'', ''/api/v1/cache/invalidate''),
      [(''endpoint'', icp_Endpoint p)])"
| "client_request (GetPipelineJobTraceRequestObject p) =
     ((''GET'', ''/api/v1/pipeline-job-trace''),
      [(''gitServer'', gtp_GitServer p), (''project'', gtp_Project p), (''jobId'', gtp_JobId p)])"
| "client_request (ListPipelineJobsRequestObject p) =
     ((''GET'', ''/api/v1/pipeline-jobs''),
      [(''gitServer'', ljp_GitServer p), (''project'', ljp_Project p), (''pipelineId'', ljp_PipelineId p)])"
| "client_request (ListPipelinesRequestObject p) =
     ((''GET'', ''/api/v1/pipelines''),
      [(''gitServer'', lpp_GitServer p), (''project'', lpp_Project p)]
      @ opt_pair ''ref'' (lpp_Ref p)
      @ opt_pair ''status'' (lpp_Status p)
      @ opt_pair ''page'' (map_option strconv_Itoa (lpp_Page p))
      @ opt_pair ''perPage'' (map_option strconv_Itoa (lpp_PerPage p)))"
| "client_request (ListPullRequestsRequestObject p) =
     ((''GET'', ''/api/v1/pull-requests''),
      [(''gitServer'', lrp_GitServer p), (''owner'', lrp_Owner p), (''repoName'', lrp_RepoName p)]
      @ opt_pair ''state'' (lrp_State p)
      @ opt_pair ''page'' (map_option strconv_Itoa (lrp_Page p))
      @ opt_pair ''perPage'' (map_option strconv_Itoa (lrp_PerPage p)))"
| "client_request (ListRepositoriesRequestObject p) =
     ((''GET'', ''/api/v1/repositories''),
      [(''gitServer'', rpp_GitServer p), (''owner'', rpp_Owner p)]
      @ opt_pair ''repoName'' (rpp_RepoName p))"
| "client_request (GetRepositoryRequestObject p) =
     ((''GET'', ''/api/v1/repository''),
      [(''gitServer'', grp_GitServer p), (''owner'', grp_Owner p), (''repoName'', grp_RepoName p)])"
| "client_request (TriggerPipelineRequestObject p) =
     ((''POST'', ''/api/v1/trigger-pipeline''),
      [(''gitServer'', tpp_GitServer p), (''project'', tpp_Project p), (''ref'', tpp_Ref p)]
      @ opt_pair ''variables'' (tpp_Variables p))"
| "client_request (ListUserOrganizationsRequestObject p) =
     ((''GET'', ''/api/v1/user/organizations''),
      [(''gitServer'', lop_GitServer p)])"

text \<open>Required parameters are not empty, and numbers are Go ints.\<close>

fun valid_call :: "request_object \<Rightarrow> bool" where
  "valid_call (ListBranchesRequestObject p) \<longleftrightarrow>
     lbp_GitServer p \<noteq> [] \<and> lbp_Owner p \<noteq> [] \<and> lbp_RepoName p \<noteq> []"
| "valid_call (InvalidateCacheRequestObject p) \<longleftrightarrow>
     icp_Endpoint p \<noteq> []"
| "valid_call (GetPipelineJobTraceRequestObject p) \<longleftrightarrow>
     gtp_GitServer p \<noteq> [] \<and> gtp_Project p \<noteq> [] \<and> gtp_JobId p \<noteq> []"
| "valid_call (ListPipelineJobsRequestObject p) \<longleftrightarrow>
     ljp_GitServer p \<noteq> [] \<and> ljp_Project p \<noteq> [] \<and> ljp_PipelineId p \<noteq> []"
| "valid_call (ListPipelinesRequestObject p) \<longleftrightarrow>
     lpp_GitServer p \<noteq> [] \<and> lpp_Project p \<noteq> [] \<and> pred_option in_int64 (lpp_Page p) \<and> pred_option in_int64 (lpp_PerPage p)"
| "valid_call (ListPullRequestsRequestObject p) \<longleftrightarrow>
     lrp_GitServer p \<noteq> [] \<and> lrp_Owner p \<noteq> [] \<and> lrp_RepoName p \<noteq> [] \<and> pred_option in_int64 (lrp_Page p) \<and> pred_option in_int64 (lrp_PerPage p)"
| "valid_call (ListRepositoriesRequestObject p) \<longleftrightarrow>
     rpp_GitServer p \<noteq> [] \<and> rpp_Owner p \<noteq> []"
| "valid_call (GetRepositoryRequestObject p) \<longleftrightarrow>
     grp_GitServer p \<noteq> [] \<and> grp_Owner p \<noteq> [] \<and> grp_RepoName p \<noteq> []"
| "valid_call (TriggerPipelineRequestObject p) \<longleftrightarrow>
     tpp_GitServer p \<noteq> [] \<and> tpp_Project p \<noteq> [] \<and> tpp_Ref p \<noteq> []"
| "valid_call (ListUserOrganizationsRequestObject p) \<longleftrightarrow>
     lop_GitServer p \<noteq> []"

definition given :: "'a option \<Rightarrow> 'a list" where
  "given v = (case v of None \<Rightarrow> [] | Some x \<Rightarrow> [x])"

lemma Values_all_simps [simp]:
  "Values_all [] name = []"
  "Values_all ((k, v) # q) name = (if k = name then v # Values_all q name else Values_all q name)"
  "Values_all (opt_pair k opt @ q) name =
     (if k = name then given opt @ Values_all q name else Values_all q name)"
  "Values_all (opt_pair k opt) name = (if k = name then given opt else [])"
  by (auto simp: Values_all_def opt_pair_def given_def split: option.split)

lemma required_param_given:
  "binder_ok b \<Longrightarrow> Values_all q name = [v] \<Longrightarrow> v \<noteq> [] \<Longrightarrow> required_param b name q = Inr v"
  by (simp add: required_param_def Values_Get_def binder_ok_def)

lemma optional_param_given:
  "binder_ok b \<Longrightarrow> Values_all q name = given v \<Longrightarrow> optional_param b name q = Inr v"
  by (simp add: optional_param_def binder_ok_def given_def split: option.splits)

lemma optional_int_param_given:
  "binder_ok b \<Longrightarrow> Values_all q name = given (map_option strconv_Itoa v) \<Longrightarrow>
   pred_option in_int64 v \<Longrightarrow> optional_int_param b name q = Inr v"
  by (auto simp: optional_int_param_def binder_ok_def Atoi_Itoa given_def split: option.splits)

lemma sum_bind_Inr: "x = Inr v \<Longrightarrow> f v = y \<Longrightarrow> sum_bind x f = y"
  by simp

lemma client_routes:
  "fst (client_request (ListBranchesRequestObject p0)) = (''GET'', ''/api/v1/branches'')"
  "fst (client_request (InvalidateCacheRequestObject p1)) = (''DELETE'', ''/api/v1/cache/invalidate'')"
  "fst (client_request (GetPipelineJobTraceRequestObject p2)) = (''GET'', ''/api/v1/pipeline-job-trace'')"
  "fst (client_request (ListPipelineJobsRequestObject p3)) = (''GET'', ''/api/v1/pipeline-jobs'')"
  "fst (client_request (ListPipelinesRequestObject p4)) = (''GET'', ''/api/v1/pipelines'')"
  "fst (client_request (ListPullRequestsRequestObject p5)) = (''GET'', ''/api/v1/pull-requests'')"
  "fst (client_request (ListRepositoriesRequestObject p6)) = (''GET'', ''/api/v1/repositories'')"
  "fst (client_request (GetRepositoryRequestObject p7)) = (''GET'', ''/api/v1/repository'')"
  "fst (client_request (TriggerPipelineRequestObject p8)) = (''POST'', ''/api/v1/trigger-pipeline'')"
  "fst (client_request (ListUserOrganizationsRequestObject p9)) = (''GET'', ''/api/v1/user/organizations'')"
  by simp_all

text \<open>What each wrapper reads from its client's query.\<close>

lemma params_read:
  assumes "binder_ok b"
  shows
  "valid_call (ListBranchesRequestObject p0) \<Longrightarrow> ListBranches_params b (snd (client_request (ListBranchesRequestObject p0))) = Inr p0"
  "valid_call (InvalidateCacheRequestObject p1) \<Longrightarrow> InvalidateCache_params b (snd (client_request (InvalidateCacheRequestObject p1))) = Inr p1"
  "valid_call (GetPipelineJobTraceRequestObject p2) \<Longrightarrow> GetPipelineJobTrace_params b (snd (client_request (GetPipelineJobTraceRequestObject p2))) = Inr p2"
  "valid_call (ListPipelineJobsRequestObject p3) \<Longrightarrow> ListPipelineJobs_params b (snd (client_request (ListPipelineJobsRequestObject p3))) = Inr p3"
  "valid_call (ListPipelinesRequestObject p4) \<Longrightarrow> ListPipelines_params b (snd (client_request (ListPipelinesRequestObject p4))) = Inr p4"
  "valid_call (ListPullRequestsRequestObject p5) \<Longrightarrow> ListPullRequests_params b (snd (client_request (ListPullRequestsRequestObject p5))) = Inr p5"
  "valid_call (ListRepositoriesRequestObject p6) \<Longrightarrow> ListRepositories_params b (snd (client_request (ListRepositoriesRequestObject p6))) = Inr p6"
  "valid_call (GetRepositoryRequestObject p7) \<Longrightarrow> GetRepository_params b (snd (client_request (GetRepositoryRequestObject p7))) = Inr p7"
  "valid_call (TriggerPipelineRequestObject p8) \<Longrightarrow> TriggerPipeline_params b (snd (client_request (TriggerPipelineRequestObject p8))) = Inr p8"
  "valid_call (ListUserOrganizationsRequestObject p9) \<Longrightarrow> ListUserOrganizations_params b (snd (client_request (ListUserOrganizationsRequestObject p9))) = Inr p9"
  subgoal unfolding ListBranches_params_def
    by (cases p0, intro sum_bind_Inr required_param_given optional_param_given optional_int_param_given
          assms) auto
  subgoal unfolding InvalidateCache_params_def
    by (cases p1, intro sum_bind_Inr required_param_given optional_param_given optional_int_param_given
          assms) auto
  subgoal unfolding GetPipelineJobTrace_params_def
    by (cases p2, intro sum_bind_Inr required_param_given optional_param_given optional_int_param_given
          assms) auto
  subgoal unfolding ListPipelineJobs_params_def
    by (cases p3, intro sum_bind_Inr required_param_given optional_param_given optional_int_param_given
          assms) auto
  subgoal unfolding ListPipelines_params_def
    by (cases p4, intro sum_bind_Inr required_param_given optional_param_given optional_int_param_given
          assms) auto
  subgoal unfolding ListPullRequests_params_def
    by (cases p5, intro sum_bind_Inr required_param_given optional_param_given optional_int_param_given
          assms) auto
  subgoal unfolding ListRepositories_params_def
    by (cases p6, intro sum_bind_Inr required_param_given optional_param_given optional_int_param_given
          assms) auto
  subgoal unfolding GetRepository_params_def
    by (cases p7, intro sum_bind_Inr required_param_given optional_param_given optional_int_param_given
          assms) auto
  subgoal unfolding TriggerPipeline_params_def
    by (cases p8, intro sum_bind_Inr required_param_given optional_param_given optional_int_param_given
          assms) auto
  subgoal unfolding ListUserOrganizations_params_def
    by (cases p9, intro sum_bind_Inr required_param_given optional_param_given optional_int_param_given
          assms) auto
  done

lemma request_read:
  assumes "binder_ok b" "valid_call call"
    and "client_request call = (route, pairs)" "req_RawQuery r = encode_query pairs"
  shows "\<exists>read. map_of operations route = Some read \<and> read b (url_Query r) = Inr call"
proof -
  have q: "url_Query r = pairs" using assms(4) by (rule url_Query_encode)
  have request: "route = fst (client_request call)" "pairs = snd (client_request call)"
    using assms(3) by simp_all
  show ?thesis
    using assms(2) unfolding q request
    by (cases call)
      (simp_all add: client_routes operations_def params_read [OF assms(1)]
        del: client_request.simps valid_call.simps)
qed

text \<open>C9: A request arrives as it was sent.  For each of the ten operations, the query a client encodes from a
  call's parameters, whatever bytes they hold, is read back by the wrapper of exactly that operation
  as the same parameters: nothing is lost, swapped or cut by the escaping, and an optional parameter
  that was not given stays absent.\<close>

theorem request_roundtrip:
  assumes "binder_ok b" "valid_call call"
    and "client_request call = (route, pairs)" "req_RawQuery r = encode_query pairs"
  shows "\<exists>read. map_of operations route = Some read \<and> read b (url_Query r) = Inr call"
  using assms by (rule request_read)

lemma request_roundtrip_witness:
  "\<exists>read. map_of operations (''GET'', ''/api/v1/pull-requests'') = Some read \<and>
     read simple_binder (url_Query \<lparr>req_Method = ''GET'', req_Path = ''/api/v1/pull-requests'',
       req_RawQuery = ''gitServer=main&owner=a%26b+c&repoName=tool&page=2''\<rparr>) =
     Inr (ListPullRequestsRequestObject \<lparr>lrp_GitServer = ''main'', lrp_Owner = ''a&b c'', lrp_RepoName = ''tool'',
       lrp_State = None, lrp_Page = Some 2, lrp_PerPage = None\<rparr>)"
proof -
  have query: "''gitServer=main&owner=a%26b+c&repoName=tool&page=2'' = encode_query
      [(''gitServer'', ''main''), (''owner'', ''a&b c''), (''repoName'', ''tool''), (''page'', ''2'')]"
    by code_simp
  have "strconv_Itoa 2 = ''2''" by code_simp
  with request_roundtrip [OF simple_binder_ok, where call = "ListPullRequestsRequestObject
      \<lparr>lrp_GitServer = ''main'', lrp_Owner = ''a&b c'', lrp_RepoName = ''tool'',
       lrp_State = None, lrp_Page = Some 2, lrp_PerPage = None\<rparr>"] query
  show ?thesis by (simp add: opt_pair_def in_int64_def)
qed

text \<open>A required parameter that occurs at most once is read or reported as missing.\<close>

lemma required_param_once:
  assumes "binder_ok b" "length (Values_all q name) \<le> 1"
  shows "required_param b name q =
    (if Values_Get q name = [] then Inl (RequiredParamError name) else Inr (Values_Get q name))"
proof (cases "Values_all q name")
  case (Cons v vs)
  with assms have "Values_all q name = [v]" by simp
  with assms(1) show ?thesis
    by (auto simp: required_param_def Values_Get_def binder_ok_def)
qed (simp add: required_param_def Values_Get_def)

definition missing :: "url_Values \<Rightarrow> string list \<Rightarrow> string \<Rightarrow> bool" where
  "missing q required name \<longleftrightarrow>
     find (\<lambda>p. Values_Get q p = []) required = Some name \<and>
     (\<forall>p \<in> set required. length (Values_all q p) \<le> 1)"

lemma missing_params:
  assumes "binder_ok b"
  shows
  "missing q [''gitServer'', ''owner'', ''repoName''] name \<Longrightarrow> ListBranches_params b q = Inl (RequiredParamError name)"
  "missing q [''endpoint''] name \<Longrightarrow> InvalidateCache_params b q = Inl (RequiredParamError name)"
  "missing q [''gitServer'', ''project'', ''jobId''] name \<Longrightarrow> GetPipelineJobTrace_params b q = Inl (RequiredParamError name)"
  "missing q [''gitServer'', ''project'', ''pipelineId''] name \<Longrightarrow> ListPipelineJobs_params b q = Inl (RequiredParamError name)"
  "missing q [''gitServer'', ''project''] name \<Longrightarrow> ListPipelines_params b q = Inl (RequiredParamError name)"
  "missing q [''gitServer'', ''owner'', ''repoName''] name \<Longrightarrow> ListPullRequests_params b q = Inl (RequiredParamError name)"
  "missing q [''gitServer'', ''owner''] name \<Longrightarrow> ListRepositories_params b q = Inl (RequiredParamError name)"
  "missing q [''gitServer'', ''owner'', ''repoName''] name \<Longrightarrow> GetRepository_params b q = Inl (RequiredParamError name)"
  "missing q [''gitServer'', ''project'', ''ref''] name \<Longrightarrow> TriggerPipeline_params b q = Inl (RequiredParamError name)"
  "missing q [''gitServer''] name \<Longrightarrow> ListUserOrganizations_params b q = Inl (RequiredParamError name)"
  unfolding missing_def ListBranches_params_def InvalidateCache_params_def GetPipelineJobTrace_params_def ListPipelineJobs_params_def ListPipelines_params_def ListPullRequests_params_def ListRepositories_params_def GetRepository_params_def TriggerPipeline_params_def ListUserOrganizations_params_def
  by (auto simp: required_param_once [OF assms] split: if_splits)

text \<open>The published operations are those of the server, with the same method and path.\<close>

lemma openapi_operations:
  assumes "map_of openapi route = Some (required, responses)"
  obtains read where "map_of operations route = Some read"
    and "\<And>b q call. read b q = Inr call \<Longrightarrow> fst (client_request call) = route"
    and "\<And>b q name. binder_ok b \<Longrightarrow> missing q required name \<Longrightarrow> read b q = Inl (RequiredParamError name)"
proof -
  have read: "\<exists>read. map_of operations route = Some read"
    using assms by (auto simp: openapi_def operations_def split: if_splits)
  then obtain read where read: "map_of operations route = Some read" ..
  moreover have "fst (client_request call) = route" if "read b q = Inr call" for b q call
    using that read
    by (auto simp: operations_def client_routes map_sum_def simp del: client_request.simps
        split: if_splits sum.splits)
  moreover have "read b q = Inl (RequiredParamError name)" if "binder_ok b" "missing q required name" for b q name
    using that(2) assms read
    by (auto simp: openapi_def operations_def missing_params [OF that(1)] split: if_splits)
  ultimately show ?thesis by (rule that)
qed

text \<open>C38: Missing parameters.  A request to any operation that lacks a parameter the published document
  requires (or gives it empty) is refused before any code of the program runs: the answer is status
  400 with the plain text that names the first such parameter, and the state of the server, caches
  included, is unchanged.  The document promises a JSON error object with every 400 instead.\<close>

theorem missing_parameter_refused:
  assumes "chi_routes serve" "binder_ok b" "router_routes mux = []" "router_Use mux = []"
    and "map_of openapi (req_Method r, req_Path r) = Some (required, responses)"
    and "find (\<lambda>p. Values_Get (url_Query r) p = []) required = Some name"
    and "\<forall>p \<in> set required. length (Values_all (url_Query r) p) \<le> 1"
  shows "\<exists>w. serve (HandlerFromMux b (BuildHandler_interface jv joined) mux) r fresh_writer s =
      Some (Returned, w, s) \<and>
    rw_sent w = Some (400, [''Content-Type'' \<mapsto> ''text/plain; charset=utf-8'',
                            ''X-Content-Type-Options'' \<mapsto> ''nosniff'']) \<and>
    rw_body w = [Text (''Query argument '' @ name @ '' is required, but not found'' @ [CHR 0x0A])]"
proof -
  have "missing (url_Query r) required name" using assms(6,7) by (simp add: missing_def)
  with openapi_operations [OF assms(5)] assms(2) obtain read
    where read: "map_of operations (req_Method r, req_Path r) = Some read"
      and "read b (url_Query r) = Inl (RequiredParamError name)" by metis
  with served_operation [OF assms(1,3) read] assms(4) show ?thesis
    by (simp add: serve_operation_def http_Error_def Header_Set_def WriteHeader_def Write_body_def
        fresh_writer_def Sprintf_def)
qed

lemma missing_parameter_refused_witness:
  "\<forall>s. \<exists>w. first_route (HandlerFromMux simple_binder (BuildHandler_interface (\<lambda>_. Inr []) None) NewRouter)
     \<lparr>req_Method = ''GET'', req_Path = ''/api/v1/branches'', req_RawQuery = ''gitServer=main&owner=''\<rparr>
     fresh_writer s = Some (Returned, w, s) \<and>
   rw_body w = [Text (''Query argument owner is required, but not found'' @ [CHR 0x0A])]"
  (is "\<forall>s. ?P s")
proof
  fix s
  let ?r = "\<lparr>req_Method = ''GET'', req_Path = ''/api/v1/branches'', req_RawQuery = ''gitServer=main&owner=''\<rparr>"
  have q: "url_Query ?r = [(''gitServer'', ''main''), (''owner'', [])]"
    by (simp add: url_Query_def parse_piece_def map_filter_simps)
  have op: "map_of openapi (req_Method ?r, req_Path ?r) = Some ([''gitServer'', ''owner'', ''repoName''],
      [(200, schema_BranchesResponse), (400, schema_Error), (401, schema_Error), (500, schema_Error)])"
    by (simp add: openapi_def)
  from missing_parameter_refused [OF first_route_chi simple_binder_ok _ _ op, where mux = NewRouter]
  show "?P s"
    by (fastforce simp: q Values_Get_def NewRouter_def)
qed

text \<open>What a \<open>Visit\<close> method leaves on a fresh writer.\<close>

lemma visit_JSON_fresh:
  "visit_JSON code v fresh_writer = (None, w) \<longleftrightarrow>
     (\<exists>j. v = Inr j \<and>
        w = \<lparr>rw_Header = [''Content-Type'' \<mapsto> ''application/json''],
             rw_sent = Some (code, [''Content-Type'' \<mapsto> ''application/json'']), rw_body = [Json j]\<rparr>)"
  "visit_JSON code v fresh_writer = (Some err, w) \<longleftrightarrow>
     v = Inl err \<and>
       w = \<lparr>rw_Header = [''Content-Type'' \<mapsto> ''application/json''],
            rw_sent = Some (code, [''Content-Type'' \<mapsto> ''application/json'']), rw_body = []\<rparr>"
  by (cases v; auto simp: visit_JSON_def json_Encode_def WriteHeader_def Header_Set_def Write_body_def
      fresh_writer_def)+

definition times_ok :: "response_object \<Rightarrow> bool" where
  "times_ok resp =
     (case resp of
        ListPullRequestsResponse (ListPullRequests200JSONResponse r) \<Rightarrow>
          list_all times_PullRequest (PullRequestsResponse_Data r)
      | ListPipelinesResponse (ListPipelines200JSONResponse r) \<Rightarrow>
          list_all times_Pipeline (PipelinesResponse_Data r)
      | ListPipelineJobsResponse (ListPipelineJobs200JSONResponse r) \<Rightarrow>
          list_all times_PipelineJob (PipelineJobsResponse_Data r)
      | _ \<Rightarrow> True)"

text \<open>A JSON response that the document declares for an operation.\<close>

definition declared_response :: "(int \<times> schema) list \<Rightarrow> ResponseWriter \<Rightarrow> bool" where
  "declared_response responses w \<longleftrightarrow>
     (\<exists>code schema j. map_of responses code = Some schema \<and> conforms schema j \<and>
        rw_sent w = Some (code, [''Content-Type'' \<mapsto> ''application/json'']) \<and> rw_body w = [Json j])"

lemma visit_declared:
  assumes "visit_JSON code v fresh_writer = (None, w)" "map_of responses code = Some schema"
    and "\<And>j. v = Inr j \<Longrightarrow> conforms schema j"
  shows "declared_response responses w"
  using assms unfolding declared_response_def visit_JSON_fresh by fastforce

lemma run_call_response:
  assumes "run_call jv joined call s = Some (Ok resp, s')" "times_ok resp"
    and "map_of openapi (fst (client_request call)) = Some (required, responses)"
    and "visit_response resp fresh_writer = (None, w)"
  shows "declared_response responses w"
proof (cases call)
  case (ListBranchesRequestObject params)
  with assms(1) obtain v where v: "resp = ListBranchesResponse v"
    by (auto split: prod.splits)
  then show ?thesis
    using assms(2-4) ListBranchesRequestObject
    by (cases v)
      (auto simp: openapi_def times_ok_def intro: models_conform elim!: visit_declared)
next
  case (InvalidateCacheRequestObject params)
  with assms(1) obtain v where v: "resp = InvalidateCacheResponse v"
    by (auto split: prod.splits)
  then show ?thesis
    using assms(2-4) InvalidateCacheRequestObject
    by (cases v)
      (auto simp: openapi_def times_ok_def intro: models_conform elim!: visit_declared)
next
  case (GetPipelineJobTraceRequestObject params)
  with assms(1) obtain v where v: "resp = GetPipelineJobTraceResponse v"
    by (auto split: prod.splits)
  then show ?thesis
    using assms(2-4) GetPipelineJobTraceRequestObject
    by (cases v)
      (auto simp: openapi_def times_ok_def intro: models_conform elim!: visit_declared)
next
  case (ListPipelineJobsRequestObject params)
  with assms(1) obtain v where v: "resp = ListPipelineJobsResponse v"
    by (auto split: prod.splits)
  then show ?thesis
    using assms(2-4) ListPipelineJobsRequestObject
    by (cases v)
      (auto simp: openapi_def times_ok_def intro: models_conform elim!: visit_declared)
next
  case (ListPipelinesRequestObject params)
  with assms(1) obtain v where v: "resp = ListPipelinesResponse v"
    by (auto split: prod.splits)
  then show ?thesis
    using assms(2-4) ListPipelinesRequestObject
    by (cases v)
      (auto simp: openapi_def times_ok_def intro: models_conform elim!: visit_declared)
next
  case (ListPullRequestsRequestObject params)
  with assms(1) obtain v where v: "resp = ListPullRequestsResponse v"
    by (auto split: prod.splits)
  then show ?thesis
    using assms(2-4) ListPullRequestsRequestObject
    by (cases v)
      (auto simp: openapi_def times_ok_def intro: models_conform elim!: visit_declared)
next
  case (ListRepositoriesRequestObject params)
  with assms(1) obtain v where v: "resp = ListRepositoriesResponse v"
    by (auto split: prod.splits)
  then show ?thesis
    using assms(2-4) ListRepositoriesRequestObject
    by (cases v)
      (auto simp: openapi_def times_ok_def intro: models_conform elim!: visit_declared)
next
  case (GetRepositoryRequestObject params)
  with assms(1) obtain v where v: "resp = GetRepositoryResponse v"
    by (auto split: prod.splits)
  then show ?thesis
    using assms(2-4) GetRepositoryRequestObject
    by (cases v)
      (auto simp: openapi_def times_ok_def intro: models_conform elim!: visit_declared)
next
  case (TriggerPipelineRequestObject params)
  with assms(1) obtain v where v: "resp = TriggerPipelineResponse v"
    by (auto split: prod.splits)
  then show ?thesis
    using assms(2-4) TriggerPipelineRequestObject
    by (cases v)
      (auto simp: openapi_def times_ok_def intro: models_conform elim!: visit_declared)
next
  case (ListUserOrganizationsRequestObject params)
  with assms(1) obtain v where v: "resp = ListUserOrganizationsResponse v"
    by (auto split: prod.splits)
  then show ?thesis
    using assms(2-4) ListUserOrganizationsRequestObject
    by (cases v)
      (auto simp: openapi_def times_ok_def intro: models_conform elim!: visit_declared)
qed

lemma serve_operation_returned:
  assumes "serve_operation jv joined read r w s = Some (Returned, w', s')" "read (url_Query r) = Inr call"
  obtains resp where "run_call jv joined call s = Some (Ok resp, s')" "visit_response resp w = (None, w')"
proof -
  obtain result s1 where run: "run_call jv joined call s = Some (result, s1)"
    using assms by (auto simp: serve_operation_def)
  with assms obtain resp where resp: "result = Ok resp"
    by (cases result) (simp_all add: serve_operation_def)
  obtain err w1 where visit: "visit_response resp w = (err, w1)" by fastforce
  with assms run resp have "err = None" "w1 = w'" "s1 = s'"
    by (auto simp: serve_operation_def split: option.splits)
  with run resp visit that show ?thesis by blast
qed

text \<open>Responses have the published type.  Whatever an operation answers, on every one of its branches, is
  either the plain-text refusal of a parameter, or a JSON response with a status that the published
  document declares for this operation and a body that conforms to the schema declared for it: all
  required properties, no others, enumerations within their values and times that RFC 3339 readers
  accept.\<close>

theorem responses_conform:
  assumes "chi_routes serve" "router_routes mux = []" "router_Use mux = []"
    and "map_of openapi (req_Method r, req_Path r) = Some (required, responses)"
    and "serve (HandlerFromMux b (BuildHandler_interface jv joined) mux) r fresh_writer s =
           Some (Returned, w, s')"
    and "\<forall>read call resp. map_of operations (req_Method r, req_Path r) = Some read \<longrightarrow>
           read b (url_Query r) = Inr call \<longrightarrow>
           run_call jv joined call s = Some (Ok resp, s') \<longrightarrow> times_ok resp"
  shows "(\<exists>err. w = http_Error (param_error_Error err) 400 fresh_writer \<and> s' = s) \<or>
    declared_response responses w"
proof -
  obtain read where read: "map_of operations (req_Method r, req_Path r) = Some read"
    and route: "\<And>b q call. read b q = Inr call \<Longrightarrow> fst (client_request call) = (req_Method r, req_Path r)"
    using openapi_operations [OF assms(4)] by metis
  note served = served_operation [OF assms(1,2) read, where b = b and jv = jv and joined = joined]
  show ?thesis
  proof (cases "read b (url_Query r)")
    case (Inl err)
    then show ?thesis
      using assms(5) unfolding served by (auto simp: assms(3) serve_operation_def)
  next
    case (Inr call)
    with assms(5) served assms(3) obtain resp where "run_call jv joined call s = Some (Ok resp, s')"
      "visit_response resp fresh_writer = (None, w)"
      by (auto elim: serve_operation_returned)
    with run_call_response [OF _ _ _ this(2)] assms(4,6) read route [OF Inr] Inr show ?thesis by metis
  qed
qed

text \<open>A server whose GitLab lists one pull request, created at the given time.\<close>

definition demo_pull_request :: "time \<Rightarrow> PullRequest" where
  "demo_pull_request t =
     \<lparr>PullRequest_Author = None, PullRequest_CommitSha = None, PullRequest_CreatedAt = t,
      PullRequest_Description = None, PullRequest_Draft = Some False, PullRequest_Id = ''7'',
      PullRequest_Number = 7, PullRequest_SourceBranch = ''fix'', PullRequest_State = PullRequestStateOpen,
      PullRequest_TargetBranch = ''main'', PullRequest_Title = ''Fix'', PullRequest_UpdatedAt = t,
      PullRequest_Url = ''https://git.example/7''\<rparr>"

definition demo_page :: "time \<Rightarrow> PullRequestsResponse" where
  "demo_page t = \<lparr>PullRequestsResponse_Data = [demo_pull_request t], PullRequestsResponse_Pagination =
     \<lparr>Pagination_Page = Some 1, Pagination_PerPage = Some 20, Pagination_Total = 1\<rparr>\<rparr>"

definition demo_http :: "time \<Rightarrow> Server" where
  "demo_http t =
     \<lparr>srv_gitServers = demo_server ''t'',
      srv_repositories = \<lparr>mr_providers = Map.empty, mr_cache = assoc_client []\<rparr>,
      srv_organizations = \<lparr>mo_providers = Map.empty, mo_cache = assoc_client []\<rparr>,
      srv_branches = \<lparr>mb_providers = Map.empty, mb_cache = assoc_client []\<rparr>,
      srv_pullrequests = \<lparr>mp_providers = [''gitlab'' \<mapsto> \<lambda>_ _ _ _. Ok (demo_page t)], mp_cache = assoc_client []\<rparr>,
      srv_pipelines = demo_pipelines\<rparr>"

definition demo_http_request :: Request where
  "demo_http_request = \<lparr>req_Method = ''GET'', req_Path = ''/api/v1/pull-requests'',
     req_RawQuery = ''gitServer=main&owner=team&repoName=tool''\<rparr>"

definition demo_params :: ListPullRequestsParams where
  "demo_params = \<lparr>lrp_GitServer = ''main'', lrp_Owner = ''team'', lrp_RepoName = ''tool'', lrp_State = None,
     lrp_Page = None, lrp_PerPage = None\<rparr>"

lemma demo_http_operation:
  "map_of operations (req_Method demo_http_request, req_Path demo_http_request) =
     Some (\<lambda>b q. map_sum id ListPullRequestsRequestObject (ListPullRequests_params b q))"
  by (simp add: operations_def demo_http_request_def)

lemma demo_http_read:
  "ListPullRequests_params simple_binder (url_Query demo_http_request) = Inr demo_params"
  by (simp add: demo_http_request_def url_Query_def parse_piece_def map_filter_simps Values_Get_def demo_params_def
      ListPullRequests_params_def required_param_def optional_param_def optional_int_param_def simple_binder_def)

lemma demo_http_run:
  "\<exists>s'. run_call jv joined (ListPullRequestsRequestObject demo_params) (demo_http t) =
    Some (Ok (ListPullRequestsResponse (ListPullRequests200JSONResponse (demo_page t))), s')"
  by (simp add: demo_params_def ListPullRequests_def clampPagination_def demo_http_def with_settings_def
      PullRequestsService_ListPullRequests_def MultiProvider_ListPullRequests_def demo_server_def
      demo_k8s_def GetGitProviderSettings_def GetOrFetch_pure_def GetOrFetch_def fetchSettings_def
      getGitProviderSettingsForServer_def respond_def)

lemma empty_router: "router_routes NewRouter = []" "router_Use NewRouter = []"
  by (simp_all add: NewRouter_def)

lemma demo_http_openapi:
  "map_of openapi (req_Method demo_http_request, req_Path demo_http_request) =
     Some ([''gitServer'', ''owner'', ''repoName''],
       [(200, schema_PullRequestsResponse), (400, schema_Error), (401, schema_Error),
        (404, schema_Error), (500, schema_Error)])"
  by (simp add: openapi_def demo_http_request_def)

lemma demo_http_served:
  obtains w s' where
    "first_route (HandlerFromMux simple_binder (BuildHandler_interface (\<lambda>_. Inr []) None) NewRouter)
       demo_http_request fresh_writer (demo_http zero_time) = Some (Returned, w, s')"
    "\<forall>err. w \<noteq> http_Error err 400 fresh_writer"
    "\<forall>read call resp. map_of operations (req_Method demo_http_request, req_Path demo_http_request) = Some read \<longrightarrow>
       read simple_binder (url_Query demo_http_request) = Inr call \<longrightarrow>
       run_call (\<lambda>_. Inr []) None call (demo_http zero_time) = Some (Ok resp, s') \<longrightarrow> times_ok resp"
proof -
  let ?router = "HandlerFromMux simple_binder (BuildHandler_interface (\<lambda>_. Inr []) None) NewRouter"
  let ?resp = "ListPullRequestsResponse (ListPullRequests200JSONResponse (demo_page zero_time))"
  obtain s' where run: "run_call (\<lambda>_. Inr []) None (ListPullRequestsRequestObject demo_params) (demo_http zero_time) =
      Some (Ok ?resp, s')"
    using demo_http_run by blast
  have "time_MarshalJSON zero_time = Inr ''0001-01-01T00:00:00Z''" by code_simp
  then obtain w where w: "visit_response ?resp fresh_writer = (None, w)" "\<forall>s. rw_body w \<noteq> [Text s]"
    by (simp add: visit_JSON_fresh json_PullRequestsResponse_def json_PullRequest_def demo_page_def
        demo_pull_request_def json_object_def json_array_def json_field_def omitempty_def json_time_def
        json_string_def json_int_def json_bool_def json_Pagination_def)
  have "first_route ?router demo_http_request fresh_writer (demo_http zero_time) = Some (Returned, w, s')"
    unfolding served_operation [OF first_route_chi empty_router(1) demo_http_operation]
    using w by (simp add: empty_router serve_operation_def demo_http_read run
        del: run_call.simps visit_response.simps)
  moreover have "\<forall>err. w \<noteq> http_Error err 400 fresh_writer"
    using w(2) by (auto simp: http_Error_def Write_body_def WriteHeader_def Header_Set_def fresh_writer_def)
  moreover have "times_ok ?resp"
    by (simp add: times_ok_def demo_page_def demo_pull_request_def times_PullRequest_def time_ok_def zero_time_def)
  then have "\<forall>read call resp. map_of operations (req_Method demo_http_request, req_Path demo_http_request) = Some read \<longrightarrow>
      read simple_binder (url_Query demo_http_request) = Inr call \<longrightarrow>
      run_call (\<lambda>_. Inr []) None call (demo_http zero_time) = Some (Ok resp, s') \<longrightarrow> times_ok resp"
    unfolding demo_http_operation using run by (auto simp: demo_http_read simp del: run_call.simps)
  ultimately show thesis by (rule that)
qed

lemma responses_conform_witness:
  "\<exists>w s'. first_route (HandlerFromMux simple_binder (BuildHandler_interface (\<lambda>_. Inr []) None) NewRouter)
      demo_http_request fresh_writer (demo_http zero_time) = Some (Returned, w, s') \<and>
    declared_response [(200, schema_PullRequestsResponse), (400, schema_Error), (401, schema_Error),
                       (404, schema_Error), (500, schema_Error)] w"
proof (rule demo_http_served)
  fix w s'
  assume served: "first_route (HandlerFromMux simple_binder (BuildHandler_interface (\<lambda>_. Inr []) None) NewRouter)
      demo_http_request fresh_writer (demo_http zero_time) = Some (Returned, w, s')"
    "\<forall>err. w \<noteq> http_Error err 400 fresh_writer"
    "\<forall>read call resp. map_of operations (req_Method demo_http_request, req_Path demo_http_request) = Some read \<longrightarrow>
       read simple_binder (url_Query demo_http_request) = Inr call \<longrightarrow>
       run_call (\<lambda>_. Inr []) None call (demo_http zero_time) = Some (Ok resp, s') \<longrightarrow> times_ok resp"
  from responses_conform [OF first_route_chi empty_router demo_http_openapi served(1,3)] served(1,2)
  show ?thesis by blast
qed

text \<open>Only success bodies can fail to encode.\<close>

lemma json_Error_encodes: "json_Error e \<noteq> Inl err"
  by (simp add: json_Error_def json_object_def json_field_def json_string_def)

lemma visit_response_fails:
  assumes "visit_response resp fresh_writer = (Some err, w)"
  shows "\<exists>code \<in> {200, 201}. \<exists>v. visit_JSON code v fresh_writer = (Some err, w)"
proof (cases resp)
  case (ListBranchesResponse v)
  with assms show ?thesis
    by (cases v) (simp_all add: visit_JSON_fresh json_Error_encodes)
next
  case (InvalidateCacheResponse v)
  with assms show ?thesis
    by (cases v) (simp_all add: visit_JSON_fresh json_Error_encodes)
next
  case (GetPipelineJobTraceResponse v)
  with assms show ?thesis
    by (cases v) (simp_all add: visit_JSON_fresh json_Error_encodes)
next
  case (ListPipelineJobsResponse v)
  with assms show ?thesis
    by (cases v) (simp_all add: visit_JSON_fresh json_Error_encodes)
next
  case (ListPipelinesResponse v)
  with assms show ?thesis
    by (cases v) (simp_all add: visit_JSON_fresh json_Error_encodes)
next
  case (ListPullRequestsResponse v)
  with assms show ?thesis
    by (cases v) (simp_all add: visit_JSON_fresh json_Error_encodes)
next
  case (ListRepositoriesResponse v)
  with assms show ?thesis
    by (cases v) (simp_all add: visit_JSON_fresh json_Error_encodes)
next
  case (GetRepositoryResponse v)
  with assms show ?thesis
    by (cases v) (simp_all add: visit_JSON_fresh json_Error_encodes)
next
  case (TriggerPipelineResponse v)
  with assms show ?thesis
    by (cases v) (simp_all add: visit_JSON_fresh json_Error_encodes)
next
  case (ListUserOrganizationsResponse v)
  with assms show ?thesis
    by (cases v) (simp_all add: visit_JSON_fresh json_Error_encodes)
qed (use assms in simp_all)

text \<open>C39: A response that cannot be encoded.  \<open>BuildHandler\<close> leaves the error handlers of the strict
  handler nil.  So when the body of a response cannot be encoded (a time in a zone of 24 hours, which
  the Bitbucket provider parses but \<open>encoding/json\<close> refuses, is one such value), the status line of a
  success has been sent, nothing follows it, and the request panics, with the state of the server
  already updated.\<close>

theorem unencodable_response_panics:
  assumes "chi_routes serve" "router_routes mux = []" "router_Use mux = []"
    and "map_of operations (req_Method r, req_Path r) = Some read" "read b (url_Query r) = Inr call"
    and "run_call jv joined call s = Some (Ok resp, s')" "fst (visit_response resp fresh_writer) \<noteq> None"
  shows "\<exists>w. serve (HandlerFromMux b (BuildHandler_interface jv joined) mux) r fresh_writer s =
      Some (Panicking, w, s') \<and>
    (\<exists>code \<in> {200, 201}. rw_sent w = Some (code, [''Content-Type'' \<mapsto> ''application/json''])) \<and>
    rw_body w = []"
proof -
  obtain err w where visit: "visit_response resp fresh_writer = (Some err, w)"
    using assms(7) by (cases "visit_response resp fresh_writer") auto
  have "\<exists>code \<in> {200, 201}. \<exists>v. visit_JSON code v fresh_writer = (Some err, w)"
    using visit by (rule visit_response_fails)
  then have "(\<exists>code \<in> {200, 201}. rw_sent w = Some (code, [''Content-Type'' \<mapsto> ''application/json''])) \<and>
      rw_body w = []"
    by (auto simp: visit_JSON_fresh)
  moreover have "serve (HandlerFromMux b (BuildHandler_interface jv joined) mux) r fresh_writer s =
      Some (Panicking, w, s')"
    unfolding served_operation [OF assms(1,2,4)]
    by (simp add: assms(3) serve_operation_def assms(5,6) visit)
  ultimately show ?thesis by blast
qed

lemma unencodable_response_panics_witness:
  "\<exists>t w s'. time_Parse_RFC3339Nano ''2024-05-01T10:00:00+24:00'' = Some t \<and>
    first_route (HandlerFromMux simple_binder (BuildHandler_interface (\<lambda>_. Inr []) None) NewRouter)
      demo_http_request fresh_writer (demo_http t) = Some (Panicking, w, s') \<and> rw_body w = []"
proof -
  obtain t where t: "time_Parse_RFC3339Nano ''2024-05-01T10:00:00+24:00'' = Some t"
      "time_MarshalJSON t = Inl ''Time.MarshalJSON: timezone hour outside of range [0,23]''"
  proof -
    have "map_option time_MarshalJSON (time_Parse_RFC3339Nano ''2024-05-01T10:00:00+24:00'') =
        Some (Inl ''Time.MarshalJSON: timezone hour outside of range [0,23]'')"
      by code_simp
    then show ?thesis using that by auto
  qed
  let ?resp = "ListPullRequestsResponse (ListPullRequests200JSONResponse (demo_page t))"
  obtain s' where run: "run_call (\<lambda>_. Inr []) None (ListPullRequestsRequestObject demo_params) (demo_http t) =
      Some (Ok ?resp, s')"
    using demo_http_run by blast
  have "fst (visit_response ?resp fresh_writer) \<noteq> None"
    using t(2) by (simp add: visit_JSON_def json_Encode_def json_PullRequestsResponse_def json_PullRequest_def
        demo_page_def demo_pull_request_def json_object_def json_array_def json_field_def omitempty_def
        json_time_def json_string_def)
  from unencodable_response_panics [OF first_route_chi empty_router demo_http_operation _ run this,
      where b = simple_binder] t(1)
  show ?thesis by (auto simp: demo_http_read)
qed

end
