(* ===== verification/Termination.thy ===== *)
theory Termination
  imports HttpApi
begin

text \<open>
  Every request is answered.  The only loops of the program whose end depends on the outside are the
  scans over pages: those over GitHub's and Bitbucket's pages are the program's own
  (\<open>pkg/github/pagination.go\<close>, \<open>pkg/bitbucket/pagination.go\<close>) and end when the page numbers count up
  to a last page; those over GitLab's are the library's \<open>Scan2\<close>.  Under this assumption on the
  environment, each operation returns from any state of its caches, and so does any sequence of
  requests.
\<close>

section \<open>Pages that end\<close>

definition gh_pages_end :: "'a gh_fetch \<Rightarrow> bool" where
  "gh_pages_end fetchPage \<longleftrightarrow>
     (\<exists>last. \<forall>n opt items resp. fetchPage n opt = Inr (items, resp) \<longrightarrow>
        resp_NextPage resp = 0 \<or> (gh_Page opt < resp_NextPage resp \<and> resp_NextPage resp \<le> last))"

text \<open>Bitbucket reports the page it answers with, which is not before the one that was asked for.\<close>

definition bb_pages_end :: "'a bb_fetch \<Rightarrow> bool" where
  "bb_pages_end fetchPage \<longleftrightarrow>
     (\<exists>last < 2 ^ 63 - 1. \<forall>n rbo resp. fetchPage n rbo = Inr resp \<longrightarrow>
        bb_Next resp = [] \<or>
        (0 \<le> bb_Page resp \<and> bb_PageNum rbo \<le> bb_Page resp \<and> bb_Page resp \<le> last))"

text \<open>An iterator of the library returns whatever is done in its loop body.\<close>

definition scan_returns :: "('s, 'a) scan \<Rightarrow> bool" where
  "scan_returns scan \<longleftrightarrow> (\<forall>yield s. scan yield s \<noteq> None)"

text \<open>What the environment owes: every list it pages through comes to an end.\<close>

definition github_ends :: "gh_api \<Rightarrow> bool" where
  "github_ends client \<longleftrightarrow>
     (\<forall>owner. gh_pages_end (Repositories_ListByOrg client owner)) \<and>
     (\<forall>owner. gh_pages_end (Repositories_ListByUser client owner)) \<and>
     (\<forall>state. gh_pages_end (Organizations_ListOrgMemberships client state)) \<and>
     (\<forall>owner repo. gh_pages_end (Repositories_ListBranches client owner repo))"

definition gitlab_ends :: "'p Env \<Rightarrow> 'p gl_api \<Rightarrow> bool" where
  "gitlab_ends env client \<longleftrightarrow>
     (\<forall>owner opts. scan_returns (env_scan_projects env (gitlab_projects_page client owner opts))) \<and>
     scan_returns (env_scan_groups env (Groups_ListGroups client)) \<and>
     (\<forall>project. scan_returns (env_scan_branches env (\<lambda>n p. Branches_ListBranches client n project p))) \<and>
     (\<forall>project ident. scan_returns
        (env_scan_jobs env (\<lambda>n p. Jobs_ListPipelineJobs client n project ident 100 p)))"

definition pages_end :: "'p Env \<Rightarrow> bool" where
  "pages_end env \<longleftrightarrow>
     (\<forall>token. github_ends (env_github env token)) \<and>
     (\<forall>token url client. env_gitlab env token url = Inr client \<longrightarrow> gitlab_ends env client) \<and>
     (\<forall>username password client. env_bitbucket env username password = Inr client \<longrightarrow>
        bb_pages_end (Repository_ListBranches client))"

section \<open>The scans\<close>

lemma gh_pages_end_events: "gh_pages_end fetchPage \<Longrightarrow> \<exists>evs. github_events fetchPage n opt = Some evs"
  unfolding gh_pages_end_def by (elim exE) (rule github_events_terminates, blast)

lemma bb_pages_end_events:
  assumes "bb_pages_end fetchPage"
  shows "\<exists>evs. bitbucket_events fetchPage n rbo = Some evs"
proof -
  obtain last where last: "last < 2 ^ 63 - 1"
    and pages: "\<And>n rbo resp. fetchPage n rbo = Inr resp \<Longrightarrow> bb_Next resp \<noteq> [] \<Longrightarrow>
        0 \<le> bb_Page resp \<and> bb_PageNum rbo \<le> bb_Page resp \<and> bb_Page resp \<le> last"
    using assms unfolding bb_pages_end_def by blast
  show ?thesis
  proof (induction "nat (last + 1 - bb_PageNum rbo)" arbitrary: n rbo rule: less_induct)
    case less
    show ?case
    proof (cases "fetchPage n rbo")
      case (Inl e)
      then show ?thesis by (simp add: bitbucket_events.simps)
    next
      case (Inr resp)
      show ?thesis
      proof (cases "bb_Next resp = []")
        case True
        with Inr show ?thesis by (simp add: bitbucket_events.simps)
      next
        case False
        have page: "0 \<le> bb_Page resp" "bb_PageNum rbo \<le> bb_Page resp" "bb_Page resp \<le> last"
          using pages [OF Inr False] by auto
        from page last have next_page: "go_add (bb_Page resp) 1 = bb_Page resp + 1"
          by (intro go_arith_id) (simp add: in_int64_def)
        with page have "nat (last + 1 - go_add (bb_Page resp) 1) < nat (last + 1 - bb_PageNum rbo)"
          by simp
        then obtain evs where "bitbucket_events fetchPage (Suc n)
            (rbo\<lparr>bb_PageNum := go_add (bb_Page resp) 1\<rparr>) = Some evs"
          using less [of "rbo\<lparr>bb_PageNum := go_add (bb_Page resp) 1\<rparr>" "Suc n"] by auto
        with Inr False show ?thesis by (simp add: bitbucket_events.simps [of _ n])
      qed
    qed
  qed
qed

lemma scan_returns_range_collect: "scan_returns scan \<Longrightarrow> range_collect scan wrap f \<noteq> None"
  by (simp add: scan_returns_def range_collect_def)

lemma gh_pages_end_collect:
  "gh_pages_end fetchPage \<Longrightarrow> range_collect (ScanGitHubList fetchPage opts) wrap f \<noteq> None"
  using gh_pages_end_events [of fetchPage 0 "fold (\<lambda>o1 opt. o1 opt) opts \<lparr>gh_Page = 0, gh_PerPage = 100\<rparr>"]
    github_list.range_collect_events [of "(fetchPage, opts)" _ wrap f]
  by auto

lemma bb_pages_end_collect:
  "bb_pages_end fetchPage \<Longrightarrow> range_collect (ScanBitbucketBranches fetchPage rbo) wrap f \<noteq> None"
  using bb_pages_end_events [of fetchPage 0 rbo]
    bitbucket_branches.range_collect_events [of "(fetchPage, rbo)" _ wrap f]
  by auto

section \<open>The providers\<close>

lemma repositories_return:
  assumes "pages_end env" "repositories_providers env name = Some provider"
  shows "RP_ListRepositories provider owner settings opts \<noteq> None"
proof -
  have "GitHub_ListRepositories (env_github env) (env_lower env) owner settings opts \<noteq> None"
  proof -
    let ?client = "env_github env (Settings_Token settings)"
    have "gh_pages_end (if Organizations_Get ?client owner = None then Repositories_ListByOrg ?client owner
        else Repositories_ListByUser ?client owner)"
      using assms(1) by (simp add: pages_end_def github_ends_def)
    then obtain evs where "repository_events owner ?client = Some evs"
      using gh_pages_end_events by (fastforce simp: repository_events_def)
    then show ?thesis
      by (simp add: GitHub_ListRepositories_def
          repository_list.range_collect_events [of "(env_lower env, opts, owner, ?client)", simplified])
  qed
  moreover have "GitLab_ListRepositories (env_gitlab env) (env_scan_projects env) owner settings opts \<noteq> None"
    using assms(1)
    by (auto simp: GitLab_ListRepositories_def newGitlabClient_def pages_end_def gitlab_ends_def
        simp del: not_None_eq intro!: scan_returns_range_collect split: sum.split)
  ultimately show ?thesis
    using assms(2) by (auto simp: repositories_providers_def split: if_splits)
qed

lemma organizations_return:
  assumes "pages_end env" "organizations_providers env name = Some provider"
  shows "provider settings \<noteq> None"
proof -
  have "GitHub_ListUserOrganizations (env_github env) (env_user_first env) settings \<noteq> None"
    using assms(1) by (simp add: GitHub_ListUserOrganizations_def Let_def pages_end_def github_ends_def
        gh_pages_end_collect del: not_None_eq)
  moreover have "GitLab_ListUserOrganizations (env_gitlab env) (env_scan_groups env) settings \<noteq> None"
    using assms(1)
    by (auto simp: GitLab_ListUserOrganizations_def newGitlabClient_def pages_end_def gitlab_ends_def
        simp del: not_None_eq intro!: scan_returns_range_collect split: sum.split)
  ultimately show ?thesis
    using assms(2) by (auto simp: organizations_providers_def split: if_splits)
qed

lemma branches_return:
  assumes "pages_end env" "branches_providers env name = Some provider"
  shows "provider owner repo settings opts \<noteq> None"
proof -
  have "GitHub_ListBranches (env_github env) owner repo settings opts \<noteq> None"
    using assms(1) by (simp add: GitHub_ListBranches_def pages_end_def github_ends_def
        gh_pages_end_collect del: not_None_eq)
  moreover have "GitLab_ListBranches (env_gitlab env) (env_scan_branches env) owner repo settings opts \<noteq> None"
    using assms(1)
    by (auto simp: GitLab_ListBranches_def newGitlabClient_def pages_end_def gitlab_ends_def
        simp del: not_None_eq intro!: scan_returns_range_collect split: sum.split)
  moreover have "Bitbucket_ListBranches (env_b64err env) (env_bitbucket env) owner repo settings opts \<noteq> None"
    using assms(1)
    by (auto simp: Bitbucket_ListBranches_def pages_end_def
        simp del: not_None_eq intro!: bb_pages_end_collect split: res.split sum.split)
  ultimately show ?thesis
    using assms(2) by (auto simp: branches_providers_def split: if_splits)
qed

lemma pipeline_jobs_return:
  assumes "pages_end env" "pipeline_providers env name = Some provider" "PP_jobs provider = Some jp"
  shows "PJ_ListPipelineJobs jp project ident settings \<noteq> None"
proof -
  have "GitLab_ListPipelineJobs (env_gitlab env) (env_scan_jobs env) project ident settings \<noteq> None"
    using assms(1)
    by (auto simp: GitLab_ListPipelineJobs_def newGitlabClient_def pages_end_def gitlab_ends_def
        scan_returns_def simp del: not_None_eq split: sum.split)
  then show ?thesis
    using assms(2,3) by (auto simp: pipeline_providers_def split: if_splits)
qed

section \<open>The services\<close>

text \<open>A server whose services ask the providers of an environment, as \<open>BuildHandler\<close> makes it.\<close>

definition provided_by :: "'p Env \<Rightarrow> Server \<Rightarrow> bool" where
  "provided_by env s \<longleftrightarrow>
     mr_providers (srv_repositories s) = repositories_providers env \<and>
     mo_providers (srv_organizations s) = organizations_providers env \<and>
     mb_providers (srv_branches s) = branches_providers env \<and>
     mp_providers (srv_pullrequests s) = pullrequests_providers env \<and>
     mpl_providers (srv_pipelines s) = pipeline_providers env"

lemma built_provided_by: "BuildHandler env lib kube url field conf = Inr s \<Longrightarrow> provided_by env s"
  by (auto simp: BuildHandler_def provided_by_def NewMultiProviderRepositoryService_def
      NewMultiProviderOrganizationsService_def NewMultiProviderBranchesService_def
      NewMultiProviderPullRequestsService_def NewMultiProviderPipelineService_def split: sum.splits)

text \<open>An operation returns, and what it leaves behind is \<open>Q\<close>.\<close>

definition returns :: "('m \<Rightarrow> bool) \<Rightarrow> ('a \<times> 'm) option \<Rightarrow> bool" where
  "returns Q x \<longleftrightarrow> (case x of None \<Rightarrow> False | Some (r, m) \<Rightarrow> Q m)"

lemma returns_simps [simp]:
  "returns Q None = False"
  "returns Q (Some (r, m)) = Q m"
  "returns Q (map_option (\<lambda>(r, m). (f r m, g r m)) x) = (case x of None \<Rightarrow> False | Some (r, m) \<Rightarrow> Q (g r m))"
  by (auto simp: returns_def split: option.splits)

lemma returns_with_settings:
  assumes "\<And>settings. returns Q (f settings)" "Q m"
  shows "returns (\<lambda>(m', g'). Q m') (with_settings g name m f)"
proof -
  obtain r g' where settings: "GetGitProviderSettings g name = (r, g')" by fastforce
  show ?thesis
  proof (cases r)
    case (Ok s1)
    then show ?thesis
      using settings assms(1) [of s1] by (auto simp: with_settings_def returns_def split: option.splits)
  qed (simp_all add: with_settings_def settings assms(2))
qed

lemma returns_GetOrFetch:
  "fetched \<noteq> None \<Longrightarrow> returns (\<lambda>_. True) (GetOrFetch_pure c key fetched)"
  by (auto simp: GetOrFetch_pure_def GetOrFetch_def returns_def split: get_or_fetch.split prod.split)

lemma returns_updated:
  assumes "returns (\<lambda>_. True) x" "\<And>c. Q (g c)"
  shows "returns Q (map_option (\<lambda>(r, c). (r, g c)) x)"
  using assms by (auto simp: returns_def split: option.splits)

lemma MultiProviders_return:
  assumes "pages_end env"
  shows "mr_providers mr = repositories_providers env \<Longrightarrow>
      returns (\<lambda>m'. mr_providers m' = repositories_providers env)
        (MultiProvider_ListRepositories mr owner settings opts)"
    and "mo_providers mo = organizations_providers env \<Longrightarrow>
      returns (\<lambda>m'. mo_providers m' = organizations_providers env)
        (MultiProvider_ListUserOrganizations mo settings)"
    and "mb_providers mb = branches_providers env \<Longrightarrow>
      returns (\<lambda>m'. mb_providers m' = branches_providers env)
        (MultiProvider_ListBranches mb owner repo settings opts)"
    and "mp_providers mp = pullrequests_providers env \<Longrightarrow>
      returns (\<lambda>m'. mp_providers m' = pullrequests_providers env)
        (MultiProvider_ListPullRequests mp owner repo settings propts)"
    and "mpl_providers ml = pipeline_providers env \<Longrightarrow>
      returns (\<lambda>m'. mpl_providers m' = pipeline_providers env)
        (MultiProvider_ListPipelines ml project settings plopts)"
  by (auto simp: MultiProvider_ListRepositories_def MultiProvider_ListUserOrganizations_def
      MultiProvider_ListBranches_def MultiProvider_ListPullRequests_def MultiProvider_ListPipelines_def
      simp del: returns_simps(3)
      intro!: returns_updated returns_GetOrFetch repositories_return [OF assms, unfolded not_None_eq]
        organizations_return [OF assms, unfolded not_None_eq] branches_return [OF assms, unfolded not_None_eq]
      split: option.split)

lemma ListPipelineJobs_returns:
  assumes "pages_end env" "mpl_providers m = pipeline_providers env"
  shows "returns (\<lambda>m'. mpl_providers m' = pipeline_providers env)
    (MultiProvider_ListPipelineJobs m project ident settings)"
proof (cases "jobsProvider m (Settings_GitProvider settings)")
  case (Inr jp)
  then have "PJ_ListPipelineJobs jp project ident settings \<noteq> None"
    using pipeline_jobs_return [OF assms(1)] assms(2)
    by (auto simp: jobsProvider_def split: option.splits)
  with Inr assms(2) show ?thesis
    by (auto simp: MultiProvider_ListPipelineJobs_def jobs_fetch_def GetOrFetch_def
        split: get_or_fetch.split res.split prod.split)
qed (simp add: assms(2) MultiProvider_ListPipelineJobs_def)

lemma GetJobTrace_providers:
  "mpl_providers (snd (MultiProvider_GetJobTrace m joined project ident settings)) = mpl_providers m"
  by (simp add: MultiProvider_GetJobTrace_def trace_flight_def Let_def
      split: sum.split prod.split option.split res.split)

section \<open>The server\<close>

lemma returns_handler:
  assumes "returns (\<lambda>(m, g). Q m) x" "\<And>r m g. Q m \<Longrightarrow> P (upd m g)"
  shows "returns P (map_option (\<lambda>(r, m, g). (f r, upd m g)) x)"
  using assms by (auto simp: returns_def split: option.splits)

lemmas services_def =
  RepositoriesService_ListRepositories_def RepositoriesService_GetRepository_def
  OrganizationsService_ListUserOrganizations_def BranchesService_ListBranches_def
  PullRequestsService_ListPullRequests_def PipelinesService_TriggerPipeline_def
  PipelinesService_ListPipelines_def PipelinesService_ListPipelineJobs_def PipelinesService_GetJobTrace_def

lemmas services_return =
  returns_with_settings [OF MultiProviders_return(1)] returns_with_settings [OF MultiProviders_return(2)]
  returns_with_settings [OF MultiProviders_return(3)] returns_with_settings [OF MultiProviders_return(4)]
  returns_with_settings [OF MultiProviders_return(5)] returns_with_settings [OF ListPipelineJobs_returns]

lemma listings_return:
  assumes "pages_end env" "provided_by env s"
  shows "returns (provided_by env) (ListRepositories rp s)"
    and "returns (provided_by env) (ListUserOrganizations op s)"
    and "returns (provided_by env) (ListBranches bp s)"
    and "returns (provided_by env) (ListPullRequests pp s)"
    and "returns (provided_by env) (ListPipelines lp s)"
    and "returns (provided_by env) (ListPipelineJobs jp s)"
proof -
  note prov = assms(2) [unfolded provided_by_def]
  show "returns (provided_by env) (ListRepositories rp s)"
    unfolding ListRepositories_def services_def
    by (rule returns_handler [OF services_return(1)]) (use assms prov in \<open>simp_all add: provided_by_def\<close>)
  show "returns (provided_by env) (ListUserOrganizations op s)"
    unfolding ListUserOrganizations_def services_def
    by (rule returns_handler [OF services_return(2)]) (use assms prov in \<open>simp_all add: provided_by_def\<close>)
  show "returns (provided_by env) (ListBranches bp s)"
    unfolding ListBranches_def services_def
    by (rule returns_handler [OF services_return(3)]) (use assms prov in \<open>simp_all add: provided_by_def\<close>)
  show "returns (provided_by env) (ListPullRequests pp s)"
  proof (cases "clampPagination (lrp_Page pp) (lrp_PerPage pp)")
    case (Pair page perPage)
    show ?thesis
      unfolding ListPullRequests_def services_def Let_def Pair prod.case
      by (rule returns_handler [OF services_return(4)]) (use assms prov in \<open>simp_all add: provided_by_def\<close>)
  qed
  show "returns (provided_by env) (ListPipelines lp s)"
  proof (cases "clampPagination (lpp_Page lp) (lpp_PerPage lp)")
    case (Pair page perPage)
    show ?thesis
      unfolding ListPipelines_def services_def Let_def Pair prod.case
      by (rule returns_handler [OF services_return(5)]) (use assms prov in \<open>simp_all add: provided_by_def\<close>)
  qed
  show "returns (provided_by env) (ListPipelineJobs jp s)"
  proof (cases "strconv_Atoi (ljp_PipelineId jp)")
    case (Some ident)
    then show ?thesis
      unfolding ListPipelineJobs_def services_def option.case(2)
      by (simp del: returns_simps(3), intro returns_handler [OF services_return(6)])
        (use assms prov in \<open>simp_all add: provided_by_def\<close>)
  qed (simp add: ListPipelineJobs_def assms(2))
qed

text \<open>The operations without a loop.\<close>

lemma single_calls_return:
  assumes "provided_by env s"
  shows "returns (provided_by env) (GetRepository gp s)"
    and "returns (provided_by env) (TriggerPipeline jv tp s)"
    and "returns (provided_by env) (GetPipelineJobTrace joined tj s)"
    and "provided_by env (snd (InvalidateCache_handler ip s))"
proof -
  note prov = assms [unfolded provided_by_def]
  show "returns (provided_by env) (GetRepository gp s)"
    unfolding GetRepository_def services_def
    by (rule returns_handler [OF returns_with_settings
          [where Q = "\<lambda>m. mr_providers m = repositories_providers env"]])
      (use prov in \<open>simp_all add: provided_by_def\<close>)
  have trigger: "returns (\<lambda>(m, g). mpl_providers m = pipeline_providers env)
      (PipelinesService_TriggerPipeline (srv_pipelines s) (srv_gitServers s) server project ref variables)"
    for server project ref variables
    unfolding services_def by (rule returns_with_settings) (use prov in simp_all)
  show "returns (provided_by env) (TriggerPipeline jv tp s)"
    unfolding TriggerPipeline_def
    by (auto simp: assms simp del: returns_simps(3) split: sum.split
        intro!: returns_handler [OF trigger]) (use prov in \<open>simp_all add: provided_by_def\<close>)
  have trace: "returns (\<lambda>(m, g). mpl_providers m = pipeline_providers env)
      (PipelinesService_GetJobTrace (srv_pipelines s) (srv_gitServers s) joined server project ident)"
    for server project ident
    unfolding services_def
    by (rule returns_with_settings) (use prov in \<open>simp_all add: returns_def case_prod_beta GetJobTrace_providers\<close>)
  show "returns (provided_by env) (GetPipelineJobTrace joined tj s)"
    unfolding GetPipelineJobTrace_def
    by (auto simp: assms simp del: returns_simps(3) split: option.split
        intro!: returns_handler [OF trace]) (use prov in \<open>simp_all add: provided_by_def\<close>)
  show "provided_by env (snd (InvalidateCache_handler ip s))"
    using prov by (simp add: InvalidateCache_handler_def InvalidateCache_def update_caches_def
        cacheManager_def provided_by_def Let_def)
qed

lemma returns_mapped: "returns Q x \<Longrightarrow> returns Q (map_option (\<lambda>(r, s'). (f r, s')) x)"
  by (auto simp: returns_def split: option.splits)

lemma run_call_returns:
  assumes "pages_end env" "provided_by env s"
  shows "returns (provided_by env) (run_call jv joined call s)"
proof (cases call)
  case (InvalidateCacheRequestObject p)
  with single_calls_return(4) [OF assms(2), of p] show ?thesis
    by (auto split: prod.split)
qed (use listings_return [OF assms] single_calls_return [OF assms(2)] in
      \<open>simp_all add: returns_mapped del: returns_simps(3)\<close>)

text \<open>A request to an operation is answered, whatever its parameters are.\<close>

lemma serve_operation_returns:
  assumes "pages_end env" "provided_by env s"
  shows "\<exists>out w' s'. serve_operation jv joined read r w s = Some (out, w', s') \<and> provided_by env s'"
proof (cases "read (url_Query r)")
  case (Inl err)
  with assms(2) show ?thesis by (simp add: serve_operation_def)
next
  case (Inr call)
  from run_call_returns [OF assms, of jv joined call]
  obtain result s' where run: "run_call jv joined call s = Some (result, s')" "provided_by env s'"
    by (auto simp: returns_def split: option.splits)
  with Inr show ?thesis
    by (auto simp: serve_operation_def split: res.split prod.split option.split)
qed

text \<open>HTTP requests in a row, each with the flight it may join, against the routed server.\<close>

fun serve_requests ::
    "(Server Router \<Rightarrow> Server http_handler) \<Rightarrow> param_binder \<Rightarrow> (string \<Rightarrow> go_error + PipelineVariable list)
     \<Rightarrow> (JobTrace result option \<times> Request) list \<Rightarrow> Server
     \<Rightarrow> ((outcome \<times> ResponseWriter) list \<times> Server) option" where
  "serve_requests serve b jv [] s = Some ([], s)"
| "serve_requests serve b jv ((joined, r) # reqs) s =
     Option.bind (serve (HandlerFromMux b (BuildHandler_interface jv joined) NewRouter) r fresh_writer s)
       (\<lambda>(out, w, s'). map_option (\<lambda>(answers, s''). ((out, w) # answers, s''))
          (serve_requests serve b jv reqs s'))"

lemma serve_requests_return:
  assumes "chi_routes serve" "pages_end env" "provided_by env s"
    and "\<forall>(joined, r) \<in> set reqs. (req_Method r, req_Path r) \<in> fst ` set operations"
  shows "\<exists>answers s'. serve_requests serve b jv reqs s = Some (answers, s') \<and> length answers = length reqs"
  using assms(3,4)
proof (induction reqs arbitrary: s)
  case (Cons req reqs)
  obtain joined r where req: "req = (joined, r)" by (cases req)
  with Cons.prems(2) obtain read where "map_of operations (req_Method r, req_Path r) = Some read"
    by (auto dest!: map_of_is_SomeI [OF operations_keys(1)])
  note served = served_operation [OF assms(1) _ this, of NewRouter]
  obtain out w s1 where "serve (HandlerFromMux b (BuildHandler_interface jv joined) NewRouter) r fresh_writer s
      = Some (out, w, s1)" "provided_by env s1"
    using serve_operation_returns [OF assms(2) Cons.prems(1), of jv joined "read b" r fresh_writer] served
    by (auto simp: NewRouter_def)
  with Cons.IH [of s1] Cons.prems(2) req show ?case by auto
qed simp

end
