(* ===== verification/MainProgram.thy ===== *)
theory MainProgram
  imports HttpApi
begin

text \<open>
  \<open>cmd/gitfusion-api/main.go\<close>: how the process starts, the middlewares around the API, and how it
  stops.  After the start three goroutines run: \<open>main\<close> in \<open>ListenAndServe\<close>, one that waits for a
  signal and then shuts the server down within 30 seconds, and one that watches this deadline.
  They are a transition system: one event is one step of a goroutine, of the HTTP server
  (\<open>net/http\<close>'s documented \<open>Shutdown\<close>) or of the clock.  \<open>log.Fatal\<close> ends the process with status 1.
  Logging is left out.
\<close>

section \<open>Start\<close>

text \<open>What \<open>initLogger\<close> hands to the logging library; durations are in nanoseconds.\<close>

definition time_Second :: int where
  "time_Second = 1000000000"

datatype slog_Level = LevelDebug | LevelInfo | LevelWarn | LevelError

record httplog_Options =
  log_JSON :: bool
  log_LogLevel :: slog_Level
  log_Concise :: bool
  log_RequestHeaders :: bool
  log_TimeFieldFormat :: string
  log_Tags :: "string \<rightharpoonup> string"
  log_QuietDownRoutes :: "string list"
  log_QuietDownPeriod :: int
  log_SourceFieldName :: string

definition initLogger :: "(string \<Rightarrow> httplog_Options \<Rightarrow> 'logger) \<Rightarrow> Config \<Rightarrow> 'logger" where
  "initLogger newLogger config =
     newLogger ''gitfusion-api''
       \<lparr>log_JSON = True, log_LogLevel = LevelDebug, log_Concise = True, log_RequestHeaders = False,
        log_TimeFieldFormat = ''2006-01-02T15:04:05Z07:00'',
        log_Tags = [''ns'' \<mapsto> Config_Namespace config],
        log_QuietDownRoutes = [''/'', ''/health''],
        log_QuietDownPeriod = 10 * time_Second,
        log_SourceFieldName = ''source''\<rparr>"

text \<open>The middlewares are libraries; \<open>Use\<close> registers them in this order.\<close>

record ('logger, 's) main_middlewares =
  mw_RequestID :: "'s http_handler \<Rightarrow> 's http_handler"
  mw_RequestLogger :: "'logger \<Rightarrow> 's http_handler \<Rightarrow> 's http_handler"
  mw_Recoverer :: "'s http_handler \<Rightarrow> 's http_handler"
  mw_Timeout :: "int \<Rightarrow> 's http_handler \<Rightarrow> 's http_handler"
  mw_Heartbeat :: "string \<Rightarrow> 's http_handler \<Rightarrow> 's http_handler"

definition main_mux :: "('logger, 's) main_middlewares \<Rightarrow> 'logger \<Rightarrow> 's Router" where
  "main_mux mws logger =
     \<lparr>router_Use = [mw_RequestID mws, mw_RequestLogger mws logger, mw_Recoverer mws,
                   mw_Timeout mws (60 * time_Second), mw_Heartbeat mws ''/healthz''],
      router_routes = []\<rparr>"

definition main_handler ::
  "param_binder \<Rightarrow> ('logger, 's) main_middlewares \<Rightarrow> 'logger \<Rightarrow> 's ServerInterface \<Rightarrow> 's Router" where
  "main_handler b mws logger handler = HandlerFromMux b handler (main_mux mws logger)"

text \<open>A request to an operation passes the middlewares in the order of their registration, and the
  innermost one hands it to the operation.\<close>

lemma main_handler_serves:
  assumes "chi_routes serve" "map_of operations (req_Method r, req_Path r) = Some read"
  shows "serve (main_handler b mws logger (BuildHandler_interface jv joined)) r w s =
    mw_RequestID mws (mw_RequestLogger mws logger (mw_Recoverer mws (mw_Timeout mws (60 * time_Second)
      (mw_Heartbeat mws ''/healthz'' (serve_operation jv joined (read b)))))) r w s"
  using served_operation [OF assms(1) _ assms(2), of "main_mux mws logger"]
  by (simp add: main_handler_def main_mux_def)

datatype main_pc = Serving | Waiting
datatype signal_pc = AwaitSignal | InShutdown | Stopping | Cancelling | SignalDone
datatype watch_pc = NotStarted | Watching | WatchDone
datatype shutdown_ctx = NoContext | Active | DeadlineExceeded | Canceled

text \<open>
  \<open>proc_accepting\<close> and \<open>proc_inflight\<close> are the HTTP server's: whether its listener is open and how many
  requests it is serving.  \<open>proc_server_done\<close> is the cancellation of \<open>serverCtx\<close>.
\<close>

record process =
  proc_Addr :: string
  proc_main :: main_pc
  proc_signal :: signal_pc
  proc_watch :: watch_pc
  proc_accepting :: bool
  proc_inflight :: nat
  proc_shutdown_ctx :: shutdown_ctx
  proc_server_done :: bool
  proc_exit :: "int option"

text \<open>Up to \<open>ListenAndServe\<close>: a missing namespace and a failing \<open>BuildHandler\<close> are fatal.\<close>

definition main_start :: "(string \<Rightarrow> string) \<Rightarrow> (Config \<Rightarrow> go_error + 'h) \<Rightarrow> process" where
  "main_start getenv build =
     (let started = (\<lambda>addr exit.
            \<lparr>proc_Addr = addr, proc_main = Serving, proc_signal = AwaitSignal, proc_watch = NotStarted,
             proc_accepting = True, proc_inflight = 0, proc_shutdown_ctx = NoContext,
             proc_server_done = False, proc_exit = exit\<rparr>)
      in case GetConfigOrDie getenv of
           None \<Rightarrow> started [] (Some 1)
         | Some conf \<Rightarrow>
             (case build conf of
                Inl err \<Rightarrow> started [] (Some 1)
              | Inr handler \<Rightarrow> started ('':'' @ Config_Port conf) None))"

section \<open>Steps\<close>

datatype main_event =
    RequestArrives | RequestDone | ListenFails | SignalArrives | ListenReturns | DeadlinePasses
  | ShutdownReturns | ShutdownFails | ServerStops | ShutdownCanceled | WatchSeesDeadline
  | WatchSeesCancel | MainReturns

text \<open>
  \<open>Shutdown\<close> closes the listener, which makes \<open>ListenAndServe\<close> return \<open>ErrServerClosed\<close>; it returns
  nil, or an error of closing the listener, once no request is left, and the error of its context
  when that ends first.  Signals after the first one are not read.  \<open>serverStopCtx\<close> also cancels the
  context derived from \<open>serverCtx\<close>, unless its deadline has passed already.
\<close>

inductive main_step :: "process \<Rightarrow> main_event \<Rightarrow> process \<Rightarrow> bool" where
  request_arrives:
    "proc_exit s = None \<Longrightarrow> proc_accepting s \<Longrightarrow>
     main_step s RequestArrives (s\<lparr>proc_inflight := Suc (proc_inflight s)\<rparr>)"
| request_done:
    "proc_exit s = None \<Longrightarrow> proc_inflight s = Suc n \<Longrightarrow>
     main_step s RequestDone (s\<lparr>proc_inflight := n\<rparr>)"
| listen_fails:
    "proc_exit s = None \<Longrightarrow> proc_main s = Serving \<Longrightarrow> proc_accepting s \<Longrightarrow>
     main_step s ListenFails (s\<lparr>proc_exit := Some 1\<rparr>)"
| signal_arrives:
    "proc_exit s = None \<Longrightarrow> proc_signal s = AwaitSignal \<Longrightarrow>
     main_step s SignalArrives
       (s\<lparr>proc_signal := InShutdown, proc_watch := Watching, proc_accepting := False,
          proc_shutdown_ctx := Active\<rparr>)"
| listen_returns:
    "proc_exit s = None \<Longrightarrow> proc_main s = Serving \<Longrightarrow> \<not> proc_accepting s \<Longrightarrow>
     main_step s ListenReturns (s\<lparr>proc_main := Waiting\<rparr>)"
| deadline_passes:
    "proc_exit s = None \<Longrightarrow> proc_shutdown_ctx s = Active \<Longrightarrow>
     main_step s DeadlinePasses (s\<lparr>proc_shutdown_ctx := DeadlineExceeded\<rparr>)"
| shutdown_returns:
    "proc_exit s = None \<Longrightarrow> proc_signal s = InShutdown \<Longrightarrow> proc_inflight s = 0 \<Longrightarrow>
     main_step s ShutdownReturns (s\<lparr>proc_signal := Stopping\<rparr>)"
| shutdown_fails:
    "proc_exit s = None \<Longrightarrow> proc_signal s = InShutdown \<Longrightarrow>
     proc_inflight s = 0 \<or> proc_shutdown_ctx s = DeadlineExceeded \<Longrightarrow>
     main_step s ShutdownFails (s\<lparr>proc_exit := Some 1\<rparr>)"
| server_stops:
    "proc_exit s = None \<Longrightarrow> proc_signal s = Stopping \<Longrightarrow>
     main_step s ServerStops
       (s\<lparr>proc_signal := Cancelling, proc_server_done := True,
          proc_shutdown_ctx :=
            (if proc_shutdown_ctx s = Active then Canceled else proc_shutdown_ctx s)\<rparr>)"
| shutdown_canceled:
    "proc_exit s = None \<Longrightarrow> proc_signal s = Cancelling \<Longrightarrow>
     main_step s ShutdownCanceled
       (s\<lparr>proc_signal := SignalDone,
          proc_shutdown_ctx :=
            (if proc_shutdown_ctx s = Active then Canceled else proc_shutdown_ctx s)\<rparr>)"
| watch_sees_deadline:
    "proc_exit s = None \<Longrightarrow> proc_watch s = Watching \<Longrightarrow> proc_shutdown_ctx s = DeadlineExceeded \<Longrightarrow>
     main_step s WatchSeesDeadline (s\<lparr>proc_exit := Some 1\<rparr>)"
| watch_sees_cancel:
    "proc_exit s = None \<Longrightarrow> proc_watch s = Watching \<Longrightarrow> proc_shutdown_ctx s = Canceled \<Longrightarrow>
     main_step s WatchSeesCancel (s\<lparr>proc_watch := WatchDone\<rparr>)"
| main_returns:
    "proc_exit s = None \<Longrightarrow> proc_main s = Waiting \<Longrightarrow> proc_server_done s \<Longrightarrow>
     main_step s MainReturns (s\<lparr>proc_exit := Some 0\<rparr>)"

inductive main_run :: "process \<Rightarrow> main_event list \<Rightarrow> process \<Rightarrow> bool" where
  run_nil: "main_run s [] s"
| run_snoc: "main_run s evs s' \<Longrightarrow> main_step s' ev s'' \<Longrightarrow> main_run s (evs @ [ev]) s''"

text \<open>What holds in every state of a run from the start.\<close>

definition main_inv :: "process \<Rightarrow> bool" where
  "main_inv s \<longleftrightarrow>
     (proc_exit s \<in> {None, Some 0, Some 1}) \<and>
     (proc_accepting s \<longleftrightarrow> proc_signal s = AwaitSignal) \<and>
     (proc_signal s = AwaitSignal \<longleftrightarrow> proc_shutdown_ctx s = NoContext) \<and>
     (proc_signal s = AwaitSignal \<longleftrightarrow> proc_watch s = NotStarted) \<and>
     (proc_signal s = AwaitSignal \<longrightarrow> proc_main s = Serving) \<and>
     (proc_signal s = InShutdown \<longrightarrow> proc_shutdown_ctx s \<in> {Active, DeadlineExceeded}) \<and>
     (proc_server_done s \<longleftrightarrow> proc_signal s \<in> {Cancelling, SignalDone}) \<and>
     (proc_signal s \<in> {Stopping, Cancelling, SignalDone} \<longrightarrow> proc_inflight s = 0) \<and>
     (proc_exit s = Some 0 \<longrightarrow> proc_server_done s)"

lemma main_inv_start: "main_inv (main_start getenv build)"
  by (simp add: main_inv_def main_start_def Let_def split: option.split sum.split)

lemma main_inv_step: "main_step s ev s' \<Longrightarrow> main_inv s \<Longrightarrow> main_inv s'"
  by (induction rule: main_step.induct) (auto simp: main_inv_def)

lemma main_inv_run: "main_run s evs s' \<Longrightarrow> main_inv s \<Longrightarrow> main_inv s'"
  by (induction rule: main_run.induct) (auto intro: main_inv_step)

text \<open>Only the signal starts the shutdown.\<close>

lemma await_step:
  "main_step s ev s' \<Longrightarrow> main_inv s \<Longrightarrow> ev \<noteq> SignalArrives \<Longrightarrow> proc_signal s = AwaitSignal \<Longrightarrow>
   proc_signal s' = AwaitSignal"
  by (induction rule: main_step.induct) (auto simp: main_inv_def)

lemma await_run:
  "main_run s evs s' \<Longrightarrow> main_inv s \<Longrightarrow> SignalArrives \<notin> set evs \<Longrightarrow> proc_signal s = AwaitSignal \<Longrightarrow>
   proc_signal s' = AwaitSignal"
proof (induction rule: main_run.induct)
  case (run_snoc s evs s' ev s'')
  then show ?case using await_step [OF run_snoc.hyps(2) main_inv_run [OF run_snoc.hyps(1)]] by auto
qed simp

text \<open>After the signal every step uses up something.\<close>

definition main_left :: "process \<Rightarrow> nat" where
  "main_left s =
     proc_inflight s + (case proc_main s of Serving \<Rightarrow> 1 | Waiting \<Rightarrow> 0) +
     (case proc_signal s of AwaitSignal \<Rightarrow> 4 | InShutdown \<Rightarrow> 3 | Stopping \<Rightarrow> 2 | Cancelling \<Rightarrow> 1 | SignalDone \<Rightarrow> 0) +
     (if proc_watch s = Watching then 1 else 0) + (if proc_shutdown_ctx s = Active then 1 else 0) +
     (if proc_exit s = None then 1 else 0)"

lemma main_left_step:
  "main_step s ev s' \<Longrightarrow> main_inv s \<Longrightarrow> proc_signal s \<noteq> AwaitSignal \<Longrightarrow>
   main_left s' < main_left s \<and> proc_signal s' \<noteq> AwaitSignal"
  by (induction rule: main_step.induct) (auto simp: main_left_def main_inv_def)

lemma main_left_run:
  "main_run s evs s' \<Longrightarrow> main_inv s \<Longrightarrow> proc_signal s \<noteq> AwaitSignal \<Longrightarrow>
   main_left s' + length evs \<le> main_left s \<and> proc_signal s' \<noteq> AwaitSignal"
proof (induction rule: main_run.induct)
  case (run_snoc s evs s' ev s'')
  then show ?case
    using main_left_step [OF run_snoc.hyps(2) main_inv_run [OF run_snoc.hyps(1)]] by auto
qed simp

lemma main_progress:
  assumes "main_inv s" "proc_signal s \<noteq> AwaitSignal" "proc_exit s = None"
  shows "\<exists>ev s'. ev \<noteq> RequestDone \<and> main_step s ev s'"
proof (cases "proc_shutdown_ctx s = Active")
  case True
  with assms(3) show ?thesis by (blast intro: deadline_passes)
next
  case False
  show ?thesis
  proof (cases "proc_signal s")
    case InShutdown
    with False assms(1) have "proc_shutdown_ctx s = DeadlineExceeded" by (simp add: main_inv_def)
    with InShutdown assms(3) show ?thesis by (blast intro: shutdown_fails)
  next
    case SignalDone
    with assms(1) have "\<not> proc_accepting s" "proc_server_done s" by (simp_all add: main_inv_def)
    with assms(3) show ?thesis
      by (cases "proc_main s") (blast intro: listen_returns main_returns)+
  qed (use assms in \<open>blast intro: server_stops shutdown_canceled\<close>)+
qed

section \<open>Properties\<close>

text \<open>C11: The process ends after a signal.  In every run from the start, once a signal has arrived, whatever
  steps are taken and in whatever order: at most as many steps as there are requests in flight plus
  eight remain, and as long as the process has not exited some step other than the end of a request
  is possible.  So a shutdown always comes to an end, also when requests hang for ever.\<close>

theorem shutdown_ends:
  assumes "main_run (main_start getenv build) before s" "proc_signal s \<noteq> AwaitSignal"
    and "main_run s evs s'"
  shows "length evs \<le> proc_inflight s + 8 \<and>
    (proc_exit s' = None \<longrightarrow> (\<exists>ev s''. ev \<noteq> RequestDone \<and> main_step s' ev s''))"
proof -
  have inv: "main_inv s" using assms(1) main_inv_start by (rule main_inv_run)
  note left = main_left_run [OF assms(3) inv assms(2)]
  have "main_left s \<le> proc_inflight s + 8"
    using assms(2) by (cases "proc_signal s") (simp_all add: main_left_def split: main_pc.split)
  moreover have "main_inv s'" using assms(3) inv by (rule main_inv_run)
  ultimately show ?thesis using left main_progress by auto
qed

text \<open>C18: A clean exit is a drained one.  The exit status is 0 or 1.  With status 0 the process was told to
  stop, accepts no requests any more, and every request it had accepted has been served to its end;
  before the first signal it never exits with 0.\<close>

theorem clean_exit_drained:
  assumes "main_run (main_start getenv build) evs s" "proc_exit s = Some status"
  shows "status \<in> {0, 1} \<and>
    (status = 0 \<longrightarrow> SignalArrives \<in> set evs \<and> \<not> proc_accepting s \<and> proc_inflight s = 0)"
proof -
  have inv: "main_inv s" using assms(1) main_inv_start by (rule main_inv_run)
  have "proc_signal (main_start getenv build) = AwaitSignal"
    by (simp add: main_start_def Let_def split: option.split sum.split)
  with assms(1) have "SignalArrives \<notin> set evs \<Longrightarrow> proc_signal s = AwaitSignal"
    using await_run main_inv_start by blast
  with inv assms(2) show ?thesis by (auto simp: main_inv_def)
qed


text \<open>A start with a namespace and no port, and a shutdown with one request in flight.\<close>

definition demo_start :: process where
  "demo_start = main_start (\<lambda>v. if v = ''NAMESPACE'' then ''krci'' else []) (\<lambda>conf. Inr ())"

lemma demo_start_eq:
  "demo_start = \<lparr>proc_Addr = '':8080'', proc_main = Serving, proc_signal = AwaitSignal,
     proc_watch = NotStarted, proc_accepting = True, proc_inflight = 0, proc_shutdown_ctx = NoContext,
     proc_server_done = False, proc_exit = None\<rparr>"
  by (simp add: demo_start_def main_start_def GetConfigOrDie_def)

lemma main_step_eq: "main_step s ev t \<Longrightarrow> t = t' \<Longrightarrow> main_step s ev t'"
  by simp

text \<open>One request arrives, then the signal.\<close>

definition demo_stopping :: process where
  "demo_stopping = \<lparr>proc_Addr = '':8080'', proc_main = Serving, proc_signal = InShutdown,
     proc_watch = Watching, proc_accepting = False, proc_inflight = 1, proc_shutdown_ctx = Active,
     proc_server_done = False, proc_exit = None\<rparr>"

lemma demo_stopping_run: "main_run demo_start [RequestArrives, SignalArrives] demo_stopping"
proof -
  have "main_run demo_start ([] @ [RequestArrives]) (demo_start\<lparr>proc_inflight := 1\<rparr>)"
    by (rule run_snoc [OF run_nil], rule main_step_eq [OF request_arrives]) (simp_all add: demo_start_eq)
  then have "main_run demo_start (([] @ [RequestArrives]) @ [SignalArrives]) demo_stopping"
    by (rule run_snoc, intro main_step_eq [OF signal_arrives]) (simp_all add: demo_start_eq demo_stopping_def)
  then show ?thesis by simp
qed

lemma shutdown_ends_witness:
  "\<exists>ev s. ev \<noteq> RequestDone \<and> main_step demo_stopping ev s"
  using shutdown_ends [OF demo_stopping_run [unfolded demo_start_def] _ run_nil]
  by (simp add: demo_stopping_def)

lemma clean_exit_drained_witness:
  "\<exists>evs s. main_run demo_start evs s \<and> proc_exit s = Some 0 \<and> SignalArrives \<in> set evs \<and> proc_inflight s = 0"
proof -
  note run_snoc' = run_snoc [OF _ main_step_eq]
  let ?s = "demo_stopping\<lparr>proc_inflight := 0, proc_signal := Cancelling, proc_main := Waiting,
    proc_server_done := True, proc_shutdown_ctx := Canceled, proc_exit := Some 0\<rparr>"
  note defs = demo_stopping_def
  have "main_run demo_start ([RequestArrives, SignalArrives] @ [ListenReturns]) (demo_stopping\<lparr>proc_main := Waiting\<rparr>)"
    by (rule run_snoc' [OF demo_stopping_run listen_returns]) (simp_all add: defs)
  then have "main_run demo_start (([RequestArrives, SignalArrives] @ [ListenReturns]) @ [RequestDone])
      (demo_stopping\<lparr>proc_main := Waiting, proc_inflight := 0\<rparr>)"
    by (rule run_snoc' [OF _ request_done]) (simp_all add: defs)
  then have "main_run demo_start ((([RequestArrives, SignalArrives] @ [ListenReturns]) @ [RequestDone]) @ [ShutdownReturns])
      (demo_stopping\<lparr>proc_main := Waiting, proc_inflight := 0, proc_signal := Stopping\<rparr>)"
    by (rule run_snoc' [OF _ shutdown_returns]) (simp_all add: defs)
  then have "main_run demo_start (((([RequestArrives, SignalArrives] @ [ListenReturns]) @ [RequestDone]) @ [ShutdownReturns]) @ [ServerStops])
      (?s\<lparr>proc_exit := None\<rparr>)"
    by (rule run_snoc' [OF _ server_stops]) (simp_all add: defs)
  then have run: "main_run demo_start ((((([RequestArrives, SignalArrives] @ [ListenReturns]) @ [RequestDone]) @ [ShutdownReturns])
      @ [ServerStops]) @ [MainReturns]) ?s"
    by (rule run_snoc' [OF _ main_returns]) (simp_all add: defs)
  moreover have "proc_exit ?s = Some 0" by simp
  ultimately show ?thesis
    using clean_exit_drained [OF run [unfolded demo_start_def]] by blast
qed

end
