(* ===== verification/TraceFlights.thy ===== *)
theory TraceFlights
  imports Pipelines
begin

text \<open>
  Concurrent trace requests.  In \<open>Pipelines\<close> a request is one atomic step; here it is what Go
  runs: one goroutine per request, whose calls on the two tiers of the trace cache, on the
  \<open>singleflight\<close> group, on the provider and on the markers of finished jobs are steps of their own,
  interleaved with those of other requests, with listings of jobs and with invalidations (each of
  which is one step).  \<open>singleflight.Group\<close> is a library: a first caller of \<open>Do\<close> with a key runs the
  function, callers that come before it has returned wait and share its result, panics included.
\<close>

section \<open>Requests and their program counters\<close>

record trace_request =
  tr_project :: string
  tr_jobID :: int
  tr_settings :: GitServerSettings

definition tr_key :: "trace_request \<Rightarrow> string" where
  "tr_key rq = jobs_key (Settings_GitServerName (tr_settings rq)) (tr_project rq) (tr_jobID rq)"

definition tr_terminal_key :: "trace_request \<Rightarrow> string" where
  "tr_terminal_key rq =
     terminalJobKey (Settings_GitServerName (tr_settings rq)) (strconv_Itoa (tr_jobID rq))"

definition tr_traced :: "trace_request \<Rightarrow> JobTrace \<Rightarrow> traced" where
  "tr_traced rq t = (Settings_GitServerName (tr_settings rq), tr_project rq, tr_jobID rq, t)"

text \<open>
  Where a goroutine is.  \<open>Looking\<close> and \<open>LookingLive\<close> are the two lookups of the first \<open>Get\<close>,
  \<open>Entering\<close> is before \<open>traceGroup.Do\<close>, \<open>Joined\<close> waits for the flight of another request; from
  \<open>Rechecking\<close> to \<open>Landing\<close> it runs the function under the flight, and \<open>Landing\<close> is its return.
\<close>

datatype trace_pc =
    NotAsked
  | Looking trace_request
  | LookingLive trace_request
  | Entering trace_request
  | Joined trace_request nat
  | Rechecking trace_request
  | RecheckingLive trace_request
  | Fetching trace_request
  | Fetched trace_request JobTrace
  | Storing trace_request JobTrace bool
  | Landing trace_request "JobTrace result"
  | Answered trace_request "JobTrace result"

text \<open>
  The service, the goroutines, the flights (key to the goroutine that runs it), and two ghost
  components that record what the providers have said, as in \<open>pipe_state\<close>.
\<close>

record trace_system =
  ts_service :: MultiProviderPipelineService
  ts_threads :: "nat \<Rightarrow> trace_pc"
  ts_group :: "string \<rightharpoonup> nat"
  ts_finished :: "string set"
  ts_returned :: "traced set"

definition goto :: "nat \<Rightarrow> trace_pc \<Rightarrow> trace_system \<Rightarrow> trace_system" where
  "goto i pc s = s\<lparr>ts_threads := (ts_threads s)(i := pc)\<rparr>"

definition put_done :: "JobTrace Client \<Rightarrow> trace_system \<Rightarrow> trace_system" where
  "put_done c s = s\<lparr>ts_service := (ts_service s)
     \<lparr>traceCache := (traceCache (ts_service s))\<lparr>tac_done := c\<rparr>\<rparr>\<rparr>"

definition put_live :: "JobTrace Client \<Rightarrow> trace_system \<Rightarrow> trace_system" where
  "put_live c s = s\<lparr>ts_service := (ts_service s)
     \<lparr>traceCache := (traceCache (ts_service s))\<lparr>tac_live := c\<rparr>\<rparr>\<rparr>"

section \<open>One step of a goroutine\<close>

text \<open>
  The next step of the goroutine \<open>i\<close>; \<open>jp\<close> is the provider as it answers at this moment, of which
  only \<open>Fetching\<close> makes use.  \<open>None\<close>: it has nothing to do, or has to wait.
\<close>

fun advance :: "PipelineJobsProvider \<Rightarrow> nat \<Rightarrow> trace_pc \<Rightarrow> trace_system \<Rightarrow> trace_system option" where
  "advance jp i NotAsked s = None"
| "advance jp i (Looking rq) s =
     (case Client_Get (tac_done (traceCache (ts_service s))) (tr_key rq) of
        (Some v, c) \<Rightarrow> Some (goto i (Answered rq (Ok v)) (put_done c s))
      | (None, c) \<Rightarrow> Some (goto i (LookingLive rq) (put_done c s)))"
| "advance jp i (LookingLive rq) s =
     (case Client_Get (tac_live (traceCache (ts_service s))) (tr_key rq) of
        (Some v, c) \<Rightarrow> Some (goto i (Answered rq (Ok v)) (put_live c s))
      | (None, c) \<Rightarrow> Some (goto i (Entering rq) (put_live c s)))"
| "advance jp i (Entering rq) s =
     (case ts_group s (tr_key rq) of
        Some leader \<Rightarrow> Some (goto i (Joined rq leader) s)
      | None \<Rightarrow> Some (goto i (Rechecking rq) (s\<lparr>ts_group := (ts_group s)(tr_key rq \<mapsto> i)\<rparr>)))"
| "advance jp i (Joined rq leader) s =
     (case ts_threads s leader of
        Answered _ r \<Rightarrow> Some (goto i (Answered rq r) s)
      | _ \<Rightarrow> None)"
| "advance jp i (Rechecking rq) s =
     (case Client_Get (tac_done (traceCache (ts_service s))) (tr_key rq) of
        (Some v, c) \<Rightarrow> Some (goto i (Landing rq (Ok v)) (put_done c s))
      | (None, c) \<Rightarrow> Some (goto i (RecheckingLive rq) (put_done c s)))"
| "advance jp i (RecheckingLive rq) s =
     (case Client_Get (tac_live (traceCache (ts_service s))) (tr_key rq) of
        (Some v, c) \<Rightarrow> Some (goto i (Landing rq (Ok v)) (put_live c s))
      | (None, c) \<Rightarrow> Some (goto i (Fetching rq) (put_live c s)))"
| "advance jp i (Fetching rq) s =
     (case PJ_GetJobTrace jp (tr_project rq) (tr_jobID rq) (tr_settings rq) of
        Err ferr \<Rightarrow> Some (goto i (Landing rq (Err ferr)) s)
      | Panic \<Rightarrow> Some (goto i (Landing rq Panic) s)
      | Ok (content, truncated) \<Rightarrow>
          (let trace = \<lparr>JobTrace_Content = content, JobTrace_Truncated = truncated\<rparr>;
               s = s\<lparr>ts_returned := insert (tr_traced rq trace) (ts_returned s)\<rparr>
           in if cacheable trace then Some (goto i (Fetched rq trace) s)
              else Some (goto i (Landing rq (Ok trace)) s)))"
| "advance jp i (Fetched rq trace) s =
     (case Client_Get (terminalJobs (ts_service s)) (tr_terminal_key rq) of
        (r, c) \<Rightarrow> Some (goto i (Storing rq trace (r \<noteq> None))
                       (s\<lparr>ts_service := (ts_service s)\<lparr>terminalJobs := c\<rparr>\<rparr>)))"
| "advance jp i (Storing rq trace terminal) s =
     Some (goto i (Landing rq (Ok trace))
       (s\<lparr>ts_service := (ts_service s)
            \<lparr>traceCache := TAC_Set (traceCache (ts_service s)) (tr_key rq) trace terminal\<rparr>\<rparr>))"
| "advance jp i (Landing rq r) s =
     Some (goto i (Answered rq r) (s\<lparr>ts_group := (ts_group s)(tr_key rq := None)\<rparr>))"
| "advance jp i (Answered rq r) s = None"

section \<open>The system\<close>

text \<open>A request arrives; a goroutine takes a step; the jobs of a pipeline are listed; the caches of
  the pipelines are emptied.\<close>

datatype trace_event =
    Asks nat trace_request
  | Advances nat PipelineJobsProvider
  | ListsJobs "string \<Rightarrow> PipelineProvider option" string int GitServerSettings
  | Invalidates

inductive system_step :: "trace_system \<Rightarrow> trace_event \<Rightarrow> trace_system \<Rightarrow> bool" where
  asks:
    "ts_threads s i = NotAsked \<Longrightarrow>
     system_step s (Asks i rq)
       (goto i (case jobsProvider (ts_service s) (Settings_GitProvider (tr_settings rq)) of
                  Inl err \<Rightarrow> Answered rq (Err err)
                | Inr jp \<Rightarrow> Looking rq) s)"
| advances:
    "advance jp i (ts_threads s i) s = Some s' \<Longrightarrow> system_step s (Advances i jp) s'"
| lists_jobs:
    "MultiProvider_ListPipelineJobs ((ts_service s)\<lparr>mpl_providers := ps\<rparr>) project pipelineID settings
       = Some (r, m') \<Longrightarrow>
     system_step s (ListsJobs ps project pipelineID settings)
       (s\<lparr>ts_service := m'\<lparr>mpl_providers := mpl_providers (ts_service s)\<rparr>,
          ts_finished := ts_finished s \<union> reported_finished ps project pipelineID settings\<rparr>)"
| invalidates:
    "system_step s Invalidates
       (s\<lparr>ts_service := (ts_service s)
            \<lparr>mpl_cache := delete_scanned (mpl_cache (ts_service s)),
             jobsCache := delete_scanned (jobsCache (ts_service s)),
             traceCache := TAC_Invalidate (traceCache (ts_service s))\<rparr>\<rparr>)"

inductive system_run :: "trace_system \<Rightarrow> trace_event list \<Rightarrow> trace_system \<Rightarrow> bool" where
  run_none: "system_run s [] s"
| run_then: "system_run s evs s' \<Longrightarrow> system_step s' ev s'' \<Longrightarrow> system_run s (evs @ [ev]) s''"

definition system_start :: "MultiProviderPipelineService \<Rightarrow> trace_system" where
  "system_start m =
     \<lparr>ts_service = m, ts_threads = (\<lambda>_. NotAsked), ts_group = Map.empty, ts_finished = {},
      ts_returned = {}\<rparr>"

section \<open>Invariants\<close>

text \<open>The request whose flight a goroutine runs.\<close>

fun in_flight :: "trace_pc \<Rightarrow> trace_request option" where
  "in_flight (Rechecking rq) = Some rq"
| "in_flight (RecheckingLive rq) = Some rq"
| "in_flight (Fetching rq) = Some rq"
| "in_flight (Fetched rq t) = Some rq"
| "in_flight (Storing rq t b) = Some rq"
| "in_flight (Landing rq r) = Some rq"
| "in_flight pc = None"

text \<open>What a goroutine knows of the trace it holds.\<close>

fun holds_ok :: "string set \<Rightarrow> traced set \<Rightarrow> trace_pc \<Rightarrow> bool" where
  "holds_ok F G (Fetched rq t) \<longleftrightarrow> cacheable t \<and> tr_traced rq t \<in> G"
| "holds_ok F G (Storing rq t b) \<longleftrightarrow> cacheable t \<and> tr_traced rq t \<in> G \<and> (b \<longrightarrow> tr_terminal_key rq \<in> F)"
| "holds_ok F G (Landing rq r) \<longleftrightarrow> (\<forall>t. r = Ok t \<longrightarrow> t \<in> known_traces G (tr_key rq))"
| "holds_ok F G (Answered rq r) \<longleftrightarrow> (\<forall>t. r = Ok t \<longrightarrow> t \<in> known_traces G (tr_key rq))"
| "holds_ok F G pc \<longleftrightarrow> True"

definition flights_ok :: "(nat \<Rightarrow> trace_pc) \<Rightarrow> (string \<rightharpoonup> nat) \<Rightarrow> bool" where
  "flights_ok threads flights \<longleftrightarrow>
     (\<forall>key i. flights key = Some i \<longleftrightarrow> (\<exists>rq. in_flight (threads i) = Some rq \<and> tr_key rq = key)) \<and>
     (\<forall>i rq l. threads i = Joined rq l \<longrightarrow>
        (\<exists>rq'. tr_key rq' = tr_key rq \<and>
           (in_flight (threads l) = Some rq' \<or> (\<exists>r. threads l = Answered rq' r))))"

definition system_inv :: "trace_system \<Rightarrow> bool" where
  "system_inv s \<longleftrightarrow>
     pipe_inv (ts_service s, ts_finished s, ts_returned s) \<and>
     (\<forall>i. holds_ok (ts_finished s) (ts_returned s) (ts_threads s i)) \<and>
     flights_ok (ts_threads s) (ts_group s)"

lemma goto_simps [simp]:
  "ts_service (goto i pc s) = ts_service s"
  "ts_threads (goto i pc s) = (ts_threads s)(i := pc)"
  "ts_group (goto i pc s) = ts_group s"
  "ts_finished (goto i pc s) = ts_finished s"
  "ts_returned (goto i pc s) = ts_returned s"
  by (simp_all add: goto_def)

lemma put_simps [simp]:
  "ts_threads (put_done c s) = ts_threads s" "ts_threads (put_live c s) = ts_threads s"
  "ts_group (put_done c s) = ts_group s" "ts_group (put_live c s) = ts_group s"
  "ts_finished (put_done c s) = ts_finished s" "ts_finished (put_live c s) = ts_finished s"
  "ts_returned (put_done c s) = ts_returned s" "ts_returned (put_live c s) = ts_returned s"
  by (simp_all add: put_done_def put_live_def)

text \<open>The flights: a goroutine that moves on without entering or landing, one that enters, one that
  joins, one that lands.\<close>

lemma flights_same:
  assumes "flights_ok th g" "in_flight pc = in_flight (th i)" "\<And>rq r. th i \<noteq> Answered rq r"
    "\<And>rq l. pc \<noteq> Joined rq l"
  shows "flights_ok (th(i := pc)) g"
  using assms unfolding flights_ok_def by (auto; metis)

lemma flights_enter:
  assumes "flights_ok th g" "th i = Entering rq" "g (tr_key rq) = None"
  shows "flights_ok (th(i := Rechecking rq)) (g(tr_key rq \<mapsto> i))"
  using assms unfolding flights_ok_def
  by (auto; metis in_flight.simps trace_pc.distinct option.distinct(1) option.inject)

lemma flights_join:
  assumes "flights_ok th g" "th i = Entering rq" "g (tr_key rq) = Some l"
  shows "flights_ok (th(i := Joined rq l)) g"
  using assms unfolding flights_ok_def by (auto; metis in_flight.simps option.distinct(1) trace_pc.distinct)

lemma flights_land:
  assumes "flights_ok th g" "th i = Landing rq r"
  shows "flights_ok (th(i := Answered rq r)) (g(tr_key rq := None))"
  using assms unfolding flights_ok_def by (auto; metis in_flight.simps option.inject)

lemma known_traces_mono: "G \<subseteq> G' \<Longrightarrow> known_traces G key \<subseteq> known_traces G' key"
  by (auto simp: known_traces_def)

lemma tr_traced_known: "tr_traced rq t \<in> G \<Longrightarrow> t \<in> known_traces G (tr_key rq)"
  by (auto simp: tr_traced_def known_traces_def tr_key_def)

lemma holds_ok_mono: "holds_ok F G pc \<Longrightarrow> F \<subseteq> F' \<Longrightarrow> G \<subseteq> G' \<Longrightarrow> holds_ok F' G' pc"
  by (cases pc) (auto dest: subsetD [OF known_traces_mono])

text \<open>Looking a key up in one of the tiers.\<close>

lemma get_done:
  assumes "pipe_inv (ts_service s, F, G)" "Client_Get (tac_done (traceCache (ts_service s))) key = (r, c)"
  shows "pipe_inv (ts_service (put_done c s), F, G)" and "r = Some t \<Longrightarrow> t \<in> known_traces G key"
  using assms client_ok_Get [of "done_traces F G" _ key] client_ok_Get_value [of "done_traces F G" _ key t]
    tier_known [of G key F]
  by (fastforce simp: put_done_def tiers_def)+

lemma get_live:
  assumes "pipe_inv (ts_service s, F, G)" "Client_Get (tac_live (traceCache (ts_service s))) key = (r, c)"
  shows "pipe_inv (ts_service (put_live c s), F, G)" and "r = Some t \<Longrightarrow> t \<in> known_traces G key"
  using assms client_ok_Get [of "live_traces G" _ key] client_ok_Get_value [of "live_traces G" _ key t]
    tier_known [of G key F]
  by (fastforce simp: put_live_def tiers_def)+

text \<open>An invariant of the service, of each goroutine and of the flights; a step changes one goroutine.\<close>

lemma system_invI:
  assumes "pipe_inv (ts_service s', ts_finished s', ts_returned s')"
    and "\<And>j. holds_ok (ts_finished s) (ts_returned s) (ts_threads s j)"
    and "ts_threads s' = (ts_threads s)(i := pc)"
    and "ts_finished s \<subseteq> ts_finished s'" "ts_returned s \<subseteq> ts_returned s'"
    and "holds_ok (ts_finished s') (ts_returned s') pc"
    and "flights_ok ((ts_threads s)(i := pc)) (ts_group s')"
  shows "system_inv s'"
  using assms holds_ok_mono [OF assms(2,4,5)] by (auto simp: system_inv_def)

lemma system_inv_goto:
  assumes "system_inv s" "pipe_inv (ts_service s', ts_finished s, ts_returned s)"
    and "ts_threads s' = ts_threads s" "ts_finished s' = ts_finished s" "ts_returned s' = ts_returned s"
    and "ts_group s' = ts_group s" "holds_ok (ts_finished s) (ts_returned s) pc"
    and "in_flight pc = in_flight (ts_threads s i)" "\<And>rq r. ts_threads s i \<noteq> Answered rq r"
    "\<And>rq l. pc \<noteq> Joined rq l"
  shows "system_inv (goto i pc s')"
  by (rule system_invI [where s = s and i = i and pc = pc])
    (use assms flights_same [of "ts_threads s" "ts_group s" pc i] in \<open>auto simp: system_inv_def\<close>)

lemma advance_inv:
  assumes "system_inv s" "advance jp i (ts_threads s i) s = Some s'"
  shows "system_inv s'"
proof -
  let ?F = "ts_finished s" and ?G = "ts_returned s"
  have pipe: "pipe_inv (ts_service s, ?F, ?G)" and holds: "\<And>j. holds_ok ?F ?G (ts_threads s j)"
    and flights: "flights_ok (ts_threads s) (ts_group s)"
    using assms(1) by (simp_all add: system_inv_def)
  show ?thesis
  proof (cases "ts_threads s i")
    case (Looking rq)
    obtain r c where get: "Client_Get (tac_done (traceCache (ts_service s))) (tr_key rq) = (r, c)"
      by fastforce
    with assms(2) Looking get_done [OF pipe get] show ?thesis
      by (cases r) (auto intro!: system_inv_goto [OF assms(1)])
  next
    case (LookingLive rq)
    obtain r c where get: "Client_Get (tac_live (traceCache (ts_service s))) (tr_key rq) = (r, c)"
      by fastforce
    with assms(2) LookingLive get_live [OF pipe get] show ?thesis
      by (cases r) (auto intro!: system_inv_goto [OF assms(1)])
  next
    case (Entering rq)
    show ?thesis
    proof (cases "ts_group s (tr_key rq)")
      case None
      with assms(2) Entering have "s' = goto i (Rechecking rq) (s\<lparr>ts_group := (ts_group s)(tr_key rq \<mapsto> i)\<rparr>)"
        by simp
      with flights_enter [OF flights Entering None] pipe holds show ?thesis
        by (auto simp: system_inv_def)
    next
      case (Some l)
      with assms(2) Entering flights_join [OF flights Entering Some] pipe holds show ?thesis
        by (auto simp: system_inv_def)
    qed
  next
    case (Joined rq l)
    with assms(2) obtain rq1 r where l: "ts_threads s l = Answered rq1 r"
      and s': "s' = goto i (Answered rq r) s"
      by (auto split: trace_pc.splits)
    from flights Joined l have "tr_key rq1 = tr_key rq" by (fastforce simp: flights_ok_def)
    with holds [of l] l have "holds_ok ?F ?G (Answered rq r)" by simp
    with Joined s' pipe show ?thesis by (auto intro!: system_inv_goto [OF assms(1)])
  next
    case (Rechecking rq)
    obtain r c where get: "Client_Get (tac_done (traceCache (ts_service s))) (tr_key rq) = (r, c)"
      by fastforce
    with assms(2) Rechecking get_done [OF pipe get] show ?thesis
      by (cases r) (auto intro!: system_inv_goto [OF assms(1)])
  next
    case (RecheckingLive rq)
    obtain r c where get: "Client_Get (tac_live (traceCache (ts_service s))) (tr_key rq) = (r, c)"
      by fastforce
    with assms(2) RecheckingLive get_live [OF pipe get] show ?thesis
      by (cases r) (auto intro!: system_inv_goto [OF assms(1)])
  next
    case (Fetching rq)
    show ?thesis
    proof (cases "PJ_GetJobTrace jp (tr_project rq) (tr_jobID rq) (tr_settings rq)")
      case (Ok p)
      obtain c b where p: "p = (c, b)" by (cases p)
      let ?t = "\<lparr>JobTrace_Content = c, JobTrace_Truncated = b\<rparr>"
      let ?G1 = "insert (tr_traced rq ?t) ?G"
      let ?pc = "if cacheable ?t then Fetched rq ?t else Landing rq (Ok ?t)"
      have s': "s' = goto i ?pc (s\<lparr>ts_returned := ?G1\<rparr>)"
        using assms(2) Fetching Ok p by (simp add: Let_def split: if_splits)
      have "pipe_inv (ts_service s, ?F, ?G1)" by (rule pipe_inv_mono [OF pipe]) auto
      moreover have "flights_ok ((ts_threads s)(i := ?pc)) (ts_group s)"
        using Fetching by (intro flights_same [OF flights]) auto
      ultimately show ?thesis
        using s' holds tr_traced_known [of rq ?t ?G1]
        by (intro system_invI [where s = s and i = i and pc = ?pc]) auto
    qed (use assms(2) Fetching pipe in \<open>auto intro!: system_inv_goto [OF assms(1)]\<close>)
  next
    case (Fetched rq t)
    let ?tk = "tr_terminal_key rq"
    obtain r c where get: "Client_Get (terminalJobs (ts_service s)) ?tk = (r, c)" by fastforce
    from pipe have "client_ok (markers ?F) (terminalJobs (ts_service s))" by simp
    from client_ok_Get [OF this, of ?tk] client_ok_Get_value [OF this, of ?tk] get
    have c: "client_ok (markers ?F) c" "r \<noteq> None \<Longrightarrow> ?tk \<in> ?F" by (auto simp: markers_iff)
    with assms(2) Fetched get pipe holds [of i] show ?thesis
      by (auto intro!: system_inv_goto [OF assms(1)])
  next
    case (Storing rq t b)
    have "tiers (live_traces ?G) (done_traces ?F ?G) (TAC_Set (traceCache (ts_service s)) (tr_key rq) t b)"
      using pipe holds [of i] Storing
      by (intro TAC_Set_tiers)
        (auto simp: live_traces_def done_traces_def tr_key_def tr_traced_def tr_terminal_key_def)
    with assms(2) Storing pipe holds [of i] tr_traced_known [of rq t ?G] show ?thesis
      by (auto intro!: system_inv_goto [OF assms(1)])
  next
    case (Landing rq r)
    with assms(2) flights_land [OF flights Landing] pipe holds holds [of i] show ?thesis
      by (auto simp: system_inv_def)
  qed (use assms(2) in simp_all)
qed

lemma system_step_inv:
  assumes "system_step s ev s'" "system_inv s"
  shows "system_inv s'"
  using assms
proof (induction rule: system_step.induct)
  case (asks s i rq)
  then have "pipe_inv (ts_service s, ts_finished s, ts_returned s)" by (simp add: system_inv_def)
  with asks show ?case
    by (intro system_inv_goto [OF asks.prems]) (auto split: sum.split)
next
  case (advances jp i s s')
  then show ?case by (blast intro: advance_inv)
next
  case (lists_jobs ps s project pipelineID settings r m')
  let ?F = "ts_finished s \<union> reported_finished ps project pipelineID settings"
  have "pipe_inv (m', ?F, ts_returned s)"
    using lists_jobs ListPipelineJobs_inv by (auto simp: system_inv_def simp del: pipe_inv.simps)
  with lists_jobs.prems show ?case
    by (auto simp: system_inv_def intro: holds_ok_mono)
next
  case (invalidates s)
  then have "tiers (live_traces (ts_returned s)) (done_traces (ts_finished s) (ts_returned s))
      (TAC_Invalidate (traceCache (ts_service s)))"
    and "\<exists>M. client_ok M (delete_scanned (jobsCache (ts_service s)))"
    using tiers_mono [OF TAC_Invalidate_tiers] delete_scanned_ok by (fastforce simp: system_inv_def)+
  with invalidates show ?case by (simp add: system_inv_def)
qed

lemma system_start_inv: "fresh_pipelines m \<Longrightarrow> system_inv (system_start m)"
  by (auto simp: system_inv_def system_start_def flights_ok_def fresh_pipelines_def tac_ok_def tiers_def
      elim!: client_ok_mono)

lemma system_run_inv: "system_run s evs s' \<Longrightarrow> system_inv s \<Longrightarrow> system_inv s'"
  by (induction rule: system_run.induct) (auto intro: system_step_inv)

section \<open>Where requests and answers come from\<close>

fun pc_request :: "trace_pc \<Rightarrow> trace_request option" where
  "pc_request NotAsked = None"
| "pc_request (Looking rq) = Some rq"
| "pc_request (LookingLive rq) = Some rq"
| "pc_request (Entering rq) = Some rq"
| "pc_request (Joined rq l) = Some rq"
| "pc_request (Rechecking rq) = Some rq"
| "pc_request (RecheckingLive rq) = Some rq"
| "pc_request (Fetching rq) = Some rq"
| "pc_request (Fetched rq t) = Some rq"
| "pc_request (Storing rq t b) = Some rq"
| "pc_request (Landing rq r) = Some rq"
| "pc_request (Answered rq r) = Some rq"

text \<open>A step of a goroutine: which one moves, for which request, and what the provider has said.\<close>

lemma advance_effect:
  assumes "advance jp i pc s = Some s'"
  shows "\<exists>pc'. ts_threads s' = (ts_threads s)(i := pc') \<and> pc_request pc' = pc_request pc \<and> pc' \<noteq> NotAsked"
    and "ts_finished s' = ts_finished s"
    and "x \<in> ts_returned s' \<Longrightarrow> x \<in> ts_returned s \<or>
      (\<exists>rq c b. pc = Fetching rq \<and> x = tr_traced rq \<lparr>JobTrace_Content = c, JobTrace_Truncated = b\<rparr> \<and>
         PJ_GetJobTrace jp (tr_project rq) (tr_jobID rq) (tr_settings rq) = Ok (c, b))"
  using assms
  by (cases pc; force simp: Let_def split: prod.splits option.splits res.splits trace_pc.splits if_splits)+

lemma system_run_requests:
  "system_run s0 evs s \<Longrightarrow> (\<And>i. ts_threads s0 i = NotAsked) \<Longrightarrow>
   pc_request (ts_threads s i) = Some rq \<Longrightarrow> Asks i rq \<in> set evs"
proof (induction arbitrary: i rq rule: system_run.induct)
  case (run_then s0 evs s ev s')
  from run_then.hyps(2) show ?case
  proof cases
    case (advances jp j)
    with advance_effect(1) [OF advances(2)] run_then show ?thesis
      by (auto split: if_splits)
  qed (use run_then in \<open>auto split: if_splits sum.splits\<close>)
qed simp

lemma system_run_returned:
  "system_run s0 evs s \<Longrightarrow> ts_returned s0 = {} \<Longrightarrow> x \<in> ts_returned s \<Longrightarrow>
   \<exists>i jp rq c b. Advances i jp \<in> set evs \<and> x = tr_traced rq \<lparr>JobTrace_Content = c, JobTrace_Truncated = b\<rparr> \<and>
     PJ_GetJobTrace jp (tr_project rq) (tr_jobID rq) (tr_settings rq) = Ok (c, b) \<and>
     (\<exists>evs1 evs2 s1. evs = evs1 @ Advances i jp # evs2 \<and> system_run s0 evs1 s1 \<and> ts_threads s1 i = Fetching rq)"
proof (induction arbitrary: x rule: system_run.induct)
  case (run_then s0 evs s ev s')
  have old: ?case if "x \<in> ts_returned s"
    using run_then.IH [OF run_then.prems(1) that] by (elim exE conjE) (intro exI conjI, auto)
  from run_then.hyps(2) show ?case
  proof cases
    case (advances jp j)
    from advance_effect(3) [OF advances(2) run_then.prems(2)]
    show ?thesis
    proof
      assume "\<exists>rq c b. ts_threads s j = Fetching rq \<and>
          x = tr_traced rq \<lparr>JobTrace_Content = c, JobTrace_Truncated = b\<rparr> \<and>
          PJ_GetJobTrace jp (tr_project rq) (tr_jobID rq) (tr_settings rq) = Ok (c, b)"
      with run_then.hyps(1) advances(1) show ?thesis by fastforce
    qed (rule old)
  qed (use run_then old in auto)
qed simp

section \<open>A request on its own\<close>

text \<open>Letting one goroutine run, against a provider that does not change, until it can do no more.\<close>

fun alone :: "nat \<Rightarrow> PipelineJobsProvider \<Rightarrow> nat \<Rightarrow> trace_system \<Rightarrow> trace_system" where
  "alone 0 jp i s = s"
| "alone (Suc n) jp i s =
     (case advance jp i (ts_threads s i) s of
        None \<Rightarrow> s
      | Some s' \<Rightarrow> alone n jp i s')"

text \<open>At most nine steps of a goroutine are left.\<close>

fun pc_left :: "trace_pc \<Rightarrow> nat" where
  "pc_left NotAsked = 0"
| "pc_left (Looking rq) = 9"
| "pc_left (LookingLive rq) = 8"
| "pc_left (Entering rq) = 7"
| "pc_left (Joined rq l) = 1"
| "pc_left (Rechecking rq) = 6"
| "pc_left (RecheckingLive rq) = 5"
| "pc_left (Fetching rq) = 4"
| "pc_left (Fetched rq t) = 3"
| "pc_left (Storing rq t b) = 2"
| "pc_left (Landing rq r) = 1"
| "pc_left (Answered rq r) = 0"

lemma pc_left_9: "pc_left pc \<le> 9"
  by (cases pc) simp_all

lemma advance_left:
  assumes "advance jp i pc s = Some s'"
  shows "\<exists>pc'. ts_threads s' = (ts_threads s)(i := pc') \<and> pc' \<noteq> NotAsked \<and> pc_left pc' < pc_left pc"
  using assms
  by (cases pc; force simp: Let_def split: prod.splits option.splits res.splits trace_pc.splits if_splits)

fun asked :: "trace_event list \<Rightarrow> nat" where
  "asked [] = 0"
| "asked (Asks i rq # evs) = Suc (asked evs)"
| "asked (ev # evs) = asked evs"

fun advanced :: "trace_event list \<Rightarrow> nat" where
  "advanced [] = 0"
| "advanced (Advances i jp # evs) = Suc (advanced evs)"
| "advanced (ev # evs) = advanced evs"

lemma asked_append [simp]: "asked (evs @ evs') = asked evs + asked evs'"
  by (induction evs rule: asked.induct) simp_all

lemma advanced_append [simp]: "advanced (evs @ evs') = advanced evs + advanced evs'"
  by (induction evs rule: advanced.induct) simp_all

text \<open>What all goroutines together have left, which only a new request adds to.\<close>

definition threads_left :: "(nat \<Rightarrow> trace_pc) \<Rightarrow> nat" where
  "threads_left th = (\<Sum>i | th i \<noteq> NotAsked. pc_left (th i))"

lemma threads_left_update:
  assumes "finite {i. th i \<noteq> NotAsked}" "pc \<noteq> NotAsked"
  shows "finite {i. (th(j := pc)) i \<noteq> NotAsked}"
    and "threads_left (th(j := pc)) + pc_left (th j) = threads_left th + pc_left pc"
proof -
  let ?S = "{i. th i \<noteq> NotAsked}"
  have S': "{i. (th(j := pc)) i \<noteq> NotAsked} = insert j ?S" using assms(2) by auto
  with assms(1) show "finite {i. (th(j := pc)) i \<noteq> NotAsked}" by simp
  have rest: "(\<Sum>i\<in>?S - {j}. pc_left ((th(j := pc)) i)) = (\<Sum>i\<in>?S - {j}. pc_left (th i))"
    by (rule sum.cong) auto
  have "threads_left (th(j := pc)) = pc_left pc + (\<Sum>i\<in>?S - {j}. pc_left (th i))"
    using assms(1) rest by (simp only: threads_left_def S' sum.insert_remove [OF assms(1)] fun_upd_same)
  moreover have "threads_left th = pc_left (th j) + (\<Sum>i\<in>?S - {j}. pc_left (th i))"
    using assms(1) by (cases "j \<in> ?S") (auto simp: threads_left_def sum.remove)
  ultimately show "threads_left (th(j := pc)) + pc_left (th j) = threads_left th + pc_left pc" by simp
qed

lemma system_run_left:
  "system_run s0 evs s \<Longrightarrow> (\<And>i. ts_threads s0 i = NotAsked) \<Longrightarrow>
   finite {i. ts_threads s i \<noteq> NotAsked} \<and> advanced evs + threads_left (ts_threads s) \<le> 9 * asked evs"
proof (induction rule: system_run.induct)
  case (run_none s)
  then show ?case by (simp add: threads_left_def)
next
  case (run_then s0 evs s ev s')
  then have fin: "finite {i. ts_threads s i \<noteq> NotAsked}"
    and IH: "advanced evs + threads_left (ts_threads s) \<le> 9 * asked evs" by auto
  from run_then.hyps(2) show ?case
  proof cases
    case (asks i rq)
    let ?pc = "case jobsProvider (ts_service s) (Settings_GitProvider (tr_settings rq)) of
                  Inl err \<Rightarrow> Answered rq (Err err) | Inr jp \<Rightarrow> Looking rq"
    have "?pc \<noteq> NotAsked" "pc_left (ts_threads s i) = 0" using asks by (auto split: sum.split)
    with threads_left_update [OF fin, of ?pc i] pc_left_9 [of ?pc] IH asks show ?thesis
      by (auto simp del: fun_upd_apply)
  next
    case (advances jp i)
    from advance_left [OF advances(2)] obtain pc where
      pc: "ts_threads s' = (ts_threads s)(i := pc)" "pc \<noteq> NotAsked" "pc_left pc < pc_left (ts_threads s i)"
      by blast
    with threads_left_update [OF fin pc(2), of i] IH advances(1) show ?thesis
      by (auto simp del: fun_upd_apply)
  qed (use fin IH in auto)
qed

text \<open>Some goroutine can move as long as one has not answered: one that waits waits for one that can.\<close>

lemma advance_possible:
  assumes "flights_ok (ts_threads s) (ts_group s)"
    and "ts_threads s i \<noteq> NotAsked" "\<And>rq r. ts_threads s i \<noteq> Answered rq r"
  shows "\<exists>j. \<forall>jp. advance jp j (ts_threads s j) s \<noteq> None"
proof -
  have moves: "\<forall>jp. advance jp j (ts_threads s j) s \<noteq> None"
    if "ts_threads s j \<noteq> NotAsked" "\<And>rq r. ts_threads s j \<noteq> Answered rq r"
      "\<And>rq l. ts_threads s j \<noteq> Joined rq l" for j
    using that
    by (cases "ts_threads s j") (auto simp: Let_def split: prod.splits option.splits res.splits)
  show ?thesis
  proof (cases "\<exists>rq l. ts_threads s i = Joined rq l")
    case True
    then obtain rq l where i: "ts_threads s i = Joined rq l" by blast
    with assms(1) obtain rq' where "in_flight (ts_threads s l) = Some rq' \<or> (\<exists>r. ts_threads s l = Answered rq' r)"
      unfolding flights_ok_def by blast
    then show ?thesis
    proof
      assume "in_flight (ts_threads s l) = Some rq'"
      then have "\<forall>jp. advance jp l (ts_threads s l) s \<noteq> None" by (intro moves) auto
      then show ?thesis by blast
    next
      assume "\<exists>r. ts_threads s l = Answered rq' r"
      with i have "\<forall>jp. advance jp i (ts_threads s i) s \<noteq> None" by auto
      then show ?thesis by blast
    qed
  qed (use moves assms in blast)
qed

lemma alone_atomic:
  assumes "ts_threads s i = Looking rq" "ts_group s (tr_key rq) = None"
    and "jobsProvider (ts_service s) (Settings_GitProvider (tr_settings rq)) = Inr jp"
  shows "\<exists>r. ts_threads (alone 9 jp i s) i = Answered rq r \<and>
    ts_group (alone 9 jp i s) = ts_group s \<and>
    MultiProvider_GetJobTrace (ts_service s) None (tr_project rq) (tr_jobID rq) (tr_settings rq) =
      (trace_result r, ts_service (alone 9 jp i s))"
proof -
  have nine: "9 = Suc (Suc (Suc (Suc (Suc (Suc (Suc (Suc (Suc 0))))))))" by simp
  have group: "(ts_group s)(tr_key rq := None) = ts_group s" using assms(2) by (rule fun_upd_idem)
  show ?thesis
    unfolding nine alone.simps
    using assms group
    by (auto simp: MultiProvider_GetJobTrace_def trace_flight_def TAC_Get_def Let_def tr_key_def
        tr_terminal_key_def put_done_def put_live_def
        split: prod.splits option.splits res.splits)
qed

section \<open>Finished logs\<close>

text \<open>
  A run in which the provider's log of a job no longer changes once the job has been reported
  finished (\<open>final\<close>), and in which no jobs are listed while some goroutine has fetched a log and
  not yet looked up whether the job is finished.
\<close>

inductive calm_run :: "(string \<Rightarrow> JobTrace) \<Rightarrow> trace_system \<Rightarrow> trace_system \<Rightarrow> bool"
  for final :: "string \<Rightarrow> JobTrace" where
  calm_none: "calm_run final s s"
| calm_then:
    "calm_run final s s' \<Longrightarrow> system_step s' ev s'' \<Longrightarrow>
     (\<And>i jp rq c b. ev = Advances i jp \<Longrightarrow> ts_threads s' i = Fetching rq \<Longrightarrow>
        tr_terminal_key rq \<in> ts_finished s' \<Longrightarrow>
        PJ_GetJobTrace jp (tr_project rq) (tr_jobID rq) (tr_settings rq) = Ok (c, b) \<Longrightarrow>
        \<lparr>JobTrace_Content = c, JobTrace_Truncated = b\<rparr> = final (tr_key rq)) \<Longrightarrow>
     (\<And>ps project pipelineID settings i rq t. ev = ListsJobs ps project pipelineID settings \<Longrightarrow>
        ts_threads s' i \<noteq> Fetched rq t) \<Longrightarrow>
     calm_run final s s''"

lemma calm_run_system_run: "calm_run final s s' \<Longrightarrow> \<exists>evs. system_run s evs s'"
  by (induction rule: calm_run.induct) (blast intro: run_none run_then)+

text \<open>What a goroutine may hold then, and the long-lived tier.\<close>

fun final_ok :: "(string \<Rightarrow> JobTrace) \<Rightarrow> string set \<Rightarrow> trace_pc \<Rightarrow> bool" where
  "final_ok final F (Fetched rq t) \<longleftrightarrow> (tr_terminal_key rq \<in> F \<longrightarrow> t = final (tr_key rq))"
| "final_ok final F (Storing rq t b) \<longleftrightarrow> (b \<longrightarrow> t = final (tr_key rq))"
| "final_ok final F pc \<longleftrightarrow> True"

definition final_inv :: "(string \<Rightarrow> JobTrace) \<Rightarrow> trace_system \<Rightarrow> bool" where
  "final_inv final s \<longleftrightarrow>
     client_ok (\<lambda>key. {final key}) (tac_done (traceCache (ts_service s))) \<and>
     (\<forall>i. final_ok final (ts_finished s) (ts_threads s i))"

lemma final_inv_goto:
  assumes "final_inv final s" "ts_threads s' = ts_threads s" "ts_finished s' = ts_finished s"
    and "client_ok (\<lambda>key. {final key}) (tac_done (traceCache (ts_service s')))"
    and "final_ok final (ts_finished s) pc"
  shows "final_inv final (goto i pc s')"
  using assms by (simp add: final_inv_def)

lemma advance_final:
  assumes inv: "system_inv s" "final_inv final s" and step: "advance jp i (ts_threads s i) s = Some s'"
    and settled: "\<And>rq c b. ts_threads s i = Fetching rq \<Longrightarrow> tr_terminal_key rq \<in> ts_finished s \<Longrightarrow>
        PJ_GetJobTrace jp (tr_project rq) (tr_jobID rq) (tr_settings rq) = Ok (c, b) \<Longrightarrow>
        \<lparr>JobTrace_Content = c, JobTrace_Truncated = b\<rparr> = final (tr_key rq)"
  shows "final_inv final s'"
proof -
  let ?done = "tac_done (traceCache (ts_service s))"
  have tier: "client_ok (\<lambda>key. {final key}) ?done"
    and threads: "\<And>j. final_ok final (ts_finished s) (ts_threads s j)"
    using inv(2) by (simp_all add: final_inv_def)
  have get: "client_ok (\<lambda>key. {final key}) c" if "Client_Get ?done key = (r, c)" for key r c
    using client_ok_Get [OF tier, of key] that by simp
  show ?thesis
  proof (cases "ts_threads s i")
    case (Fetched rq t)
    from inv(1) have "client_ok (markers (ts_finished s)) (terminalJobs (ts_service s))"
      by (simp add: system_inv_def)
    with step Fetched threads [of i] client_ok_Get_value [OF this, of "tr_terminal_key rq"] show ?thesis
      by (auto simp: markers_iff tier split: prod.splits intro!: final_inv_goto [OF inv(2)])
  next
    case (Storing rq t b)
    have "client_ok (\<lambda>key. {final key}) (tac_done (TAC_Set (traceCache (ts_service s)) (tr_key rq) t b))"
      using tier threads [of i] Storing by (auto simp: TAC_Set_def intro: client_ok_Set_in)
    with step Storing show ?thesis by (auto intro!: final_inv_goto [OF inv(2)])
  next
    case (Fetching rq)
    with step settled show ?thesis
      by (auto simp: Let_def tier split: res.splits prod.splits if_splits intro!: final_inv_goto [OF inv(2)])
  qed (use step tier get in \<open>auto simp: put_done_def put_live_def
      split: prod.splits option.splits trace_pc.splits intro!: final_inv_goto [OF inv(2)]\<close>)
qed

lemma final_ok_no_fetch:
  "final_ok final F pc \<Longrightarrow> (\<And>rq t. pc \<noteq> Fetched rq t) \<Longrightarrow> final_ok final F' pc"
  by (cases pc) auto

lemma delete_scanned_within: "client_ok M c \<Longrightarrow> client_ok M (delete_scanned c)"
  using delete_scanned_ok [of M c] by (blast intro: client_ok_mono)

lemma ListPipelineJobs_traceCache:
  "MultiProvider_ListPipelineJobs m project pipelineID settings = Some (r, m') \<Longrightarrow> traceCache m' = traceCache m"
  by (auto simp: MultiProvider_ListPipelineJobs_def split: sum.splits)

lemma calm_run_final:
  "calm_run final s s' \<Longrightarrow> system_inv s \<Longrightarrow> final_inv final s \<Longrightarrow> final_inv final s'"
proof (induction rule: calm_run.induct)
  case (calm_then s s' ev s'')
  obtain evs where "system_run s evs s'" using calm_run_system_run [OF calm_then.hyps(1)] by blast
  then have inv: "system_inv s'" using calm_then.prems(1) by (rule system_run_inv)
  have final: "final_inv final s'" using calm_then by blast
  from calm_then.hyps(2) show ?case
  proof cases
    case (advances jp i)
    with calm_then.hyps(3) show ?thesis by (intro advance_final [OF inv final]) auto
  next
    case (asks i rq)
    with final show ?thesis by (auto simp: final_inv_def split: sum.split)
  next
    case (lists_jobs ps project pipelineID settings r m')
    have "final_ok final F (ts_threads s' i)" for F i
      using final_ok_no_fetch [of final "ts_finished s'" "ts_threads s' i" F]
        calm_then.hyps(4) [OF lists_jobs(1)] final by (simp add: final_inv_def)
    with lists_jobs final ListPipelineJobs_traceCache show ?thesis by (fastforce simp: final_inv_def)
  next
    case invalidates
    with final show ?thesis by (auto simp: final_inv_def TAC_Invalidate_def intro: delete_scanned_within)
  qed
qed

section \<open>Steps as a function\<close>

fun perform :: "trace_system \<Rightarrow> trace_event \<Rightarrow> trace_system option" where
  "perform s (Asks i rq) =
     (if ts_threads s i = NotAsked
      then Some (goto i (case jobsProvider (ts_service s) (Settings_GitProvider (tr_settings rq)) of
                           Inl err \<Rightarrow> Answered rq (Err err)
                         | Inr jp \<Rightarrow> Looking rq) s)
      else None)"
| "perform s (Advances i jp) = advance jp i (ts_threads s i) s"
| "perform s (ListsJobs ps project pipelineID settings) =
     map_option
       (\<lambda>(r, m'). s\<lparr>ts_service := m'\<lparr>mpl_providers := mpl_providers (ts_service s)\<rparr>,
          ts_finished := ts_finished s \<union> reported_finished ps project pipelineID settings\<rparr>)
       (MultiProvider_ListPipelineJobs ((ts_service s)\<lparr>mpl_providers := ps\<rparr>) project pipelineID settings)"
| "perform s Invalidates =
     Some (s\<lparr>ts_service := (ts_service s)
            \<lparr>mpl_cache := delete_scanned (mpl_cache (ts_service s)),
             jobsCache := delete_scanned (jobsCache (ts_service s)),
             traceCache := TAC_Invalidate (traceCache (ts_service s))\<rparr>\<rparr>)"

lemma perform_iff: "perform s ev = Some s' \<longleftrightarrow> system_step s ev s'"
  by (cases ev) (auto intro: system_step.intros elim: system_step.cases split: if_splits)

fun perform_all :: "trace_system \<Rightarrow> trace_event list \<Rightarrow> trace_system option" where
  "perform_all s [] = Some s"
| "perform_all s (ev # evs) =
     (case perform s ev of
        None \<Rightarrow> None
      | Some s' \<Rightarrow> perform_all s' evs)"

lemma perform_all_run: "system_run s0 evs0 s \<Longrightarrow> perform_all s evs = Some s' \<Longrightarrow> system_run s0 (evs0 @ evs) s'"
proof (induction evs arbitrary: evs0 s)
  case (Cons ev evs)
  then obtain s1 where s1: "perform s ev = Some s1" "perform_all s1 evs = Some s'"
    by (auto split: option.splits)
  have "system_run s0 (evs0 @ [ev]) s1"
    using Cons.prems(1) s1(1) by (simp add: run_then perform_iff)
  from Cons.IH [OF this s1(2)] show ?case by simp
qed simp

lemma calm_alone:
  assumes "\<And>project jobID settings c b. PJ_GetJobTrace jp project jobID settings = Ok (c, b) \<Longrightarrow>
      \<forall>key. \<lparr>JobTrace_Content = c, JobTrace_Truncated = b\<rparr> = final key"
  shows "calm_run final s s' \<Longrightarrow> calm_run final s (alone n jp i s')"
proof (induction n arbitrary: s')
  case (Suc n)
  show ?case
  proof (cases "advance jp i (ts_threads s' i) s'")
    case (Some s1)
    have "calm_run final s s1"
      by (rule calm_then [OF Suc.prems advances [OF Some]]) (use assms in auto)
    with Suc.IH Some show ?thesis by simp
  qed (use Suc.prems in simp)
qed simp

section \<open>Properties\<close>

text \<open>C3: Provenance of job traces under concurrency.  However the steps of any number of concurrent
  requests, listings of jobs and invalidations are interleaved, a trace that a request is answered
  with was returned by the provider, during this run, to a goroutine that fetched the trace of the
  same job of the same project on the same git server.\<close>

theorem concurrent_trace_provenance:
  assumes "fresh_pipelines m" "system_run (system_start m) evs s"
    and "ts_threads s i = Answered rq (Ok t)"
    and "\<forall>j rq'. Asks j rq' \<in> set evs \<longrightarrow> no_bar (Settings_GitServerName (tr_settings rq'))"
  shows "\<exists>j jp rq' c b. Asks j rq' \<in> set evs \<and> Advances j jp \<in> set evs \<and>
    Settings_GitServerName (tr_settings rq') = Settings_GitServerName (tr_settings rq) \<and>
    tr_project rq' = tr_project rq \<and> tr_jobID rq' = tr_jobID rq \<and>
    PJ_GetJobTrace jp (tr_project rq') (tr_jobID rq') (tr_settings rq') = Ok (c, b) \<and>
    t = \<lparr>JobTrace_Content = c, JobTrace_Truncated = b\<rparr>"
proof -
  have start: "\<And>j. ts_threads (system_start m) j = NotAsked" "ts_returned (system_start m) = {}"
    by (simp_all add: system_start_def)
  have "system_inv s" using assms(2) system_start_inv [OF assms(1)] by (rule system_run_inv)
  then have "holds_ok (ts_finished s) (ts_returned s) (ts_threads s i)" by (simp add: system_inv_def)
  with assms(3) obtain server project jobID where known: "(server, project, jobID, t) \<in> ts_returned s"
    "tr_key rq = jobs_key server project jobID"
    by (auto simp: known_traces_def)
  from system_run_returned [OF assms(2) start(2) known(1)] obtain j jp rq' c b evs1 evs2 s1 where
    rq': "Advances j jp \<in> set evs" "(server, project, jobID, t) =
        tr_traced rq' \<lparr>JobTrace_Content = c, JobTrace_Truncated = b\<rparr>"
      "PJ_GetJobTrace jp (tr_project rq') (tr_jobID rq') (tr_settings rq') = Ok (c, b)"
      "evs = evs1 @ Advances j jp # evs2" "system_run (system_start m) evs1 s1" "ts_threads s1 j = Fetching rq'"
    by blast
  have "Asks j rq' \<in> set evs1" using rq'(5) start(1) by (rule system_run_requests) (simp add: rq'(6))
  moreover have "Asks i rq \<in> set evs" using assms(2) start(1) by (rule system_run_requests) (simp add: assms(3))
  ultimately have asked: "Asks j rq' \<in> set evs" "Asks i rq \<in> set evs" using rq'(4) by auto
  have "jobs_key (Settings_GitServerName (tr_settings rq)) (tr_project rq) (tr_jobID rq) =
      jobs_key (Settings_GitServerName (tr_settings rq')) (tr_project rq') (tr_jobID rq')"
    using known(2) rq'(2) by (simp add: tr_key_def tr_traced_def)
  then have same: "Settings_GitServerName (tr_settings rq') = Settings_GitServerName (tr_settings rq)"
      "tr_project rq' = tr_project rq" "tr_jobID rq' = tr_jobID rq"
    using asked assms(4) by (simp_all add: jobs_key_inj)
  have "t = \<lparr>JobTrace_Content = c, JobTrace_Truncated = b\<rparr>" using rq'(2) by (simp add: tr_traced_def)
  with asked(1) rq'(1,3) same show ?thesis by blast
qed

text \<open>C14: One flight per job.  In every interleaving, no two goroutines run the function under the flight
  for the same key at the same time, so a job's log is never fetched twice at once; and a request
  that waits for a flight waits for one of its own key, which is still running or has been answered.\<close>

theorem one_flight_per_job:
  assumes "fresh_pipelines m" "system_run (system_start m) evs s"
  shows "(in_flight (ts_threads s i) = Some rq \<longrightarrow> in_flight (ts_threads s j) = Some rq' \<longrightarrow>
      tr_key rq = tr_key rq' \<longrightarrow> i = j) \<and>
    (ts_threads s i = Joined rq l \<longrightarrow> (\<exists>rq'. tr_key rq' = tr_key rq \<and>
      (in_flight (ts_threads s l) = Some rq' \<or> (\<exists>r. ts_threads s l = Answered rq' r))))"
proof -
  have "system_inv s" using assms(2) system_start_inv [OF assms(1)] by (rule system_run_inv)
  then have flights: "flights_ok (ts_threads s) (ts_group s)" by (simp add: system_inv_def)
  have flying: "ts_group s (tr_key rq) = Some i" if "in_flight (ts_threads s i) = Some rq" for i rq
    using that flights unfolding flights_ok_def by blast
  show ?thesis
  proof (intro conjI impI)
    assume "in_flight (ts_threads s i) = Some rq" "in_flight (ts_threads s j) = Some rq'" "tr_key rq = tr_key rq'"
    with flying [of i rq] flying [of j rq'] show "i = j" by simp
  qed (use flights in \<open>auto simp: flights_ok_def\<close>)
qed

text \<open>C4: Every trace request is answered.  In every interleaving the goroutines take at most nine steps
  for each request, and as long as a request has not been answered some goroutine can take a step,
  whatever the provider answers: a request that waits for the flight of another waits for a goroutine
  that is not waiting itself, so there is no deadlock.\<close>

theorem trace_requests_answered:
  assumes "fresh_pipelines m" "system_run (system_start m) evs s"
  shows "advanced evs \<le> 9 * asked evs \<and>
    ((\<exists>i. ts_threads s i \<noteq> NotAsked \<and> (\<forall>rq r. ts_threads s i \<noteq> Answered rq r)) \<longrightarrow>
      (\<exists>j. \<forall>jp. advance jp j (ts_threads s j) s \<noteq> None))"
proof -
  have "system_inv s" using assms(2) system_start_inv [OF assms(1)] by (rule system_run_inv)
  then have "flights_ok (ts_threads s) (ts_group s)" by (simp add: system_inv_def)
  moreover have "advanced evs \<le> 9 * asked evs"
    using system_run_left [OF assms(2)] by (simp add: system_start_def)
  ultimately show ?thesis using advance_possible by blast
qed


text \<open>C16: Long-cached logs are complete.  If the log of a job no longer changes once the job has been
  reported finished, and no jobs are listed between the fetch of a log and the lookup of the job's
  marker, then in every interleaving the long-lived tier (12 hours) serves for a job only its final
  log.\<close>

theorem long_cached_logs_final:
  assumes "fresh_pipelines m" "calm_run final (system_start m) s"
    and "fst (Client_Get (tac_done (traceCache (ts_service s))) key) = Some t"
  shows "t = final key"
proof -
  have "client_ok (\<lambda>key. {final key}) (tac_done (traceCache m))"
    using assms(1) by (auto simp: fresh_pipelines_def tac_ok_def elim: client_ok_mono)
  then have "final_inv final (system_start m)" by (simp add: final_inv_def system_start_def)
  with calm_run_final [OF assms(2) system_start_inv [OF assms(1)]] have "final_inv final s" by blast
  with assms(3) show ?thesis by (auto simp: final_inv_def dest: client_ok_Get_value)
qed

text \<open>A request for the log of the demo job, and a provider that answers with a given log.\<close>

definition demo_request :: trace_request where
  "demo_request = \<lparr>tr_project = ''team/tool'', tr_jobID = 4, tr_settings = demo_settings\<rparr>"

definition log_provider :: "string \<Rightarrow> PipelineJobsProvider" where
  "log_provider content =
     \<lparr>PJ_ListPipelineJobs = (\<lambda>_ _ _. Some (Ok [mapGitLabJob (demo_job 4 ''build'')])),
      PJ_GetJobTrace = (\<lambda>_ _ _. Ok (content, False))\<rparr>"

lemma demo_fresh: "fresh_pipelines demo_pipelines"
  by (simp add: fresh_pipelines_def demo_pipelines_def tac_ok_def assoc_client_empty)

text \<open>The interleaving that \<open>long_cached_logs_final\<close> rules out: the log is fetched while the job still
  runs, the job is listed as finished, and only then its marker is looked up.\<close>

definition race_events :: "trace_event list" where
  "race_events =
     Asks 0 demo_request # replicate 6 (Advances 0 (log_provider ''half''))
     @ ListsJobs demo_jobs ''team/tool'' 1 demo_settings
     # replicate 3 (Advances 0 (log_provider ''half and the rest''))
     @ [Asks 1 demo_request, Advances 1 (log_provider ''half and the rest'')]"

lemmas demo_system_defs = system_start_def goto_def put_done_def put_live_def demo_request_def tr_key_def
  tr_terminal_key_def tr_traced_def log_provider_def demo_pipelines_def demo_jobs_def demo_settings_def

lemma demo_lists_jobs:
  "MultiProvider_ListPipelineJobs (demo_pipelines\<lparr>mpl_providers := demo_jobs\<rparr>) ''team/tool'' 1 demo_settings =
     Some (Ok [mapGitLabJob (demo_job 4 ''build'')], demo_after_jobs)"
proof -
  have "demo_pipelines\<lparr>mpl_providers := demo_jobs\<rparr> = demo_pipelines" by (simp add: demo_pipelines_def)
  then show ?thesis
    by (simp add: demo_after_jobs_eq MultiProvider_ListPipelineJobs_def GetOrFetch_def jobsProvider_def
        jobs_fetch_def demo_pipelines_def demo_jobs_def demo_settings_def isTerminalJobStatus_def
        terminalJobStatuses_def mapGitLabJob_def demo_job_def)
qed

text \<open>After the goroutine has fetched the log.\<close>

definition demo_system :: "(nat \<Rightarrow> trace_pc) \<Rightarrow> (string \<rightharpoonup> nat) \<Rightarrow> traced set \<Rightarrow> trace_system" where
  "demo_system threads flights G =
     \<lparr>ts_service = demo_pipelines, ts_threads = threads, ts_group = flights, ts_finished = {},
      ts_returned = G\<rparr>"

definition demo_log :: "string \<Rightarrow> JobTrace" where
  "demo_log content = \<lparr>JobTrace_Content = content, JobTrace_Truncated = False\<rparr>"

lemma demo_fetched:
  "perform_all (system_start demo_pipelines)
     (Asks 0 demo_request # replicate 6 (Advances 0 (log_provider ''half''))) =
   Some (demo_system ((\<lambda>_. NotAsked)(0 := Fetched demo_request (demo_log ''half'')))
     [tr_key demo_request \<mapsto> 0] {tr_traced demo_request (demo_log ''half'')})"
proof -
  have six: "replicate 6 x = [x, x, x, x, x, x]" for x :: trace_event by (simp add: eval_nat_numeral)
  show ?thesis
    unfolding six
    by (simp add: demo_system_defs demo_system_def jobsProvider_def cacheable_def
        MaxCacheableTraceBytes_def demo_log_def Let_def)
qed

text \<open>The listing marks the job as finished, then the goroutine goes on and stores what it has.\<close>

definition demo_marked :: "string set \<Rightarrow> trace_system" where
  "demo_marked F = (demo_system ((\<lambda>_. NotAsked)(0 := Fetched demo_request (demo_log ''half'')))
     [tr_key demo_request \<mapsto> 0] {tr_traced demo_request (demo_log ''half'')})
       \<lparr>ts_service := demo_after_jobs, ts_finished := F\<rparr>"

lemma demo_stored:
  "\<exists>s. perform_all (demo_marked F)
     (replicate 3 (Advances 0 jp) @ [Asks 1 demo_request, Advances 1 jp']) = Some s \<and>
     ts_threads s 1 = Answered demo_request (Ok (demo_log ''half'')) \<and>
     fst (Client_Get (tac_done (traceCache (ts_service s))) (tr_key demo_request)) = Some (demo_log ''half'')"
proof -
  have three: "replicate 3 x = [x, x, x]" for x :: trace_event by (simp add: eval_nat_numeral)
  show ?thesis
    unfolding three demo_marked_def
    by (simp add: demo_system_defs demo_system_def demo_after_jobs_eq jobsProvider_def TAC_Set_def demo_log_def
        del: not_None_eq)
qed

lemma race_run:
  "\<exists>s. system_run (system_start demo_pipelines) race_events s \<and>
     ts_threads s 1 = Answered demo_request (Ok (demo_log ''half'')) \<and>
     fst (Client_Get (tac_done (traceCache (ts_service s))) (tr_key demo_request)) = Some (demo_log ''half'')"
proof -
  let ?pre = "Asks 0 demo_request # replicate 6 (Advances 0 (log_provider ''half''))"
  let ?list = "ListsJobs demo_jobs ''team/tool'' 1 demo_settings"
  let ?post = "replicate 3 (Advances 0 (log_provider ''half and the rest''))
    @ [Asks 1 demo_request, Advances 1 (log_provider ''half and the rest'')]"
  note fetched = perform_all_run [OF run_none demo_fetched]
  have "mpl_providers demo_after_jobs = mpl_providers demo_pipelines"
    by (simp add: demo_after_jobs_eq)
  then have "perform (demo_system th fl G) ?list = Some
      ((demo_system th fl G)\<lparr>ts_service := demo_after_jobs,
         ts_finished := reported_finished demo_jobs ''team/tool'' 1 demo_settings\<rparr>)" for th fl G
    by (simp add: demo_system_def demo_lists_jobs)
  then have all: "perform_all (demo_system ((\<lambda>_. NotAsked)(0 := Fetched demo_request (demo_log ''half'')))
     [tr_key demo_request \<mapsto> 0] {tr_traced demo_request (demo_log ''half'')}) [?list] =
     Some (demo_marked (reported_finished demo_jobs ''team/tool'' 1 demo_settings))"
    by (simp add: demo_marked_def del: perform.simps)
  note marked = perform_all_run [OF fetched all]
  obtain s where s: "perform_all (demo_marked (reported_finished demo_jobs ''team/tool'' 1 demo_settings)) ?post = Some s"
      "ts_threads s 1 = Answered demo_request (Ok (demo_log ''half''))"
      "fst (Client_Get (tac_done (traceCache (ts_service s))) (tr_key demo_request)) = Some (demo_log ''half'')"
    using demo_stored by blast
  from perform_all_run [OF marked s(1)] have "system_run (system_start demo_pipelines) race_events s"
    by (simp add: race_events_def)
  with s show ?thesis by blast
qed


section \<open>Witnesses\<close>

lemma race_asks: "Asks j rq \<in> set race_events \<Longrightarrow> rq = demo_request"
  by (auto simp: race_events_def)

lemma concurrent_trace_provenance_witness:
  "\<exists>j jp. Advances j jp \<in> set race_events \<and> PJ_GetJobTrace jp ''team/tool'' 4 demo_settings = Ok (''half'', False)"
proof -
  obtain s where s: "system_run (system_start demo_pipelines) race_events s"
      "ts_threads s 1 = Answered demo_request (Ok (demo_log ''half''))"
    using race_run by blast
  have "\<forall>j rq. Asks j rq \<in> set race_events \<longrightarrow> no_bar (Settings_GitServerName (tr_settings rq))"
    by (auto dest!: race_asks simp: demo_request_def demo_settings_def no_bar_def)
  from concurrent_trace_provenance [OF demo_fresh s this] obtain j jp rq c b where
    "Asks j rq \<in> set race_events" "Advances j jp \<in> set race_events"
    "PJ_GetJobTrace jp (tr_project rq) (tr_jobID rq) (tr_settings rq) = Ok (c, b)"
    "demo_log ''half'' = \<lparr>JobTrace_Content = c, JobTrace_Truncated = b\<rparr>"
    by blast
  moreover from this(1) have "rq = demo_request" by (rule race_asks)
  ultimately have "PJ_GetJobTrace jp ''team/tool'' 4 demo_settings = Ok (''half'', False)"
    by (simp add: demo_request_def demo_log_def)
  with \<open>Advances j jp \<in> set race_events\<close> show ?thesis by blast
qed

text \<open>A second request joins the flight.\<close>

lemma demo_joins:
  "\<exists>evs s. system_run (system_start demo_pipelines) evs s \<and> asked evs = 2 \<and>
     ts_threads s 0 = Fetched demo_request (demo_log ''half'') \<and> ts_threads s 1 = Joined demo_request 0"
proof -
  have "perform_all (demo_system ((\<lambda>_. NotAsked)(0 := Fetched demo_request (demo_log ''half'')))
      [tr_key demo_request \<mapsto> 0] {tr_traced demo_request (demo_log ''half'')})
      [Asks 1 demo_request, Advances 1 (log_provider ''half''), Advances 1 (log_provider ''half''),
       Advances 1 (log_provider ''half'')] =
    Some (demo_system ((\<lambda>_. NotAsked)(0 := Fetched demo_request (demo_log ''half''), 1 := Joined demo_request 0))
      [tr_key demo_request \<mapsto> 0] {tr_traced demo_request (demo_log ''half'')})"
    by (simp add: demo_system_defs demo_system_def jobsProvider_def)
  from perform_all_run [OF perform_all_run [OF run_none demo_fetched] this] show ?thesis
    by (intro exI conjI) (assumption, simp_all add: demo_system_def eval_nat_numeral)
qed

lemma one_flight_per_job_witness:
  "\<exists>(s :: trace_system) rq'. ts_threads s 1 = Joined demo_request 0 \<and> tr_key rq' = tr_key demo_request \<and>
     in_flight (ts_threads s 0) = Some rq'"
proof -
  obtain evs s where s: "system_run (system_start demo_pipelines) evs s"
      "ts_threads s 0 = Fetched demo_request (demo_log ''half'')" "ts_threads s 1 = Joined demo_request 0"
    using demo_joins by blast
  from one_flight_per_job [OF demo_fresh s(1), where i = 1 and rq = demo_request and l = 0] s(3)
  obtain rq' where "tr_key rq' = tr_key demo_request"
      "in_flight (ts_threads s 0) = Some rq' \<or> (\<exists>r. ts_threads s 0 = Answered rq' r)" by blast
  moreover from this(2) s(2) have "in_flight (ts_threads s 0) = Some rq'" by auto
  ultimately show ?thesis using s(3) by blast
qed

lemma trace_requests_answered_witness:
  "\<exists>evs s j. system_run (system_start demo_pipelines) evs s \<and> ts_threads s 1 = Joined demo_request 0 \<and>
     advanced evs \<le> 18 \<and> (\<forall>jp. advance jp j (ts_threads s j) s \<noteq> None)"
proof -
  obtain evs s where s: "system_run (system_start demo_pipelines) evs s" "asked evs = 2"
      "ts_threads s 1 = Joined demo_request 0"
    using demo_joins by blast
  have "ts_threads s 1 \<noteq> NotAsked \<and> (\<forall>rq r. ts_threads s 1 \<noteq> Answered rq r)" using s(3) by simp
  with trace_requests_answered [OF demo_fresh s(1)]
  obtain j where "\<forall>jp. advance jp j (ts_threads s j) s \<noteq> None" by blast
  moreover have "advanced evs \<le> 18" using trace_requests_answered [OF demo_fresh s(1)] s(2) by simp
  ultimately show ?thesis using s(1,3) by blast
qed


text \<open>The jobs are listed first, then the log is fetched.\<close>

lemma demo_calm:
  "\<exists>s. calm_run (\<lambda>_. demo_log ''log'') (system_start demo_pipelines) s \<and>
     fst (Client_Get (tac_done (traceCache (ts_service s))) (tr_key demo_request)) \<noteq> None"
proof -
  let ?jp = "the (PP_jobs (the (demo_jobs ''gitlab'')))" and ?F = "reported_finished demo_jobs ''team/tool'' 1 demo_settings"
  let ?s1 = "(system_start demo_pipelines)\<lparr>ts_service := demo_after_jobs, ts_finished := ?F\<rparr>"
  let ?s2 = "goto 0 (Looking demo_request) ?s1"
  let ?calm = "calm_run (\<lambda>_. demo_log ''log'') (system_start demo_pipelines)"
  have "perform (system_start demo_pipelines) (ListsJobs demo_jobs ''team/tool'' 1 demo_settings) = Some ?s1"
    by (simp add: system_start_def demo_lists_jobs) (simp add: demo_after_jobs_eq)
  then have 1: "?calm ?s1"
    by (intro calm_then [OF calm_none]) (auto simp: perform_iff system_start_def simp del: perform.simps)
  have "perform ?s1 (Asks 0 demo_request) = Some ?s2"
    by (simp add: system_start_def jobsProvider_def demo_after_jobs_eq demo_pipelines_def demo_jobs_def
        demo_request_def demo_settings_def)
  then have 2: "?calm ?s2"
    by (intro calm_then [OF 1]) (auto simp: perform_iff simp del: perform.simps)
  have "?calm (alone 9 ?jp 0 ?s2)"
    using 2 by (rule calm_alone [rotated]) (simp add: demo_jobs_def demo_log_def)
  moreover have "jobsProvider (ts_service ?s2) (Settings_GitProvider (tr_settings demo_request)) = Inr ?jp"
    by (simp add: jobsProvider_def demo_after_jobs_eq demo_pipelines_def demo_jobs_def demo_request_def
        demo_settings_def)
  from alone_atomic [OF _ _ this, of 0] have "ts_service (alone 9 ?jp 0 ?s2) = demo_after_trace"
    by (auto simp: demo_after_trace_def demo_request_def system_start_def simp del: alone.simps)
  then have "fst (Client_Get (tac_done (traceCache (ts_service (alone 9 ?jp 0 ?s2)))) (tr_key demo_request)) \<noteq> None"
    by (simp add: demo_after_trace_state tr_key_def demo_request_def demo_settings_def)
  ultimately show ?thesis by blast
qed

lemma long_cached_logs_final_witness:
  "\<exists>s :: trace_system. fst (Client_Get (tac_done (traceCache (ts_service s))) (tr_key demo_request)) = Some (demo_log ''log'')"
proof -
  obtain s t where "calm_run (\<lambda>_. demo_log ''log'') (system_start demo_pipelines) s"
      "fst (Client_Get (tac_done (traceCache (ts_service s))) (tr_key demo_request)) = Some t"
    using demo_calm by blast
  moreover from long_cached_logs_final [OF demo_fresh this] have "t = demo_log ''log''" .
  ultimately have "fst (Client_Get (tac_done (traceCache (ts_service s))) (tr_key demo_request)) = Some (demo_log ''log'')"
    by simp
  then show ?thesis by blast
qed

end
