(* ===== verification/TraceCancellation.thy ===== *)
theory TraceCancellation
  imports TraceFlights Api
begin

text \<open>
  Contexts of trace requests.  \<open>net/http\<close> cancels the context of a request when its client goes away,
  and a call to the provider under a context that is done fails with \<open>context.Canceled\<close>.  The function
  that \<open>GetJobTrace\<close> hands to \<open>singleflight\<close> uses the context of the request that started the flight;
  the requests that joined it get whatever it returns.  Here the transition system of \<open>TraceFlights\<close>
  runs under contexts: any request may be cancelled at any moment.
\<close>

section \<open>Providers under a context\<close>

definition context_Canceled :: go_error where "context_Canceled = ErrorString ''context canceled''"

text \<open>An HTTP client under a context that is done: \<open>http.Client.Do\<close> returns a \<open>*url.Error\<close> around the
  context's error.\<close>

definition under_context :: "bool \<Rightarrow> (string \<Rightarrow> string \<Rightarrow> trace_http) \<Rightarrow> string \<Rightarrow> string \<Rightarrow> trace_http" where
  "under_context done http_get = (if done then (\<lambda>url token. DoError (Errorf ''Get %q: %w'' [FStr url, FErr context_Canceled]))
      else http_get)"

definition canceled_provider :: "PipelineJobsProvider \<Rightarrow> bool" where
  "canceled_provider jp \<longleftrightarrow>
     (\<forall>project jobID settings. \<exists>err. PJ_GetJobTrace jp project jobID settings = Err err \<and>
        errors_Is err context_Canceled)"

definition never_canceled :: "PipelineJobsProvider \<Rightarrow> bool" where
  "never_canceled jp \<longleftrightarrow>
     (\<forall>project jobID settings err. PJ_GetJobTrace jp project jobID settings = Err err \<longrightarrow>
        \<not> errors_Is err context_Canceled)"

text \<open>The GitLab provider behaves like this, whatever its remote side answers.\<close>

fun never_canceled_http :: "trace_http \<Rightarrow> bool" where
  "never_canceled_http (RequestError err) \<longleftrightarrow> \<not> errors_Is err context_Canceled"
| "never_canceled_http (DoError err) \<longleftrightarrow> \<not> errors_Is err context_Canceled"
| "never_canceled_http (Response status body bodyErr) \<longleftrightarrow>
     (\<forall>err. bodyErr = Some err \<longrightarrow> \<not> errors_Is err context_Canceled)"

lemma gitlab_canceled:
  "canceled_provider (jp\<lparr>PJ_GetJobTrace := GitLab_GetJobTrace esc (under_context True http_get)\<rparr>)"
  by (simp add: canceled_provider_def GitLab_GetJobTrace_def under_context_def Let_def go_simps context_Canceled_def)

lemma gitlab_never_canceled:
  assumes "\<And>url token. never_canceled_http (http_get url token)"
  shows "never_canceled (jp\<lparr>PJ_GetJobTrace := GitLab_GetJobTrace esc (under_context False http_get)\<rparr>)"
proof -
  have "\<not> errors_Is err context_Canceled" if "GitLab_GetJobTrace esc http_get project jobID settings = Err err"
    for project jobID settings err
    using that assms
    by (auto simp: GitLab_GetJobTrace_def Let_def mapGitLabTraceStatus_def ReadAll_LimitReader_def go_simps
        context_Canceled_def split: trace_http.splits sum.splits if_splits option.splits)
      (metis never_canceled_http.simps context_Canceled_def errors_Is_def)+
  then show ?thesis by (auto simp: never_canceled_def under_context_def)
qed

section \<open>The system under contexts\<close>

datatype context_event = Happens trace_event | Cancels nat

fun context_allows :: "nat set \<Rightarrow> trace_event \<Rightarrow> bool" where
  "context_allows C (Advances i jp) \<longleftrightarrow> (if i \<in> C then canceled_provider jp else never_canceled jp)"
| "context_allows C _ \<longleftrightarrow> True"

inductive context_run :: "trace_system \<Rightarrow> context_event list \<Rightarrow> trace_system \<times> nat set \<Rightarrow> bool" where
  context_none: "context_run s [] (s, {})"
| context_step:
    "context_run s evs (s1, C) \<Longrightarrow> context_allows C ev \<Longrightarrow> system_step s1 ev s2 \<Longrightarrow>
     context_run s (evs @ [Happens ev]) (s2, C)"
| context_cancel: "context_run s evs (s1, C) \<Longrightarrow> context_run s (evs @ [Cancels i]) (s1, insert i C)"

fun happened :: "context_event list \<Rightarrow> trace_event list" where
  "happened [] = []"
| "happened (Happens ev # evs) = ev # happened evs"
| "happened (Cancels i # evs) = happened evs"

lemma happened_append [simp]: "happened (evs @ evs') = happened evs @ happened evs'"
  by (induction evs rule: happened.induct) simp_all

text \<open>It is a restriction of the system without contexts, so what holds there holds here.\<close>

lemma context_run_system: "context_run s evs (s', C) \<Longrightarrow> system_run s (happened evs) s'"
  by (induction s evs "(s', C)" arbitrary: s' C rule: context_run.induct) (auto intro: system_run.intros)

section \<open>Where a cancellation can go\<close>

text \<open>The result a goroutine holds is a cancellation.\<close>

fun holds_canceled :: "trace_pc \<Rightarrow> bool" where
  "holds_canceled (Landing rq r) \<longleftrightarrow> (\<exists>err. r = Err err \<and> errors_Is err context_Canceled)"
| "holds_canceled (Answered rq r) \<longleftrightarrow> (\<exists>err. r = Err err \<and> errors_Is err context_Canceled)"
| "holds_canceled _ \<longleftrightarrow> False"

definition cancel_inv :: "trace_system \<Rightarrow> nat set \<Rightarrow> bool" where
  "cancel_inv s C \<longleftrightarrow>
     (\<forall>i rq. holds_canceled (ts_threads s i) \<longrightarrow> pc_request (ts_threads s i) = Some rq \<longrightarrow>
        (\<exists>j \<in> C. \<exists>rq'. pc_request (ts_threads s j) = Some rq' \<and> tr_key rq' = tr_key rq))"

text \<open>One goroutine moves on with its request.\<close>

lemma cancel_inv_goto:
  assumes "cancel_inv s C" "ts_threads s' = (ts_threads s)(i := pc)"
    and "ts_threads s i = NotAsked \<or> pc_request pc = pc_request (ts_threads s i)"
    and "\<And>rq. holds_canceled pc \<Longrightarrow> pc_request pc = Some rq \<Longrightarrow>
      i \<in> C \<or> (\<exists>j rq1. holds_canceled (ts_threads s j) \<and> pc_request (ts_threads s j) = Some rq1 \<and>
        tr_key rq1 = tr_key rq)"
  shows "cancel_inv s' C"
  unfolding cancel_inv_def
proof (intro allI impI)
  have keep: "\<exists>j \<in> C. \<exists>rq'. pc_request (ts_threads s' j) = Some rq' \<and> tr_key rq' = tr_key rq"
    if "holds_canceled (ts_threads s k)" "pc_request (ts_threads s k) = Some rq1" "tr_key rq1 = tr_key rq" for k rq rq1
  proof -
    from assms(1) that obtain j rq' where "j \<in> C" "pc_request (ts_threads s j) = Some rq'" "tr_key rq' = tr_key rq"
      unfolding cancel_inv_def by metis
    then show ?thesis using assms(2,3) by (cases "j = i") force+
  qed
  fix k rq
  assume k: "holds_canceled (ts_threads s' k)" "pc_request (ts_threads s' k) = Some rq"
  show "\<exists>j \<in> C. \<exists>rq'. pc_request (ts_threads s' j) = Some rq' \<and> tr_key rq' = tr_key rq"
  proof (cases "k = i")
    case True
    with k assms(2) have "holds_canceled pc" "pc_request pc = Some rq" by simp_all
    with assms(4) consider "i \<in> C"
      | j rq1 where "holds_canceled (ts_threads s j)" "pc_request (ts_threads s j) = Some rq1" "tr_key rq1 = tr_key rq"
      by blast
    then show ?thesis using k True keep by cases blast+
  next
    case False
    with k assms(2) keep [of k rq rq] show ?thesis by simp
  qed
qed

lemma advance_cancel:
  assumes "cancel_inv s C" "system_inv s" "context_allows C (Advances i jp)"
    and "advance jp i (ts_threads s i) s = Some s'"
  shows "cancel_inv s' C"
proof (cases "ts_threads s i")
  case (Joined rq l)
  with assms(4) obtain rq1 r where l: "ts_threads s l = Answered rq1 r" and s': "s' = goto i (Answered rq r) s"
    by (auto split: trace_pc.splits)
  from assms(2) Joined l have "tr_key rq1 = tr_key rq" by (fastforce simp: system_inv_def flights_ok_def)
  with Joined l s' show ?thesis
    by (intro cancel_inv_goto [OF assms(1), where i = i and pc = "Answered rq r"]) (auto intro!: exI [of _ l])
next
  case (Fetching rq)
  let ?pc = "ts_threads s' i"
  from assms(3,4) Fetching have "ts_threads s' = (ts_threads s)(i := ?pc)" "pc_request ?pc = Some rq"
      "holds_canceled ?pc \<longrightarrow> i \<in> C"
    by (auto simp: Let_def never_canceled_def split: res.splits if_splits)
  then show ?thesis using Fetching by (intro cancel_inv_goto [OF assms(1)]) auto
next
  case (Landing rq r)
  with assms(4) show ?thesis
    by (intro cancel_inv_goto [OF assms(1), where i = i and pc = "Answered rq r"]) (auto intro!: exI [of _ i])
qed (use assms(4) in \<open>auto simp: Let_def split: prod.splits option.splits intro!: cancel_inv_goto [OF assms(1)]\<close>)

lemma unsupported_not_canceled:
  "jobsProvider m gitProvider = Inl err \<Longrightarrow> \<not> errors_Is err context_Canceled"
  by (auto simp: jobsProvider_def unsupported_request_def go_simps context_Canceled_def split: option.splits)

lemma system_step_cancel:
  assumes "system_step s ev s'" "cancel_inv s C" "system_inv s" "context_allows C ev"
  shows "cancel_inv s' C"
  using assms
proof (induction rule: system_step.induct)
  case (asks s i rq)
  then show ?case
    using unsupported_not_canceled
    by (intro cancel_inv_goto [OF asks.prems(1), where i = i]) (auto split: sum.splits)
next
  case (advances jp i s s')
  then show ?case by (blast intro: advance_cancel)
qed (simp_all add: cancel_inv_def)

lemma context_run_cancel:
  "context_run s evs (s', C) \<Longrightarrow> system_inv s \<Longrightarrow> cancel_inv s {} \<Longrightarrow> cancel_inv s' C"
proof (induction s evs "(s', C)" arbitrary: s' C rule: context_run.induct)
  case (context_step s evs s1 C ev s2)
  have "system_inv s1"
    using system_run_inv [OF context_run_system [OF context_step(1)] context_step.prems(1)] .
  with context_step show ?case by (blast intro: system_step_cancel)
next
  case (context_cancel s evs s1 C i)
  then have "cancel_inv s1 C" by blast
  then show ?case unfolding cancel_inv_def by blast
qed

text \<open>C17: A cancellation stays with its job.  Whatever requests are cancelled and whenever, a request is
  answered with \<open>context.Canceled\<close> only if a request for the trace of the same job was cancelled, itself
  or another one: requests for other jobs are never affected.\<close>

theorem cancellation_confined:
  assumes "fresh_pipelines m" "context_run (system_start m) evs (s, C)"
    and "ts_threads s i = Answered rq (Err err)" "errors_Is err context_Canceled"
    and "\<forall>j rq'. Asks j rq' \<in> set (happened evs) \<longrightarrow> no_bar (Settings_GitServerName (tr_settings rq'))"
  shows "\<exists>j \<in> C. \<exists>rq'. Asks j rq' \<in> set (happened evs) \<and>
    Settings_GitServerName (tr_settings rq') = Settings_GitServerName (tr_settings rq) \<and>
    tr_project rq' = tr_project rq \<and> tr_jobID rq' = tr_jobID rq"
proof -
  have "cancel_inv (system_start m) {}" by (simp add: cancel_inv_def system_start_def)
  with context_run_cancel [OF assms(2) system_start_inv [OF assms(1)]] have "cancel_inv s C" .
  moreover have "holds_canceled (ts_threads s i)" "pc_request (ts_threads s i) = Some rq"
    using assms(3,4) by simp_all
  ultimately obtain j rq' where j: "j \<in> C" "pc_request (ts_threads s j) = Some rq'" "tr_key rq' = tr_key rq"
    unfolding cancel_inv_def by blast
  have asked: "pc_request (ts_threads s k) = Some rq1 \<Longrightarrow> Asks k rq1 \<in> set (happened evs)" for k rq1
    using context_run_system [OF assms(2)] by (rule system_run_requests) (simp add: system_start_def)
  from asked [of i rq] asked [OF j(2)] assms(3,5) j(3)
  have "Settings_GitServerName (tr_settings rq') = Settings_GitServerName (tr_settings rq) \<and>
      tr_project rq' = tr_project rq \<and> tr_jobID rq' = tr_jobID rq"
    by (simp add: tr_key_def jobs_key_inj)
  with j(1) asked [OF j(2)] show ?thesis by blast
qed

section \<open>A request that fails because another client left\<close>

lemma perform_context:
  "context_run s0 evs (s, C) \<Longrightarrow> list_all (context_allows C) evs' \<Longrightarrow> perform_all s evs' = Some s' \<Longrightarrow>
   context_run s0 (evs @ map Happens evs') (s', C)"
proof (induction evs' arbitrary: evs s)
  case (Cons ev evs')
  then obtain s1 where s1: "perform s ev = Some s1" "perform_all s1 evs' = Some s'"
    by (auto split: option.splits)
  have "context_run s0 (evs @ [Happens ev]) (s1, C)"
    using context_step [OF Cons.prems(1)] Cons.prems(2) s1(1) by (simp add: perform_iff)
  from Cons.IH [OF this _ s1(2)] Cons.prems(2) show ?case by simp
qed simp

text \<open>GitLab would answer with the log; the context of request 0 is done before it does.\<close>

definition canceled_gitlab :: PipelineJobsProvider where
  "canceled_gitlab = (log_provider ''log'')\<lparr>PJ_GetJobTrace :=
     GitLab_GetJobTrace id (under_context True (\<lambda>url token. Response 200 ''log'' None))\<rparr>"

definition canceled_error :: go_error where
  "canceled_error = Errorf ''failed to fetch job trace for %s job %d: %w''
     [FStr ''team/tool'', FInt 4, FErr (Errorf ''Get %q: %w''
       [FStr (Sprintf ''%s/api/v4/projects/%s/jobs/%d/trace''
          [FStr (strings_TrimRight (Settings_Url demo_settings) {CHR ''/''}), FStr ''team/tool'', FInt 4]),
        FErr context_Canceled])]"

definition joining_events :: "trace_event list" where
  "joining_events =
     Asks 0 demo_request # replicate 5 (Advances 0 (log_provider ''log''))
     @ Asks 1 demo_request # replicate 3 (Advances 1 (log_provider ''log''))"

definition leaving_events :: "trace_event list" where
  "leaving_events = [Advances 0 canceled_gitlab, Advances 0 canceled_gitlab, Advances 1 (log_provider ''log'')]"

lemma demo_joining:
  "perform_all (system_start demo_pipelines) joining_events =
     Some (demo_system ((\<lambda>_. NotAsked)(0 := Fetching demo_request, 1 := Joined demo_request 0))
       [tr_key demo_request \<mapsto> 0] {})"
proof -
  have "replicate 5 x = [x, x, x, x, x]" "replicate 3 x = [x, x, x]" for x :: trace_event
    by (simp_all add: eval_nat_numeral)
  then show ?thesis
    unfolding joining_events_def
    by (simp add: demo_system_defs demo_system_def jobsProvider_def)
qed

lemma demo_leaving:
  "\<exists>s. perform_all (demo_system ((\<lambda>_. NotAsked)(0 := Fetching demo_request, 1 := Joined demo_request 0))
       [tr_key demo_request \<mapsto> 0] {}) leaving_events = Some s \<and>
     ts_threads s 1 = Answered demo_request (Err canceled_error)"
  by (simp add: leaving_events_def demo_system_defs demo_system_def canceled_gitlab_def GitLab_GetJobTrace_def
      under_context_def canceled_error_def Let_def)

lemma demo_contexts:
  "context_allows {} (Advances i (log_provider content))"
  "i \<noteq> 0 \<Longrightarrow> context_allows {0} (Advances i (log_provider content))"
  "context_allows {0} (Advances 0 canceled_gitlab)"
proof -
  have "canceled_provider canceled_gitlab" unfolding canceled_gitlab_def by (rule gitlab_canceled)
  then show "context_allows {0} (Advances 0 canceled_gitlab)" by simp
qed (simp_all add: never_canceled_def log_provider_def)

lemma cancellation_run:
  "\<exists>s. context_run (system_start demo_pipelines)
       (map Happens joining_events @ [Cancels 0] @ map Happens leaving_events) (s, {0}) \<and>
     ts_threads s 1 = Answered demo_request (Err canceled_error)"
proof -
  have allowed: "list_all (context_allows {}) joining_events" "list_all (context_allows {0}) leaving_events"
    using demo_contexts by (simp_all add: joining_events_def leaving_events_def list_all_iff del: context_allows.simps(1))
  obtain s where s: "perform_all (demo_system ((\<lambda>_. NotAsked)(0 := Fetching demo_request, 1 := Joined demo_request 0))
       [tr_key demo_request \<mapsto> 0] {}) leaving_events = Some s"
    "ts_threads s 1 = Answered demo_request (Err canceled_error)"
    using demo_leaving by blast
  have "context_run (system_start demo_pipelines) (map Happens joining_events @ [Cancels 0])
      (demo_system ((\<lambda>_. NotAsked)(0 := Fetching demo_request, 1 := Joined demo_request 0))
        [tr_key demo_request \<mapsto> 0] {}, {0})"
    using context_cancel [OF perform_context [OF context_none allowed(1) demo_joining], of 0] by simp
  from perform_context [OF this allowed(2) s(1)] s(2) show ?thesis by (intro exI [of _ s]) simp
qed

lemma canceled_error_class:
  "errors_Is canceled_error context_Canceled" "\<not> errors_Is canceled_error ErrUnauthorized"
  "\<not> errors_Is canceled_error ErrBadRequest" "\<not> errors_Is canceled_error ErrNotFound"
  by (simp_all add: canceled_error_def context_Canceled_def go_simps)


lemma happened_Happens [simp]: "happened (map Happens evs) = evs"
  by (induction evs) simp_all

lemma cancellation_confined_witness:
  "\<exists>rq'. Asks 0 rq' \<in> set (joining_events @ leaving_events) \<and> tr_project rq' = ''team/tool'' \<and> tr_jobID rq' = 4"
proof -
  obtain s where s: "context_run (system_start demo_pipelines)
       (map Happens joining_events @ [Cancels 0] @ map Happens leaving_events) (s, {0})"
     "ts_threads s 1 = Answered demo_request (Err canceled_error)"
    using cancellation_run by blast
  have "\<forall>j rq'. Asks j rq' \<in> set (joining_events @ leaving_events) \<longrightarrow>
      no_bar (Settings_GitServerName (tr_settings rq'))"
    by (auto simp: joining_events_def leaving_events_def demo_request_def demo_settings_def no_bar_def)
  with cancellation_confined [OF demo_fresh s canceled_error_class(1)] show ?thesis
    by (auto simp: demo_request_def)
qed

end
