(* ===== verification/Utf8.thy ===== *)
theory Utf8
  imports Prelude
begin

text \<open>
  \<open>unicode/utf8\<close> on byte strings, as \<open>encoding/json\<close> uses it: reading the first code point of a
  string, writing one, and a string as the sequence of its code points, in which a byte that belongs
  to none stands for the replacement character U+FFFD with width one.
\<close>

abbreviation byte :: "char \<Rightarrow> nat" where "byte c \<equiv> of_char c"

definition RuneError :: nat where "RuneError = 0xFFFD"

definition surrogate :: "nat \<Rightarrow> bool" where "surrogate r \<longleftrightarrow> 0xD800 \<le> r \<and> r < 0xE000"

text \<open>A code point that can be written.\<close>

definition utf8_ValidRune :: "nat \<Rightarrow> bool" where
  "utf8_ValidRune r \<longleftrightarrow> r \<le> 0x10FFFF \<and> \<not> surrogate r"

definition utf8_EncodeRune :: "nat \<Rightarrow> string" where
  "utf8_EncodeRune r =
     (if r < 0x80 then [char_of r]
      else if r < 0x800 then [char_of (0xC0 + r div 64), char_of (0x80 + r mod 64)]
      else if \<not> utf8_ValidRune r then [char_of (0xEF::nat), char_of (0xBF::nat), char_of (0xBD::nat)]
      else if r < 0x10000 then
        [char_of (0xE0 + r div 4096), char_of (0x80 + r div 64 mod 64), char_of (0x80 + r mod 64)]
      else
        [char_of (0xF0 + r div 262144), char_of (0x80 + r div 4096 mod 64),
         char_of (0x80 + r div 64 mod 64), char_of (0x80 + r mod 64)])"

text \<open>
  The second byte has a range of its own after some first bytes, which keeps out overlong forms,
  surrogates and values above U+10FFFF.
\<close>

definition within :: "nat \<Rightarrow> nat \<Rightarrow> char \<Rightarrow> bool" where
  "within lo hi c \<longleftrightarrow> lo \<le> byte c \<and> byte c \<le> hi"

fun utf8_DecodeRune :: "string \<Rightarrow> nat \<times> nat" where
  "utf8_DecodeRune [] = (RuneError, 0)"
| "utf8_DecodeRune (c # s) =
     (let a = byte c in
      if a < 0x80 then (a, 1)
      else if 0xC2 \<le> a \<and> a \<le> 0xDF then
        (case s of
           c1 # _ \<Rightarrow> if within 0x80 0xBF c1 then ((a - 0xC0) * 64 + (byte c1 - 0x80), 2) else (RuneError, 1)
         | _ \<Rightarrow> (RuneError, 1))
      else if 0xE0 \<le> a \<and> a \<le> 0xEF then
        (case s of
           c1 # c2 # _ \<Rightarrow>
             if within (if a = 0xE0 then 0xA0 else 0x80) (if a = 0xED then 0x9F else 0xBF) c1
                \<and> within 0x80 0xBF c2
             then ((a - 0xE0) * 4096 + (byte c1 - 0x80) * 64 + (byte c2 - 0x80), 3) else (RuneError, 1)
         | _ \<Rightarrow> (RuneError, 1))
      else if 0xF0 \<le> a \<and> a \<le> 0xF4 then
        (case s of
           c1 # c2 # c3 # _ \<Rightarrow>
             if within (if a = 0xF0 then 0x90 else 0x80) (if a = 0xF4 then 0x8F else 0xBF) c1
                \<and> within 0x80 0xBF c2 \<and> within 0x80 0xBF c3
             then ((a - 0xF0) * 262144 + (byte c1 - 0x80) * 4096 + (byte c2 - 0x80) * 64
                   + (byte c3 - 0x80), 4) else (RuneError, 1)
         | _ \<Rightarrow> (RuneError, 1))
      else (RuneError, 1))"

lemma DecodeRune_width: "s \<noteq> [] \<Longrightarrow> 0 < snd (utf8_DecodeRune s)"
  by (cases s) (auto simp: Let_def split: list.splits if_splits)

text \<open>The code points of a string, each with the number of bytes it was read from.\<close>

function runes :: "string \<Rightarrow> (nat \<times> nat) list" where
  "runes s = (if s = [] then [] else utf8_DecodeRune s # runes (drop (snd (utf8_DecodeRune s)) s))"
  by pat_completeness auto
termination
  by (relation "measure length") (auto intro!: diff_less DecodeRune_width)

declare runes.simps [simp del]

text \<open>\<open>utf8.ValidString\<close>, and the string with the replacement character for every stray byte.\<close>

definition utf8_ValidString :: "string \<Rightarrow> bool" where
  "utf8_ValidString s \<longleftrightarrow> (RuneError, 1) \<notin> set (runes s)"

definition replace_invalid :: "string \<Rightarrow> string" where
  "replace_invalid s = concat (map (\<lambda>p. utf8_EncodeRune (fst p)) (runes s))"

section \<open>Reading what was written\<close>

lemma byte_char_of: "n < 256 \<Longrightarrow> byte (char_of n) = n"
  by simp

lemma char_byte:
  "c = char_of (n::nat) \<longleftrightarrow> byte c = n mod 256"
  "char_of (n::nat) = c \<longleftrightarrow> n mod 256 = byte c"
  by (metis char_of_char of_char_of)+

text \<open>The parts of a code point, six bits each.\<close>

lemma six_bits:
  obtains q c where "(r::nat) = q * 64 + c" "c < 64" "r div 64 = q" "r mod 64 = c"
  using that [of "r div 64" "r mod 64"] by simp

lemma six_bits_div:
  "b < 64 \<Longrightarrow> c < 64 \<Longrightarrow> ((a * 64 + b) * 64 + c) div 4096 = (a::nat)"
  "b < 64 \<Longrightarrow> c < 64 \<Longrightarrow> d < 64 \<Longrightarrow> (((a * 64 + b) * 64 + c) * 64 + d) div 262144 = a"
  by simp_all

lemma six_bits_join:
  assumes "(r::nat) = q * 64 + c" "c < 64"
  shows "r div 64 = q" "r mod 64 = c"
  unfolding assms(1) using assms(2) by (simp_all del: mult.commute)

lemma DecodeRune_Encode:
  assumes "utf8_ValidRune r"
  shows "utf8_DecodeRune (utf8_EncodeRune r @ t) = (r, length (utf8_EncodeRune r))"
proof -
  have r: "r \<le> 0x10FFFF" "\<not> (0xD800 \<le> r \<and> r < 0xE000)"
    using assms by (auto simp: utf8_ValidRune_def surrogate_def)
  consider "r < 0x80" | "0x80 \<le> r" "r < 0x800" | "0x800 \<le> r" "r < 0x10000" | "0x10000 \<le> r" by linarith
  then show ?thesis
  proof cases
    case 1
    then show ?thesis by (simp add: utf8_EncodeRune_def)
  next
    case 2
    define a c where "a = r div 64" "c = r mod 64"
    then have "r = a * 64 + c" "c < 64" "2 \<le> a" "a < 32" using 2 by auto
    moreover have "utf8_EncodeRune r = [char_of (0xC0 + a), char_of (0x80 + c)]"
      using 2 by (simp add: utf8_EncodeRune_def a_c_def)
    ultimately show ?thesis by (simp add: within_def)
  next
    case 3
    obtain q c where q: "r = q * 64 + c" "c < 64" "r div 64 = q" "r mod 64 = c" by (rule six_bits)
    obtain a b where a: "q = a * 64 + b" "b < 64" "q div 64 = a" "q mod 64 = b" by (rule six_bits)
    have "r = a * 4096 + b * 64 + c" "b < 64" "c < 64" "a < 16" using 3 q a by auto
    moreover from this 3 r have "a = 0 \<longrightarrow> 32 \<le> b" "a = 13 \<longrightarrow> b < 32" by auto
    moreover have "utf8_EncodeRune r = [char_of (0xE0 + a), char_of (0x80 + b), char_of (0x80 + c)]"
      using 3 assms q a six_bits_div(1) [of b c a] by (simp add: utf8_EncodeRune_def)
    ultimately show ?thesis by (auto simp: within_def)
  next
    case 4
    obtain q d where q: "r = q * 64 + d" "d < 64" "r div 64 = q" "r mod 64 = d" by (rule six_bits)
    obtain p c where p: "q = p * 64 + c" "c < 64" "q div 64 = p" "q mod 64 = c" by (rule six_bits)
    obtain a b where a: "p = a * 64 + b" "b < 64" "p div 64 = a" "p mod 64 = b" by (rule six_bits)
    have "r div 4096 = p" using q p six_bits_div(1) [of c d p] by simp
    have "r = a * 262144 + b * 4096 + c * 64 + d" "b < 64" "c < 64" "d < 64" "a \<le> 4"
      using 4 r q p a by auto
    moreover from this 4 r have "a = 0 \<longrightarrow> 16 \<le> b" "a = 4 \<longrightarrow> b < 16" by auto
    moreover have "utf8_EncodeRune r =
        [char_of (0xF0 + a), char_of (0x80 + b), char_of (0x80 + c), char_of (0x80 + d)]"
      using 4 assms q p a \<open>r div 4096 = p\<close> six_bits_div(2) [of b c d a] by (simp add: utf8_EncodeRune_def)
    ultimately show ?thesis by (auto simp: within_def)
  qed
qed

text \<open>A stray byte, or a code point that is written as it was read.\<close>

lemma DecodeRune_cases:
  assumes "utf8_DecodeRune s = (r, n)" "s \<noteq> []"
  shows "utf8_ValidRune r"
    and "(r, n) = (RuneError, 1) \<or> take n s = utf8_EncodeRune r"
proof -
  obtain c0 s0 where s: "s = c0 # s0" using assms(2) by (cases s) auto
  let ?a = "byte c0"
  consider "(r, n) = (RuneError, 1)" | "r = ?a" "n = 1" "?a < 0x80"
    | c1 t where "s0 = c1 # t" "0xC2 \<le> ?a" "?a \<le> 0xDF" "within 0x80 0xBF c1" "n = 2"
        "r = (?a - 0xC0) * 64 + (byte c1 - 0x80)"
    | c1 c2 t where "s0 = c1 # c2 # t" "0xE0 \<le> ?a" "?a \<le> 0xEF" "within 0x80 0xBF c1" "within 0x80 0xBF c2"
        "?a = 0xE0 \<longrightarrow> 0xA0 \<le> byte c1" "?a = 0xED \<longrightarrow> byte c1 \<le> 0x9F" "n = 3"
        "r = (?a - 0xE0) * 4096 + (byte c1 - 0x80) * 64 + (byte c2 - 0x80)"
    | c1 c2 c3 t where "s0 = c1 # c2 # c3 # t" "0xF0 \<le> ?a" "?a \<le> 0xF4" "within 0x80 0xBF c1" "within 0x80 0xBF c2"
        "within 0x80 0xBF c3" "?a = 0xF0 \<longrightarrow> 0x90 \<le> byte c1" "?a = 0xF4 \<longrightarrow> byte c1 \<le> 0x8F" "n = 4"
        "r = (?a - 0xF0) * 262144 + (byte c1 - 0x80) * 4096 + (byte c2 - 0x80) * 64 + (byte c3 - 0x80)"
    using assms(1) unfolding s
    by (auto simp: Let_def within_def split: if_splits list.splits)
  then have "utf8_ValidRune r \<and> ((r, n) = (RuneError, 1) \<or> take n s = utf8_EncodeRune r)"
  proof cases
    case 1
    then show ?thesis by (simp add: RuneError_def utf8_ValidRune_def surrogate_def)
  next
    case 2
    then show ?thesis by (simp add: s utf8_EncodeRune_def utf8_ValidRune_def surrogate_def)
  next
    case (3 c1 t)
    define a b where "a = ?a - 0xC0" "b = byte c1 - 0x80"
    with 3 have ab: "?a = 0xC0 + a" "byte c1 = 0x80 + b" "2 \<le> a" "a < 32" "b < 64" "r = a * 64 + b"
      by (auto simp: within_def)
    from ab 3 show ?thesis
      by (simp add: s utf8_EncodeRune_def utf8_ValidRune_def surrogate_def char_byte)
  next
    case (4 c1 c2 t)
    from 4 obtain a b c where ab: "?a = 0xE0 + a" "byte c1 = 0x80 + b" "byte c2 = 0x80 + c"
      by (metis within_def le_Suc_ex)
    with 4 have "a < 16" "b < 64" "c < 64" "r = (a * 64 + b) * 64 + c"
      "a = 0 \<longrightarrow> 32 \<le> b" "a = 13 \<longrightarrow> b < 32"
      by (auto simp: within_def)
    note ab = ab this
    then have "0x800 \<le> r" "r < 0x10000" "utf8_ValidRune r"
      using linorder_less_linear [of a 13] by (auto simp: utf8_ValidRune_def surrogate_def)
    moreover have "r div 64 = a * 64 + b" "r mod 64 = c" "r div 4096 = a"
      using six_bits_join [OF ab(7,6)] six_bits_div(1) [OF ab(5,6), of a] unfolding ab(7) by blast+
    ultimately show ?thesis
      using ab(1-6) 4(1,8) by (simp add: s utf8_EncodeRune_def char_byte)
  next
    case (5 c1 c2 c3 t)
    from 5 obtain a b c d where ab: "?a = 0xF0 + a" "byte c1 = 0x80 + b" "byte c2 = 0x80 + c"
      "byte c3 = 0x80 + d"
      by (metis within_def le_Suc_ex)
    with 5 have "a \<le> 4" "b < 64" "c < 64" "d < 64" "r = ((a * 64 + b) * 64 + c) * 64 + d"
      "a = 0 \<longrightarrow> 16 \<le> b" "a = 4 \<longrightarrow> b < 16"
      by (auto simp: within_def)
    note ab = ab this
    then have "0x10000 \<le> r" "utf8_ValidRune r"
      by (auto simp: utf8_ValidRune_def surrogate_def)
    moreover have "r div 64 = (a * 64 + b) * 64 + c" "r mod 64 = d" "r div 4096 = a * 64 + b" "r div 262144 = a"
      using six_bits_join [OF ab(9,8)] six_bits_div(2) [OF ab(6,7,8), of a]
        six_bits_div(1) [OF ab(7,8), of "a * 64 + b"]
      unfolding ab(9) by blast+
    ultimately show ?thesis
      using ab(1-8) 5(1,9) six_bits_join(2) [OF refl ab(7), of "a * 64 + b"] by (simp add: s utf8_EncodeRune_def char_byte)
  qed
  then show "utf8_ValidRune r" and "(r, n) = (RuneError, 1) \<or> take n s = utf8_EncodeRune r" by blast+
qed

lemma runes_ValidRune: "p \<in> set (runes s) \<Longrightarrow> utf8_ValidRune (fst p)"
proof (induction s rule: runes.induct)
  case (1 s)
  show ?case
  proof (cases "s = []")
    case False
    with 1 show ?thesis
      by (cases "utf8_DecodeRune s") (auto simp: runes.simps [of s] dest: DecodeRune_cases(1))
  qed (use 1 in \<open>simp add: runes.simps\<close>)
qed

text \<open>Outside ASCII every byte has its high bit set.\<close>

lemma Encode_high:
  assumes "0x80 \<le> r" "utf8_ValidRune r" "c \<in> set (utf8_EncodeRune r)"
  shows "0x80 \<le> byte c"
proof -
  have "r < 2048 \<Longrightarrow> r div 64 < 32" "r < 65536 \<Longrightarrow> r div 4096 < 16" "r div 262144 < 5"
    using assms(2) by (auto simp: utf8_ValidRune_def)
  moreover have "r div 64 mod 64 < 64" "r div 4096 mod 64 < 64" "r mod 64 < 64" by simp_all
  ultimately show ?thesis
    using assms by (auto simp: utf8_EncodeRune_def split: if_splits)
qed

lemma Encode_not_Nil [simp]: "utf8_EncodeRune r \<noteq> []"
  by (simp add: utf8_EncodeRune_def)

text \<open>A valid string is left alone.\<close>

lemma replace_invalid_id: "utf8_ValidString s \<Longrightarrow> replace_invalid s = s"
proof (induction s rule: runes.induct)
  case (1 s)
  show ?case
  proof (cases "s = []")
    case False
    obtain r n where rn: "utf8_DecodeRune s = (r, n)" by fastforce
    with False have s: "runes s = (r, n) # runes (drop n s)" by (simp add: runes.simps [of s])
    with 1 False rn have "replace_invalid (drop n s) = drop n s" "(r, n) \<noteq> (RuneError, 1)"
      by (auto simp: utf8_ValidString_def)
    moreover from this DecodeRune_cases(2) [OF rn False] have "take n s = utf8_EncodeRune r" by blast
    ultimately show ?thesis using s by (simp add: replace_invalid_def) (metis append_take_drop_id)
  qed (simp add: replace_invalid_def runes.simps)
qed

text \<open>Everything in ASCII is valid.\<close>

lemma runes_ascii: "list_all (\<lambda>c. byte c < 0x80) s \<Longrightarrow> runes s = map (\<lambda>c. (byte c, 1)) s"
  by (induction s) (simp_all add: runes.simps)

lemma ascii_ValidString: "list_all (\<lambda>c. byte c < 0x80) s \<Longrightarrow> utf8_ValidString s"
  by (auto simp: utf8_ValidString_def runes_ascii RuneError_def list_all_iff)

end
