(* ===== verification/JsonText.thy ===== *)
theory JsonText
  imports Utf8 OpenApi
begin

text \<open>
  JSON as text: \<open>encoding/json\<close> writes a tree as bytes (\<open>Encode\<close>) and \<open>json.Unmarshal\<close> reads bytes.
  The reader is the scanner of the package, a machine that takes one byte at a time and keeps a stack
  of the arrays and objects it is in, at most 10000; it builds the value on the way.  What the
  program reads is the list of variables of a pipeline to be triggered.  How a \<open>float32\<close> is written
  is the parameter \<open>fmt\<close>, and the text of an error of \<open>json.Unmarshal\<close> the parameter \<open>json_error\<close>.
\<close>

section \<open>Writing\<close>

text \<open>
  Strings are written for HTML: besides what JSON demands, the angle brackets, the ampersand and the
  two separators U+2028 and U+2029 are escaped.  A stray byte becomes the escape of U+FFFD.
\<close>

abbreviation BACKSLASH :: char where "BACKSLASH \<equiv> CHR 0x5C"
abbreviation QUOTE :: char where "QUOTE \<equiv> CHR 0x22"

definition write_ascii :: "nat \<Rightarrow> string" where
  "write_ascii b =
     (if b = 0x22 then [BACKSLASH, QUOTE]
      else if b = 0x5C then [BACKSLASH, BACKSLASH]
      else if b = 0x08 then [BACKSLASH, CHR ''b'']
      else if b = 0x0C then [BACKSLASH, CHR ''f'']
      else if b = 0x0A then [BACKSLASH, CHR ''n'']
      else if b = 0x0D then [BACKSLASH, CHR ''r'']
      else if b = 0x09 then [BACKSLASH, CHR ''t'']
      else if b < 0x20 \<or> b = 0x3C \<or> b = 0x3E \<or> b = 0x26
        then BACKSLASH # ''u00'' @ [hex_digit (b div 16), hex_digit (b mod 16)]
      else [char_of b])"

fun write_rune :: "nat \<times> nat \<Rightarrow> string" where
  "write_rune (r, n) =
     (if r < 0x80 then write_ascii r
      else if r = RuneError \<and> n = 1 then BACKSLASH # ''ufffd''
      else if r = 0x2028 \<or> r = 0x2029 then BACKSLASH # ''u202'' @ [hex_digit (r mod 16)]
      else utf8_EncodeRune r)"

definition write_string :: "string \<Rightarrow> string" where
  "write_string s = [QUOTE] @ concat (map write_rune (runes s)) @ [QUOTE]"

definition write_bool :: "bool \<Rightarrow> string" where
  "write_bool b = (if b then ''true'' else ''false'')"

text \<open>Elements and fields are separated by commas.\<close>

definition commas :: "string list \<Rightarrow> string" where "commas xs = strings_Join xs '',''"

fun write_json :: "(float32 \<Rightarrow> string) \<Rightarrow> json \<Rightarrow> string" where
  "write_json fmt JNull = ''null''"
| "write_json fmt (JBool b) = write_bool b"
| "write_json fmt (JInt n) = strconv_Itoa n"
| "write_json fmt (JFloat32 x) = fmt x"
| "write_json fmt (JString s) = write_string s"
| "write_json fmt (JArray js) = ''['' @ commas (map (write_json fmt) js) @ '']''"
| "write_json fmt (JObject fs) =
     ''{'' @ commas (map (\<lambda>(k, j). write_string k @ '':'' @ write_json fmt j) fs) @ ''}''"

text \<open>What \<open>Encoder.Encode\<close> and \<open>http.Error\<close> have put on the wire.\<close>

fun chunk_text :: "(float32 \<Rightarrow> string) \<Rightarrow> chunk \<Rightarrow> string" where
  "chunk_text fmt (Text s) = s"
| "chunk_text fmt (Json j) = write_json fmt j @ [CHR 0x0A]"

definition body_text :: "(float32 \<Rightarrow> string) \<Rightarrow> ResponseWriter \<Rightarrow> string" where
  "body_text fmt w = concat (map (chunk_text fmt) (rw_body w))"

section \<open>Reading\<close>

datatype jvalue =
    VNull
  | VBool bool
  | VNumber string
  | VString string
  | VArray "jvalue list"
  | VObject "(string \<times> jvalue) list"

text \<open>
  The text between two quotes as a string (\<open>unquote\<close>).  An escaped surrogate is joined with the next
  escape when the two are a pair, and is a replacement character otherwise; so is a stray byte.
\<close>

definition hex4 :: "char \<Rightarrow> char \<Rightarrow> char \<Rightarrow> char \<Rightarrow> nat option" where
  "hex4 a b c d =
     (case (hex_val a, hex_val b, hex_val c, hex_val d) of
        (Some w, Some x, Some y, Some z) \<Rightarrow> Some (((w * 16 + x) * 16 + y) * 16 + z)
      | _ \<Rightarrow> None)"

fun getu4 :: "string \<Rightarrow> nat option" where
  "getu4 (x # u # a # b # c # d # _) = (if x = BACKSLASH \<and> u = CHR ''u'' then hex4 a b c d else None)"
| "getu4 _ = None"

definition utf16_pair :: "nat \<Rightarrow> nat option \<Rightarrow> nat option" where
  "utf16_pair r1 r2 =
     (case r2 of
        Some r2 \<Rightarrow>
          (if 0xD800 \<le> r1 \<and> r1 < 0xDC00 \<and> 0xDC00 \<le> r2 \<and> r2 < 0xE000
           then Some ((r1 - 0xD800) * 0x400 + (r2 - 0xDC00) + 0x10000) else None)
      | None \<Rightarrow> None)"

definition simple_escape :: "char \<Rightarrow> char option" where
  "simple_escape c =
     (if c = QUOTE \<or> c = BACKSLASH \<or> c = CHR ''/'' \<or> c = CHR 0x27 then Some c
      else if c = CHR ''b'' then Some (CHR 0x08)
      else if c = CHR ''f'' then Some (CHR 0x0C)
      else if c = CHR ''n'' then Some (CHR 0x0A)
      else if c = CHR ''r'' then Some (CHR 0x0D)
      else if c = CHR ''t'' then Some (CHR 0x09)
      else None)"

abbreviation prepend :: "string \<Rightarrow> string option \<Rightarrow> string option" where
  "prepend s \<equiv> map_option ((@) s)"

function (sequential) unquote :: "string \<Rightarrow> string option" where
  "unquote [] = Some []"
| "unquote (c # s) =
     (if c = BACKSLASH then
        (case getu4 (c # s) of
           Some r \<Rightarrow>
             if surrogate r then
               (case utf16_pair r (getu4 (drop 5 s)) of
                  Some r' \<Rightarrow> prepend (utf8_EncodeRune r') (unquote (drop 11 s))
                | None \<Rightarrow> prepend (utf8_EncodeRune RuneError) (unquote (drop 5 s)))
             else prepend (utf8_EncodeRune r) (unquote (drop 5 s))
         | None \<Rightarrow>
             (case s of
                [] \<Rightarrow> None
              | e # s' \<Rightarrow>
                  (case simple_escape e of
                     Some d \<Rightarrow> prepend [d] (unquote s')
                   | None \<Rightarrow> None)))
      else if c = QUOTE \<or> byte c < 0x20 then None
      else prepend (utf8_EncodeRune (fst (utf8_DecodeRune (c # s))))
             (unquote (drop (snd (utf8_DecodeRune (c # s))) (c # s))))"
  by pat_completeness auto
termination
  by (relation "measure length") (auto simp del: utf8_DecodeRune.simps intro!: diff_less DecodeRune_width)

declare unquote.simps [simp del]

text \<open>
  The machine.  A frame is an array or object that is still open, with what has been read of it; the
  modes are the scanner's step functions.  \<open>EndValue\<close> is after a value, and a number or literal is
  kept with the text read so far, or with the letters that are missing.
\<close>

datatype frame =
    ArrayValue "jvalue list"
  | ObjectKey "(string \<times> jvalue) list"
  | ObjectValue "(string \<times> jvalue) list" string

datatype number_mode = AfterMinus | AfterZero | IntDigits | AfterDot | FracDigits | AfterE | AfterESign | ExpDigits

datatype mode =
    BeginValue
  | BeginValueOrEmpty
  | BeginString
  | BeginStringOrEmpty
  | InString string
  | InStringEsc string
  | InStringEscU nat string
  | Number number_mode string
  | Literal string jvalue
  | EndValue jvalue
  | Failed

type_synonym machine = "frame list \<times> mode"

definition json_space :: "char \<Rightarrow> bool" where
  "json_space c \<longleftrightarrow> c = CHR '' '' \<or> c = CHR 0x09 \<or> c = CHR 0x0D \<or> c = CHR 0x0A"

definition maxNestingDepth :: nat where "maxNestingDepth = 10000"

definition push_frame :: "frame list \<Rightarrow> frame \<Rightarrow> mode \<Rightarrow> machine" where
  "push_frame st f m = (if length st < maxNestingDepth then (f # st, m) else (st, Failed))"

definition begin_value :: "frame list \<Rightarrow> char \<Rightarrow> machine" where
  "begin_value st c =
     (if json_space c then (st, BeginValue)
      else if c = CHR ''{'' then push_frame st (ObjectKey []) BeginStringOrEmpty
      else if c = CHR ''['' then push_frame st (ArrayValue []) BeginValueOrEmpty
      else if c = QUOTE then (st, InString [])
      else if c = CHR ''-'' then (st, Number AfterMinus [c])
      else if c = CHR ''0'' then (st, Number AfterZero [c])
      else if is_digit c then (st, Number IntDigits [c])
      else if c = CHR ''t'' then (st, Literal ''rue'' (VBool True))
      else if c = CHR ''f'' then (st, Literal ''alse'' (VBool False))
      else if c = CHR ''n'' then (st, Literal ''ull'' VNull)
      else (st, Failed))"

definition begin_string :: "frame list \<Rightarrow> char \<Rightarrow> machine" where
  "begin_string st c =
     (if json_space c then (st, BeginString)
      else if c = QUOTE then (st, InString [])
      else (st, Failed))"

fun end_value :: "frame list \<Rightarrow> jvalue \<Rightarrow> char \<Rightarrow> machine" where
  "end_value [] v c = ([], if json_space c then EndValue v else Failed)"
| "end_value (ArrayValue vs # st) v c =
     (if json_space c then (ArrayValue vs # st, EndValue v)
      else if c = CHR '','' then (ArrayValue (vs @ [v]) # st, BeginValue)
      else if c = CHR '']'' then (st, EndValue (VArray (vs @ [v])))
      else (st, Failed))"
| "end_value (ObjectKey fs # st) v c =
     (if json_space c then (ObjectKey fs # st, EndValue v)
      else if c = CHR '':'' then
        (case v of VString k \<Rightarrow> (ObjectValue fs k # st, BeginValue) | _ \<Rightarrow> (st, Failed))
      else (st, Failed))"
| "end_value (ObjectValue fs k # st) v c =
     (if json_space c then (ObjectValue fs k # st, EndValue v)
      else if c = CHR '','' then (ObjectKey (fs @ [(k, v)]) # st, BeginString)
      else if c = CHR ''}'' then (st, EndValue (VObject (fs @ [(k, v)])))
      else (st, Failed))"

text \<open>The next state within a number, or \<open>None\<close> when the number may end before this byte.\<close>

definition exponent :: "char \<Rightarrow> bool" where "exponent c \<longleftrightarrow> c = CHR ''e'' \<or> c = CHR ''E''"

fun number_step :: "number_mode \<Rightarrow> char \<Rightarrow> number_mode option" where
  "number_step AfterMinus c =
     (if c = CHR ''0'' then Some AfterZero else if is_digit c then Some IntDigits else None)"
| "number_step IntDigits c =
     (if is_digit c then Some IntDigits else if c = CHR ''.'' then Some AfterDot
      else if exponent c then Some AfterE else None)"
| "number_step AfterZero c =
     (if c = CHR ''.'' then Some AfterDot else if exponent c then Some AfterE else None)"
| "number_step AfterDot c = (if is_digit c then Some FracDigits else None)"
| "number_step FracDigits c =
     (if is_digit c then Some FracDigits else if exponent c then Some AfterE else None)"
| "number_step AfterE c =
     (if c = CHR ''+'' \<or> c = CHR ''-'' then Some AfterESign else if is_digit c then Some ExpDigits else None)"
| "number_step AfterESign c = (if is_digit c then Some ExpDigits else None)"
| "number_step ExpDigits c = (if is_digit c then Some ExpDigits else None)"

definition number_complete :: "number_mode \<Rightarrow> bool" where
  "number_complete m \<longleftrightarrow> m \<in> {AfterZero, IntDigits, FracDigits, ExpDigits}"

fun json_step :: "machine \<Rightarrow> char \<Rightarrow> machine" where
  "json_step (st, BeginValue) c = begin_value st c"
| "json_step (st, BeginValueOrEmpty) c =
     (if json_space c then (st, BeginValueOrEmpty)
      else if c = CHR '']'' then (tl st, EndValue (VArray []))
      else begin_value st c)"
| "json_step (st, BeginString) c = begin_string st c"
| "json_step (st, BeginStringOrEmpty) c =
     (if json_space c then (st, BeginStringOrEmpty)
      else if c = CHR ''}'' then (tl st, EndValue (VObject []))
      else begin_string st c)"
| "json_step (st, InString raw) c =
     (if c = QUOTE then (case unquote raw of Some s \<Rightarrow> (st, EndValue (VString s)) | None \<Rightarrow> (st, Failed))
      else if c = BACKSLASH then (st, InStringEsc (raw @ [c]))
      else if byte c < 0x20 then (st, Failed)
      else (st, InString (raw @ [c])))"
| "json_step (st, InStringEsc raw) c =
     (if c \<in> set ''bfnrt/'' \<or> c = BACKSLASH \<or> c = QUOTE then (st, InString (raw @ [c]))
      else if c = CHR ''u'' then (st, InStringEscU 4 (raw @ [c]))
      else (st, Failed))"
| "json_step (st, InStringEscU n raw) c =
     (if hex_val c = None then (st, Failed)
      else if n = 1 then (st, InString (raw @ [c]))
      else (st, InStringEscU (n - 1) (raw @ [c])))"
| "json_step (st, Number m t) c =
     (case number_step m c of
        Some m' \<Rightarrow> (st, Number m' (t @ [c]))
      | None \<Rightarrow> if number_complete m then end_value st (VNumber t) c else (st, Failed))"
| "json_step (st, Literal rest v) c =
     (case rest of
        x # rest' \<Rightarrow>
          if c \<noteq> x then (st, Failed)
          else if rest' = [] then (st, EndValue v) else (st, Literal rest' v)
      | [] \<Rightarrow> (st, Failed))"
| "json_step (st, EndValue v) c = end_value st v c"
| "json_step (st, Failed) c = (st, Failed)"

text \<open>At the end of the text the scanner takes one more space.\<close>

definition json_parse :: "string \<Rightarrow> jvalue option" where
  "json_parse s =
     (case json_step (foldl json_step ([], BeginValue) s) (CHR '' '') of
        ([], EndValue v) \<Rightarrow> Some v
      | _ \<Rightarrow> None)"

section \<open>Reading what was written\<close>

text \<open>A text that the scanner takes for a number.\<close>

fun number_rest :: "number_mode \<Rightarrow> string \<Rightarrow> bool" where
  "number_rest m [] = number_complete m"
| "number_rest m (c # t) = (case number_step m c of Some m' \<Rightarrow> number_rest m' t | None \<Rightarrow> False)"

definition json_number :: "string \<Rightarrow> bool" where
  "json_number t = number_rest AfterMinus (if take 1 t = ''-'' then tl t else t)"

text \<open>What a reader makes of a tree: stray bytes are replaced, numbers are kept as text.\<close>

fun parsed :: "(float32 \<Rightarrow> string) \<Rightarrow> json \<Rightarrow> jvalue" where
  "parsed fmt JNull = VNull"
| "parsed fmt (JBool b) = VBool b"
| "parsed fmt (JInt n) = VNumber (strconv_Itoa n)"
| "parsed fmt (JFloat32 x) = VNumber (fmt x)"
| "parsed fmt (JString s) = VString (replace_invalid s)"
| "parsed fmt (JArray js) = VArray (map (parsed fmt) js)"
| "parsed fmt (JObject fs) = VObject (map (\<lambda>(k, j). (replace_invalid k, parsed fmt j)) fs)"

fun json_depth :: "json \<Rightarrow> nat" where
  "json_depth (JArray js) = Suc (foldr (\<lambda>j. max (json_depth j)) js 0)"
| "json_depth (JObject fs) = Suc (foldr (\<lambda>(k, j). max (json_depth j)) fs 0)"
| "json_depth _ = 0"

subsection \<open>Strings\<close>

declare hex_val.simps [simp del]

lemma hex_val_0 [simp]: "hex_val (CHR ''0'') = Some 0"
  by (simp add: hex_val.simps)

lemma hex_val_hex_digit [simp]: "n < 16 \<Longrightarrow> hex_val (hex_digit n) = Some n"
  by (simp add: hex_digit_def hex_val.simps)

lemma unquote_Encode:
  assumes "utf8_ValidRune r" "0x80 \<le> r"
  shows "unquote (utf8_EncodeRune r @ t) = prepend (utf8_EncodeRune r) (unquote t)"
proof -
  obtain c s where cs: "utf8_EncodeRune r = c # s" by (cases "utf8_EncodeRune r") auto
  with Encode_high [OF assms(2,1), of c] have c: "c \<noteq> BACKSLASH" "c \<noteq> QUOTE" "\<not> byte c < 0x20"
    by auto
  have "utf8_DecodeRune (c # s @ t) = (r, Suc (length s))"
    using DecodeRune_Encode [OF assms(1), of t] by (simp add: cs)
  then show ?thesis
    using c by (simp add: cs unquote.simps(2) append_Cons [abs_def] del: utf8_DecodeRune.simps)
qed

lemma getu4_not_u: "x \<noteq> CHR ''u'' \<Longrightarrow> getu4 (c # x # t) = None"
  by (cases "c # x # t" rule: getu4.cases) auto

lemma unquote_simple:
  "simple_escape x = Some d \<Longrightarrow> unquote (BACKSLASH # x # t) = prepend [d] (unquote t)"
  by (subst unquote.simps) (auto simp: getu4_not_u simple_escape_def split: if_splits)

lemma unquote_hex4:
  "hex4 a b c d = Some r \<Longrightarrow> \<not> surrogate r \<Longrightarrow>
   unquote (BACKSLASH # CHR ''u'' # a # b # c # d # t) = prepend (utf8_EncodeRune r) (unquote t)"
  by (subst unquote.simps) simp

text \<open>A byte below 0x80 is written as a short escape, a long one, or as itself.\<close>

lemma write_ascii_cases:
  assumes "r < 0x80"
  obtains (short) x where "write_ascii r = [BACKSLASH, x]" "simple_escape x = Some (char_of r)"
      "x \<in> set ''bfnrt'' \<or> x = BACKSLASH \<or> x = QUOTE"
    | (long) "write_ascii r = BACKSLASH # ''u00'' @ [hex_digit (r div 16), hex_digit (r mod 16)]"
    | (plain) "write_ascii r = [char_of r]" "0x20 \<le> r" "r \<noteq> 0x22" "r \<noteq> 0x5C"
proof -
  have "char_of (0x22::nat) = QUOTE" "char_of (0x5C::nat) = BACKSLASH" "char_of (0x08::nat) = CHR 0x08"
    "char_of (0x0C::nat) = CHR 0x0C" "char_of (0x0A::nat) = CHR 0x0A" "char_of (0x0D::nat) = CHR 0x0D"
    "char_of (0x09::nat) = CHR 0x09"
    by (simp_all add: char_byte)
  then have escaped: "\<exists>x. write_ascii r = [BACKSLASH, x] \<and> simple_escape x = Some (char_of r) \<and>
      (x \<in> set ''bfnrt'' \<or> x = BACKSLASH \<or> x = QUOTE)"
    if "r \<in> {0x22, 0x5C, 0x08, 0x0C, 0x0A, 0x0D, 0x09}"
    using that by (auto simp: write_ascii_def simple_escape_def)
  moreover have "r \<in> {0x22, 0x5C, 0x08, 0x0C, 0x0A, 0x0D, 0x09} \<or>
      write_ascii r = BACKSLASH # ''u00'' @ [hex_digit (r div 16), hex_digit (r mod 16)] \<or>
      write_ascii r = [char_of r] \<and> 0x20 \<le> r \<and> r \<noteq> 0x22 \<and> r \<noteq> 0x5C"
    by (simp add: write_ascii_def)
  ultimately show thesis using that by blast
qed

lemma unquote_ascii:
  assumes "r < 0x80"
  shows "unquote (write_ascii r @ t) = prepend (utf8_EncodeRune r) (unquote t)"
proof -
  have r: "utf8_EncodeRune r = [char_of r]" using assms by (simp add: utf8_EncodeRune_def)
  from assms show ?thesis
  proof (cases rule: write_ascii_cases)
    case (short x)
    with r show ?thesis by (simp add: unquote_simple)
  next
    case long
    have "hex4 (CHR ''0'') (CHR ''0'') (hex_digit (r div 16)) (hex_digit (r mod 16)) = Some r"
      using assms by (simp add: hex4_def)
    moreover have "\<not> surrogate r" using assms by (simp add: surrogate_def)
    ultimately show ?thesis using long by (simp add: unquote_hex4)
  next
    case plain
    with assms r show ?thesis by (simp add: char_byte unquote.simps(2))
  qed
qed

lemma unquote_write_rune:
  assumes "utf8_ValidRune r"
  shows "unquote (write_rune (r, n) @ t) = prepend (utf8_EncodeRune r) (unquote t)"
proof -
  have "hex4 (CHR ''f'') (CHR ''f'') (CHR ''f'') (CHR ''d'') = Some RuneError"
    "hex4 (CHR ''2'') (CHR ''0'') (CHR ''2'') (hex_digit (0x2028 mod 16)) = Some 0x2028"
    "hex4 (CHR ''2'') (CHR ''0'') (CHR ''2'') (hex_digit (0x2029 mod 16)) = Some 0x2029"
    "\<not> surrogate RuneError" "\<not> surrogate 0x2028" "\<not> surrogate 0x2029"
    by (simp_all add: hex4_def hex_val.simps surrogate_def RuneError_def hex_digit_def)
  then show ?thesis
    using unquote_Encode [OF assms, of t] unquote_ascii [of r t]
    by (auto simp: unquote_hex4)
qed

lemma unquote_write_runes:
  "(\<And>p. p \<in> set rs \<Longrightarrow> utf8_ValidRune (fst p)) \<Longrightarrow>
   unquote (concat (map write_rune rs)) = Some (concat (map (\<lambda>p. utf8_EncodeRune (fst p)) rs))"
proof (induction rs)
  case (Cons p rs)
  then show ?case
    using unquote_write_rune [of "fst p" "snd p" "concat (map write_rune rs)"]
    by (simp del: write_rune.simps)
qed (simp add: unquote.simps)

lemma read_write_rune:
  assumes "utf8_ValidRune r"
  shows "foldl json_step (st, InString raw) (write_rune (r, n)) = (st, InString (raw @ write_rune (r, n)))"
proof -
  have plain: "(\<And>c. c \<in> set s \<Longrightarrow> c \<noteq> BACKSLASH \<and> c \<noteq> QUOTE \<and> 0x20 \<le> byte c) \<Longrightarrow>
      foldl json_step (st, InString raw) s = (st, InString (raw @ s))" for s raw
    by (induction s arbitrary: raw) (auto simp: not_less [symmetric])
  show ?thesis
  proof (cases "r < 0x80")
    case True
    from True show ?thesis
    proof (cases rule: write_ascii_cases)
      case (short x)
      with True show ?thesis by auto
    next
      case long
      have "hex_val (hex_digit (r div 16)) \<noteq> None" "hex_val (hex_digit (r mod 16)) \<noteq> None"
        using True by simp_all
      with True long show ?thesis by (simp del: hex_val_hex_digit)
    qed (use True plain [of "[char_of r]"] in \<open>simp add: char_byte\<close>)
  next
    case False
    have "foldl json_step (st, InString raw) (utf8_EncodeRune r) = (st, InString (raw @ utf8_EncodeRune r))"
      using Encode_high [OF _ assms] False by (intro plain) fastforce
    with False show ?thesis by (auto simp: hex_digit_def hex_val.simps)
  qed
qed

lemma read_write_runes:
  "(\<And>p. p \<in> set rs \<Longrightarrow> utf8_ValidRune (fst p)) \<Longrightarrow>
   foldl json_step (st, InString raw) (concat (map write_rune rs)) =
     (st, InString (raw @ concat (map write_rune rs)))"
proof (induction rs arbitrary: raw)
  case (Cons p rs)
  then show ?case
    using read_write_rune [of "fst p" st raw "snd p"]
    by (simp del: write_rune.simps json_step.simps)
qed simp

lemma read_write_string:
  assumes "m \<in> {BeginValue, BeginString, BeginStringOrEmpty}"
  shows "foldl json_step (st, m) (write_string s) = (st, EndValue (VString (replace_invalid s)))"
proof -
  have "json_step (st, m) QUOTE = (st, InString [])"
    using assms by (auto simp: begin_value_def begin_string_def json_space_def)
  moreover have "foldl json_step (st, InString []) (concat (map write_rune (runes s))) =
      (st, InString (concat (map write_rune (runes s))))"
    using read_write_runes [of "runes s" st "[]"] runes_ValidRune by simp
  moreover have "unquote (concat (map write_rune (runes s))) = Some (replace_invalid s)"
    unfolding replace_invalid_def by (rule unquote_write_runes) (rule runes_ValidRune)
  ultimately show ?thesis by (simp add: write_string_def)
qed

subsection \<open>Numbers\<close>

text \<open>A machine that has read a value and waits for what may follow one; a number is finished by that.\<close>

definition value_end :: "char \<Rightarrow> bool" where
  "value_end c \<longleftrightarrow> json_space c \<or> c = CHR '','' \<or> c = CHR '']'' \<or> c = CHR ''}''"

definition settled :: "machine \<Rightarrow> frame list \<Rightarrow> jvalue \<Rightarrow> bool" where
  "settled M st v \<longleftrightarrow> (\<forall>c. value_end c \<longrightarrow> json_step M c = end_value st v c)"

lemma settledD: "settled M st v \<Longrightarrow> value_end c \<Longrightarrow> json_step M c = end_value st v c"
  by (simp add: settled_def)

lemma settled_EndValue [simp]: "settled (st, EndValue v) st v"
  by (simp add: settled_def)

lemma value_end_no_number:
  assumes "value_end c"
  shows "\<not> is_digit c \<and> c \<noteq> CHR ''.'' \<and> \<not> exponent c"
proof -
  from assms have "c \<in> {CHR '' '', CHR 0x09, CHR 0x0D, CHR 0x0A, CHR '','', CHR '']'', CHR ''}''}"
    by (simp add: value_end_def json_space_def)
  then show ?thesis by (elim insertE) (simp_all add: is_digit_def exponent_def)
qed

lemma settled_Number: "number_complete m \<Longrightarrow> settled (st, Number m t) st (VNumber t)"
  by (cases m) (simp_all add: settled_def number_complete_def value_end_no_number)

lemma read_number_rest:
  "number_rest m t' \<Longrightarrow>
   \<exists>m'. number_complete m' \<and> foldl json_step (st, Number m t) t' = (st, Number m' (t @ t'))"
proof (induction m t' arbitrary: t rule: number_rest.induct)
  case (2 m c t')
  then obtain m1 where m1: "number_step m c = Some m1" "number_rest m1 t'" by (auto split: option.splits)
  from "2.IH" [OF m1, of "t @ [c]"] m1(1) show ?case by auto
qed auto

lemma digit_plain:
  "is_digit c \<Longrightarrow> \<not> json_space c \<and> c \<noteq> CHR ''{'' \<and> c \<noteq> CHR ''['' \<and> c \<noteq> QUOTE \<and> c \<noteq> CHR ''-''"
  by (auto simp: json_space_def is_digit_def)

lemma begin_number:
  "number_step AfterMinus c = Some m \<Longrightarrow> begin_value st c = (st, Number m [c])"
  using digit_plain [of c]
  by (cases "c = CHR ''0''") (auto simp: begin_value_def json_space_def split: if_splits)

lemma read_number:
  assumes "json_number t"
  shows "settled (foldl json_step (st, BeginValue) t) st (VNumber t)"
proof -
  obtain c t' where t: "t = c # t'"
    using assms by (cases t) (auto simp: json_number_def number_complete_def)
  have "\<exists>m. begin_value st c = (st, Number m [c]) \<and> number_rest m t'"
  proof (cases "c = CHR ''-''")
    case True
    with assms t show ?thesis by (simp add: json_number_def begin_value_def json_space_def)
  next
    case False
    with assms t begin_number [of c _ st] show ?thesis
      by (auto simp: json_number_def simp del: number_step.simps split: option.splits)
  qed
  then obtain m where m: "begin_value st c = (st, Number m [c])" "number_rest m t'" by blast
  from read_number_rest [OF m(2), of st "[c]"] obtain m' where
    "number_complete m'" "foldl json_step (st, Number m [c]) t' = (st, Number m' t)"
    by (auto simp: t)
  with m(1) show ?thesis by (simp add: t settled_Number)
qed

lemma dec_no_zero: "0 < n \<Longrightarrow> hd (dec n) \<noteq> CHR ''0''"
proof (induction n rule: dec.induct)
  case (1 n)
  show ?case
  proof (cases "n < 10")
    case True
    with 1 show ?thesis by (subst dec.simps) (auto simp: digit_def char_byte)
  next
    case False
    with 1 show ?thesis by (subst dec.simps) (simp add: hd_append)
  qed
qed

lemma number_rest_digits: "list_all is_digit t \<Longrightarrow> number_rest IntDigits t"
  by (induction t) (auto simp: number_complete_def)

lemma number_rest_dec: "number_rest AfterMinus (dec n)"
proof (cases "n = 0")
  case True
  then show ?thesis by (subst dec.simps) (simp add: digit_def number_complete_def char_byte)
next
  case False
  obtain c t where d: "dec n = c # t" by (cases "dec n") auto
  with dec_no_zero [of n] False have "c \<noteq> CHR ''0''" by simp
  moreover have "is_digit c" "list_all is_digit t" using dec_digits [of _ n] by (auto simp: d list_all_iff)
  ultimately show ?thesis by (simp add: d number_rest_digits)
qed

lemma json_number_Itoa: "json_number (strconv_Itoa n)"
proof -
  have "take 1 (dec m) \<noteq> ''-''" for m using hd_dec(1) [of m] by (cases "dec m") auto
  then show ?thesis by (simp add: json_number_def strconv_Itoa_def number_rest_dec)
qed

subsection \<open>Trees\<close>

text \<open>In the first place of an array a value is read as in any other.\<close>

definition starts_value :: "char \<Rightarrow> bool" where
  "starts_value c \<longleftrightarrow> \<not> json_space c \<and> c \<noteq> CHR '']''"

lemma begin_first:
  "starts_value c \<Longrightarrow> foldl json_step (st, BeginValueOrEmpty) (c # t) = foldl json_step (st, BeginValue) (c # t)"
  by (simp add: starts_value_def)

lemma write_json_starts:
  assumes "\<And>x. json_number (fmt x)"
  obtains c t where "write_json fmt j = c # t" "starts_value c"
proof -
  have number: "\<exists>c t. s = c # t \<and> starts_value c" if "json_number s" for s
  proof (cases s)
    case (Cons c t)
    then have "c = CHR ''-'' \<or> is_digit c"
      using that by (auto simp: json_number_def is_digit_def split: if_splits option.splits)
    with Cons show ?thesis by (auto simp: starts_value_def json_space_def is_digit_def)
  qed (use that in \<open>simp add: json_number_def number_complete_def\<close>)
  have "\<exists>c t. write_json fmt j = c # t \<and> starts_value c"
    using number [OF json_number_Itoa] number [OF assms]
    by (cases j) (auto simp: write_bool_def write_string_def starts_value_def json_space_def)
  with that show thesis by blast
qed

lemma commas_simps [simp]:
  "commas [] = []"
  "commas [x] = x"
  "commas (x # y # ys) = x @ '','' @ commas (y # ys)"
  by (simp_all add: commas_def)

lemma commas_Cons: "ys \<noteq> [] \<Longrightarrow> commas (x # ys) = x @ '','' @ commas ys"
  by (cases ys) simp_all

lemma end_of_element:
  "settled M (ArrayValue vs # st) v \<Longrightarrow> json_step M (CHR '','') = (ArrayValue (vs @ [v]) # st, BeginValue)"
  "settled M (ArrayValue vs # st) v \<Longrightarrow> json_step M (CHR '']'') = (st, EndValue (VArray (vs @ [v])))"
  by (simp_all add: settledD value_end_def json_space_def)

lemma end_of_field:
  "settled M (ObjectValue fs k # st) v \<Longrightarrow>
     json_step M (CHR '','') = (ObjectKey (fs @ [(k, v)]) # st, BeginString)"
  "settled M (ObjectValue fs k # st) v \<Longrightarrow> json_step M (CHR ''}'') = (st, EndValue (VObject (fs @ [(k, v)])))"
  by (simp_all add: settledD value_end_def json_space_def)

text \<open>The elements of an array and the fields of an object, up to the closing bracket.\<close>

lemma read_elements:
  assumes "js \<noteq> []"
    and "\<And>j vs. j \<in> set js \<Longrightarrow>
      settled (foldl json_step (ArrayValue vs # st, BeginValue) (f j)) (ArrayValue vs # st) (g j)"
  shows "foldl json_step (ArrayValue vs # st, BeginValue) (commas (map f js) @ '']'') =
      (st, EndValue (VArray (vs @ map g js)))"
  using assms
proof (induction js arbitrary: vs rule: list_nonempty_induct)
  case (single j)
  then show ?case by (simp add: end_of_element)
next
  case (cons j js)
  then have "json_step (foldl json_step (ArrayValue vs # st, BeginValue) (f j)) (CHR '','') =
      (ArrayValue (vs @ [g j]) # st, BeginValue)"
    by (simp add: end_of_element)
  with cons show ?case by (simp add: commas_Cons del: json_step.simps)
qed

lemma read_fields:
  assumes "kjs \<noteq> []" "m = BeginString \<or> m = BeginStringOrEmpty"
    and "\<And>k j fs. (k, j) \<in> set kjs \<Longrightarrow>
      settled (foldl json_step (ObjectValue fs (replace_invalid k) # st, BeginValue) (f j))
        (ObjectValue fs (replace_invalid k) # st) (g j)"
  shows "foldl json_step (ObjectKey fs # st, m)
      (commas (map (\<lambda>(k, j). write_string k @ '':'' @ f j) kjs) @ ''}'') =
      (st, EndValue (VObject (fs @ map (\<lambda>(k, j). (replace_invalid k, g j)) kjs)))"
  using assms
proof (induction kjs arbitrary: m fs rule: list_nonempty_induct)
  case (single p)
  obtain k j where p: "p = (k, j)" by (cases p)
  from single have "foldl json_step (ObjectKey fs # st, m) (write_string k) =
      (ObjectKey fs # st, EndValue (VString (replace_invalid k)))"
    by (intro read_write_string) auto
  with single p show ?case by (simp add: end_of_field json_space_def)
next
  case (cons p kjs)
  obtain k j where p: "p = (k, j)" by (cases p)
  from cons have key: "foldl json_step (ObjectKey fs # st, m) (write_string k) =
      (ObjectKey fs # st, EndValue (VString (replace_invalid k)))"
    by (intro read_write_string) auto
  from cons.prems p have "json_step (foldl json_step (ObjectValue fs (replace_invalid k) # st, BeginValue) (f j))
      (CHR '','') = (ObjectKey (fs @ [(replace_invalid k, g j)]) # st, BeginString)"
    by (simp add: end_of_field)
  with cons key p show ?case by (simp add: commas_Cons json_space_def)
qed

lemma depth_element: "j \<in> set js \<Longrightarrow> json_depth j < json_depth (JArray js)"
  by (induction js) (auto simp: less_Suc_eq_le le_max_iff_disj)

lemma depth_field: "(k, j) \<in> set fs \<Longrightarrow> json_depth j < json_depth (JObject fs)"
  by (induction fs) (auto simp: less_Suc_eq_le le_max_iff_disj)

lemma read_json:
  assumes "\<And>x. json_number (fmt x)" "length st + json_depth j \<le> maxNestingDepth"
  shows "settled (foldl json_step (st, BeginValue) (write_json fmt j)) st (parsed fmt j)"
  using assms(2)
proof (induction j arbitrary: st)
  case JNull
  then show ?case by (simp add: begin_value_def json_space_def is_digit_def)
next
  case (JBool b)
  then show ?case by (simp add: write_bool_def begin_value_def json_space_def is_digit_def)
next
  case (JInt n)
  then show ?case using read_number [OF json_number_Itoa] by simp
next
  case (JFloat32 x)
  then show ?case using read_number [OF assms(1)] by simp
next
  case (JString s)
  then show ?case by (simp add: read_write_string)
next
  case (JArray js)
  have open_array: "json_step (st, BeginValue) (CHR ''['') = (ArrayValue [] # st, BeginValueOrEmpty)"
    using JArray.prems by (simp add: begin_value_def json_space_def push_frame_def)
  show ?case
  proof (cases js)
    case Nil
    with open_array show ?thesis by (simp add: json_space_def)
  next
    case (Cons j js')
    have "settled (foldl json_step (ArrayValue vs # st, BeginValue) (write_json fmt i))
        (ArrayValue vs # st) (parsed fmt i)" if "i \<in> set js" for i vs
      using JArray.IH [OF that, of "ArrayValue vs # st"] JArray.prems depth_element [OF that] by simp
    from read_elements [OF _ this, where js = js and vs = "[]"] Cons
    have "foldl json_step (ArrayValue [] # st, BeginValue) (commas (map (write_json fmt) js) @ '']'') =
        (st, EndValue (parsed fmt (JArray js)))"
      by simp
    moreover obtain c t where ct: "write_json fmt j = c # t" "starts_value c"
      by (rule write_json_starts [OF assms(1)])
    moreover have "\<exists>t'. commas (map (write_json fmt) js) @ '']'' = c # t'"
      using Cons ct(1) by (cases js') simp_all
    ultimately have "foldl json_step (ArrayValue [] # st, BeginValueOrEmpty)
        (commas (map (write_json fmt) js) @ '']'') = (st, EndValue (parsed fmt (JArray js)))"
      using begin_first [OF ct(2)] by metis
    with open_array show ?thesis by simp
  qed
next
  case (JObject fs)
  have open_object: "json_step (st, BeginValue) (CHR ''{'') = (ObjectKey [] # st, BeginStringOrEmpty)"
    using JObject.prems by (simp add: begin_value_def json_space_def push_frame_def)
  show ?case
  proof (cases "fs = []")
    case True
    with open_object show ?thesis by (simp add: json_space_def)
  next
    case False
    have "settled (foldl json_step (ObjectValue gs (replace_invalid k) # st, BeginValue) (write_json fmt j))
        (ObjectValue gs (replace_invalid k) # st) (parsed fmt j)" if "(k, j) \<in> set fs" for k j gs
      using JObject.IH [OF that, of j "ObjectValue gs (replace_invalid k) # st"] JObject.prems depth_field [OF that]
      by simp
    from read_fields [OF False _ this, where m = BeginStringOrEmpty and fs = "[]"] open_object
    show ?thesis by simp
  qed
qed

text \<open>A text with white space at its end, as \<open>Encode\<close> writes it, is read as the tree.\<close>

lemma parse_write_json:
  assumes "\<And>x. json_number (fmt x)" "json_depth j \<le> maxNestingDepth" "list_all json_space t"
  shows "json_parse (write_json fmt j @ t) = Some (parsed fmt j)"
proof -
  have spaces: "foldl json_step ([], EndValue v) t = ([], EndValue v)" for v
    using assms(3) by (induction t) auto
  from read_json [of fmt "[]" j, OF assms(1)] assms(2)
  have j: "settled (foldl json_step ([], BeginValue) (write_json fmt j)) [] (parsed fmt j)" by simp
  show ?thesis
  proof (cases t)
    case Nil
    with j show ?thesis by (simp add: json_parse_def settledD value_end_def json_space_def)
  next
    case (Cons c t')
    with assms(3) settledD [OF j, of c] spaces show ?thesis
      by (simp add: json_parse_def value_end_def) (simp add: json_space_def)
  qed
qed

text \<open>How floats are written does not matter to a tree without any.\<close>

fun no_floats :: "json \<Rightarrow> bool" where
  "no_floats (JFloat32 x) = False"
| "no_floats (JArray js) = list_all no_floats js"
| "no_floats (JObject fs) = list_all (\<lambda>(k, j). no_floats j) fs"
| "no_floats _ = True"

lemma no_floats_fmt: "no_floats j \<Longrightarrow> write_json fmt j = write_json fmt' j \<and> parsed fmt j = parsed fmt' j"
proof (induction j)
  case (JArray js)
  then have "map (write_json fmt) js = map (write_json fmt') js" "map (parsed fmt) js = map (parsed fmt') js"
    by (auto simp: list_all_iff)
  then show ?case by (metis write_json.simps(6) parsed.simps(6))
next
  case (JObject fs)
  then have "map (\<lambda>(k, j). write_string k @ '':'' @ write_json fmt j) fs =
        map (\<lambda>(k, j). write_string k @ '':'' @ write_json fmt' j) fs"
    "map (\<lambda>(k, j). (replace_invalid k, parsed fmt j)) fs = map (\<lambda>(k, j). (replace_invalid k, parsed fmt' j)) fs"
    by (force simp: list_all_iff)+
  then show ?case by (metis write_json.simps(7) parsed.simps(7))
qed simp_all

lemma parse_write_no_floats:
  assumes "no_floats j" "json_depth j \<le> maxNestingDepth"
  shows "json_parse (write_json fmt j) = Some (parsed fmt j)"
proof -
  have "json_number ''0''" by (simp add: json_number_def number_complete_def)
  from parse_write_json [OF this assms(2), of "[]"] no_floats_fmt [OF assms(1), of fmt "\<lambda>_. ''0''"]
  show ?thesis by simp
qed

section \<open>Incomplete texts\<close>

text \<open>Once the machine is in an array or object, an empty stack means that it has just been closed.\<close>

definition entered :: "machine \<Rightarrow> bool" where
  "entered M \<longleftrightarrow> (fst M = [] \<longrightarrow> snd M = Failed \<or> (\<exists>v. snd M = EndValue v))"

lemma entered_end_value: "entered (end_value st v c)"
  by (cases "(st, v, c)" rule: end_value.cases) (auto simp: entered_def split: jvalue.splits)

lemma entered_step: "entered M \<Longrightarrow> entered (json_step M c)"
proof (induction M c rule: json_step.induct)
  case (8 st m t c)
  then show ?case
    using entered_end_value [of st "VNumber t" c] by (auto simp: entered_def split: option.splits)
next
  case (10 st v c)
  then show ?case using entered_end_value by simp
qed (auto simp: entered_def begin_value_def begin_string_def push_frame_def split: option.splits list.splits)

lemma entered_run: "entered M \<Longrightarrow> entered (foldl json_step M s)"
  by (induction s rule: rev_induct) (simp_all add: entered_step)

lemma failed_run [simp]: "foldl json_step (st, Failed) s = (st, Failed)"
  by (induction s) simp_all

lemma closed_run:
  "foldl json_step ([], EndValue v) s = ([], EndValue v') \<Longrightarrow> list_all json_space s"
  by (induction s) (auto split: if_splits)

lemma space_keeps: "st \<noteq> [] \<Longrightarrow> fst (json_step (st, m) (CHR '' '')) = st"
proof -
  assume st: "st \<noteq> []"
  then have "fst (end_value st v (CHR '' '')) = st" for v
    by (cases "(st, v, CHR '' '')" rule: end_value.cases) (auto simp: json_space_def)
  with st show ?thesis
    by (cases m)
      (auto simp: json_space_def begin_value_def begin_string_def split: option.splits list.splits)
qed

lemma parse_run: "json_parse s = Some v \<longleftrightarrow> foldl json_step ([], BeginValue) (s @ '' '') = ([], EndValue v)"
  by (auto simp: json_parse_def split: prod.splits list.splits mode.splits)

text \<open>No proper part of an array's text, cut off at its end, is JSON.\<close>

lemma cut_array:
  assumes "json_parse (''['' @ s) = Some v" "''['' @ s = p @ q" "\<not> json_space (last q)" "q \<noteq> []"
  shows "json_parse p = None"
proof (cases p)
  case Nil
  then show ?thesis by (simp add: json_parse_def begin_value_def json_space_def)
next
  case (Cons x p')
  have start: "json_step ([], BeginValue) x = ([ArrayValue []], BeginValueOrEmpty)"
    using assms(2) Cons by (auto simp: begin_value_def json_space_def push_frame_def maxNestingDepth_def)
  have "entered (json_step ([], BeginValue) x)" unfolding start by (simp add: entered_def)
  then have entered: "entered (foldl json_step ([], BeginValue) p)"
    using entered_run Cons by simp
  show ?thesis
  proof (rule ccontr)
    assume "json_parse p \<noteq> None"
    then obtain v1 where v1: "json_step (foldl json_step ([], BeginValue) p) (CHR '' '') = ([], EndValue v1)"
      by (auto simp: parse_run)
    obtain st m where M: "foldl json_step ([], BeginValue) p = (st, m)" by fastforce
    with v1 space_keeps [of st m] have "st = []" by fastforce
    with M v1 entered obtain v2 where "foldl json_step ([], BeginValue) p = ([], EndValue v2)"
      by (auto simp: entered_def)
    moreover from assms(1) have "foldl json_step ([], BeginValue) (p @ q @ '' '') = ([], EndValue v)"
      unfolding assms(2) by (simp add: parse_run)
    ultimately have "foldl json_step ([], EndValue v2) (q @ '' '') = ([], EndValue v)" by simp
    then have "list_all json_space q" using closed_run [of v2 "q @ '' ''"] by simp
    with assms(3,4) show False by (simp add: list_all_iff)
  qed
qed

end
