(* ===== verification/WireFormat.thy ===== *)
theory WireFormat
  imports JsonText HttpApi
begin

text \<open>
  \<open>json.Unmarshal\<close> of the variables of a pipeline to be triggered
  (\<open>internal/api/pipeline_handler.go\<close>), and what HTTP clients read of a response: the text of its body.
\<close>

section \<open>Reading a list of variables\<close>

text \<open>
  A key of an object selects the field whose tag it equals up to simple case folding.  Besides the
  ASCII letters only the Kelvin sign and the long s fold into ASCII, to K and S; any other code point
  folds to one outside ASCII and stands for itself here, for it occurs in no tag.
\<close>

definition fold_rune :: "nat \<Rightarrow> nat" where
  "fold_rune r =
     (if 97 \<le> r \<and> r \<le> 122 then r - 32
      else if r = 0x212A then 75
      else if r = 0x17F then 83
      else r)"

definition fold_name :: "string \<Rightarrow> nat list" where
  "fold_name s = map (\<lambda>p. fold_rune (fst p)) (runes s)"

definition same_name :: "string \<Rightarrow> string \<Rightarrow> bool" where
  "same_name tag key \<longleftrightarrow> fold_name key = fold_name tag"

definition zero_PipelineVariable :: PipelineVariable where
  "zero_PipelineVariable =
     \<lparr>PipelineVariable_Key = [], PipelineVariable_Value = [], PipelineVariable_VariableType = None\<rparr>"

text \<open>
  A \<open>null\<close> leaves a string as it is and makes a pointer nil; a key that is no field is skipped with
  its value; \<open>None\<close> is an \<open>UnmarshalTypeError\<close>.  Go reads on after such an error and returns the
  first one in the end.
\<close>

fun set_string :: "jvalue \<Rightarrow> string \<Rightarrow> string option" where
  "set_string VNull old = Some old"
| "set_string (VString s) old = Some s"
| "set_string _ old = None"

fun set_pointer :: "jvalue \<Rightarrow> string option option" where
  "set_pointer VNull = Some None"
| "set_pointer (VString s) = Some (Some s)"
| "set_pointer _ = None"

definition set_field :: "string \<Rightarrow> jvalue \<Rightarrow> PipelineVariable \<Rightarrow> PipelineVariable option" where
  "set_field key v pv =
     (if same_name ''key'' key then
        map_option (\<lambda>s. pv\<lparr>PipelineVariable_Key := s\<rparr>) (set_string v (PipelineVariable_Key pv))
      else if same_name ''value'' key then
        map_option (\<lambda>s. pv\<lparr>PipelineVariable_Value := s\<rparr>) (set_string v (PipelineVariable_Value pv))
      else if same_name ''variable_type'' key then
        map_option (\<lambda>t. pv\<lparr>PipelineVariable_VariableType := t\<rparr>) (set_pointer v)
      else Some pv)"

fun set_fields :: "(string \<times> jvalue) list \<Rightarrow> PipelineVariable \<Rightarrow> PipelineVariable option" where
  "set_fields [] pv = Some pv"
| "set_fields ((k, v) # fs) pv = Option.bind (set_field k v pv) (set_fields fs)"

fun to_PipelineVariable :: "jvalue \<Rightarrow> PipelineVariable option" where
  "to_PipelineVariable VNull = Some zero_PipelineVariable"
| "to_PipelineVariable (VObject fs) = set_fields fs zero_PipelineVariable"
| "to_PipelineVariable _ = None"

fun to_PipelineVariables :: "jvalue \<Rightarrow> PipelineVariable list option" where
  "to_PipelineVariables VNull = Some []"
| "to_PipelineVariables (VArray vs) = those (map to_PipelineVariable vs)"
| "to_PipelineVariables _ = None"

text \<open>\<open>json.Unmarshal([]byte(text), &variables)\<close> with \<open>variables\<close> nil.\<close>

definition json_Unmarshal_variables ::
    "(string \<Rightarrow> go_error) \<Rightarrow> string \<Rightarrow> go_error + PipelineVariable list" where
  "json_Unmarshal_variables json_error s =
     (case Option.bind (json_parse s) to_PipelineVariables of
        None \<Rightarrow> Inl (json_error s)
      | Some variables \<Rightarrow> Inr variables)"

text \<open>How a client of the API writes them, from the tags of \<open>PipelineVariable\<close>.\<close>

definition json_PipelineVariable :: "PipelineVariable \<Rightarrow> encoded" where
  "json_PipelineVariable v = json_object
     [json_field ''key'' (json_string (PipelineVariable_Key v)),
      json_field ''value'' (json_string (PipelineVariable_Value v)),
      omitempty ''variable_type'' json_string (PipelineVariable_VariableType v)]"

definition valid_variable :: "PipelineVariable \<Rightarrow> bool" where
  "valid_variable v \<longleftrightarrow>
     utf8_ValidString (PipelineVariable_Key v) \<and> utf8_ValidString (PipelineVariable_Value v) \<and>
     (case PipelineVariable_VariableType v of None \<Rightarrow> True | Some t \<Rightarrow> utf8_ValidString t)"

lemma tag_names [simp]:
  "fold_name ''key'' = [75, 69, 89]"
  "fold_name ''value'' = [86, 65, 76, 85, 69]"
  "fold_name ''variable_type'' = [86, 65, 82, 73, 65, 66, 76, 69, 95, 84, 89, 80, 69]"
  by (simp_all add: fold_name_def runes_ascii fold_rune_def)

lemma tags_valid [simp]:
  "replace_invalid ''key'' = ''key''"
  "replace_invalid ''value'' = ''value''"
  "replace_invalid ''variable_type'' = ''variable_type''"
  by (simp_all add: replace_invalid_id ascii_ValidString)

lemma json_PipelineVariable_eq:
  "json_PipelineVariable v =
     Inr (Json.JObject ([(''key'', Json.JString (PipelineVariable_Key v)), (''value'', Json.JString (PipelineVariable_Value v))] @
       (case PipelineVariable_VariableType v of None \<Rightarrow> [] | Some t \<Rightarrow> [(''variable_type'', Json.JString t)])))"
  by (simp add: json_PipelineVariable_def json_object_def json_field_def omitempty_def json_string_def
      split: option.split)

lemma variable_read:
  assumes "valid_variable v" "json_PipelineVariable v = Inr j"
  shows "no_floats j \<and> json_depth j = 1 \<and> to_PipelineVariable (parsed fmt j) = Some v"
  using assms
  by (cases v)
    (auto simp: json_PipelineVariable_eq valid_variable_def replace_invalid_id set_field_def same_name_def
      zero_PipelineVariable_def split: option.splits)

lemma variables_read:
  assumes "json_values json_PipelineVariable vars = Inr js" "list_all valid_variable vars"
  shows "list_all no_floats js \<and> (\<forall>j \<in> set js. json_depth j = 1) \<and>
    those (map to_PipelineVariable (map (parsed fmt) js)) = Some vars"
  using assms
proof (induction vars arbitrary: js)
  case (Cons v vars)
  then obtain j js' where js: "json_PipelineVariable v = Inr j" "json_values json_PipelineVariable vars = Inr js'"
    "js = j # js'"
    by (auto simp: map_sum_def split: sum.splits)
  with Cons.IH [OF js(2)] Cons.prems variable_read [OF _ js(1), of fmt] show ?case by simp
qed simp

lemma Unmarshal_written:
  assumes "json_array json_PipelineVariable vars = Inr j" "list_all valid_variable vars"
  shows "json_Unmarshal_variables json_error (write_json fmt j) = Inr vars"
proof -
  obtain js where js: "json_values json_PipelineVariable vars = Inr js" "j = Json.JArray js"
    using assms(1) by (auto simp: json_array_def map_sum_def split: sum.splits)
  note read = variables_read [OF js(1) assms(2), of fmt]
  have "\<forall>j \<in> set is. json_depth j = 1 \<Longrightarrow> foldr (\<lambda>j. max (json_depth j)) is 0 \<le> 1" for "is"
    by (induction "is") auto
  from this [of js] read have "no_floats j" "json_depth j \<le> maxNestingDepth"
    by (simp_all add: js(2) maxNestingDepth_def)
  with parse_write_no_floats [OF this, of fmt] read show ?thesis
    by (simp add: js(2) json_Unmarshal_variables_def)
qed

text \<open>The text of an array, cut off before its end.\<close>

lemma Unmarshal_cut:
  assumes "json_array json_PipelineVariable vars = Inr j" "list_all valid_variable vars"
    and "write_json fmt j = p @ q" "q \<noteq> []"
  shows "json_Unmarshal_variables json_error p = Inl (json_error p)"
proof -
  obtain s where s: "write_json fmt j = ''['' @ s @ '']''"
    using assms(1) by (auto simp: json_array_def map_sum_def split: sum.splits)
  have "json_parse (write_json fmt j) \<noteq> None"
    using Unmarshal_written [OF assms(1,2), of undefined fmt]
    by (cases "json_parse (write_json fmt j)") (simp_all add: json_Unmarshal_variables_def)
  moreover have "last q = CHR '']''"
    using assms(3,4) s by (metis append_is_Nil_conv last_appendR last_snoc append_assoc list.distinct(1))
  ultimately have "json_parse p = None"
    using cut_array [of "s @ '']''" _ p q] assms(3,4) s by (auto simp: json_space_def)
  then show ?thesis by (simp add: json_Unmarshal_variables_def)
qed

text \<open>A key that is no field.\<close>

lemma set_field_unknown:
  assumes "\<not> same_name ''key'' k" "\<not> same_name ''value'' k" "\<not> same_name ''variable_type'' k"
  shows "set_field k v pv = Some pv"
  using assms by (simp add: set_field_def)

section \<open>The handler\<close>

definition triggered ::
    "TriggerPipelineParams \<Rightarrow> Server \<Rightarrow> PipelineVariable list
     \<Rightarrow> (TriggerPipelineResponseObject result \<times> Server) option" where
  "triggered params s variables =
     map_option
       (\<lambda>(r, m, g). (respond TriggerPipeline201JSONResponse triggerErrResponse r,
                     s\<lparr>srv_pipelines := m, srv_gitServers := g\<rparr>))
       (PipelinesService_TriggerPipeline (srv_pipelines s) (srv_gitServers s)
          (tpp_GitServer params) (tpp_Project params) (tpp_Ref params) variables)"

definition params_present :: "TriggerPipelineParams \<Rightarrow> bool" where
  "params_present params \<longleftrightarrow> tpp_GitServer params \<noteq> [] \<and> tpp_Project params \<noteq> [] \<and> tpp_Ref params \<noteq> []"

lemma TriggerPipeline_variables:
  assumes "params_present params" "tpp_Variables params = Some text" "text \<noteq> []"
    and "json_Unmarshal_variables json_error text = Inr variables"
  shows "TriggerPipeline (json_Unmarshal_variables json_error) params s = triggered params s variables"
  using assms by (simp add: TriggerPipeline_def params_present_def triggered_def)

lemma write_array_not_Nil: "json_array enc vs = Inr j \<Longrightarrow> write_json fmt j \<noteq> []"
  by (auto simp: json_array_def map_sum_def split: sum.splits)

lemma TriggerPipeline_written:
  assumes "params_present params" "list_all valid_variable vars"
    and "json_array json_PipelineVariable vars = Inr j" "tpp_Variables params = Some (write_json fmt j)"
  shows "TriggerPipeline (json_Unmarshal_variables json_error) params s = triggered params s vars"
  using assms(1,4) write_array_not_Nil [OF assms(3)] Unmarshal_written [OF assms(3,2)]
  by (rule TriggerPipeline_variables)

text \<open>What the server sends for a triggered pipeline.\<close>

definition trigger_answer ::
    "(TriggerPipelineResponseObject result \<times> Server) \<Rightarrow> outcome \<times> ResponseWriter \<times> Server" where
  "trigger_answer = (\<lambda>(result, s').
     case result of
       Ok resp \<Rightarrow>
         (case VisitTriggerPipelineResponse resp fresh_writer of
            (None, w) \<Rightarrow> (Returned, w, s')
          | (Some err, w) \<Rightarrow> (Panicking, w, s'))
     | _ \<Rightarrow> (Panicking, fresh_writer, s'))"

text \<open>C7: Variables survive the way to the provider.  A client writes a list of variables as JSON, with
  strings that are valid UTF-8, whatever characters they hold, puts the text into the query of a
  request and sends it.  The server routes the request, reads the query, decodes the text and
  triggers the pipeline with exactly these variables in this order.\<close>

theorem trigger_variables_roundtrip:
  assumes "chi_routes serve" "router_routes mux = []" "router_Use mux = []" "binder_ok b"
    and "params_present params" "list_all valid_variable vars"
    and "json_array json_PipelineVariable vars = Inr j" "tpp_Variables params = Some (write_json fmt j)"
    and "client_request (TriggerPipelineRequestObject params) = ((req_Method r, req_Path r), pairs)"
    and "req_RawQuery r = encode_query pairs"
  shows "serve (HandlerFromMux b (BuildHandler_interface (json_Unmarshal_variables json_error) joined) mux)
      r fresh_writer s = map_option trigger_answer (triggered params s vars)"
proof -
  have "valid_call (TriggerPipelineRequestObject params)" using assms(5) by (simp add: params_present_def)
  from request_read [OF assms(4) this assms(9,10)] obtain read where
    read: "map_of operations (req_Method r, req_Path r) = Some read"
      "read b (url_Query r) = Inr (TriggerPipelineRequestObject params)"
    by blast
  show ?thesis
    using served_operation [OF assms(1,2) read(1)] assms(3) TriggerPipeline_written [OF assms(5-8)]
    by (simp add: serve_operation_def read(2) trigger_answer_def option.map_comp)
      (auto simp: option.map_comp comp_def intro!: option.map_cong split: res.split)
qed


text \<open>C37: The key that the error message names is ignored.  The message of the 400 asks for \<open>{key, value,
  variableType}\<close>, but the field is tagged \<open>variable_type\<close>: a variable written as the message says
  loses its type without an error, and the pipeline is triggered with a variable of the default type.\<close>

theorem variableType_ignored:
  assumes "params_present params" "utf8_ValidString k" "utf8_ValidString v"
    and "tpp_Variables params =
      Some (write_json fmt (Json.JArray [Json.JObject [(''key'', Json.JString k), (''value'', Json.JString v),
        (''variableType'', Json.JString t)]]))"
  shows "TriggerPipeline (json_Unmarshal_variables json_error) params s =
    triggered params s
      [\<lparr>PipelineVariable_Key = k, PipelineVariable_Value = v, PipelineVariable_VariableType = None\<rparr>]"
proof -
  let ?j = "Json.JArray [Json.JObject [(''key'', Json.JString k), (''value'', Json.JString v), (''variableType'', Json.JString t)]]"
  have name: "replace_invalid ''variableType'' = ''variableType''"
    "fold_name ''variableType'' = [86, 65, 82, 73, 65, 66, 76, 69, 84, 89, 80, 69]"
    by (simp_all add: replace_invalid_id ascii_ValidString fold_name_def runes_ascii fold_rune_def)
  have "json_parse (write_json fmt ?j) = Some (parsed fmt ?j)"
    by (rule parse_write_no_floats) (simp_all add: maxNestingDepth_def)
  then have "json_Unmarshal_variables json_error (write_json fmt ?j) =
      Inr [\<lparr>PipelineVariable_Key = k, PipelineVariable_Value = v, PipelineVariable_VariableType = None\<rparr>]"
    using assms(2,3) name
    by (simp add: json_Unmarshal_variables_def replace_invalid_id set_field_def same_name_def zero_PipelineVariable_def)
  with assms(1,4) show ?thesis by (intro TriggerPipeline_variables) simp_all
qed

section \<open>What clients read\<close>

text \<open>A tree that conforms to a schema is no deeper than the schema.\<close>

fun schema_depth :: "schema \<Rightarrow> nat" where
  "schema_depth (SArray item) = Suc (schema_depth item)"
| "schema_depth (SObject properties required) = Suc (foldr (\<lambda>(k, p). max (schema_depth p)) properties 0)"
| "schema_depth _ = 0"

lemma schema_depth_property:
  "(k, p) \<in> set properties \<Longrightarrow> schema_depth p < schema_depth (SObject properties required)"
  by (induction properties) (auto simp: less_Suc_eq_le le_max_iff_disj)

lemma conforms_depth: "conforms s j \<Longrightarrow> json_depth j \<le> schema_depth s"
proof (induction j arbitrary: s)
  case (JArray js)
  then obtain item where s: "s = SArray item" "\<forall>j \<in> set js. conforms item j"
    by (cases s) (simp_all add: conforms.simps)
  with JArray.IH have "\<forall>j \<in> set js. json_depth j \<le> schema_depth item" by blast
  then have "foldr (\<lambda>j. max (json_depth j)) js 0 \<le> schema_depth item" by (induction js) simp_all
  with s(1) show ?case by simp
next
  case (JObject fs)
  then obtain properties required where s: "s = SObject properties required"
    "\<forall>(k, v) \<in> set fs. case map_of properties k of None \<Rightarrow> False | Some p \<Rightarrow> conforms p v"
    by (cases s) (simp_all add: conforms.simps)
  have "json_depth v < schema_depth s" if "(k, v) \<in> set fs" for k v
  proof -
    from s(2) that obtain p where p: "map_of properties k = Some p" "conforms p v"
      by (auto split: option.splits)
    from JObject.IH [OF that, of v p] p(2) have "json_depth v \<le> schema_depth p" by simp
    also have "schema_depth p < schema_depth s"
      unfolding s(1) by (rule schema_depth_property [OF map_of_SomeD [OF p(1)]])
    finally show ?thesis .
  qed
  then have "\<forall>(k, v) \<in> set fs. json_depth v < schema_depth s" by blast
  moreover have "schema_depth s \<noteq> 0" using s(1) by simp
  ultimately have "foldr (\<lambda>(k, j). max (json_depth j)) fs 0 < schema_depth s" by (induction fs) auto
  then show ?case by simp
qed simp_all

lemma openapi_depth:
  assumes "map_of openapi key = Some (required, responses)" "map_of responses code = Some schema"
  shows "schema_depth schema \<le> maxNestingDepth"
proof -
  have "list_all (\<lambda>(key, required, responses). list_all (\<lambda>(code, s). schema_depth s \<le> 10) responses) openapi"
    by code_simp
  with assms show ?thesis
    by (fastforce dest!: map_of_SomeD simp: list_all_iff maxNestingDepth_def)
qed

lemma declared_read:
  assumes "map_of openapi key = Some (required, responses)" "declared_response responses w"
    and "\<forall>x. json_number (fmt x)"
  shows "\<exists>code schema j. map_of responses code = Some schema \<and> conforms schema j \<and>
    rw_sent w = Some (code, [''Content-Type'' \<mapsto> ''application/json'']) \<and>
    json_parse (body_text fmt w) = Some (parsed fmt j)"
proof -
  from assms(2) obtain code schema j where j: "map_of responses code = Some schema" "conforms schema j"
    "rw_sent w = Some (code, [''Content-Type'' \<mapsto> ''application/json''])" "rw_body w = [Json j]"
    by (auto simp: declared_response_def)
  have "json_depth j \<le> maxNestingDepth"
    using conforms_depth [OF j(2)] openapi_depth [OF assms(1) j(1)] by simp
  then have "json_parse (body_text fmt w) = Some (parsed fmt j)"
    using parse_write_json [of fmt j "[CHR 0x0A]"] assms(3) j(4) by (simp add: body_text_def json_space_def)
  with j show ?thesis by blast
qed

text \<open>C6: The bytes of a response are the published document's JSON.  Whatever an operation answers is either
  the plain-text refusal of a parameter or a status with a body whose bytes a JSON reader accepts; it
  reads the tree the handler returned, of which every string is intact up to bytes that are not UTF-8,
  and this tree conforms to the schema the document declares for this status.\<close>

theorem response_bytes_read:
  assumes "chi_routes serve" "router_routes mux = []" "router_Use mux = []"
    and "map_of openapi (req_Method r, req_Path r) = Some (required, responses)"
    and "serve (HandlerFromMux b (BuildHandler_interface jv joined) mux) r fresh_writer s =
           Some (Returned, w, s')"
    and "\<forall>read call resp. map_of operations (req_Method r, req_Path r) = Some read \<longrightarrow>
           read b (url_Query r) = Inr call \<longrightarrow>
           run_call jv joined call s = Some (Ok resp, s') \<longrightarrow> times_ok resp"
    and "\<forall>x. json_number (fmt x)"
  shows "(\<exists>err. w = http_Error (param_error_Error err) 400 fresh_writer \<and> s' = s) \<or>
    (\<exists>code schema j. map_of responses code = Some schema \<and> conforms schema j \<and>
       rw_sent w = Some (code, [''Content-Type'' \<mapsto> ''application/json'']) \<and>
       json_parse (body_text fmt w) = Some (parsed fmt j))"
  using responses_conform [OF assms(1-6)] declared_read [OF assms(4) _ assms(7)] by blast

section \<open>Witnesses\<close>

text \<open>The variables \<open>[{"key":"MODE","value":"on"}]\<close>.\<close>

definition demo_variable :: PipelineVariable where
  "demo_variable =
     \<lparr>PipelineVariable_Key = ''MODE'', PipelineVariable_Value = ''on'', PipelineVariable_VariableType = None\<rparr>"

definition demo_variables_json :: Json.json where
  "demo_variables_json = Json.JArray [Json.JObject [(''key'', Json.JString ''MODE''), (''value'', Json.JString ''on'')]]"

definition demo_trigger :: "string \<Rightarrow> TriggerPipelineParams" where
  "demo_trigger text =
     \<lparr>tpp_GitServer = ''main'', tpp_Project = ''team/tool'', tpp_Ref = ''main'', tpp_Variables = Some text\<rparr>"

lemma demo_variables:
  "list_all valid_variable [demo_variable]"
  "json_array json_PipelineVariable [demo_variable] = Inr demo_variables_json"
  by (simp_all add: demo_variable_def demo_variables_json_def valid_variable_def ascii_ValidString json_array_def
      json_PipelineVariable_eq)

lemma demo_trigger_present: "params_present (demo_trigger text)"
  by (simp add: params_present_def demo_trigger_def)

lemma trigger_variables_roundtrip_witness:
  "\<forall>s. first_route (HandlerFromMux simple_binder
        (BuildHandler_interface (json_Unmarshal_variables ErrorString) None) NewRouter)
      \<lparr>req_Method = ''POST'', req_Path = ''/api/v1/trigger-pipeline'', req_RawQuery =
        ''gitServer=main&project=team%2Ftool&ref=main&variables=%5B%7B%22key%22%3A%22MODE%22%2C%22value%22%3A%22on%22%7D%5D''\<rparr>
      fresh_writer s =
    map_option trigger_answer
      (triggered (demo_trigger (write_json (\<lambda>_. ''0'') demo_variables_json)) s [demo_variable])"
proof
  fix s
  have pairs: "client_request (TriggerPipelineRequestObject (demo_trigger (write_json (\<lambda>_. ''0'') demo_variables_json))) =
      ((''POST'', ''/api/v1/trigger-pipeline''),
       [(''gitServer'', ''main''), (''project'', ''team/tool''), (''ref'', ''main''),
        (''variables'', write_json (\<lambda>_. ''0'') demo_variables_json)])"
    by (simp add: demo_trigger_def opt_pair_def)
  have query: "''gitServer=main&project=team%2Ftool&ref=main&variables=%5B%7B%22key%22%3A%22MODE%22%2C%22value%22%3A%22on%22%7D%5D'' =
      encode_query [(''gitServer'', ''main''), (''project'', ''team/tool''), (''ref'', ''main''),
        (''variables'', write_json (\<lambda>_. ''0'') demo_variables_json)]"
    by code_simp
  from trigger_variables_roundtrip [OF first_route_chi empty_router simple_binder_ok
      demo_trigger_present [of "write_json (\<lambda>_. ''0'') demo_variables_json"] demo_variables, where fmt = "\<lambda>_. ''0''"]
    pairs query
  show "first_route (HandlerFromMux simple_binder
        (BuildHandler_interface (json_Unmarshal_variables ErrorString) None) NewRouter)
      \<lparr>req_Method = ''POST'', req_Path = ''/api/v1/trigger-pipeline'', req_RawQuery =
        ''gitServer=main&project=team%2Ftool&ref=main&variables=%5B%7B%22key%22%3A%22MODE%22%2C%22value%22%3A%22on%22%7D%5D''\<rparr>
      fresh_writer s =
    map_option trigger_answer
      (triggered (demo_trigger (write_json (\<lambda>_. ''0'') demo_variables_json)) s [demo_variable])"
    by (simp add: demo_trigger_def)
qed


lemma variableType_ignored_witness:
  "\<forall>s. TriggerPipeline (json_Unmarshal_variables ErrorString)
      (demo_trigger (write_json (\<lambda>_. ''0'') (Json.JArray [Json.JObject
        [(''key'', Json.JString ''MODE''), (''value'', Json.JString ''on''),
         (''variableType'', Json.JString ''file'')]]))) s =
    triggered (demo_trigger (write_json (\<lambda>_. ''0'') (Json.JArray [Json.JObject
        [(''key'', Json.JString ''MODE''), (''value'', Json.JString ''on''),
         (''variableType'', Json.JString ''file'')]]))) s [demo_variable]"
  using variableType_ignored [OF demo_trigger_present, where k = "''MODE''" and v = "''on''" and t = "''file''"
      and fmt = "\<lambda>_. ''0''" and json_error = ErrorString]
  by (simp add: demo_trigger_def demo_variable_def ascii_ValidString del: write_json.simps)

lemma response_bytes_read_witness:
  "\<exists>w s' j. first_route (HandlerFromMux simple_binder (BuildHandler_interface (\<lambda>_. Inr []) None) NewRouter)
      demo_http_request fresh_writer (demo_http zero_time) = Some (Returned, w, s') \<and>
    json_parse (body_text (\<lambda>_. ''0'') w) = Some (parsed (\<lambda>_. ''0'') j)"
proof (rule demo_http_served)
  fix w s'
  assume served: "first_route (HandlerFromMux simple_binder (BuildHandler_interface (\<lambda>_. Inr []) None) NewRouter)
      demo_http_request fresh_writer (demo_http zero_time) = Some (Returned, w, s')"
    "\<forall>err. w \<noteq> http_Error err 400 fresh_writer"
    "\<forall>read call resp. map_of operations (req_Method demo_http_request, req_Path demo_http_request) = Some read \<longrightarrow>
       read simple_binder (url_Query demo_http_request) = Inr call \<longrightarrow>
       run_call (\<lambda>_. Inr []) None call (demo_http zero_time) = Some (Ok resp, s') \<longrightarrow> times_ok resp"
  have "\<forall>x. json_number ((\<lambda>_ :: float32. ''0'') x)" by (simp add: json_number_def number_complete_def)
  from response_bytes_read [OF first_route_chi empty_router demo_http_openapi served(1,3) this] served(1,2)
  show ?thesis by blast
qed

end
