(* ===== verification/ApiParameters.thy ===== *)
theory ApiParameters
  imports HttpApi
begin

text \<open>
  The query parameters the published document (\<open>internal/api/oapi.yaml\<close>) declares for each operation,
  with their types, enumerations and defaults, against the generated wrappers and the handlers: a
  request that keeps to the document is read, whatever else its query holds, and the declared
  defaults are the handlers' own.
\<close>

section \<open>The declared parameters\<close>

text \<open>
  A string; one of a list of strings, perhaps with a default; an integer with its default and maximum;
  a string that matches \<open>^[0-9]+$\<close>.
\<close>

datatype param_schema =
    AnyString
  | OneOf "string list" "string option"
  | Integer int "int option"
  | Digits

type_synonym declared_param = "string \<times> bool \<times> param_schema"

definition gitServerParam :: declared_param where "gitServerParam = (''gitServer'', True, AnyString)"
definition repoOwnerParam :: declared_param where "repoOwnerParam = (''owner'', True, AnyString)"
definition repoNameParam :: declared_param where "repoNameParam = (''repoName'', True, AnyString)"
definition repoNameQueryParam :: declared_param where "repoNameQueryParam = (''repoName'', False, AnyString)"

definition openapi_parameters :: "((string \<times> string) \<times> declared_param list) list" where
  "openapi_parameters =
     [((''GET'', ''/api/v1/repositories''), [gitServerParam, repoOwnerParam, repoNameQueryParam]),
      ((''GET'', ''/api/v1/repository''), [gitServerParam, repoOwnerParam, repoNameParam]),
      ((''GET'', ''/api/v1/user/organizations''), [gitServerParam]),
      ((''GET'', ''/api/v1/branches''), [gitServerParam, repoOwnerParam, repoNameParam]),
      ((''POST'', ''/api/v1/trigger-pipeline''),
       [gitServerParam, (''project'', True, AnyString), (''ref'', True, AnyString),
        (''variables'', False, AnyString)]),
      ((''GET'', ''/api/v1/pull-requests''),
       [gitServerParam, repoOwnerParam, repoNameParam,
        (''state'', False, OneOf [''open'', ''closed'', ''merged'', ''all''] (Some ''open'')),
        (''page'', False, Integer 1 None), (''perPage'', False, Integer 20 (Some 100))]),
      ((''GET'', ''/api/v1/pipelines''),
       [gitServerParam, (''project'', True, AnyString), (''ref'', False, AnyString),
        (''status'', False,
         OneOf [''pending'', ''running'', ''success'', ''failed'', ''cancelled'', ''skipped'', ''manual''] None),
        (''page'', False, Integer 1 None), (''perPage'', False, Integer 20 (Some 100))]),
      ((''GET'', ''/api/v1/pipeline-jobs''),
       [gitServerParam, (''project'', True, AnyString), (''pipelineId'', True, Digits)]),
      ((''GET'', ''/api/v1/pipeline-job-trace''),
       [gitServerParam, (''project'', True, AnyString), (''jobId'', True, Digits)]),
      ((''DELETE'', ''/api/v1/cache/invalidate''),
       [(''endpoint'', True,
         OneOf [''repositories'', ''organizations'', ''branches'', ''pullrequests'', ''pipelines''] None)])]"

text \<open>A value that the schema admits; the text of an integer is a numeral that Go's \<open>int\<close> can hold.\<close>

fun admits :: "param_schema \<Rightarrow> string \<Rightarrow> bool" where
  "admits AnyString v \<longleftrightarrow> True"
| "admits (OneOf choices d) v \<longleftrightarrow> v \<in> set choices"
| "admits (Integer d upper) v \<longleftrightarrow>
     (case strconv_Atoi v of
        None \<Rightarrow> False
      | Some n \<Rightarrow> (case upper of None \<Rightarrow> True | Some m \<Rightarrow> n \<le> m))"
| "admits Digits v \<longleftrightarrow> v \<noteq> [] \<and> list_all is_digit v"

fun default_text :: "param_schema \<Rightarrow> string option" where
  "default_text (OneOf choices d) = d"
| "default_text (Integer d upper) = Some (strconv_Itoa d)"
| "default_text _ = None"

text \<open>A query that keeps to the document: each declared parameter at most once, the required ones not
  empty, with values that their schemas admit.  Other parameters are not restricted.\<close>

fun param_given :: "url_Values \<Rightarrow> declared_param \<Rightarrow> bool" where
  "param_given q (name, required, schema) \<longleftrightarrow>
     length (Values_all q name) \<le> 1 \<and> (required \<longrightarrow> Values_Get q name \<noteq> []) \<and>
     list_all (admits schema) (Values_all q name)"

definition documented_query :: "declared_param list \<Rightarrow> url_Values \<Rightarrow> bool" where
  "documented_query params q \<longleftrightarrow> list_all (param_given q) params"

section \<open>Reading them\<close>

definition first_value :: "string list \<Rightarrow> string option" where
  "first_value vs = (case vs of [] \<Rightarrow> None | v # _ \<Rightarrow> Some v)"

definition first_int :: "string list \<Rightarrow> int option" where
  "first_int vs = (case vs of [] \<Rightarrow> None | v # _ \<Rightarrow> strconv_Atoi v)"

lemma required_once:
  "binder_ok b \<Longrightarrow> length (Values_all q name) \<le> 1 \<Longrightarrow> Values_Get q name \<noteq> [] \<Longrightarrow>
   required_param b name q = Inr (Values_Get q name)"
  by (cases "Values_all q name") (simp_all add: required_param_def Values_Get_def binder_ok_def)

lemma optional_once:
  "binder_ok b \<Longrightarrow> length (Values_all q name) \<le> 1 \<Longrightarrow>
   optional_param b name q = Inr (first_value (Values_all q name))"
  by (cases "Values_all q name") (simp_all add: optional_param_def first_value_def binder_ok_def)

lemma optional_int_once:
  "binder_ok b \<Longrightarrow> length (Values_all q name) \<le> 1 \<Longrightarrow> list_all (admits (Integer d upper)) (Values_all q name) \<Longrightarrow>
   optional_int_param b name q = Inr (first_int (Values_all q name))"
  by (cases "Values_all q name")
    (auto simp: optional_int_param_def first_int_def binder_ok_def split: option.splits)

lemmas documented_page = optional_int_once [where d = 1 and upper = None]
  optional_int_once [where d = 20 and upper = "Some 100"]

text \<open>What each operation reads of a query that keeps to the document.\<close>

fun expected_call :: "string \<Rightarrow> url_Values \<Rightarrow> request_object" where
  "expected_call path q =
     (let req = Values_Get q; opt = (\<lambda>name. first_value (Values_all q name));
          int = (\<lambda>name. first_int (Values_all q name))
      in if path = ''/api/v1/branches'' then ListBranchesRequestObject
             \<lparr>lbp_GitServer = req ''gitServer'', lbp_Owner = req ''owner'', lbp_RepoName = req ''repoName''\<rparr>
         else if path = ''/api/v1/cache/invalidate'' then InvalidateCacheRequestObject
             \<lparr>icp_Endpoint = req ''endpoint''\<rparr>
         else if path = ''/api/v1/pipeline-job-trace'' then GetPipelineJobTraceRequestObject
             \<lparr>gtp_GitServer = req ''gitServer'', gtp_Project = req ''project'', gtp_JobId = req ''jobId''\<rparr>
         else if path = ''/api/v1/pipeline-jobs'' then ListPipelineJobsRequestObject
             \<lparr>ljp_GitServer = req ''gitServer'', ljp_Project = req ''project'', ljp_PipelineId = req ''pipelineId''\<rparr>
         else if path = ''/api/v1/pipelines'' then ListPipelinesRequestObject
             \<lparr>lpp_GitServer = req ''gitServer'', lpp_Project = req ''project'', lpp_Ref = opt ''ref'',
              lpp_Status = opt ''status'', lpp_Page = int ''page'', lpp_PerPage = int ''perPage''\<rparr>
         else if path = ''/api/v1/pull-requests'' then ListPullRequestsRequestObject
             \<lparr>lrp_GitServer = req ''gitServer'', lrp_Owner = req ''owner'', lrp_RepoName = req ''repoName'',
              lrp_State = opt ''state'', lrp_Page = int ''page'', lrp_PerPage = int ''perPage''\<rparr>
         else if path = ''/api/v1/repositories'' then ListRepositoriesRequestObject
             \<lparr>rpp_GitServer = req ''gitServer'', rpp_Owner = req ''owner'', rpp_RepoName = opt ''repoName''\<rparr>
         else if path = ''/api/v1/repository'' then GetRepositoryRequestObject
             \<lparr>grp_GitServer = req ''gitServer'', grp_Owner = req ''owner'', grp_RepoName = req ''repoName''\<rparr>
         else if path = ''/api/v1/trigger-pipeline'' then TriggerPipelineRequestObject
             \<lparr>tpp_GitServer = req ''gitServer'', tpp_Project = req ''project'', tpp_Ref = req ''ref'',
              tpp_Variables = opt ''variables''\<rparr>
         else ListUserOrganizationsRequestObject \<lparr>lop_GitServer = req ''gitServer''\<rparr>)"

lemmas read_defs = ListBranches_params_def InvalidateCache_params_def GetPipelineJobTrace_params_def
  ListPipelineJobs_params_def ListPipelines_params_def ListPullRequests_params_def ListRepositories_params_def
  GetRepository_params_def TriggerPipeline_params_def ListUserOrganizations_params_def

lemmas declared_defs = gitServerParam_def repoOwnerParam_def repoNameParam_def repoNameQueryParam_def

text \<open>The operations of the document, one at a time.\<close>

lemma declared_operations:
  assumes "map_of openapi_parameters key = Some params"
  shows "(key, params) \<in> set openapi_parameters"
  using assms by (rule map_of_SomeD)

lemma documented_read:
  assumes "binder_ok b" "map_of openapi_parameters key = Some params" "documented_query params q"
    and "map_of operations key = Some read"
  shows "read b q = Inr (expected_call (snd key) q)"
  using declared_operations [OF assms(2)] assms(1,3,4)
  unfolding openapi_parameters_def
  by (elim set_ConsD [elim_format] disjE)
    (auto simp: operations_def documented_query_def declared_defs read_defs required_once optional_once
      documented_page Let_def simp del: admits.simps)

lemma same_values:
  "\<forall>(name, required, schema) \<in> set params. Values_all q' name = Values_all q name \<Longrightarrow>
   documented_query params q \<Longrightarrow> documented_query params q'"
  by (fastforce simp: documented_query_def list_all_iff Values_Get_def)

lemma expected_call_same:
  assumes "map_of openapi_parameters key = Some params"
    and "\<forall>(name, required, schema) \<in> set params. Values_all q' name = Values_all q name"
  shows "expected_call (snd key) q' = expected_call (snd key) q"
  using declared_operations [OF assms(1)] assms(2)
  unfolding openapi_parameters_def
  by (elim set_ConsD [elim_format] disjE) (auto simp: declared_defs Values_Get_def Let_def)

text \<open>A declared default is a value its schema admits, and giving it keeps a query documented.\<close>

lemma declared_tables:
  "list_all (\<lambda>(key, params). distinct (map fst params) \<and>
     list_all (\<lambda>(name, required, schema).
       case default_text schema of None \<Rightarrow> True | Some d \<Rightarrow> d \<noteq> [] \<and> admits schema d) params) openapi_parameters"
  by code_simp

lemma documented_with_default:
  assumes "map_of openapi_parameters key = Some params" "documented_query params q"
    and "(name, required, schema) \<in> set params" "default_text schema = Some d" "Values_all q name = []"
  shows "documented_query params ((name, d) # q)"
proof -
  from declared_tables declared_operations [OF assms(1)] assms(3,4)
  have params: "distinct (map fst params)" "d \<noteq> []" "admits schema d"
    by (fastforce simp: list_all_iff)+
  have "param_given ((name, d) # q) (n, r, sc)" if "(n, r, sc) \<in> set params" for n r sc
  proof (cases "n = name")
    case True
    with params(1) that assms(3) have "sc = schema" by (auto dest: eq_key_imp_eq_value)
    with True params(2,3) assms(5) show ?thesis by (simp add: Values_Get_def)
  next
    case False
    from assms(2) that have "param_given q (n, r, sc)" by (auto simp: documented_query_def list_all_iff)
    with False show ?thesis by (simp add: Values_Get_def)
  qed
  then show ?thesis by (auto simp: documented_query_def list_all_iff)
qed

lemma first_simps [simp]:
  "first_value [] = None" "first_value (v # vs) = Some v"
  "first_int [] = None" "in_int64 n \<Longrightarrow> first_int (strconv_Itoa n # vs) = Some n"
  by (simp_all add: first_value_def first_int_def Atoi_Itoa)

definition declared_default_list :: "(string \<times> string \<times> string) list" where
  "declared_default_list =
     [(''/api/v1/pull-requests'', ''state'', ''open''), (''/api/v1/pull-requests'', ''page'', strconv_Itoa 1),
      (''/api/v1/pull-requests'', ''perPage'', strconv_Itoa 20), (''/api/v1/pipelines'', ''page'', strconv_Itoa 1),
      (''/api/v1/pipelines'', ''perPage'', strconv_Itoa 20)]"

lemma declared_default_table:
  "list_all (\<lambda>(key, params). list_all (\<lambda>(name, required, schema).
     case default_text schema of None \<Rightarrow> True | Some d \<Rightarrow> (snd key, name, d) \<in> set declared_default_list) params)
     openapi_parameters"
  by code_simp

lemma declared_defaults:
  assumes "map_of openapi_parameters key = Some params"
    and "(name, required, schema) \<in> set params" "default_text schema = Some d"
  shows "(snd key, name, d) \<in> set declared_default_list"
  using declared_default_table declared_operations [OF assms(1)] assms(2,3)
  by (fastforce simp: list_all_iff)

lemma default_call:
  assumes "map_of openapi_parameters key = Some params"
    and "(name, required, schema) \<in> set params" "default_text schema = Some d" "Values_all q name = []"
  shows "run_call jv joined (expected_call (snd key) ((name, d) # q)) s =
    run_call jv joined (expected_call (snd key) q) s"
proof -
  have "in_int64 1" "in_int64 20" by (simp_all add: in_int64_def)
  with declared_defaults [OF assms(1-3)] assms(4) show ?thesis
    unfolding declared_default_list_def list.set
    by (elim insertE)
      (simp_all add: Values_Get_def Let_def ListPullRequests_def ListPipelines_def clampPagination_def)
qed

section \<open>What the document promises\<close>

text \<open>C8: Documented requests are accepted.  A request whose query keeps to the published document (every
  declared parameter at most once, the required ones present, with values their schemas admit) is
  read by the generated server, never refused; and parameters the document does not declare have no
  influence on the call the server makes.\<close>

theorem documented_requests_accepted:
  assumes "binder_ok b" "map_of openapi_parameters key = Some params" "documented_query params q"
    and "map_of operations key = Some read"
    and "\<forall>(name, required, schema) \<in> set params. Values_all q' name = Values_all q name"
  shows "\<exists>call. read b q = Inr call \<and> read b q' = Inr call"
  using documented_read [OF assms(1-4)] documented_read [OF assms(1,2) same_values [OF assms(5,3)] assms(4)]
    expected_call_same [OF assms(2,5)]
  by simp

text \<open>C21: Documented defaults are the server's.  When a documented request leaves out a parameter for which the
  document declares a default (the state, the page, the page size), the server does the same as for
  the request that gives the default explicitly.\<close>

theorem documented_defaults:
  assumes "binder_ok b" "map_of openapi_parameters key = Some params" "documented_query params q"
    and "map_of operations key = Some read"
    and "(name, required, schema) \<in> set params" "default_text schema = Some d" "Values_all q name = []"
  shows "\<exists>call call'. read b q = Inr call \<and> read b ((name, d) # q) = Inr call' \<and>
    run_call jv joined call' s = run_call jv joined call s"
  using documented_read [OF assms(1-4)]
    documented_read [OF assms(1,2) documented_with_default [OF assms(2,3,5-7)] assms(4)]
    default_call [OF assms(2,5-7)]
  by simp

section \<open>Witnesses\<close>

definition demo_query :: url_Values where
  "demo_query = [(''gitServer'', ''main''), (''owner'', ''team''), (''repoName'', ''tool'')]"

lemma demo_documented:
  "map_of openapi_parameters (''GET'', ''/api/v1/pull-requests'') =
     Some [gitServerParam, repoOwnerParam, repoNameParam,
       (''state'', False, OneOf [''open'', ''closed'', ''merged'', ''all''] (Some ''open'')),
       (''page'', False, Integer 1 None), (''perPage'', False, Integer 20 (Some 100))]"
  "documented_query [gitServerParam, repoOwnerParam, repoNameParam,
       (''state'', False, OneOf [''open'', ''closed'', ''merged'', ''all''] (Some ''open'')),
       (''page'', False, Integer 1 None), (''perPage'', False, Integer 20 (Some 100))] demo_query"
  "map_of operations (''GET'', ''/api/v1/pull-requests'') =
     Some (\<lambda>b q. map_sum id ListPullRequestsRequestObject (ListPullRequests_params b q))"
  by (simp_all add: openapi_parameters_def operations_def documented_query_def declared_defs demo_query_def
      Values_Get_def)

lemma documented_requests_accepted_witness:
  "\<exists>call. map_sum id ListPullRequestsRequestObject (ListPullRequests_params simple_binder demo_query) = Inr call \<and>
     map_sum id ListPullRequestsRequestObject
       (ListPullRequests_params simple_binder ((''debug'', ''1'') # demo_query)) = Inr call"
  by (rule documented_requests_accepted [OF simple_binder_ok demo_documented, where q' = "(''debug'', ''1'') # demo_query"])
    (simp add: declared_defs)

lemma documented_defaults_witness:
  "\<exists>call call'.
     map_sum id ListPullRequestsRequestObject (ListPullRequests_params simple_binder demo_query) = Inr call \<and>
     map_sum id ListPullRequestsRequestObject
       (ListPullRequests_params simple_binder ((''state'', ''open'') # demo_query)) = Inr call' \<and>
     run_call (\<lambda>_. Inr []) None call' (demo_http zero_time) = run_call (\<lambda>_. Inr []) None call (demo_http zero_time)"
  by (rule documented_defaults [OF simple_binder_ok demo_documented,
        where schema = "OneOf [''open'', ''closed'', ''merged'', ''all''] (Some ''open'')" and required = False])
    (simp_all add: demo_query_def)

end
