(* ===== verification/Spec2Isabelle.thy ===== *)
theory Spec2Isabelle
  imports Common GoTime GitHubPipelines Termination MainProgram TraceCancellation WireFormat
    ApiParameters
begin

text \<open>
  A verification development for gitfusion, a Go service that offers one HTTP API over GitHub,
  GitLab and Bitbucket: repositories, organizations, branches, pull requests, pipelines, jobs and
  the logs of jobs.

  \<^bold>\<open>How the program is put together.\<close>  The process (\<open>cmd/gitfusion-api\<close>) puts middlewares and the
  generated server (\<open>internal/api/server_gen.go\<close>) around the handlers (\<open>internal/api\<close>).  The generated
  code routes a request, reads its parameters, calls the handler and writes the response object it
  returns.  A handler clamps the parameters and calls a service
  (\<open>internal/services/<kind>/<kind>_service.go\<close>).  The
  service gets the settings of the named git server from \<open>internal/services/krci\<close> (Kubernetes, cached)
  and hands the request to a multi-provider service (\<open><kind>_provider.go\<close>), which picks the provider
  the settings name and asks its cache (\<open>internal/cache\<close>); on a miss the cache calls the provider
  (\<open>internal/services/{github,gitlab,bitbucket}\<close>), which talks to the remote API through a client
  library and converts what it gets to the models of \<open>internal/models\<close>.  Errors travel up as wrapped
  errors and are classified once, by the handler.  One endpoint empties caches by name.

  \<^bold>\<open>Theories.\<close>
    \<^item> \<open>Prelude\<close>, \<open>GoErrors\<close>, \<open>GoStrings\<close>, \<open>GoTime\<close>: Go's results (a value, an error or a panic), wrapping
      64-bit ints, \<open>strconv\<close>, wrapped errors with \<open>errors.Is\<close>/\<open>errors.As\<close> and \<open>fmt\<close>'s verbs (with
      \<open>internal/errors/errors.go\<close>), strings, base64 and \<open>url.PathEscape\<close>, \<open>time.Parse\<close> of RFC 3339
      and \<open>MarshalJSON\<close> of times, which is its inverse.
    \<^item> \<open>Models\<close>, \<open>Json\<close>: \<open>internal/models\<close> with the settings of a git server, and how each model is
      encoded, as a JSON tree or as the error of a value that has no encoding.
    \<^item> \<open>Utf8\<close>, \<open>JsonText\<close>: \<open>unicode/utf8\<close>; the text \<open>encoding/json\<close> makes of a tree, and its scanner as a
      machine that reads one byte at a time.
    \<^item> \<open>OpenApi\<close>: the published document \<open>internal/api/oapi.yaml\<close>: its schemas and its operations with their
      parameters and responses.
    \<^item> \<open>Iterators\<close>: \<open>pkg/xiter\<close>, \<open>pkg/github\<close> and \<open>pkg/bitbucket\<close>, with the interface \<open>scanner\<close>.
    \<^item> \<open>CacheClient\<close>, \<open>Cache\<close>: the cache client as an arbitrary object under a contract, and
      \<open>internal/cache\<close>: the two-tier cache, the parameters of every cache and the manager, with the
      interface \<open>lossy_store\<close>.
    \<^item> \<open>Common\<close>, \<open>GitHub\<close>, \<open>GitHubPipelines\<close>, \<open>GitLab\<close>, \<open>Bitbucket\<close>: the providers, one definition per
      method, with every branch and every error of the source.
    \<^item> \<open>GitServer\<close>: \<open>internal/services/krci/gitserver.go\<close>.
    \<^item> \<open>Services\<close>: the repository, organization, branch and pull request services, with the interface
      \<open>cached_service\<close>; \<open>Pipelines\<close>: the pipelines service, also as a state machine; \<open>TraceFlights\<close>: its
      trace requests as goroutines whose calls interleave; \<open>TraceCancellation\<close>: the same under contexts
      that may be cancelled.
    \<^item> \<open>GoHttp\<close>: what the server uses of \<open>net/http\<close> and \<open>net/url\<close>: requests with their query, a
      response writer with status, headers and body, handlers that return or panic.
    \<^item> \<open>ServerTypes\<close>, \<open>ServerGen\<close>: \<open>internal/api/server_gen.go\<close>: the parameters of every operation,
      one datatype of responses per operation with its visit method, the parameter wrappers and their
      errors, the routes, the strict handlers.
    \<^item> \<open>Api\<close>: the handlers, \<open>BuildHandler\<close> and \<open>initk8sClient\<close>; \<open>HttpApi\<close>: the handlers under the generated
      server, as HTTP clients see them; \<open>WireFormat\<close>: the bytes of the responses, and \<open>json.Unmarshal\<close> of
      the variables of a pipeline; \<open>ApiParameters\<close>: the parameters the document declares;
      \<open>Termination\<close>: every request is answered.
    \<^item> \<open>MainProgram\<close>: \<open>cmd/gitfusion-api/main.go\<close>, start and shutdown as a transition system.
    \<^item> This theory: properties that span them.

  \<^bold>\<open>State.\<close>  A pointer to a struct with state is a record that is passed in and returned updated; a
  cache is a value of the codatatype \<open>Client\<close>, so an entry may expire or be evicted between any two
  calls.  What is outside the repository is a parameter: the records \<open>gh_api\<close>, \<open>gl_api\<close>, \<open>bb_api\<close>,
  \<open>bb_rest\<close> and \<open>k8s\<close> are the calls the program makes on its client libraries, gathered in \<open>Env\<close>; the
  caches are constrained by \<open>client_ok\<close> (a client that runs a fetch function only inside the call that
  passed it) or by the weaker \<open>serves_only\<close> (a client with early refreshes, which may run it again
  later).  The router and the binder of one query parameter are libraries with their documented
  behaviour as a hypothesis (\<open>chi_routes\<close>, \<open>binder_ok\<close>); middlewares and logger are arbitrary.  The
  theorems about provenance need only \<open>serves_only\<close> for the caches that are configured
  with early refreshes; the caches of jobs, traces and finished jobs are configured without.

  \<^bold>\<open>What the lemmas show.\<close>  For the caches: what comes out was put in under the same key since the
  last invalidation, and invalidation empties exactly what it names.  For the services: every
  listing, page or trace that is served was returned by the provider for the same git server and the
  same parameters (with the injectivity of the cache keys), in any sequence of requests; for traces
  this is an invariant of all reachable states, together with what each tier may hold.  For GitHub's
  filtered pull requests: the loop over pages computes the right slice of the matching pull requests,
  with at most 50 requests.  For the providers: what is filtered, sorted, truncated, quoted and how
  errors are classified.  For the handlers: clamping, the status codes, ids that survive the way
  through the API, and the first request to a fresh server end to end.  For the HTTP server: routing,
  wrappers and strict handlers together do what the specification \<open>serve_operation\<close> says; what a client
  puts into a query is what the handler gets; a request that keeps to the document is accepted, and the
  documented defaults are the handlers'; whatever a handler returns is written with a status and
  a body the published document allows for this operation, or the request panics because a value
  has no encoding; the bytes of the body are read back as the tree that was written; a missing
  parameter is refused with a plain text.  The variables of a pipeline survive the way from the client's
  JSON text to the provider, a text that was cut off triggers nothing, and a key that is no field is
  ignored.  For the process: after a signal it
  ends within a bounded number of steps, and with status 0 only when all requests have been served.

  \<^bold>\<open>Bounds and termination.\<close>  The loop over filtered pull requests counts its requests up to
  \<open>ghPostFilterMaxPages\<close> (50) of \<open>ghPostFilterPageSize\<close> (100) and is total; the scans of
  \<open>pkg/github\<close> and \<open>pkg/bitbucket\<close> end only when the remote side stops naming a next page, so they are
  option valued and \<open>None\<close> means that they never return.  \<open>pages_end\<close> is this assumption, and under it
  every sequence of requests is answered (for GitLab it speaks of the library's iterator; the list of
  a group's projects asks for its first page again and again, so there it holds only for groups of at
  most one page).  At most 500 jobs are listed, 4 MiB of a log
  are read and 512 KiB are cached; JSON is read to a depth of 10000, far beyond any response.

  \<^bold>\<open>Interleaving.\<close>  Go serves requests concurrently.  Elsewhere than in the two theories named next each request
  is one atomic step; requests may come in any order and against providers that change in between, and a trace
  request that joins another request's flight gets that request's result (\<open>joined\<close>).
  \<open>TraceFlights\<close> takes the trace requests apart: a goroutine per request, a step per call on a cache,
  on the \<open>singleflight\<close> group or on the provider, in any interleaving with other requests, listings of
  jobs and invalidations.  There is at most one flight per job, no deadlock and at most nine steps per
  request; what is served has been fetched for this job during the run; a request that is not
  disturbed does what the atomic one does.  The long-lived tier holds only final logs if no job is
  listed between the fetch of its log and the lookup of its marker, and without this it need not.
  \<open>TraceCancellation\<close> adds the contexts of the requests: a cancellation reaches the requests for the
  same job that joined the flight, and no others.

  \<^bold>\<open>Not modelled.\<close>  How \<open>encoding/json\<close> writes a float, and the texts of its errors (parameters); cancellation of
  contexts outside the shutdown and the trace requests, and timeouts; log output; descriptions and examples of the published document; the Helm chart and
  the other files of the deployment.
\<close>

section \<open>Properties that span components\<close>



text \<open>
  A server for the examples: the jobs of a pipeline and the trace of its finished job are cached,
  and the provider has since forgotten both.
\<close>

definition demo_forgotten :: "string \<Rightarrow> PipelineProvider option" where
  "demo_forgotten =
     [''gitlab'' \<mapsto>
        \<lparr>PP_TriggerPipeline = (\<lambda>_ _ _ _. Err ErrNotFound),
         PP_ListPipelines = (\<lambda>_ _ _. Err ErrNotFound),
         PP_jobs = Some \<lparr>PJ_ListPipelineJobs = (\<lambda>_ _ _. Some (Err ErrNotFound)),
                         PJ_GetJobTrace = (\<lambda>_ _ _. Err ErrNotFound)\<rparr>\<rparr>]"

definition demo_api :: Server where
  "demo_api =
     \<lparr>srv_gitServers = demo_server ''t'',
      srv_repositories = \<lparr>mr_providers = Map.empty, mr_cache = assoc_client []\<rparr>,
      srv_organizations = \<lparr>mo_providers = Map.empty, mo_cache = assoc_client []\<rparr>,
      srv_branches = \<lparr>mb_providers = Map.empty, mb_cache = assoc_client []\<rparr>,
      srv_pullrequests = \<lparr>mp_providers = Map.empty, mp_cache = assoc_client []\<rparr>,
      srv_pipelines = demo_after_trace\<lparr>mpl_providers := demo_forgotten\<rparr>\<rparr>"

lemma demo_api_settings:
  "fst (GetGitProviderSettings (srv_gitServers demo_api) ''main'') = Ok demo_settings"
  by (simp add: demo_api_def demo_server_def demo_k8s_def GetGitProviderSettings_def GetOrFetch_pure_def
      GetOrFetch_def fetchSettings_def getGitProviderSettingsForServer_def demo_settings_def)

lemma demo_api_provider:
  "jobsProvider (srv_pipelines demo_api) (Settings_GitProvider demo_settings) =
     Inr \<lparr>PJ_ListPipelineJobs = (\<lambda>_ _ _. Some (Err ErrNotFound)),
          PJ_GetJobTrace = (\<lambda>_ _ _. Err ErrNotFound)\<rparr>"
  by (simp add: demo_api_def demo_settings_def jobsProvider_def demo_forgotten_def)

text \<open>What invalidating the pipelines leaves of a server.\<close>

lemma invalidated_pipelines:
  "InvalidateCache_handler \<lparr>icp_Endpoint = ''pipelines''\<rparr> s = (resp, s1) \<Longrightarrow>
   s1 = s\<lparr>srv_pipelines := (srv_pipelines s)
     \<lparr>mpl_cache := delete_scanned (mpl_cache (srv_pipelines s)),
      jobsCache := delete_scanned (jobsCache (srv_pipelines s)),
      traceCache := TAC_Invalidate (traceCache (srv_pipelines s))\<rparr>\<rparr>"
  by (auto simp: InvalidateCache_handler_def InvalidateCache_def update_caches_def cacheManager_def
      Let_def)

lemma jobsProvider_caches [simp]:
  "jobsProvider (m\<lparr>mpl_cache := c1\<rparr>) = jobsProvider m"
  "jobsProvider (m\<lparr>jobsCache := c2\<rparr>) = jobsProvider m"
  "jobsProvider (m\<lparr>traceCache := c3\<rparr>) = jobsProvider m"
  by (simp_all add: jobsProvider_def fun_eq_iff)

text \<open>Invalidation makes the next listing of jobs fresh.  After the \<open>pipelines\<close> endpoint of the cache
  was invalidated, a request for the jobs of a pipeline is answered with what the provider now
  says, success or error, whatever was cached before.\<close>

theorem invalidate_then_fresh_jobs:
  assumes "client_ok M (jobsCache (srv_pipelines s))"
    and "InvalidateCache_handler \<lparr>icp_Endpoint = ''pipelines''\<rparr> s = (resp, s1)"
    and "fst (GetGitProviderSettings (srv_gitServers s) (ljp_GitServer params)) = Ok settings"
    and "jobsProvider (srv_pipelines s) (Settings_GitProvider settings) = Inr jp"
    and "strconv_Atoi (ljp_PipelineId params) = Some pipelineID"
    and "PJ_ListPipelineJobs jp (ljp_Project params) pipelineID settings = Some r" "r \<noteq> Panic"
  shows "\<exists>s2. ListPipelineJobs params s1 = 
    Some (respond (\<lambda>jobs. ListPipelineJobs200JSONResponse \<lparr>PipelineJobsResponse_Data = jobs\<rparr>)
            jobsErrResponse r, s2)"
proof -
  note s1 = invalidated_pipelines [OF assms(2)]
  obtain g where g: "GetGitProviderSettings (srv_gitServers s) (ljp_GitServer params) = (Ok settings, g)"
    using assms(3) by (cases "GetGitProviderSettings (srv_gitServers s) (ljp_GitServer params)") simp
  have "jobsProvider (srv_pipelines s1) = jobsProvider (srv_pipelines s)"
    "client_ok (\<lambda>_. {}) (jobsCache (srv_pipelines s1))"
    using delete_scanned_ok [OF assms(1)] by (simp_all add: s1)
  with ListPipelineJobs_uncached [of "srv_pipelines s1"] assms(4,6,7) obtain m' where
    "MultiProvider_ListPipelineJobs (srv_pipelines s1) (ljp_Project params) pipelineID settings =
       Some (r, m')"
    by fastforce
  moreover have "srv_gitServers s1 = srv_gitServers s" by (simp add: s1)
  ultimately show ?thesis
    using assms(5) g
    by (simp add: ListPipelineJobs_def PipelinesService_ListPipelineJobs_def with_settings_def)
qed

lemma invalidate_then_fresh_jobs_witness:
  "\<exists>s2. ListPipelineJobs \<lparr>ljp_GitServer = ''main'', ljp_Project = ''team/tool'', ljp_PipelineId = ''1''\<rparr>
      (snd (InvalidateCache_handler \<lparr>icp_Endpoint = ''pipelines''\<rparr> demo_api)) =
    Some (Ok (ListPipelineJobs404JSONResponse (error_json ''404'' (error_text ErrNotFound))), s2)"
proof -
  have "\<exists>M. client_ok M (jobsCache (srv_pipelines demo_api))"
    using assoc_client_ok by (auto simp: demo_api_def demo_after_trace_state demo_after_jobs_eq)
  then obtain M where "client_ok M (jobsCache (srv_pipelines demo_api))" by blast
  from invalidate_then_fresh_jobs [OF this prod.collapse [symmetric], where settings = demo_settings
      and params = "\<lparr>ljp_GitServer = ''main'', ljp_Project = ''team/tool'', ljp_PipelineId = ''1''\<rparr>"
      and pipelineID = 1 and r = "Err ErrNotFound", OF _ demo_api_provider] demo_api_settings
  show ?thesis
    by (simp add: go_simps respond_def jobsErrResponse_def)
qed



text \<open>A cache library whose constructors give clients that hold nothing.\<close>

definition empty_library :: "cache_library \<Rightarrow> bool" where
  "empty_library lib \<longleftrightarrow>
     (\<forall>cfg. client_ok (\<lambda>_. {}) (lib_settings lib cfg) \<and>
        client_ok (\<lambda>_. {}) (lib_repositories lib cfg) \<and>
        client_ok (\<lambda>_. {}) (lib_organizations lib cfg) \<and>
        client_ok (\<lambda>_. {}) (lib_branches lib cfg) \<and>
        client_ok (\<lambda>_. {}) (lib_pullrequests lib cfg) \<and>
        client_ok (\<lambda>_. {}) (new_pipelines (lib_pipelines lib) cfg) \<and>
        client_ok (\<lambda>_. {}) (new_jobs (lib_pipelines lib) cfg) \<and>
        client_ok (\<lambda>_. {}) (new_traces (lib_pipelines lib) cfg) \<and>
        client_ok (\<lambda>_. {}) (new_flags (lib_pipelines lib) cfg))"

text \<open>A world for the examples: a GitLab with one project, a GitHub and a Bitbucket that know nothing.\<close>

definition demo_env :: "unit Env" where
  "demo_env =
     \<lparr>env_github = demo_github [[]] [[]] [[]],
      env_gitlab = demo_gitlab [demo_job 4 ''build''],
      env_scan_projects = demo_scan 1, env_scan_groups = demo_scan 1, env_scan_branches = demo_scan 1,
      env_scan_jobs = demo_scan 1,
      env_bitbucket = (\<lambda>_ _. Inl ErrNotFound),
      env_rest = \<lparr>Get_workspaces = \<lambda>_ _ _ _. Inl ErrNotFound, Get_pullrequests = \<lambda>_ _ _ _. Inl ErrNotFound,
                  Get_pipelines = \<lambda>_ _ _ _. Inl ErrNotFound\<rparr>,
      env_PathEscape = url_PathEscape,
      env_http_get = (\<lambda>_ _. Response 200 ''log'' None),
      env_lower = map ascii_lower,
      env_b64err = (\<lambda>_. ErrNotFound), env_timeerr = (\<lambda>_. ErrNotFound),
      env_ctx_err = (\<lambda>_. None), env_user_first = True\<rparr>"

definition demo_library :: cache_library where
  "demo_library =
     \<lparr>lib_settings = \<lambda>_. assoc_client [], lib_repositories = \<lambda>_. assoc_client [],
      lib_organizations = \<lambda>_. assoc_client [], lib_branches = \<lambda>_. assoc_client [],
      lib_pullrequests = \<lambda>_. assoc_client [],
      lib_pipelines = \<lparr>new_pipelines = \<lambda>_. assoc_client [], new_jobs = \<lambda>_. assoc_client [],
                       new_traces = \<lambda>_. assoc_client [], new_flags = \<lambda>_. assoc_client []\<rparr>\<rparr>"

lemma demo_library_empty: "empty_library demo_library"
  by (simp add: empty_library_def demo_library_def assoc_client_empty)

text \<open>A Kubernetes library whose client answers \<open>demo_k8s\<close>.\<close>

definition demo_kube :: "(unit, string list) k8s_library" where
  "demo_kube =
     \<lparr>lib_GetConfig = Inr (), lib_NewScheme = [], corev1_AddToScheme = (\<lambda>s. Inr (''v1'' # s)),
      codebaseApi_AddToScheme = (\<lambda>s. Inr (''codebase'' # s)),
      client_New = (\<lambda>_ scheme. if scheme = [''codebase'', ''v1''] then Inr (demo_k8s ''t'')
                             else Inl (ErrorString ''no kind registered''))\<rparr>"

lemma initk8sClient_demo: "initk8sClient demo_kube = Inr (demo_k8s ''t'')"
  by (simp add: initk8sClient_def demo_kube_def)



text \<open>
  What a listing of pull requests computes when nothing is cached: the settings read from
  Kubernetes, the provider they name, and that provider's answer for the clamped page.
\<close>

definition cold_pull_requests ::
    "'p Env \<Rightarrow> GitServerService \<Rightarrow> ListPullRequestsParams \<Rightarrow> PullRequestsResponse result" where
  "cold_pull_requests env g params =
     res_bind (fetchSettings g (lrp_GitServer params)) (\<lambda>settings.
       case pullrequests_providers env (Settings_GitProvider settings) of
         None \<Rightarrow> Err (unsupported_provider (Settings_GitProvider settings))
       | Some provider \<Rightarrow>
           provider (lrp_Owner params) (lrp_RepoName params) settings
             \<lparr>PRList_State = ValueOrEmpty ''open'' (lrp_State params),
              PRList_Page = max 1 (ValueOrEmpty 1 (lrp_Page params)),
              PRList_PerPage = (if ValueOrEmpty 20 (lrp_PerPage params) < 1 then 20
                                else min 100 (ValueOrEmpty 20 (lrp_PerPage params)))\<rparr>)"

lemma clamped:
  "clampPagination page perPage =
     (max 1 (ValueOrEmpty 1 page),
      if ValueOrEmpty 20 perPage < 1 then 20 else min 100 (ValueOrEmpty 20 perPage))"
  by (auto simp: clampPagination_def ValueOrEmpty_def Let_def split: option.splits)

lemma fetchSettings_not_Panic: "fetchSettings g name \<noteq> Panic"
  by (simp add: fetchSettings_def getGitProviderSettingsForServer_def Let_def split: sum.split)

lemma GetOrFetch_pure_empty:
  assumes "client_ok (\<lambda>_. {}) c" "r \<noteq> Panic"
  shows "\<exists>c'. GetOrFetch_pure c key (Some r) = Some (r, c')"
  using GetOrFetch_empty [where M = "\<lambda>_. {}" and fetchFn = "\<lambda>_. Some (r, ())" and w = "()",
      OF assms(1) refl refl assms(2)]
  by (fastforce simp: GetOrFetch_pure_def)



text \<open>C10: Every request is answered.  When the lists of the environment come to an end, a server that
  \<open>BuildHandler\<close> made answers every HTTP request of a sequence: whatever operations they ask for, with
  whatever parameters, whatever the caches have kept or lost in between and whatever the providers
  answer, each is served to its end, and none holds up those after it.\<close>

theorem every_request_answered:
  assumes "chi_routes serve" "pages_end env" "BuildHandler env lib kube url field conf = Inr s"
    and "\<forall>(joined, r) \<in> set reqs. (req_Method r, req_Path r) \<in> fst ` set operations"
  shows "\<exists>answers s'. serve_requests serve b jv reqs s = Some (answers, s') \<and> length answers = length reqs"
  using assms(1,2) built_provided_by [OF assms(3)] assms(4) by (rule serve_requests_return)

lemma demo_env_ends: "pages_end demo_env"
proof -
  have single: "gh_pages_end (numbered_pages [[]])"
    by (auto simp: gh_pages_end_def numbered_pages_def)
  show ?thesis
    unfolding pages_end_def github_ends_def
    by (auto simp: demo_env_def demo_github_def single gitlab_ends_def scan_returns_def demo_scan_def)
qed

lemma every_request_answered_witness:
  "\<exists>answers s. serve_requests first_route simple_binder (\<lambda>_. Inr [])
     [(None, \<lparr>req_Method = ''GET'', req_Path = ''/api/v1/branches'', req_RawQuery = ''gitServer=main&owner=team&repoName=tool''\<rparr>),
      (None, \<lparr>req_Method = ''DELETE'', req_Path = ''/api/v1/cache/invalidate'', req_RawQuery = []\<rparr>)]
     (projr (BuildHandler demo_env demo_library demo_kube (\<lambda>gs. ''https://git.example'') ''token''
        \<lparr>Config_Namespace = ''krci'', Config_Port = ''8080''\<rparr>)) = Some (answers, s) \<and> length answers = 2"
proof -
  obtain s where s: "BuildHandler demo_env demo_library demo_kube (\<lambda>gs. ''https://git.example'') ''token''
      \<lparr>Config_Namespace = ''krci'', Config_Port = ''8080''\<rparr> = Inr s"
    by (simp add: BuildHandler_def initk8sClient_demo)
  from every_request_answered [OF first_route_chi demo_env_ends s,
      where b = simple_binder and jv = "\<lambda>_. Inr []"
        and reqs = "[(None, \<lparr>req_Method = ''GET'', req_Path = ''/api/v1/branches'', req_RawQuery = ''gitServer=main&owner=team&repoName=tool''\<rparr>),
          (None, \<lparr>req_Method = ''DELETE'', req_Path = ''/api/v1/cache/invalidate'', req_RawQuery = []\<rparr>)]"]
  show ?thesis unfolding s sum.sel by (auto simp: operations_def simp del: serve_requests.simps)
qed

end
